(* ===== verification/Prelude.thy ===== *)
theory Prelude
  imports Complex_Main "HOL-Library.Sublist" "HOL-Library.Multiset"
begin

text \<open>
  Shared vocabulary of the development: Python strings as lists of code points, the
  string methods the sources call (\<open>str.lower\<close>, \<open>str.strip\<close>, the \<open>in\<close>
  operator, \<open>str.join\<close>, slicing), JSON values as \<open>json.loads\<close> returns them,
  \<open>dict.get\<close> on them, Python truthiness and iteration, and the Python exceptions
  the code raises, as values of \<open>py_error\<close>. Component theories evaluate their
  witnesses with \<open>simp add: pystr_simps\<close>.
\<close>

named_theorems pystr_simps "evaluation rules for the Python string model"
named_theorems jval_simps "evaluation rules for the JSON value model"

section \<open>Python strings\<close>

text \<open>
  A Python \<open>str\<close> is a sequence of Unicode code points, and \<open>len\<close> and slicing
  count code points; so a string of the model is a list of naturals, one per code point.
  Literals are written \<open>py ''...''\<close>; a non-ASCII code point is written by number.
\<close>

type_synonym pystr = "nat list"

definition py :: "string \<Rightarrow> pystr" where
  "py s = map of_char s"

lemma py_Nil [pystr_simps]: "py [] = []"
  and py_Cons [pystr_simps]: "py (c # s) = of_char c # py s"
  and py_append [pystr_simps]: "py (s @ t) = py s @ py t"
  by (simp_all add: py_def)

lemma length_py [simp]: "length (py s) = length s"
  by (simp add: py_def)

subsection \<open>\<open>str.lower\<close>\<close>

text \<open>
  \<open>str.lower\<close> maps each code point through the Unicode lower-case mapping. The model
  maps the upper-case letters of Latin-1 (ASCII \<open>A..Z\<close> and \<open>U+00C0..U+00DE\<close> but
  \<open>U+00D7\<close>) and leaves every other code point unchanged; all keywords and triggers
  of the sources are ASCII.
\<close>

definition lower_cp :: "nat \<Rightarrow> nat" where
  "lower_cp c =
     (if (65 \<le> c \<and> c \<le> 90) \<or> (192 \<le> c \<and> c \<le> 222 \<and> c \<noteq> 215) then c + 32 else c)"

definition py_lower :: "pystr \<Rightarrow> pystr" where
  "py_lower s = map lower_cp s"

lemma lower_cp_not_upper: "\<not> (65 \<le> lower_cp c \<and> lower_cp c \<le> 90)"
  by (simp add: lower_cp_def)

lemma lower_cp_idem [simp]: "lower_cp (lower_cp c) = lower_cp c"
  by (simp add: lower_cp_def)

lemma py_lower_idem [simp]: "py_lower (py_lower s) = py_lower s"
  by (simp add: py_lower_def)

lemma length_py_lower [simp]: "length (py_lower s) = length s"
  by (simp add: py_lower_def)

lemma py_lower_Nil [pystr_simps]: "py_lower [] = []"
  and py_lower_Cons [pystr_simps]: "py_lower (c # s) = lower_cp c # py_lower s"
  by (simp_all add: py_lower_def)

lemmas [pystr_simps] = lower_cp_def

subsection \<open>\<open>str.strip\<close>\<close>

text \<open>
  \<open>str.strip()\<close> removes leading and trailing characters for which
  \<open>str.isspace\<close> holds: the Unicode white space of the bidirectional classes
  WS, B and S, listed here in full.
\<close>

definition py_isspace :: "nat \<Rightarrow> bool" where
  "py_isspace c \<longleftrightarrow>
     (9 \<le> c \<and> c \<le> 13) \<or> (28 \<le> c \<and> c \<le> 32) \<or> c = 133 \<or> c = 160 \<or> c = 5760 \<or>
     (8192 \<le> c \<and> c \<le> 8202) \<or> c = 8232 \<or> c = 8233 \<or> c = 8239 \<or> c = 8287 \<or> c = 12288"

definition py_strip :: "pystr \<Rightarrow> pystr" where
  "py_strip s = rev (dropWhile py_isspace (rev (dropWhile py_isspace s)))"

lemmas [pystr_simps] = py_isspace_def py_strip_def

lemma py_strip_append_space:
  "py_isspace c \<Longrightarrow> py_strip (s @ [c]) = py_strip s"
  by (induction s) (auto simp: py_strip_def dropWhile_append)

lemma py_strip_Cons_space:
  "py_isspace c \<Longrightarrow> py_strip (c # s) = py_strip s"
  by (simp add: py_strip_def)

subsection \<open>The \<open>in\<close> operator on strings\<close>

text \<open>
  \<open>n in h\<close> for two strings is a substring test. The model searches position by
  position; \<open>py_in_iff_sublist\<close> shows it is the library's \<open>sublist\<close> relation.
\<close>

fun starts_with :: "'a list \<Rightarrow> 'a list \<Rightarrow> bool" where
  "starts_with [] ys = True"
| "starts_with (x # xs) [] = False"
| "starts_with (x # xs) (y # ys) = (x = y \<and> starts_with xs ys)"

fun py_in :: "'a list \<Rightarrow> 'a list \<Rightarrow> bool" where
  "py_in n [] = (n = [])"
| "py_in n (h # hs) = (starts_with n (h # hs) \<or> py_in n hs)"

lemma starts_with_iff_prefix: "starts_with xs ys \<longleftrightarrow> prefix xs ys"
  by (induction xs ys rule: starts_with.induct) auto

lemma py_in_iff_sublist: "py_in n h \<longleftrightarrow> sublist n h"
  by (induction h) (auto simp: starts_with_iff_prefix sublist_Cons_right)

lemma py_in_Nil [simp]: "py_in [] h"
  by (simp add: py_in_iff_sublist)

lemma py_in_length: "py_in n h \<Longrightarrow> length n \<le> length h"
  by (auto simp: py_in_iff_sublist sublist_def)

lemma py_in_set: "py_in n h \<Longrightarrow> set n \<subseteq> set h"
  by (auto simp: py_in_iff_sublist sublist_def)

lemma py_in_append_left [simp]: "py_in n (h @ n)"
  and py_in_append_right [simp]: "py_in n (n @ h)"
  by (simp_all add: py_in_iff_sublist)

subsection \<open>\<open>str.join\<close>, slicing and \<open>any\<close>\<close>

fun py_join :: "'a list \<Rightarrow> 'a list list \<Rightarrow> 'a list" where
  "py_join sep [] = []"
| "py_join sep [x] = x"
| "py_join sep (x # y # zs) = x @ sep @ py_join sep (y # zs)"

lemma py_join_Cons: "ys \<noteq> [] \<Longrightarrow> py_join sep (x # ys) = x @ sep @ py_join sep ys"
  by (cases ys) auto

lemma length_py_join:
  "length (py_join sep xs) = sum_list (map length xs) + length sep * (length xs - 1)"
  by (induction sep xs rule: py_join.induct) auto

text \<open>\<open>xs[-n:]\<close> for \<open>n > 0\<close>: the last \<open>n\<close> elements, or all when there are fewer.\<close>

definition py_tail_slice :: "nat \<Rightarrow> 'a list \<Rightarrow> 'a list" where
  "py_tail_slice n xs = drop (length xs - n) xs"

lemma length_py_tail_slice [simp]: "length (py_tail_slice n xs) = min n (length xs)"
  by (simp add: py_tail_slice_def)

lemma py_tail_slice_append:
  "py_tail_slice n (xs @ ys) =
     (if length ys \<le> n then py_tail_slice (n - length ys) xs @ ys
      else py_tail_slice n ys)"
  by (simp add: py_tail_slice_def)

lemma py_tail_slice_short [simp]: "length xs \<le> n \<Longrightarrow> py_tail_slice n xs = xs"
  by (simp add: py_tail_slice_def)

lemma py_tail_slice_mono:
  "m \<le> n \<Longrightarrow> py_tail_slice m (py_tail_slice n xs) = py_tail_slice m xs"
  by (cases "n \<le> length xs") (auto simp: py_tail_slice_def)

lemma suffix_py_tail_slice: "suffix (py_tail_slice n xs) xs"
  by (simp add: py_tail_slice_def suffix_drop)

definition py_any :: "('a \<Rightarrow> bool) \<Rightarrow> 'a list \<Rightarrow> bool" where
  "py_any p xs = list_ex p xs"

lemma py_any_iff [simp]: "py_any p xs \<longleftrightarrow> (\<exists>x\<in>set xs. p x)"
  by (simp add: py_any_def list_ex_iff)

section \<open>Python exceptions\<close>

text \<open>
  The exceptions the modelled code can raise. \<open>RequestError\<close> stands for every
  exception of \<open>requests.get\<close> (timeouts, connection errors); \<open>GenerationError\<close>
  for every exception of the language-model call.
\<close>

datatype py_error =
    AttributeError | TypeError | KeyError | IndexError | ValueError
  | RequestError | GenerationError

section \<open>JSON values\<close>

text \<open>
  The values \<open>response.json()\<close> returns. JSON numbers are rationals (the sources
  only test them for truth, pass them on, or convert them). A JSON object is kept as
  the list of its members in document order; \<open>json.loads\<close> keeps the last of
  duplicate keys, and so does \<open>jlookup\<close>.
\<close>

datatype jval =
    JNull | JBool bool | JNum rat | JStr pystr
  | JArr "jval list" | JObj "(pystr \<times> jval) list"

definition jlookup :: "(pystr \<times> jval) list \<Rightarrow> pystr \<Rightarrow> jval option" where
  "jlookup kvs k = map_of (rev kvs) k"

text \<open>\<open>d.get(k, default)\<close>: on anything but a dict it raises \<open>AttributeError\<close>.\<close>

fun jget :: "jval \<Rightarrow> pystr \<Rightarrow> jval \<Rightarrow> py_error + jval" where
  "jget (JObj kvs) k d = Inr (case jlookup kvs k of Some v \<Rightarrow> v | None \<Rightarrow> d)"
| "jget _ k d = Inl AttributeError"

text \<open>Python truthiness of a JSON value.\<close>

fun py_truthy :: "jval \<Rightarrow> bool" where
  "py_truthy JNull = False"
| "py_truthy (JBool b) = b"
| "py_truthy (JNum n) = (n \<noteq> 0)"
| "py_truthy (JStr s) = (s \<noteq> [])"
| "py_truthy (JArr xs) = (xs \<noteq> [])"
| "py_truthy (JObj kvs) = (kvs \<noteq> [])"

text \<open>
  \<open>for x in v\<close>: a list yields its items, a string its characters, a dict its keys;
  \<open>None\<close>, numbers and booleans are not iterable.
\<close>

fun py_iter :: "jval \<Rightarrow> py_error + jval list" where
  "py_iter (JArr xs) = Inr xs"
| "py_iter (JStr s) = Inr (map (\<lambda>c. JStr [c]) s)"
| "py_iter (JObj kvs) = Inr (map (\<lambda>kv. JStr (fst kv)) kvs)"
| "py_iter _ = Inl TypeError"

text \<open>\<open>v.lower()\<close>: only strings have the method.\<close>

fun jlower :: "jval \<Rightarrow> py_error + pystr" where
  "jlower (JStr s) = Inr (py_lower s)"
| "jlower _ = Inl AttributeError"

lemmas [jval_simps] = jlookup_def

lemma jget_Inr_JObj: "jget v k d = Inr r \<Longrightarrow> \<exists>kvs. v = JObj kvs"
  by (cases v) auto

lemma jlower_Inr: "jlower v = Inr s \<longleftrightarrow> (\<exists>t. v = JStr t \<and> s = py_lower t)"
  by (cases v) auto

section \<open>Sequencing of fallible steps\<close>

text \<open>
  Code that raises is modelled in the sum type \<open>py_error + 'a\<close>; \<open>ebind\<close> runs
  the second step on the value of the first and propagates the first exception, as
  consecutive Python statements do.
\<close>

definition ebind :: "'e + 'a \<Rightarrow> ('a \<Rightarrow> 'e + 'b) \<Rightarrow> 'e + 'b" where
  "ebind m f = (case m of Inl e \<Rightarrow> Inl e | Inr a \<Rightarrow> f a)"

lemma ebind_Inl [simp]: "ebind (Inl e) f = Inl e"
  and ebind_Inr [simp]: "ebind (Inr a) f = f a"
  by (simp_all add: ebind_def)

lemma ebind_cong [fundef_cong]:
  "m = m' \<Longrightarrow> (\<And>a. m' = Inr a \<Longrightarrow> f a = g a) \<Longrightarrow> ebind m f = ebind m' g"
  by (cases m) auto

lemma ebind_eq_Inr:
  "ebind m f = Inr b \<longleftrightarrow> (\<exists>a. m = Inr a \<and> f a = Inr b)"
  by (cases m) auto

text \<open>A loop whose body may raise: the first exception stops it.\<close>

fun emap :: "('a \<Rightarrow> 'e + 'b) \<Rightarrow> 'a list \<Rightarrow> 'e + 'b list" where
  "emap f [] = Inr []"
| "emap f (x # xs) = ebind (f x) (\<lambda>y. ebind (emap f xs) (\<lambda>ys. Inr (y # ys)))"

lemma emap_Inr_length: "emap f xs = Inr ys \<Longrightarrow> length ys = length xs"
  by (induction xs arbitrary: ys) (auto simp: ebind_eq_Inr)

lemma emap_Inr_nth:
  "emap f xs = Inr ys \<Longrightarrow> i < length xs \<Longrightarrow> f (xs ! i) = Inr (ys ! i)"
proof (induction xs arbitrary: ys i)
  case Nil
  then show ?case by simp
next
  case (Cons x xs)
  then obtain y ys' where "f x = Inr y" "emap f xs = Inr ys'" "ys = y # ys'"
    by (auto simp: ebind_eq_Inr)
  with Cons show ?case by (cases i) auto
qed

lemma emap_map_Inr: "emap (\<lambda>x. Inr (g x)) xs = Inr (map g xs)"
  by (induction xs) auto

lemma emap_Inl: "x \<in> set xs \<Longrightarrow> f x = Inl e \<Longrightarrow> \<exists>e'. emap f xs = Inl e'"
  by (induction xs) (auto simp: ebind_def split: sum.splits)

lemma emap_Inr_set: "emap f xs = Inr ys \<Longrightarrow> y \<in> set ys \<Longrightarrow> \<exists>x\<in>set xs. f x = Inr y"
  by (induction xs arbitrary: ys) (auto simp: ebind_eq_Inr)

lemma emap_Inl_same:
  "(\<And>x e. f x = Inl e \<Longrightarrow> e = c) \<Longrightarrow> emap f xs = Inl e \<Longrightarrow> e = c"
  by (induction xs) (auto simp: ebind_def split: sum.splits)

lemma emap_isl_iff: "(\<exists>e. emap f xs = Inl e) \<longleftrightarrow> (\<exists>x\<in>set xs. \<exists>e. f x = Inl e)"
  by (induction xs) (auto simp: ebind_def split: sum.splits)

lemma emap_Inr_iff: "(\<exists>ys. emap f xs = Inr ys) \<longleftrightarrow> (\<forall>x\<in>set xs. \<exists>y. f x = Inr y)"
  by (induction xs) (auto simp: ebind_def split: sum.splits)

lemma emap_Inr_map:
  "emap f xs = Inr ys \<Longrightarrow> ys = map (\<lambda>x. case f x of Inr y \<Rightarrow> y | Inl e \<Rightarrow> d) xs"
  by (induction xs arbitrary: ys) (auto simp: ebind_eq_Inr)

section \<open>Dicts with insertion order\<close>

text \<open>
  \<open>d[k] = v\<close> on a dict kept as an association list in insertion order: an existing
  key keeps its position, a new key goes last.
\<close>

fun dict_set :: "('k \<times> 'v) list \<Rightarrow> 'k \<Rightarrow> 'v \<Rightarrow> ('k \<times> 'v) list" where
  "dict_set [] k v = [(k, v)]"
| "dict_set ((k', v') # kvs) k v =
     (if k' = k then (k, v) # kvs else (k', v') # dict_set kvs k v)"

lemma map_of_dict_set: "map_of (dict_set kvs k v) = (map_of kvs)(k \<mapsto> v)"
  by (induction kvs) (auto simp: fun_eq_iff)

text \<open>\<open>s.replace(c, new)\<close> for a one-character \<open>c\<close>.\<close>

definition py_replace1 :: "nat \<Rightarrow> pystr \<Rightarrow> pystr \<Rightarrow> pystr" where
  "py_replace1 c new s = concat (map (\<lambda>x. if x = c then new else [x]) s)"

lemma py_replace1_absent: "c \<notin> set s \<Longrightarrow> py_replace1 c new s = s"
  by (induction s) (auto simp: py_replace1_def)

lemmas [pystr_simps] = py_replace1_def

section \<open>First-occurrence deduplication\<close>

text \<open>
  The reference for the seen-set loops of the sources (\<open>if key not in seen:
  seen.add(key); out.append(x)\<close>): keep the first occurrence of every value.
\<close>

fun remdups_first :: "'a list \<Rightarrow> 'a list" where
  "remdups_first [] = []"
| "remdups_first (x # xs) = x # remdups_first (filter (\<lambda>y. y \<noteq> x) xs)"

lemma set_remdups_first [simp]: "set (remdups_first xs) = set xs"
  by (induction xs rule: remdups_first.induct) auto

lemma distinct_remdups_first [simp]: "distinct (remdups_first xs)"
  by (induction xs rule: remdups_first.induct) auto

lemma remdups_first_distinct: "distinct xs \<Longrightarrow> remdups_first xs = xs"
  by (induction xs rule: remdups_first.induct) (auto simp: filter_id_conv)

section \<open>Sorting with decorated keys\<close>

text \<open>
  \<open>list.sort(key=k, reverse=True)\<close> as CPython runs it: the keys are computed first and
  moved with their elements; the list is reversed, sorted stably in ascending order and
  reversed again, so that elements with equal keys keep their order.
\<close>

definition py_sort_desc :: "('a \<Rightarrow> int) \<Rightarrow> 'a list \<Rightarrow> 'a list" where
  "py_sort_desc f xs = rev (sort_key f (rev xs))"

lemma insort_key_decorate:
  "insort_key (\<lambda>p. h (fst p)) (g x, x) (map (\<lambda>x. (g x, x)) ys) =
   map (\<lambda>x. (g x, x)) (insort_key (\<lambda>x. h (g x)) x ys)"
  by (induction ys) auto

lemma sort_key_decorate:
  "sort_key (\<lambda>p. h (fst p)) (map (\<lambda>x. (g x, x)) xs) = map (\<lambda>x. (g x, x)) (sort_key (\<lambda>x. h (g x)) xs)"
  by (induction xs) (simp_all add: insort_key_decorate)

lemma zip_map_same: "zip (map g xs) xs = map (\<lambda>x. (g x, x)) xs"
  by (induction xs) auto

lemma py_sort_desc_sort_key: "py_sort_desc f xs = sort_key (\<lambda>x. - f x) xs"
proof -
  let ?ys = "rev (sort_key f (rev xs))"
  have m: "mset ?ys = mset xs" by simp
  have st: "filter (\<lambda>x. - f k = - f x) ?ys = filter (\<lambda>x. - f k = - f x) xs" for k
  proof -
    have "filter (\<lambda>x. - f k = - f x) ?ys = rev (filter (\<lambda>y. f y = f k) (sort_key f (rev xs)))"
      by (simp add: rev_filter eq_commute)
    also have "\<dots> = rev (filter (\<lambda>y. f y = f k) (rev xs))"
      by (simp only: sort_key_stable)
    also have "\<dots> = filter (\<lambda>x. - f k = - f x) xs"
      by (simp add: rev_filter eq_commute)
    finally show ?thesis .
  qed
  have so: "sorted (map (\<lambda>x. - f x) ?ys)"
    using sorted_sort_key[of f "rev xs"]
    by (simp add: rev_map[symmetric] sorted_wrt_rev sorted_wrt_map)
  show ?thesis
    unfolding py_sort_desc_def
    by (rule properties_for_sort_key[symmetric]) (use m st so in auto)
qed

section \<open>Indexing\<close>

text \<open>\<open>xs[i]\<close> for \<open>i \<ge> 0\<close>: \<open>IndexError\<close> past the end.\<close>

definition py_index :: "'a list \<Rightarrow> nat \<Rightarrow> py_error + 'a" where
  "py_index xs i = (if i < length xs then Inr (xs ! i) else Inl IndexError)"

lemma py_index_Inr: "py_index xs i = Inr x \<longleftrightarrow> i < length xs \<and> x = xs ! i"
  by (auto simp: py_index_def)

lemmas [pystr_simps] = py_index_def

section \<open>Formatting values\<close>

text \<open>
  \<open>f"{v}"\<close> of a JSON value: a string is inserted as it is; for any other value the text
  is \<open>str(v)\<close> of the Python runtime, a parameter \<open>str_other\<close>.
\<close>

definition py_fmt :: "(jval \<Rightarrow> pystr) \<Rightarrow> jval \<Rightarrow> pystr" where
  "py_fmt str_other v = (case v of JStr s \<Rightarrow> s | _ \<Rightarrow> str_other v)"

lemma py_fmt_JStr [simp]: "py_fmt str_other (JStr s) = s"
  by (simp add: py_fmt_def)

end
