(* ===== verification/Config.thy ===== *)
theory Config
  imports Prelude
begin

text \<open>
  The static configuration of \<open>src/config.py\<close> that the modelled code reads:
  \<open>SECTOR_KEYWORDS\<close>, a dict from sector names to keyword lists, kept as an
  association list in the dict's insertion order (the order in which
  \<open>dict.items()\<close> and \<open>dict.keys()\<close> iterate it).
\<close>

definition SECTOR_KEYWORDS :: "(pystr \<times> pystr list) list" where
  "SECTOR_KEYWORDS =
    [(py ''Manufacturing'', map py [''manufacturing'', ''industrial'', ''machinery'', ''metal'',
        ''automotive'', ''precision'', ''equipment'']),
     (py ''Food Processing'', map py [''food'', ''beverage'', ''dairy'', ''snacks'', ''organic'',
        ''nutrition'', ''restaurant'', ''catering'']),
     (py ''Technology'', map py [''software'', ''IT'', ''tech'', ''digital'', ''app'', ''platform'',
        ''AI'', ''automation'', ''cloud'']),
     (py ''Healthcare'', map py [''healthcare'', ''pharmaceutical'', ''medical'', ''biotech'',
        ''hospital'', ''clinic'', ''diagnostic'']),
     (py ''Textiles'', map py [''textile'', ''garment'', ''fabric'', ''apparel'', ''fashion'',
        ''clothing'', ''cotton'', ''fiber''])]"

text \<open>\<open>self.sector_keywords.get(sector, [])\<close>.\<close>

definition sector_keywords_of :: "pystr \<Rightarrow> pystr list" where
  "sector_keywords_of s = (case map_of SECTOR_KEYWORDS s of Some ks \<Rightarrow> ks | None \<Rightarrow> [])"

abbreviation sector_names :: "pystr list" where
  "sector_names \<equiv> map fst SECTOR_KEYWORDS"

lemma distinct_sector_names: "distinct sector_names"
  by (simp add: SECTOR_KEYWORDS_def pystr_simps)

end
