(* ===== verification/IntentClassifier.thy ===== *)
theory IntentClassifier
  imports Config
begin

text \<open>
  The query analysis of \<open>MSMERAGPipeline\<close> (\<open>src/script_7.py\<close>, the final
  \<open>rag_pipeline.py\<close>): \<open>_analyze_query\<close> turns the query text into the analysis
  dict, here the record \<open>query_analysis\<close> with the query type as a datatype;
  \<open>_should_include_news\<close> and \<open>_build_system_prompt\<close> read it. The trigger word
  lists are the literals of the source, in its order.
\<close>

datatype query_type = General | Comparison | TrendAnalysis | NewsInquiry | FinancialAnalysis

record query_analysis =
  query_type :: query_type
  sectors :: "pystr list"
  companies :: "pystr list"
  metrics :: "pystr list"
  time_focus :: pystr
  needs_news :: bool
  needs_financial :: bool
  needs_comparison :: bool

definition initial_analysis :: query_analysis where
  "initial_analysis =
     \<lparr>query_type = General, sectors = [], companies = [], metrics = [],
      time_focus = py ''current'', needs_news = False, needs_financial = False,
      needs_comparison = False\<rparr>"

definition comparison_words :: "pystr list" where
  "comparison_words = map py [''compare'', ''comparison'', ''vs'', ''versus'', ''against'']"

definition trend_words :: "pystr list" where
  "trend_words = map py [''trend'', ''trends'', ''growth'', ''performance'']"

definition news_words :: "pystr list" where
  "news_words = map py [''news'', ''latest'', ''recent'', ''updates'']"

definition financial_words :: "pystr list" where
  "financial_words = map py [''financial'', ''revenue'', ''profit'', ''assets'']"

definition financial_terms :: "pystr list" where
  "financial_terms =
     map py [''revenue'', ''profit'', ''margin'', ''assets'', ''ratio'', ''growth'', ''performance'']"

definition news_need_words :: "pystr list" where
  "news_need_words = map py [''news'', ''latest'', ''recent'', ''market'', ''trends'']"

text \<open>\<open>any(word in query_lower for word in words)\<close>.\<close>

definition any_in :: "pystr list \<Rightarrow> pystr \<Rightarrow> bool" where
  "any_in ws s = py_any (\<lambda>w. py_in w s) ws"

text \<open>The \<open>if\<close>/\<open>elif\<close> chain that sets the query type and its flag.\<close>

definition detect_query_type :: "pystr \<Rightarrow> query_analysis \<Rightarrow> query_analysis" where
  "detect_query_type ql a =
     (if any_in comparison_words ql then a\<lparr>query_type := Comparison, needs_comparison := True\<rparr>
      else if any_in trend_words ql then a\<lparr>query_type := TrendAnalysis, needs_financial := True\<rparr>
      else if any_in news_words ql then a\<lparr>query_type := NewsInquiry, needs_news := True\<rparr>
      else if any_in financial_words ql then a\<lparr>query_type := FinancialAnalysis, needs_financial := True\<rparr>
      else a)"

text \<open>
  The sector loop: a sector is appended when its lower-cased name or one of its keywords
  (not lower-cased) occurs in the lower-cased query.
\<close>

definition detect_sectors :: "pystr \<Rightarrow> pystr list" where
  "detect_sectors ql =
     map fst (filter (\<lambda>(sector, keywords). py_in (py_lower sector) ql \<or> any_in keywords ql)
                     SECTOR_KEYWORDS)"

definition analyze_query :: "pystr \<Rightarrow> query_analysis" where
  "analyze_query q =
     (let ql = py_lower q;
          a1 = detect_query_type ql initial_analysis;
          a2 = a1\<lparr>sectors := detect_sectors ql\<rparr>;
          a3 = a2\<lparr>metrics := filter (\<lambda>t. py_in t ql) financial_terms\<rparr>
      in if any_in news_need_words ql then a3\<lparr>needs_news := True\<rparr> else a3)"

definition should_include_news :: "query_analysis \<Rightarrow> bool" where
  "should_include_news a \<longleftrightarrow>
     needs_news a \<or> query_type a \<in> {NewsInquiry, TrendAnalysis} \<or>
     py_any (\<lambda>k. k \<in> set (sectors a)) sector_names"

text \<open>\<open>_build_system_prompt\<close>: the base prompt and one focus sentence per query type.\<close>

definition base_prompt :: pystr where
  "base_prompt = py ''You are an expert MSME (Micro, Small, and Medium Enterprise) market intelligence analyst with deep knowledge of Indian business markets, financial analysis, and industry trends. You specialize in providing actionable insights for MSME companies across Manufacturing, Food Processing, Technology, Healthcare, and Textiles sectors.''"

fun prompt_focus :: "query_type \<Rightarrow> pystr" where
  "prompt_focus FinancialAnalysis = py '' Focus on financial metrics, ratios, performance analysis, and provide specific numerical insights. Compare companies when relevant and highlight growth patterns.''"
| "prompt_focus NewsInquiry = py '' Focus on recent market developments, news analysis, and their implications for MSME companies. Provide timely insights and trend analysis.''"
| "prompt_focus Comparison = py '' Provide detailed comparative analysis between companies, sectors, or metrics. Use tables or structured comparisons when helpful.''"
| "prompt_focus TrendAnalysis = py '' Focus on identifying patterns, trends, and market movements. Provide forward-looking insights and strategic recommendations.''"
| "prompt_focus General = py '' Provide comprehensive, well-structured responses that combine company data, financial insights, and market intelligence.''"

definition build_system_prompt :: "query_analysis \<Rightarrow> pystr" where
  "build_system_prompt a = base_prompt @ prompt_focus (query_type a)"

section \<open>The classifier as a rule table\<close>

text \<open>
  The query type is the first rule of an ordered table of (trigger words, type) pairs
  whose triggers occur in the lower-cased query, and \<open>General\<close> when none does.
\<close>

definition type_rules :: "(pystr list \<times> query_type) list" where
  "type_rules =
     [(comparison_words, Comparison), (trend_words, TrendAnalysis),
      (news_words, NewsInquiry), (financial_words, FinancialAnalysis)]"

fun first_match :: "(pystr list \<times> query_type) list \<Rightarrow> pystr \<Rightarrow> query_type" where
  "first_match [] ql = General"
| "first_match ((ws, t) # rs) ql = (if any_in ws ql then t else first_match rs ql)"

lemma detect_query_type_fields:
  "sectors (detect_query_type ql a) = sectors a"
  "metrics (detect_query_type ql a) = metrics a"
  "companies (detect_query_type ql a) = companies a"
  "time_focus (detect_query_type ql a) = time_focus a"
  by (simp_all add: detect_query_type_def)

lemma analyze_query_type:
  "query_type (analyze_query q) = query_type (detect_query_type (py_lower q) initial_analysis)"
  by (simp add: analyze_query_def Let_def)

lemma analyze_query_sectors:
  "sectors (analyze_query q) = detect_sectors (py_lower q)"
  by (simp add: analyze_query_def Let_def)

lemma analyze_query_metrics:
  "metrics (analyze_query q) = filter (\<lambda>t. py_in t (py_lower q)) financial_terms"
  by (simp add: analyze_query_def Let_def)

lemma lower_no_upper_ascii: "c \<in> set (py_lower s) \<Longrightarrow> \<not> (65 \<le> c \<and> c \<le> 90)"
  by (auto simp: py_lower_def lower_cp_def)

lemma no_upper_ascii_not_in_lower:
  "c \<in> set n \<Longrightarrow> 65 \<le> c \<Longrightarrow> c \<le> 90 \<Longrightarrow> \<not> py_in n (py_lower s)"
  using py_in_set lower_no_upper_ascii by blast

text \<open>C13: the classifier is the rule table: the query type of \<open>_analyze_query\<close> is the
  first rule whose trigger words occur in the lower-cased query (comparison before
  trend, news and financial), and each flag is set exactly by its rule.\<close>

theorem analyze_query_rule_table:
  "query_type (analyze_query q) = first_match type_rules (py_lower q) \<and>
   needs_comparison (analyze_query q) = (query_type (analyze_query q) = Comparison) \<and>
   needs_financial (analyze_query q) =
     (query_type (analyze_query q) \<in> {TrendAnalysis, FinancialAnalysis}) \<and>
   needs_news (analyze_query q) =
     (query_type (analyze_query q) = NewsInquiry \<or> any_in news_need_words (py_lower q))"
  by (simp add: analyze_query_def Let_def detect_query_type_def type_rules_def
      initial_analysis_def)

text \<open>C14: the detected sectors are configured sectors, without repetition, in the order of
  \<open>SECTOR_KEYWORDS\<close>; a sector is detected exactly when its lower-cased name or one of
  its keywords occurs in the lower-cased query.\<close>

theorem analyze_query_sectors_spec:
  "subseq (sectors (analyze_query q)) sector_names \<and>
   distinct (sectors (analyze_query q)) \<and>
   (s \<in> set (sectors (analyze_query q)) \<longleftrightarrow>
     (\<exists>ks. (s, ks) \<in> set SECTOR_KEYWORDS \<and>
        (py_in (py_lower s) (py_lower q) \<or> (\<exists>k\<in>set ks. py_in k (py_lower q)))))"
proof -
  let ?P = "\<lambda>(sector, keywords). py_in (py_lower sector) (py_lower q) \<or> any_in keywords (py_lower q)"
  have sub: "subseq (map fst (filter ?P SECTOR_KEYWORDS)) sector_names"
    by (rule subseq_map) (rule subseq_filter_left)
  have dist: "distinct (map fst (filter ?P SECTOR_KEYWORDS))"
    using distinct_sector_names by (simp add: distinct_map_filter)
  have mem: "s \<in> set (map fst (filter ?P SECTOR_KEYWORDS)) \<longleftrightarrow>
     (\<exists>ks. (s, ks) \<in> set SECTOR_KEYWORDS \<and>
        (py_in (py_lower s) (py_lower q) \<or> (\<exists>k\<in>set ks. py_in k (py_lower q))))"
    by (force simp: any_in_def)
  show ?thesis
    using sub dist mem by (simp add: analyze_query_sectors detect_sectors_def)
qed

text \<open>The keywords \<open>IT\<close> and \<open>AI\<close> of the Technology sector are upper case, but
  they are matched against the lower-cased query, so they never match any query.\<close>

theorem uppercase_keywords_never_match:
  "\<not> py_in (py ''IT'') (py_lower q) \<and> \<not> py_in (py ''AI'') (py_lower q)"
proof -
  have "(73::nat) \<in> set (py ''IT'')" and "(65::nat) \<in> set (py ''AI'')"
    by (simp_all add: pystr_simps)
  then show ?thesis
    using no_upper_ascii_not_in_lower[of 73] no_upper_ascii_not_in_lower[of 65] by auto
qed

text \<open>Metrics are detected by substring, not by word: the query
  ``Corporation operations'' reports the metric \<open>ratio\<close> (inside ``corporation'' and
  ``operations''), and ``happening'' makes a query a Technology query (keyword \<open>app\<close>).\<close>

theorem substring_false_matches:
  "metrics (analyze_query (py ''Corporation operations'')) = [py ''ratio''] \<and>
   sectors (analyze_query (py ''What is happening?'')) = [py ''Technology'']"
  by (simp add: analyze_query_metrics analyze_query_sectors detect_sectors_def
      financial_terms_def SECTOR_KEYWORDS_def any_in_def pystr_simps)

text \<open>The spec's scenario: ``Compare Technology and Healthcare growth'' is a
  comparison query about Technology and Healthcare with the metric growth, that needs a
  comparison and no news flag; news is still fetched because sectors were found.\<close>

theorem analyze_compare_scenario:
  "analyze_query (py ''Compare Technology and Healthcare growth'') =
     \<lparr>query_type = Comparison, sectors = [py ''Technology'', py ''Healthcare''],
      companies = [], metrics = [py ''growth''], time_focus = py ''current'',
      needs_news = False, needs_financial = False, needs_comparison = True\<rparr> \<and>
   should_include_news (analyze_query (py ''Compare Technology and Healthcare growth''))"
  by (simp add: analyze_query_def detect_query_type_def initial_analysis_def
      detect_sectors_def should_include_news_def comparison_words_def trend_words_def
      news_words_def financial_words_def financial_terms_def news_need_words_def
      SECTOR_KEYWORDS_def any_in_def pystr_simps)

text \<open>On an analysis produced by \<open>_analyze_query\<close>, news is fetched exactly when the
  news flag is set, the query is a news or trend query, or some sector was detected.\<close>

theorem should_include_news_iff:
  "should_include_news (analyze_query q) \<longleftrightarrow>
     needs_news (analyze_query q) \<or>
     query_type (analyze_query q) \<in> {NewsInquiry, TrendAnalysis} \<or>
     sectors (analyze_query q) \<noteq> []"
proof -
  have "set (sectors (analyze_query q)) \<subseteq> set sector_names"
    by (auto simp: analyze_query_sectors detect_sectors_def)
  then have "py_any (\<lambda>k. k \<in> set (sectors (analyze_query q))) sector_names \<longleftrightarrow>
             sectors (analyze_query q) \<noteq> []"
    by (cases "sectors (analyze_query q)") auto
  then show ?thesis by (simp add: should_include_news_def)
qed

end
