(* ===== verification/ConversationHistory.thy ===== *)
theory ConversationHistory
  imports Prelude
begin

text \<open>
  The conversation memory of \<open>MSMERAGPipeline\<close> (\<open>src/script_7.py\<close>): the list
  \<open>self.conversation_history\<close> of turn dicts, emptied by \<open>__init__\<close> and
  \<open>clear_history\<close>, extended by \<open>_update_conversation_history\<close> and cut back to its
  last ten entries, and read by \<open>_generate_response\<close>, which renders its last four
  entries into the prompt. The abstract view is the unbounded log of every turn since the
  last clear; the lemmas show the list is always the last ten turns of that log.
\<close>

record turn =
  t_user :: pystr
  t_assistant :: pystr
  t_timestamp :: pystr

type_synonym history = "turn list"

definition history_cap :: nat where
  "history_cap = 10"

definition new_history :: history where
  "new_history = []"

definition clear_history :: "history \<Rightarrow> history" where
  "clear_history h = []"

text \<open>
  \<open>_update_conversation_history(user_query, response)\<close>; the time stamp
  \<open>str(pd.Timestamp.now())\<close> is read from the clock and passed in.
\<close>

definition update_conversation_history :: "history \<Rightarrow> pystr \<Rightarrow> pystr \<Rightarrow> pystr \<Rightarrow> history" where
  "update_conversation_history h q r ts =
     (let h' = h @ [\<lparr>t_user = q, t_assistant = r, t_timestamp = ts\<rparr>]
      in if length h' > history_cap then py_tail_slice history_cap h' else h')"

text \<open>
  The history excerpt of \<open>_generate_response\<close>: the last four entries, each rendered
  as \<open>User: {user}\nAssistant: {assistant[:200]}...\<close>, joined by newlines; the
  message is inserted only when the history is not empty.
\<close>

definition recent_history :: "history \<Rightarrow> history" where
  "recent_history h = py_tail_slice 4 h"

definition render_turn :: "turn \<Rightarrow> pystr" where
  "render_turn t =
     py ''User: '' @ t_user t @ py ''\<newline>Assistant: '' @ take 200 (t_assistant t) @ py ''...''"

definition history_message :: "history \<Rightarrow> pystr option" where
  "history_message h =
     (if h = [] then None
      else Some (py ''Previous conversation context:\<newline>'' @
                 py_join (py ''\<newline>'') (map render_turn (recent_history h))))"

section \<open>Runs of appends\<close>

text \<open>A session appends one turn per completed query: a run is a list of turns.\<close>

fun append_turns :: "history \<Rightarrow> turn list \<Rightarrow> history" where
  "append_turns h [] = h"
| "append_turns h (t # ts) =
     append_turns (update_conversation_history h (t_user t) (t_assistant t) (t_timestamp t)) ts"

definition history_inv :: "history \<Rightarrow> bool" where
  "history_inv h \<longleftrightarrow> length h \<le> history_cap"

lemma turn_rebuild [simp]:
  "\<lparr>t_user = t_user t, t_assistant = t_assistant t, t_timestamp = t_timestamp t\<rparr> = t"
  by (cases t) simp

lemma update_as_tail_slice:
  "update_conversation_history h (t_user t) (t_assistant t) (t_timestamp t) =
     (if length h < history_cap then h @ [t] else py_tail_slice history_cap (h @ [t]))"
  by (simp add: update_conversation_history_def Let_def)

lemma update_conversation_history_length:
  "length (update_conversation_history h q r ts) = min history_cap (Suc (length h))"
  by (simp add: update_conversation_history_def Let_def)

text \<open>The abstraction: the last ten turns of the log of all turns appended.\<close>

lemma update_refines_log:
  "update_conversation_history (py_tail_slice history_cap tlog) (t_user t) (t_assistant t) (t_timestamp t) =
     py_tail_slice history_cap (tlog @ [t])"
proof (cases "length tlog < history_cap")
  case True
  then show ?thesis by (simp add: update_as_tail_slice)
next
  case False
  then have "length (py_tail_slice history_cap tlog) = history_cap" by simp
  then show ?thesis
    by (simp add: update_as_tail_slice py_tail_slice_append py_tail_slice_mono history_cap_def)
qed

lemma append_turns_log:
  "append_turns (py_tail_slice history_cap tlog) ts = py_tail_slice history_cap (tlog @ ts)"
proof (induction ts arbitrary: tlog)
  case Nil
  then show ?case by simp
next
  case (Cons t ts)
  have "append_turns (py_tail_slice history_cap tlog) (t # ts) =
        append_turns (py_tail_slice history_cap (tlog @ [t])) ts"
    by (simp add: update_refines_log)
  also have "\<dots> = py_tail_slice history_cap (tlog @ t # ts)"
    using Cons.IH[of "tlog @ [t]"] by simp
  finally show ?case .
qed

text \<open>The history never holds more than ten turns: an append yields at most ten,
  a clear empties the list, and every history built by appends from the empty one is
  within the bound.\<close>

theorem history_bounded:
  "history_inv (update_conversation_history h q r ts) \<and>
   history_inv (clear_history h) \<and> history_inv (append_turns new_history turns)"
proof -
  have "history_inv (update_conversation_history h q r ts)" for h q r ts
    by (simp add: history_inv_def update_conversation_history_length)
  moreover have "append_turns new_history turns = py_tail_slice history_cap turns"
    using append_turns_log[of "[]" turns] by (simp add: new_history_def)
  ultimately show ?thesis
    by (simp add: history_inv_def clear_history_def)
qed

text \<open>C20: the history refines the log of the session: after any sequence of appends
  from the empty history it holds exactly the last ten turns in append order; in
  particular after eleven appends it holds the last ten.\<close>

theorem history_is_last_ten:
  "append_turns new_history turns = drop (length turns - 10) turns"
  using append_turns_log[of "[]" turns]
  by (simp add: new_history_def py_tail_slice_def history_cap_def)

text \<open>The prompt's history excerpt shows the last four turns of the whole session
  (four exchanges, where the source's comment says two), newest last.\<close>

theorem history_excerpt_last_four:
  "recent_history (append_turns new_history turns) = drop (length turns - 4) turns"
proof -
  have "append_turns new_history turns = py_tail_slice history_cap turns"
    using append_turns_log[of "[]" turns] by (simp add: new_history_def)
  then show ?thesis
    by (simp add: recent_history_def py_tail_slice_mono history_cap_def)
       (simp add: py_tail_slice_def)
qed

end
