(* ===== verification/SourceAdapters.thy ===== *)
theory SourceAdapters
  imports Config
begin

text \<open>
  The four news providers of \<open>NewsAggregator\<close> (\<open>src/script_4.py\<close>, written out as
  \<open>news_fetcher.py\<close>) and their configuration \<open>NEWS_APIS\<close> (\<open>src/config.py\<close>).
  Each \<open>fetch_*\<close> method builds a request from the configured parameters, sends it with
  \<open>requests.get\<close>, and normalises the provider's JSON into article dicts; any exception
  or a status other than 200 yields the empty list. The outside world (the network, the
  local clock of \<open>datetime.fromtimestamp\<close>, the date parser
  \<open>datetime.fromisoformat\<close>, the order CPython's sort leaves a list in when a
  comparison raises, and \<open>str()\<close> of a value that is not a string) is the record
  \<open>world\<close> that every effectful definition reads.
\<close>

section \<open>Requests and responses\<close>

datatype pparam = PStr pystr | PInt int | PNone

record request =
  req_url :: pystr
  req_params :: "(pystr \<times> pparam) list"
  req_timeout :: nat

text \<open>
  What \<open>requests.get\<close> gives back: an exception (timeout, connection error), or a
  response with its status code and the outcome of \<open>response.json()\<close> (an exception on
  a malformed body).
\<close>

datatype http_result = HttpRaise | HttpResponse nat "py_error + jval"

section \<open>Articles\<close>

text \<open>
  The article dict the adapters build. The values read from the provider's JSON keep their
  JSON value (a provider may send \<open>null\<close>); the provider name is a constant; only
  Alpha Vantage adds the keys \<open>sentiment\<close> and \<open>sentiment_score\<close>.
\<close>

record article =
  a_source :: pystr
  a_title :: jval
  a_description :: jval
  a_content :: jval
  a_url :: jval
  a_published_at :: jval
  a_source_name :: jval
  a_category :: jval
  a_sentiment :: "(jval \<times> jval) option"

text \<open>Parsed time stamps: \<open>datetime\<close> values, naive or time-zone aware (as UTC).\<close>

datatype stamp = Naive int | Aware int

fun stamp_val :: "stamp \<Rightarrow> int" where
  "stamp_val (Naive t) = t"
| "stamp_val (Aware t) = t"

fun is_aware :: "stamp \<Rightarrow> bool" where
  "is_aware (Naive t) = False"
| "is_aware (Aware t) = True"

record world =
  http_get :: "request \<Rightarrow> http_result"
  fromtimestamp_iso :: "jval \<Rightarrow> py_error + pystr"
  fromisoformat :: "pystr \<Rightarrow> py_error + stamp"
  partial_sort :: "(stamp \<times> article) list \<Rightarrow> (stamp \<times> article) list"
  str_other :: "jval \<Rightarrow> pystr"

section \<open>Configuration\<close>

text \<open>The API keys, as \<open>os.getenv\<close> returned them when \<open>config\<close> was imported.\<close>

record api_keys =
  newsdata_key :: "pystr option"
  finnhub_key :: "pystr option"
  alpha_vantage_key :: "pystr option"
  marketaux_key :: "pystr option"

fun key_param :: "pystr option \<Rightarrow> pparam" where
  "key_param None = PNone"
| "key_param (Some k) = PStr k"

definition newsdata_params :: "api_keys \<Rightarrow> (pystr \<times> pparam) list" where
  "newsdata_params k =
     [(py ''apikey'', key_param (newsdata_key k)), (py ''country'', PStr (py ''in'')),
      (py ''language'', PStr (py ''en'')), (py ''category'', PStr (py ''business,technology'')),
      (py ''size'', PInt 10)]"

definition finnhub_params :: "api_keys \<Rightarrow> (pystr \<times> pparam) list" where
  "finnhub_params k =
     [(py ''token'', key_param (finnhub_key k)), (py ''category'', PStr (py ''general''))]"

definition alpha_vantage_params :: "api_keys \<Rightarrow> (pystr \<times> pparam) list" where
  "alpha_vantage_params k =
     [(py ''function'', PStr (py ''NEWS_SENTIMENT'')), (py ''apikey'', key_param (alpha_vantage_key k)),
      (py ''topics'', PStr (py ''technology,earnings'')), (py ''limit'', PInt 50)]"

definition marketaux_params :: "api_keys \<Rightarrow> (pystr \<times> pparam) list" where
  "marketaux_params k =
     [(py ''api_token'', key_param (marketaux_key k)), (py ''countries'', PStr (py ''in'')),
      (py ''filter_entities'', PStr (py ''true'')), (py ''language'', PStr (py ''en'')),
      (py ''limit'', PInt 10)]"

section \<open>Requests of the four adapters\<close>

definition newsdata_request :: "api_keys \<Rightarrow> pystr list \<Rightarrow> request" where
  "newsdata_request k kws =
     \<lparr>req_url = py ''https://newsdata.io/api/1/news'',
      req_params = (if kws \<noteq> [] then dict_set (newsdata_params k) (py ''q'')
                      (PStr (py_join (py '' OR '') (take 5 kws)))
                    else newsdata_params k),
      req_timeout = 10\<rparr>"

definition finnhub_request :: "api_keys \<Rightarrow> pystr option \<Rightarrow> request" where
  "finnhub_request k symbol =
     \<lparr>req_url = py ''https://finnhub.io/api/v1/news'',
      req_params = (case symbol of Some s \<Rightarrow> if s \<noteq> [] then dict_set (finnhub_params k) (py ''symbol'') (PStr s)
                                          else finnhub_params k
                              | None \<Rightarrow> finnhub_params k),
      req_timeout = 10\<rparr>"

definition alpha_vantage_request :: "api_keys \<Rightarrow> pystr list \<Rightarrow> request" where
  "alpha_vantage_request k topics =
     \<lparr>req_url = py ''https://www.alphavantage.co/query'',
      req_params = (if topics \<noteq> [] then dict_set (alpha_vantage_params k) (py ''topics'')
                      (PStr (py_join (py '','') (take 3 topics)))
                    else alpha_vantage_params k),
      req_timeout = 15\<rparr>"

definition marketaux_request :: "api_keys \<Rightarrow> pystr list \<Rightarrow> request" where
  "marketaux_request k kws =
     \<lparr>req_url = py ''https://api.marketaux.com/v1/news/all'',
      req_params = (if kws \<noteq> [] then dict_set (marketaux_params k) (py ''search'')
                      (PStr (py_join (py '' '') (take 3 kws)))
                    else marketaux_params k),
      req_timeout = 10\<rparr>"

section \<open>Normalisation of the providers' JSON\<close>

text \<open>\<open>v[0]\<close> on a JSON value, and \<open>v[:n]\<close>.\<close>

fun py_index0 :: "jval \<Rightarrow> py_error + jval" where
  "py_index0 (JArr xs) = (case xs of [] \<Rightarrow> Inl IndexError | x # _ \<Rightarrow> Inr x)"
| "py_index0 (JStr s) = (case s of [] \<Rightarrow> Inl IndexError | c # _ \<Rightarrow> Inr (JStr [c]))"
| "py_index0 (JObj kvs) = Inl KeyError"
| "py_index0 _ = Inl TypeError"

fun py_slice_head :: "nat \<Rightarrow> jval \<Rightarrow> py_error + jval" where
  "py_slice_head n (JArr xs) = Inr (JArr (take n xs))"
| "py_slice_head n (JStr s) = Inr (JStr (take n s))"
| "py_slice_head n _ = Inl TypeError"

text \<open>The values \<open>v[:n]\<close> accepts: strings and lists (a dict raises \<open>TypeError\<close> on
  CPython before 3.12, where a slice is not hashable).\<close>

fun py_sliceable :: "jval \<Rightarrow> bool" where
  "py_sliceable (JStr s) = True"
| "py_sliceable (JArr xs) = True"
| "py_sliceable _ = False"

lemma py_slice_head_Inl: "py_slice_head n v = Inl e \<longleftrightarrow> e = TypeError \<and> \<not> py_sliceable v"
  by (cases v) auto

abbreviation jempty :: jval where
  "jempty \<equiv> JStr []"

text \<open>
  NewsData.io: \<open>category\<close> is the first element of the item's category when that is
  truthy, else \<open>"business"\<close>.
\<close>

definition newsdata_category :: "jval \<Rightarrow> py_error + jval" where
  "newsdata_category it =
     ebind (jget it (py ''category'') JNull) (\<lambda>c.
       if py_truthy c
       then ebind (jget it (py ''category'') (JArr [JStr (py ''business'')])) py_index0
       else Inr (JStr (py ''business'')))"

definition newsdata_article :: "jval \<Rightarrow> py_error + article" where
  "newsdata_article it =
     ebind (jget it (py ''title'') jempty) (\<lambda>title.
     ebind (jget it (py ''description'') jempty) (\<lambda>desc.
     ebind (jget it (py ''content'') jempty) (\<lambda>content.
     ebind (jget it (py ''link'') jempty) (\<lambda>url.
     ebind (jget it (py ''pubDate'') jempty) (\<lambda>pub.
     ebind (jget it (py ''source_id'') jempty) (\<lambda>sname.
     ebind (newsdata_category it) (\<lambda>cat.
       Inr \<lparr>a_source = py ''NewsData.io'', a_title = title, a_description = desc,
            a_content = content, a_url = url, a_published_at = pub, a_source_name = sname,
            a_category = cat, a_sentiment = None\<rparr>)))))))"

definition newsdata_parse :: "jval \<Rightarrow> py_error + article list" where
  "newsdata_parse data =
     ebind (jget data (py ''results'') (JArr [])) (\<lambda>rs. ebind (py_iter rs) (emap newsdata_article))"

definition finnhub_article :: "world \<Rightarrow> jval \<Rightarrow> py_error + article" where
  "finnhub_article w it =
     ebind (jget it (py ''headline'') jempty) (\<lambda>title.
     ebind (jget it (py ''summary'') jempty) (\<lambda>desc.
     ebind (jget it (py ''summary'') jempty) (\<lambda>content.
     ebind (jget it (py ''url'') jempty) (\<lambda>url.
     ebind (ebind (jget it (py ''datetime'') (JNum 0)) (fromtimestamp_iso w)) (\<lambda>pub.
     ebind (jget it (py ''source'') jempty) (\<lambda>sname.
       Inr \<lparr>a_source = py ''Finnhub'', a_title = title, a_description = desc,
            a_content = content, a_url = url, a_published_at = JStr pub, a_source_name = sname,
            a_category = JStr (py ''financial''), a_sentiment = None\<rparr>))))))"

definition finnhub_parse :: "world \<Rightarrow> jval \<Rightarrow> py_error + article list" where
  "finnhub_parse w data = ebind (py_iter data) (emap (finnhub_article w))"

definition alpha_vantage_article :: "jval \<Rightarrow> py_error + article" where
  "alpha_vantage_article it =
     ebind (jget it (py ''title'') jempty) (\<lambda>title.
     ebind (jget it (py ''summary'') jempty) (\<lambda>desc.
     ebind (jget it (py ''summary'') jempty) (\<lambda>content.
     ebind (jget it (py ''url'') jempty) (\<lambda>url.
     ebind (jget it (py ''time_published'') jempty) (\<lambda>pub.
     ebind (jget it (py ''source'') jempty) (\<lambda>sname.
     ebind (jget it (py ''overall_sentiment_label'') (JStr (py ''neutral''))) (\<lambda>label.
     ebind (jget it (py ''overall_sentiment_score'') (JNum 0)) (\<lambda>score.
       Inr \<lparr>a_source = py ''Alpha Vantage'', a_title = title, a_description = desc,
            a_content = content, a_url = url, a_published_at = pub, a_source_name = sname,
            a_category = JStr (py ''market_sentiment''), a_sentiment = Some (label, score)\<rparr>))))))))"

definition alpha_vantage_parse :: "jval \<Rightarrow> py_error + article list" where
  "alpha_vantage_parse data =
     ebind (jget data (py ''feed'') (JArr [])) (\<lambda>feed.
       ebind (py_slice_head 10 feed) (\<lambda>f. ebind (py_iter f) (emap alpha_vantage_article)))"

definition marketaux_article :: "jval \<Rightarrow> py_error + article" where
  "marketaux_article it =
     ebind (jget it (py ''title'') jempty) (\<lambda>title.
     ebind (jget it (py ''description'') jempty) (\<lambda>desc.
     ebind (jget it (py ''snippet'') jempty) (\<lambda>content.
     ebind (jget it (py ''url'') jempty) (\<lambda>url.
     ebind (jget it (py ''published_at'') jempty) (\<lambda>pub.
     ebind (jget it (py ''source'') jempty) (\<lambda>sname.
       Inr \<lparr>a_source = py ''MarketAux'', a_title = title, a_description = desc,
            a_content = content, a_url = url, a_published_at = pub, a_source_name = sname,
            a_category = JStr (py ''market_news''), a_sentiment = None\<rparr>))))))"

definition marketaux_parse :: "jval \<Rightarrow> py_error + article list" where
  "marketaux_parse data =
     ebind (jget data (py ''data'') (JArr [])) (\<lambda>rs. ebind (py_iter rs) (emap marketaux_article))"

section \<open>The adapters\<close>

text \<open>
  The shared shape of the four \<open>fetch_*\<close> methods: an exception of \<open>requests.get\<close>,
  a status other than 200, or an exception while reading the body gives \<open>[]\<close> (the
  method prints the error and returns \<open>[]\<close>).
\<close>

definition handle_response :: "http_result \<Rightarrow> (jval \<Rightarrow> py_error + article list) \<Rightarrow> article list" where
  "handle_response r parse =
     (case r of
        HttpRaise \<Rightarrow> []
      | HttpResponse status body \<Rightarrow>
          if status = 200 then (case ebind body parse of Inl e \<Rightarrow> [] | Inr arts \<Rightarrow> arts)
          else [])"

definition fetch_newsdata_io :: "world \<Rightarrow> api_keys \<Rightarrow> pystr list \<Rightarrow> article list" where
  "fetch_newsdata_io w k kws = handle_response (http_get w (newsdata_request k kws)) newsdata_parse"

definition fetch_finnhub :: "world \<Rightarrow> api_keys \<Rightarrow> pystr option \<Rightarrow> article list" where
  "fetch_finnhub w k symbol = handle_response (http_get w (finnhub_request k symbol)) (finnhub_parse w)"

definition fetch_alpha_vantage :: "world \<Rightarrow> api_keys \<Rightarrow> pystr list \<Rightarrow> article list" where
  "fetch_alpha_vantage w k topics =
     handle_response (http_get w (alpha_vantage_request k topics)) alpha_vantage_parse"

definition fetch_marketaux :: "world \<Rightarrow> api_keys \<Rightarrow> pystr list \<Rightarrow> article list" where
  "fetch_marketaux w k kws = handle_response (http_get w (marketaux_request k kws)) marketaux_parse"

end
