(* ===== verification/NewsAggregator.thy ===== *)
theory NewsAggregator
  imports SourceAdapters
begin

text \<open>
  The aggregation methods of \<open>NewsAggregator\<close> (\<open>src/script_4.py\<close>):
  \<open>_filter_by_relevance\<close> (case-insensitive keyword filter, raising on a field that
  is not a string), \<open>_deduplicate_articles\<close> (first occurrence of each stripped,
  lower-cased, non-empty title, then a recency sort inside \<open>try: ... except: pass\<close>),
  \<open>fetch_sector_news\<close> and \<open>fetch_all_news\<close> (the four adapters in sequence, then
  filtering or deduplication, then truncation). Exceptions that escape are values of
  \<open>py_error\<close>.
\<close>

section \<open>Relevance filter\<close>

definition relevant :: "pystr list \<Rightarrow> pystr \<Rightarrow> pystr \<Rightarrow> pystr \<Rightarrow> bool" where
  "relevant kl t d c \<longleftrightarrow> py_any (\<lambda>k. py_in k t \<or> py_in k d \<or> py_in k c) kl"

fun filter_loop :: "pystr list \<Rightarrow> article list \<Rightarrow> py_error + article list" where
  "filter_loop kl [] = Inr []"
| "filter_loop kl (a # as) =
     ebind (jlower (a_title a)) (\<lambda>t.
     ebind (jlower (a_description a)) (\<lambda>d.
     ebind (jlower (a_content a)) (\<lambda>c.
     ebind (filter_loop kl as) (\<lambda>rest.
       Inr (if relevant kl t d c then a # rest else rest)))))"

definition filter_by_relevance :: "article list \<Rightarrow> pystr list \<Rightarrow> py_error + article list" where
  "filter_by_relevance articles keywords = filter_loop (map py_lower keywords) articles"

section \<open>Deduplication and the recency sort\<close>

text \<open>The normalised title \<open>article.get("title", "").lower().strip()\<close>.\<close>

definition norm_title :: "article \<Rightarrow> py_error + pystr" where
  "norm_title a = ebind (jlower (a_title a)) (\<lambda>t. Inr (py_strip t))"

fun dedup_loop :: "pystr set \<Rightarrow> article list \<Rightarrow> py_error + article list" where
  "dedup_loop seen [] = Inr []"
| "dedup_loop seen (a # as) =
     ebind (norm_title a) (\<lambda>t.
       if t \<noteq> [] \<and> t \<notin> seen
       then ebind (dedup_loop (insert t seen) as) (\<lambda>rest. Inr (a # rest))
       else dedup_loop seen as)"

text \<open>
  The sort key \<open>datetime.fromisoformat(x.get("published_at", "").replace("Z", "+00:00"))\<close>:
  \<open>replace\<close> raises on a value that is not a string.
\<close>

definition published_key :: "world \<Rightarrow> article \<Rightarrow> py_error + stamp" where
  "published_key w a =
     (case a_published_at a of
        JStr s \<Rightarrow> fromisoformat w (py_replace1 90 (py ''+00:00'') s)
      | _ \<Rightarrow> Inl AttributeError)"

definition mixed_stamps :: "stamp list \<Rightarrow> bool" where
  "mixed_stamps ks \<longleftrightarrow> py_any is_aware ks \<and> py_any (\<lambda>k. \<not> is_aware k) ks"

text \<open>
  The guarded sort: a key that raises leaves the list as it was (CPython computes every
  key before it moves an element); comparing a naive with an aware \<open>datetime\<close> raises
  \<open>TypeError\<close> in the middle of the sort, which leaves the list in the order
  \<open>partial_sort\<close> of the world says; otherwise the list is sorted newest first.
\<close>

definition sort_by_published :: "world \<Rightarrow> article list \<Rightarrow> article list" where
  "sort_by_published w us =
     (case emap (published_key w) us of
        Inl e \<Rightarrow> us
      | Inr ks \<Rightarrow>
          if mixed_stamps ks then map snd (partial_sort w (zip ks us))
          else map snd (py_sort_desc (\<lambda>p. stamp_val (fst p)) (zip ks us)))"

definition deduplicate_articles :: "world \<Rightarrow> article list \<Rightarrow> py_error + article list" where
  "deduplicate_articles w articles =
     ebind (dedup_loop {} articles) (\<lambda>unique. Inr (sort_by_published w unique))"

section \<open>Fetching\<close>

text \<open>
  \<open>fetch_sector_news(sector, limit)\<close>: the four adapters in the source's order with the
  sector's keywords (Alpha Vantage gets the lower-cased sector name as its topic,
  Finnhub no symbol), then the relevance filter, then the first \<open>limit\<close> articles.
  The \<open>time.sleep(1)\<close> between the calls does not change the result.
\<close>

definition gather_sector :: "world \<Rightarrow> api_keys \<Rightarrow> pystr \<Rightarrow> article list" where
  "gather_sector w k sector =
     (let kws = sector_keywords_of sector
      in fetch_newsdata_io w k kws @ fetch_finnhub w k None @
         fetch_alpha_vantage w k [py_lower sector] @ fetch_marketaux w k kws)"

definition fetch_sector_news :: "world \<Rightarrow> api_keys \<Rightarrow> pystr \<Rightarrow> nat \<Rightarrow> py_error + article list" where
  "fetch_sector_news w k sector limit =
     ebind (filter_by_relevance (gather_sector w k sector) (sector_keywords_of sector))
           (\<lambda>filtered. Inr (take limit filtered))"

definition gather_all :: "world \<Rightarrow> api_keys \<Rightarrow> article list" where
  "gather_all w k =
     fetch_newsdata_io w k [] @ fetch_finnhub w k None @ fetch_alpha_vantage w k [] @
     fetch_marketaux w k []"

definition fetch_all_news :: "world \<Rightarrow> api_keys \<Rightarrow> nat \<Rightarrow> py_error + article list" where
  "fetch_all_news w k limit =
     ebind (deduplicate_articles w (gather_all w k)) (\<lambda>unique. Inr (take limit unique))"

section \<open>Deduplication\<close>

definition title_key :: "article \<Rightarrow> pystr" where
  "title_key a = (case a_title a of JStr t \<Rightarrow> py_strip (py_lower t) | _ \<Rightarrow> [])"

lemma norm_title_eq:
  "norm_title a = (case a_title a of JStr t \<Rightarrow> Inr (title_key a) | _ \<Rightarrow> Inl AttributeError)"
  by (cases "a_title a") (simp_all add: norm_title_def title_key_def)

lemma norm_title_Inr: "norm_title a = Inr t \<longleftrightarrow> (\<exists>s. a_title a = JStr s) \<and> t = title_key a"
  by (cases "a_title a") (auto simp: norm_title_eq)

lemmas dedup_simps = ebind_eq_Inr norm_title_Inr

lemma dedup_loop_fresh:
  "dedup_loop seen as = Inr u \<Longrightarrow> x \<in> set u \<Longrightarrow> title_key x \<noteq> [] \<and> title_key x \<notin> seen"
proof (induction seen as arbitrary: u rule: dedup_loop.induct)
  case (1 seen)
  then show ?case by simp
next
  case (2 seen a as)
  then show ?case by (auto simp: dedup_simps split: if_splits)
qed

lemma dedup_loop_keys:
  "dedup_loop seen as = Inr u \<Longrightarrow>
   map title_key u = remdups_first (filter (\<lambda>t. t \<noteq> [] \<and> t \<notin> seen) (map title_key as))"
proof (induction seen as arbitrary: u rule: dedup_loop.induct)
  case (1 seen)
  then show ?case by simp
next
  case (2 seen a as)
  show ?case
  proof (cases "\<exists>s. a_title a = JStr s")
    case False
    with "2.prems" show ?thesis by (auto simp: dedup_simps)
  next
    case True
    let ?t = "title_key a"
    have nt: "norm_title a = Inr ?t" using True by (simp add: norm_title_Inr)
    show ?thesis
    proof (cases "?t \<noteq> [] \<and> ?t \<notin> seen")
      case c: True
      with "2.prems" nt obtain rest where
        rest: "dedup_loop (insert ?t seen) as = Inr rest" and u: "u = a # rest"
        by (auto simp: ebind_eq_Inr)
      have "filter (\<lambda>t. t \<noteq> [] \<and> t \<notin> insert ?t seen) (map title_key as) =
            filter (\<lambda>y. y \<noteq> ?t) (filter (\<lambda>t. t \<noteq> [] \<and> t \<notin> seen) (map title_key as))"
        by (simp add: filter_filter conj_ac)
      with "2.IH"(1)[OF nt c rest] c u show ?thesis by simp
    next
      case c: False
      with "2.prems" nt have "dedup_loop seen as = Inr u" by simp
      with "2.IH"(2)[OF nt c] c show ?thesis by auto
    qed
  qed
qed

lemma dedup_loop_first:
  "dedup_loop seen as = Inr u \<Longrightarrow> x \<in> set u \<Longrightarrow> find (\<lambda>b. title_key b = title_key x) as = Some x"
proof (induction seen as arbitrary: u rule: dedup_loop.induct)
  case (1 seen)
  then show ?case by simp
next
  case (2 seen a as)
  then show ?case by (auto simp: dedup_simps split: if_splits dest: dedup_loop_fresh)
qed

lemma dedup_loop_subseq: "dedup_loop seen as = Inr u \<Longrightarrow> subseq u as"
proof (induction seen as arbitrary: u rule: dedup_loop.induct)
  case (1 seen)
  then show ?case by simp
next
  case (2 seen a as)
  then show ?case by (auto simp: dedup_simps split: if_splits intro: list_emb_Cons)
qed

lemma dedup_loop_Inr_iff:
  "(\<exists>u. dedup_loop seen as = Inr u) \<longleftrightarrow> (\<forall>a\<in>set as. \<exists>t. a_title a = JStr t)"
proof (induction seen as rule: dedup_loop.induct)
  case (1 seen)
  then show ?case by simp
next
  case (2 seen a as)
  then show ?case by (cases "a_title a") (auto simp: norm_title_eq ebind_eq_Inr)
qed

lemma dedup_loop_error:
  "a \<in> set as \<Longrightarrow> \<forall>t. a_title a \<noteq> JStr t \<Longrightarrow> dedup_loop seen as = Inl AttributeError"
proof (induction seen as rule: dedup_loop.induct)
  case (1 seen)
  then show ?case by simp
next
  case (2 seen b bs)
  then show ?case by (cases "a_title b") (auto simp: norm_title_eq)
qed

section \<open>The recency sort\<close>

text \<open>The parsed time stamp of an article, on the branch where every key parses.\<close>

definition pstamp :: "world \<Rightarrow> article \<Rightarrow> stamp" where
  "pstamp w a = (case published_key w a of Inr s \<Rightarrow> s | Inl e \<Rightarrow> Naive 0)"

text \<open>
  The world's \<open>partial_sort\<close> stands for the state CPython leaves a list in when a
  comparison raises; that state is a permutation of the list.
\<close>

definition sort_perm :: "world \<Rightarrow> bool" where
  "sort_perm w \<longleftrightarrow> (\<forall>xs. mset (partial_sort w xs) = mset xs)"

lemma sort_by_published_mset:
  assumes "sort_perm w"
  shows "mset (sort_by_published w us) = mset us"
proof (cases "emap (published_key w) us")
  case (Inl e)
  then show ?thesis by (simp add: sort_by_published_def)
next
  case (Inr ks)
  then have len: "length ks = length us" by (rule emap_Inr_length)
  have "mset (map snd (partial_sort w (zip ks us))) = image_mset snd (mset (zip ks us))"
    using assms by (simp add: sort_perm_def)
  also have "\<dots> = mset us" using len by (simp flip: mset_map)
  finally have p: "mset (map snd (partial_sort w (zip ks us))) = mset us" .
  have "mset (map snd (py_sort_desc (\<lambda>p. stamp_val (fst p)) (zip ks us))) =
        image_mset snd (mset (py_sort_desc (\<lambda>p. stamp_val (fst p)) (zip ks us)))"
    by (rule mset_map)
  also have "\<dots> = image_mset snd (mset (zip ks us))" by (simp add: py_sort_desc_def)
  also have "\<dots> = mset us" using len by (simp flip: mset_map)
  finally have "mset (map snd (py_sort_desc (\<lambda>p. stamp_val (fst p)) (zip ks us))) = mset us" .
  with p Inr show ?thesis by (simp add: sort_by_published_def)
qed

section \<open>The relevance filter\<close>

fun is_jstr :: "jval \<Rightarrow> bool" where
  "is_jstr (JStr s) = True"
| "is_jstr _ = False"

definition field_lower :: "jval \<Rightarrow> pystr" where
  "field_lower v = (case v of JStr s \<Rightarrow> py_lower s | _ \<Rightarrow> [])"

definition text_fields_ok :: "article \<Rightarrow> bool" where
  "text_fields_ok a \<longleftrightarrow> is_jstr (a_title a) \<and> is_jstr (a_description a) \<and> is_jstr (a_content a)"

definition relevant_article :: "pystr list \<Rightarrow> article \<Rightarrow> bool" where
  "relevant_article kl a \<longleftrightarrow>
     relevant kl (field_lower (a_title a)) (field_lower (a_description a)) (field_lower (a_content a))"

lemma jlower_field_lower: "is_jstr v \<Longrightarrow> jlower v = Inr (field_lower v)"
  by (cases v) (auto simp: field_lower_def)

lemma jlower_not_str: "\<not> is_jstr v \<Longrightarrow> jlower v = Inl AttributeError"
  by (cases v) auto

lemma filter_loop_eq:
  "filter_loop kl as =
     (if list_all text_fields_ok as then Inr (filter (relevant_article kl) as)
      else Inl AttributeError)"
proof (induction as)
  case Nil
  then show ?case by simp
next
  case (Cons a as)
  show ?case
  proof (cases "text_fields_ok a")
    case True
    then have "jlower (a_title a) = Inr (field_lower (a_title a))"
      "jlower (a_description a) = Inr (field_lower (a_description a))"
      "jlower (a_content a) = Inr (field_lower (a_content a))"
      by (simp_all add: text_fields_ok_def jlower_field_lower)
    with Cons.IH True show ?thesis
      by (simp add: relevant_article_def[of kl a])
  next
    case False
    then show ?thesis
      by (cases "is_jstr (a_title a)"; cases "is_jstr (a_description a)")
         (auto simp: text_fields_ok_def jlower_field_lower jlower_not_str)
  qed
qed

lemma sort_by_published_branches_aux:
  "sort_by_published w us =
     (if \<exists>a\<in>set us. \<exists>e. published_key w a = Inl e then us
      else if mixed_stamps (map (pstamp w) us)
      then map snd (partial_sort w (map (\<lambda>a. (pstamp w a, a)) us))
      else sort_key (\<lambda>a. - stamp_val (pstamp w a)) us)"
proof (cases "\<exists>a\<in>set us. \<exists>e. published_key w a = Inl e")
  case True
  then obtain a e where "a \<in> set us" "published_key w a = Inl e" by blast
  then obtain e' where "emap (published_key w) us = Inl e'" using emap_Inl by metis
  with True show ?thesis by (simp add: sort_by_published_def)
next
  case False
  then have "\<forall>a\<in>set us. \<exists>s. published_key w a = Inr s"
    by (metis sumE)
  then obtain ks where ks: "emap (published_key w) us = Inr ks"
    using emap_Inr_iff by blast
  then have ksm: "ks = map (pstamp w) us"
    unfolding pstamp_def by (rule emap_Inr_map)
  have "map snd (py_sort_desc (\<lambda>p. stamp_val (fst p)) (map (\<lambda>a. (pstamp w a, a)) us)) =
        sort_key (\<lambda>a. - stamp_val (pstamp w a)) us"
    by (simp add: py_sort_desc_sort_key sort_key_decorate[where h = "\<lambda>s. - stamp_val s"] comp_def)
  with False ks ksm show ?thesis
    by (simp add: sort_by_published_def zip_map_same)
qed

lemma fetch_all_news_Inr:
  "fetch_all_news w k limit = Inr r \<longleftrightarrow>
   (\<exists>u. dedup_loop {} (gather_all w k) = Inr u \<and> r = take limit (sort_by_published w u))"
  by (auto simp: fetch_all_news_def deduplicate_articles_def ebind_eq_Inr)

lemma handle_response_failed:
  "r = HttpRaise \<or> (\<exists>st b. r = HttpResponse st b \<and> st \<noteq> 200) \<Longrightarrow> handle_response r parse = []"
  by (auto simp: handle_response_def)

lemma alpha_vantage_parse_length: "alpha_vantage_parse d = Inr as \<Longrightarrow> length as \<le> 10"
proof -
  assume a: "alpha_vantage_parse d = Inr as"
  then obtain feed f items where
    "py_slice_head 10 feed = Inr f" "py_iter f = Inr items" "emap alpha_vantage_article items = Inr as"
    by (auto simp: alpha_vantage_parse_def ebind_eq_Inr)
  moreover have "py_slice_head 10 feed = Inr f \<Longrightarrow> py_iter f = Inr items \<Longrightarrow> length items \<le> 10"
    by (cases feed) auto
  ultimately show ?thesis by (auto dest: emap_Inr_length)
qed

lemma offline_gather_empty:
  assumes "\<forall>req. http_get w req = HttpRaise \<or> (\<exists>st b. http_get w req = HttpResponse st b \<and> st \<noteq> 200)"
  shows "gather_all w k = [] \<and> gather_sector w k s = []"
proof -
  have "handle_response (http_get w req) parse = []" for req parse
    using assms handle_response_failed by blast
  then show ?thesis
    by (simp add: gather_all_def gather_sector_def fetch_newsdata_io_def fetch_finnhub_def
        fetch_alpha_vantage_def fetch_marketaux_def)
qed

section \<open>Scenarios\<close>

text \<open>
  Concrete worlds for the scenarios of the spec and for the witnesses: a date parser that
  reads a one-digit string as a naive time stamp, providers that answer with a fixed body,
  and the order-keeping \<open>partial_sort\<close>.
\<close>

definition digit_iso :: "pystr \<Rightarrow> py_error + stamp" where
  "digit_iso s =
     (case s of [d] \<Rightarrow> if 48 \<le> d \<and> d \<le> 57 then Inr (Naive (int d - 48)) else Inl ValueError
              | _ \<Rightarrow> Inl ValueError)"

definition no_keys :: api_keys where
  "no_keys = \<lparr>newsdata_key = None, finnhub_key = None, alpha_vantage_key = None, marketaux_key = None\<rparr>"

definition answer_world :: "(pystr \<Rightarrow> http_result) \<Rightarrow> world" where
  "answer_world answer =
     \<lparr>http_get = (\<lambda>r. answer (req_url r)), fromtimestamp_iso = (\<lambda>v. Inl ValueError),
      fromisoformat = digit_iso, partial_sort = (\<lambda>xs. xs), str_other = (\<lambda>v. [])\<rparr>"

definition rbi_body :: jval where
  "rbi_body = JObj [(py ''results'', JArr
     [JObj [(py ''title'', JStr (py ''RBI Cuts Rates'')), (py ''pubDate'', JStr (py ''2''))],
      JObj [(py ''title'', JStr (py ''rbi cuts rates '')), (py ''pubDate'', JStr (py ''1''))]])]"

definition rbi_world :: world where
  "rbi_world = answer_world (\<lambda>url. if url = py ''https://newsdata.io/api/1/news''
                                   then HttpResponse 200 (Inr rbi_body) else HttpRaise)"

definition offline_world :: world where
  "offline_world = answer_world (\<lambda>url. HttpRaise)"

definition mk_article :: "jval \<Rightarrow> jval \<Rightarrow> article" where
  "mk_article title pub =
     \<lparr>a_source = py ''NewsData.io'', a_title = title, a_description = jempty, a_content = jempty,
      a_url = jempty, a_published_at = pub, a_source_name = jempty,
      a_category = JStr (py ''business''), a_sentiment = None\<rparr>"

definition null_desc_body :: jval where
  "null_desc_body = JObj [(py ''results'', JArr
     [JObj [(py ''title'', JStr (py ''Dairy exports rise'')), (py ''description'', JNull)]])]"

definition null_desc_world :: world where
  "null_desc_world = answer_world (\<lambda>url. if url = py ''https://newsdata.io/api/1/news''
                                        then HttpResponse 200 (Inr null_desc_body) else HttpRaise)"

definition dup_body :: jval where
  "dup_body = JObj [(py ''results'', JArr [JObj [(py ''title'', JStr (py ''Tech platform launch''))]]),
                    (py ''data'', JArr [JObj [(py ''title'', JStr (py ''Tech platform launch''))]])]"

definition dup_world :: world where
  "dup_world = answer_world (\<lambda>url. HttpResponse 200 (Inr dup_body))"

lemmas scenario_simps = fetch_all_news_def deduplicate_articles_def gather_all_def gather_sector_def
  fetch_sector_news_def filter_by_relevance_def fetch_newsdata_io_def fetch_finnhub_def
  fetch_alpha_vantage_def fetch_marketaux_def answer_world_def newsdata_request_def
  finnhub_request_def alpha_vantage_request_def marketaux_request_def handle_response_def
  newsdata_parse_def newsdata_article_def newsdata_category_def finnhub_parse_def
  alpha_vantage_parse_def marketaux_parse_def marketaux_article_def norm_title_def
  finnhub_article_def alpha_vantage_article_def
  sort_by_published_def published_key_def digit_iso_def py_sort_desc_def mixed_stamps_def
  relevant_def sector_keywords_of_def SECTOR_KEYWORDS_def jval_simps pystr_simps

section \<open>Properties of the aggregator\<close>

text \<open>C1: \<open>fetch_all_news\<close> returns each normalised title at most once, never an empty
  title, at most \<open>limit\<close> articles, and for every title the article kept is the first one
  in fetch order (NewsData, Finnhub, Alpha Vantage, MarketAux) with that title.\<close>

theorem fetch_all_news_dedup:
  assumes "sort_perm w" and "fetch_all_news w k limit = Inr r"
  shows "distinct (map title_key r) \<and> length r \<le> limit \<and>
         (\<forall>a\<in>set r. title_key a \<noteq> [] \<and>
            find (\<lambda>b. title_key b = title_key a) (gather_all w k) = Some a)"
proof -
  from assms(2) obtain u where u: "dedup_loop {} (gather_all w k) = Inr u"
    and r: "r = take limit (sort_by_published w u)"
    by (auto simp: fetch_all_news_Inr)
  let ?s = "sort_by_published w u"
  have m: "mset ?s = mset u" using assms(1) by (rule sort_by_published_mset)
  have "distinct (map title_key u)" using dedup_loop_keys[OF u] by simp
  moreover have "mset (map title_key ?s) = mset (map title_key u)" using m by simp
  ultimately have "distinct (map title_key ?s)" using mset_eq_imp_distinct_iff by blast
  then have d: "distinct (map title_key r)" by (simp add: r take_map[symmetric])
  have sub: "set r \<subseteq> set u" using m r by (metis mset_eq_setD set_take_subset)
  have "\<forall>a\<in>set r. title_key a \<noteq> [] \<and> find (\<lambda>b. title_key b = title_key a) (gather_all w k) = Some a"
    using sub dedup_loop_fresh[OF u] dedup_loop_first[OF u] by blast
  with d r show ?thesis by simp
qed

theorem fetch_all_news_dedup_witness:
  "sort_perm rbi_world \<and>
   fetch_all_news rbi_world no_keys 5 = Inr [mk_article (JStr (py ''RBI Cuts Rates'')) (JStr (py ''2''))] \<and>
   distinct (map title_key [mk_article (JStr (py ''RBI Cuts Rates'')) (JStr (py ''2''))])"
proof -
  have p: "sort_perm rbi_world" by (simp add: sort_perm_def rbi_world_def answer_world_def)
  have f: "fetch_all_news rbi_world no_keys 5 = Inr [mk_article (JStr (py ''RBI Cuts Rates'')) (JStr (py ''2''))]"
    by (simp add: rbi_world_def rbi_body_def mk_article_def scenario_simps)
  show ?thesis using fetch_all_news_dedup[OF p f] p f by simp
qed

text \<open>C2: the deduplication loop is first-occurrence deduplication: it raises exactly when
  some title is not a string; otherwise its normalised titles are the non-empty normalised
  titles of the input with repetitions removed, first occurrence first, and it keeps
  articles in input order.\<close>

theorem dedup_loop_reference:
  assumes "dedup_loop {} as = Inr u"
  shows "list_all (\<lambda>a. is_jstr (a_title a)) as \<and>
         map title_key u = remdups_first (filter (\<lambda>t. t \<noteq> []) (map title_key as)) \<and>
         subseq u as"
proof -
  have "\<forall>a\<in>set as. \<exists>t. a_title a = JStr t"
    using assms dedup_loop_Inr_iff by blast
  then have "list_all (\<lambda>a. is_jstr (a_title a)) as"
    by (auto simp: list_all_iff)
  moreover have "map title_key u = remdups_first (filter (\<lambda>t. t \<noteq> []) (map title_key as))"
    using dedup_loop_keys[OF assms] by simp
  ultimately show ?thesis using dedup_loop_subseq[OF assms] by simp
qed

theorem dedup_loop_reference_witness:
  "dedup_loop {} [mk_article (JStr (py ''A'')) jempty, mk_article (JStr (py '' a'')) jempty] =
     Inr [mk_article (JStr (py ''A'')) jempty] \<and>
   map title_key [mk_article (JStr (py ''A'')) jempty] =
     remdups_first (filter (\<lambda>t. t \<noteq> [])
       (map title_key [mk_article (JStr (py ''A'')) jempty, mk_article (JStr (py '' a'')) jempty]))"
proof -
  have d: "dedup_loop {} [mk_article (JStr (py ''A'')) jempty, mk_article (JStr (py '' a'')) jempty] =
     Inr [mk_article (JStr (py ''A'')) jempty]"
    by (simp add: mk_article_def norm_title_def pystr_simps)
  show ?thesis using dedup_loop_reference[OF d] d by simp
qed

text \<open>C3: the recency sort on every branch: when some published date does not parse the
  list keeps its fetch order; when naive and aware dates are mixed the comparison raises
  and the list is left as CPython's interrupted sort leaves it; otherwise it is the stable
  sort newest first.\<close>

theorem sort_by_published_branches:
  "sort_by_published w us =
     (if \<exists>a\<in>set us. \<exists>e. published_key w a = Inl e then us
      else if mixed_stamps (map (pstamp w) us)
      then map snd (partial_sort w (map (\<lambda>a. (pstamp w a, a)) us))
      else sort_key (\<lambda>a. - stamp_val (pstamp w a)) us)"
  by (rule sort_by_published_branches_aux)

text \<open>C4: when every date parses and all are of one kind, the sorted list is newest first,
  a permutation of its input, and stable: articles with the same time stamp keep their
  fetch order.\<close>

theorem sort_newest_first:
  assumes "\<forall>a\<in>set us. \<exists>s. published_key w a = Inr s"
    and "\<not> mixed_stamps (map (pstamp w) us)"
  shows "sorted_wrt (\<lambda>a b. stamp_val (pstamp w b) \<le> stamp_val (pstamp w a)) (sort_by_published w us) \<and>
         mset (sort_by_published w us) = mset us \<and>
         filter (\<lambda>a. stamp_val (pstamp w a) = t) (sort_by_published w us) =
           filter (\<lambda>a. stamp_val (pstamp w a) = t) us"
proof -
  have "\<not> (\<exists>a\<in>set us. \<exists>e. published_key w a = Inl e)" using assms(1) by fastforce
  then have s: "sort_by_published w us = sort_key (\<lambda>a. - stamp_val (pstamp w a)) us"
    using assms(2) by (simp add: sort_by_published_branches_aux)
  have "sorted (map (\<lambda>a. - stamp_val (pstamp w a)) (sort_key (\<lambda>a. - stamp_val (pstamp w a)) us))"
    by (rule sorted_sort_key)
  then have "sorted_wrt (\<lambda>a b. stamp_val (pstamp w b) \<le> stamp_val (pstamp w a))
               (sort_key (\<lambda>a. - stamp_val (pstamp w a)) us)"
    by (simp add: sorted_wrt_map)
  moreover have "filter (\<lambda>a. stamp_val (pstamp w a) = t) (sort_key (\<lambda>a. - stamp_val (pstamp w a)) us) =
                 filter (\<lambda>a. stamp_val (pstamp w a) = t) us"
    using sort_key_stable[of "\<lambda>a. - stamp_val (pstamp w a)" "- t" us] by simp
  ultimately show ?thesis using s by simp
qed

theorem sort_newest_first_witness:
  "sort_by_published rbi_world [mk_article (JStr (py ''x'')) (JStr (py ''1'')),
                                mk_article (JStr (py ''y'')) (JStr (py ''3''))] =
     [mk_article (JStr (py ''y'')) (JStr (py ''3'')), mk_article (JStr (py ''x'')) (JStr (py ''1''))]"
proof -
  let ?us = "[mk_article (JStr (py ''x'')) (JStr (py ''1'')), mk_article (JStr (py ''y'')) (JStr (py ''3''))]"
  have k: "\<forall>a\<in>set ?us. \<exists>s. published_key rbi_world a = Inr s"
    by (simp add: mk_article_def scenario_simps rbi_world_def)
  have m: "\<not> mixed_stamps (map (pstamp rbi_world) ?us)"
    by (simp add: mk_article_def pstamp_def scenario_simps rbi_world_def)
  have "sorted_wrt (\<lambda>a b. stamp_val (pstamp rbi_world b) \<le> stamp_val (pstamp rbi_world a))
          (sort_by_published rbi_world ?us) \<and> mset (sort_by_published rbi_world ?us) = mset ?us"
    using sort_newest_first[OF k m] by simp
  then show ?thesis
    by (simp add: mk_article_def pstamp_def scenario_simps rbi_world_def)
qed

text \<open>One published date that does not parse leaves the whole list in fetch order,
  also the articles whose dates do parse (the spec asks for unparsable dates to sort last).\<close>

theorem unparsable_date_keeps_fetch_order:
  assumes "a \<in> set us" and "published_key w a = Inl e"
  shows "sort_by_published w us = us"
  using assms by (auto simp: sort_by_published_branches_aux)

theorem unparsable_date_keeps_fetch_order_witness:
  "sort_by_published rbi_world [mk_article (JStr (py ''x'')) (JStr (py ''yesterday'')),
                                mk_article (JStr (py ''y'')) (JStr (py ''3''))] =
     [mk_article (JStr (py ''x'')) (JStr (py ''yesterday'')), mk_article (JStr (py ''y'')) (JStr (py ''3''))]"
proof -
  have "published_key rbi_world (mk_article (JStr (py ''x'')) (JStr (py ''yesterday''))) = Inl ValueError"
    by (simp add: mk_article_def scenario_simps rbi_world_def)
  then show ?thesis by (rule unparsable_date_keeps_fetch_order[rotated]) simp
qed

text \<open>C6: \<open>fetch_sector_news\<close> raises \<open>AttributeError\<close> when any fetched article has a
  title, description or content that is not a string; otherwise it returns the first
  \<open>limit\<close> fetched articles, in fetch order, whose lower-cased title, description or
  content contains one of the sector's lower-cased keywords. It does not deduplicate and
  does not sort.\<close>

theorem fetch_sector_news_spec:
  "fetch_sector_news w k s limit =
     (if list_all text_fields_ok (gather_sector w k s)
      then Inr (take limit (filter (relevant_article (map py_lower (sector_keywords_of s)))
                                   (gather_sector w k s)))
      else Inl AttributeError)"
  by (simp add: fetch_sector_news_def filter_by_relevance_def filter_loop_eq)

text \<open>A NewsData.io article whose \<open>description\<close> is JSON \<open>null\<close> makes
  \<open>fetch_sector_news\<close> raise, so the sector gets no news at all, although the article
  is relevant (``Dairy'' is a Food Processing keyword).\<close>

theorem null_description_breaks_sector_news:
  "fetch_sector_news null_desc_world no_keys (py ''Food Processing'') 5 = Inl AttributeError"
  by (simp add: null_desc_world_def null_desc_body_def scenario_simps)

text \<open>\<open>fetch_all_news\<close> raises exactly when some fetched article's title is not a
  string, and the exception is then \<open>AttributeError\<close>.\<close>

theorem fetch_all_news_raises_iff:
  "fetch_all_news w k limit = Inl e \<longleftrightarrow>
     e = AttributeError \<and> \<not> list_all (\<lambda>a. is_jstr (a_title a)) (gather_all w k)"
proof (cases "list_all (\<lambda>a. is_jstr (a_title a)) (gather_all w k)")
  case True
  then have "\<forall>a\<in>set (gather_all w k). \<exists>t. a_title a = JStr t"
    by (auto simp: list_all_iff elim!: is_jstr.elims)
  then obtain u where "dedup_loop {} (gather_all w k) = Inr u"
    using dedup_loop_Inr_iff by blast
  with True show ?thesis by (simp add: fetch_all_news_def deduplicate_articles_def)
next
  case False
  then obtain a where "a \<in> set (gather_all w k)" "\<not> is_jstr (a_title a)"
    by (auto simp: list_all_iff)
  then have "dedup_loop {} (gather_all w k) = Inl AttributeError"
    by (intro dedup_loop_error) (auto elim: is_jstr.elims(3))
  with False show ?thesis
    by (auto simp: fetch_all_news_def deduplicate_articles_def)
qed

text \<open>When every provider call raises or answers with a status other than 200, both
  fetch operations return the empty list and raise nothing.\<close>

theorem all_adapters_fail:
  assumes "\<forall>req. http_get w req = HttpRaise \<or> (\<exists>st b. http_get w req = HttpResponse st b \<and> st \<noteq> 200)"
  shows "fetch_all_news w k n = Inr [] \<and> fetch_sector_news w k s m = Inr []"
proof -
  have "gather_all w k = []" "gather_sector w k s = []"
    using offline_gather_empty[OF assms] by simp_all
  then show ?thesis
    by (simp add: fetch_all_news_def deduplicate_articles_def sort_by_published_def
        fetch_sector_news_def filter_by_relevance_def mixed_stamps_def py_sort_desc_def)
qed

theorem all_adapters_fail_witness:
  "fetch_all_news offline_world no_keys 20 = Inr [] \<and>
   fetch_sector_news offline_world no_keys (py ''Textiles'') 5 = Inr []"
proof -
  have "\<forall>req. http_get offline_world req = HttpRaise \<or>
          (\<exists>st b. http_get offline_world req = HttpResponse st b \<and> st \<noteq> 200)"
    by (simp add: offline_world_def answer_world_def)
  then show ?thesis by (rule all_adapters_fail)
qed

text \<open>\<open>fetch_sector_news\<close> does not deduplicate: the same story from NewsData.io
  and MarketAux is returned twice (the spec deduplicates the sector fetch too).\<close>

theorem sector_news_keeps_duplicates:
  "\<exists>r. fetch_sector_news dup_world no_keys (py ''Technology'') 5 = Inr r \<and>
       length r = 2 \<and> \<not> distinct (map title_key r)"
  by (simp add: dup_world_def dup_body_def scenario_simps title_key_def)

text \<open>The spec's scenario: ``RBI Cuts Rates'' and ``rbi cuts rates '' from one
  provider normalise to the same title and \<open>fetch_all_news\<close> keeps only the first.\<close>

theorem rbi_scenario:
  "map title_key (gather_all rbi_world no_keys) = [py ''rbi cuts rates'', py ''rbi cuts rates''] \<and>
   fetch_all_news rbi_world no_keys 5 = Inr [hd (gather_all rbi_world no_keys)]"
  by (simp add: rbi_world_def rbi_body_def scenario_simps title_key_def)

text \<open>Alpha Vantage contributes at most ten articles, whatever the provider sends
  (\<open>feed[:10]\<close>).\<close>

theorem alpha_vantage_at_most_ten:
  "length (fetch_alpha_vantage w k topics) \<le> 10"
  by (auto simp: fetch_alpha_vantage_def handle_response_def ebind_eq_Inr
           split: http_result.splits sum.splits dest: alpha_vantage_parse_length)

end
