(* ===== verification/VectorStore.thy ===== *)
theory VectorStore
  imports SourceAdapters
begin

text \<open>
  \<open>MSMEVectorStore\<close> of \<open>src/script_5.py\<close> (written out as \<open>vector_store.py\<close>).
  The ChromaDB collection is an external service: the store holds its entries
  (\<open>collection\<close>, in insertion order) and two parameters, \<open>chroma_query\<close>
  (\<open>collection.query\<close> on the current entries, returning Chroma's nested result
  lists or raising) and \<open>chroma_add\<close> (\<open>collection.add\<close>, which validates and
  stores the new entries or raises). The code under verification is what the class
  does around them: the formatting of results (\<open>search_similar\<close>), the filters it
  builds (\<open>search_by_sector\<close>, \<open>search_companies_by_criteria\<close>,
  \<open>get_recent_news\<close>), the news documents and metadata of \<open>add_news_articles\<close>,
  and the type census of \<open>get_collection_stats\<close>. The contracts the lemmas assume of
  Chroma are stated as predicates: at most \<open>n\<close> hits for \<open>n_results = n\<close>
  (\<open>retriever_contract\<close>) and a successful add appends (\<open>add_contract\<close>).
\<close>

text \<open>One stored entry: id, document text and metadata dict.\<close>

record centry =
  c_id :: pystr
  c_document :: pystr
  c_metadata :: "(pystr \<times> jval) list"

record query_result =
  qr_ids :: "pystr list list"
  qr_documents :: "pystr list list"
  qr_metadatas :: "(pystr \<times> jval) list list list"
  qr_distances :: "rat list list"

record store =
  collection :: "centry list"
  chroma_query :: "centry list \<Rightarrow> pystr \<Rightarrow> nat \<Rightarrow> (pystr \<times> jval) list option \<Rightarrow> py_error + query_result"
  chroma_add :: "centry list \<Rightarrow> centry list \<Rightarrow> py_error + centry list"

text \<open>\<open>metadata.get(key, default)\<close> on a metadata dict.\<close>

definition meta_get :: "(pystr \<times> jval) list \<Rightarrow> pystr \<Rightarrow> jval \<Rightarrow> jval" where
  "meta_get m key d = (case jlookup m key of Some v \<Rightarrow> v | None \<Rightarrow> d)"

text \<open>A formatted search hit: the dict \<open>{"document", "metadata", "distance", "id"}\<close>.\<close>

record rdoc =
  d_document :: pystr
  d_metadata :: "(pystr \<times> jval) list"
  d_distance :: "rat option"
  d_id :: pystr

text \<open>One iteration of the formatting loop, for index \<open>i\<close>.\<close>

definition format_hit :: "query_result \<Rightarrow> nat \<Rightarrow> py_error + rdoc" where
  "format_hit r i =
     ebind (ebind (py_index (qr_documents r) 0) (\<lambda>ds. py_index ds i)) (\<lambda>doc.
     ebind (ebind (py_index (qr_metadatas r) 0) (\<lambda>ms. py_index ms i)) (\<lambda>meta.
     ebind (if qr_distances r \<noteq> []
            then ebind (ebind (py_index (qr_distances r) 0) (\<lambda>ds. py_index ds i)) (\<lambda>x. Inr (Some x))
            else Inr None) (\<lambda>dist.
     ebind (ebind (py_index (qr_ids r) 0) (\<lambda>is. py_index is i)) (\<lambda>did.
       Inr \<lparr>d_document = doc, d_metadata = meta, d_distance = dist, d_id = did\<rparr>))))"

definition format_results :: "query_result \<Rightarrow> py_error + rdoc list" where
  "format_results r =
     (if qr_documents r \<noteq> [] \<and> hd (qr_documents r) \<noteq> []
      then emap (format_hit r) [0..<length (hd (qr_documents r))]
      else Inr [])"

definition search_similar ::
  "store \<Rightarrow> pystr \<Rightarrow> nat \<Rightarrow> (pystr \<times> jval) list \<Rightarrow> py_error + rdoc list" where
  "search_similar st query n_results filter_dict =
     ebind (chroma_query st (collection st) query n_results (if filter_dict \<noteq> [] then Some filter_dict else None))
           format_results"

definition search_by_sector :: "store \<Rightarrow> pystr \<Rightarrow> pystr \<Rightarrow> nat \<Rightarrow> py_error + rdoc list" where
  "search_by_sector st query sector n_results =
     search_similar st query n_results [(py ''sector'', JStr sector)]"

text \<open>
  The retriever contract of the spec: a query for \<open>n\<close> results returns lists with at
  most \<open>n\<close> hits for the one query text.
\<close>

definition retriever_contract :: "store \<Rightarrow> bool" where
  "retriever_contract st \<longleftrightarrow>
     (\<forall>c q n f r. chroma_query st c q n f = Inr r \<longrightarrow>
        (\<forall>ds\<in>set (take 1 (qr_documents r)). length ds \<le> n))"

lemma format_results_length:
  "format_results r = Inr hits \<Longrightarrow> length hits = (if qr_documents r = [] then 0 else length (hd (qr_documents r)))"
  by (auto simp: format_results_def dest: emap_Inr_length split: if_splits)

lemma search_similar_length:
  assumes "retriever_contract st" and "search_similar st q n f = Inr hits"
  shows "length hits \<le> n"
proof -
  from assms(2) obtain r where r: "chroma_query st (collection st) q n (if f \<noteq> [] then Some f else None) = Inr r"
    and h: "format_results r = Inr hits"
    by (auto simp: search_similar_def ebind_eq_Inr)
  have "qr_documents r \<noteq> [] \<Longrightarrow> length (hd (qr_documents r)) \<le> n"
    using assms(1) r by (cases "qr_documents r") (auto simp: retriever_contract_def)
  then show ?thesis using format_results_length[OF h] by (auto split: if_splits)
qed

section \<open>Search by criteria and recent news\<close>

text \<open>
  \<open>search_companies_by_criteria\<close> and \<open>get_recent_news\<close> build a \<open>where\<close>
  dict and return Chroma's raw result (the dict of nested lists, although the
  annotation says \<open>List[Dict]\<close>). Optional arguments are \<open>None\<close> or a value; a
  falsy value (empty string, zero) adds no condition.
\<close>

definition search_companies_by_criteria ::
  "store \<Rightarrow> pystr option \<Rightarrow> pystr option \<Rightarrow> int option \<Rightarrow> py_error + query_result" where
  "search_companies_by_criteria st sector risk_level min_employees =
     (let where_clause =
        [(py ''type'', JStr (py ''company''))] @
        (case sector of Some s \<Rightarrow> if s \<noteq> [] then [(py ''sector'', JStr s)] else [] | None \<Rightarrow> []) @
        (case risk_level of Some r \<Rightarrow> if r \<noteq> [] then [(py ''risk_level'', JStr r)] else [] | None \<Rightarrow> []) @
        (case min_employees of
           Some n \<Rightarrow> if n \<noteq> 0 then [(py ''employee_count'', JObj [(py ''$gte'', JNum (of_int n))])] else []
         | None \<Rightarrow> [])
      in chroma_query st (collection st) (py ''company information'') 50 (Some where_clause))"

definition get_recent_news :: "store \<Rightarrow> int \<Rightarrow> pystr option \<Rightarrow> py_error + query_result" where
  "get_recent_news st hours category =
     (let where_clause =
        [(py ''type'', JStr (py ''news''))] @
        (case category of Some c \<Rightarrow> if c \<noteq> [] then [(py ''category'', JStr c)] else [] | None \<Rightarrow> [])
      in chroma_query st (collection st) (py ''latest news updates'') 20 (Some where_clause))"

section \<open>Adding news articles\<close>

text \<open>
  \<open>_create_news_document\<close>: the parts joined by \<open>" | "\<close>; \<open>to_str\<close> is
  \<open>str()\<close> of a value that is not a string. Every normalised article has the key
  \<open>source_name\<close>, so \<open>article.get('source_name', ...)\<close> reads it; only Alpha
  Vantage articles have \<open>sentiment\<close> (and \<open>sentiment_score\<close>).
\<close>

definition news_document :: "(jval \<Rightarrow> pystr) \<Rightarrow> article \<Rightarrow> pystr" where
  "news_document to_str a =
     py_join (py '' | '')
       ([py ''Title: '' @ py_fmt to_str (a_title a),
         py ''Source: '' @ py_fmt to_str (a_source_name a),
         py ''Category: '' @ py_fmt to_str (a_category a)] @
        (if py_truthy (a_description a) then [py ''Description: '' @ py_fmt to_str (a_description a)] else []) @
        (if py_truthy (a_content a) then [py ''Content: '' @ py_fmt to_str (a_content a)] else []) @
        (if py_truthy (a_published_at a) then [py ''Published: '' @ py_fmt to_str (a_published_at a)] else []) @
        (case a_sentiment a of
           Some (label, score) \<Rightarrow>
             if py_truthy label
             then [py ''Sentiment: '' @ py_fmt to_str label @ py '' (Score: '' @ py_fmt to_str score @ py '')'']
             else []
         | None \<Rightarrow> []))"

text \<open>
  \<open>float(v)\<close>: numbers and booleans convert, a string is parsed by \<open>float_of_str\<close>
  (which raises \<open>ValueError\<close> on a malformed number), anything else raises
  \<open>TypeError\<close>.
\<close>

fun py_float :: "(pystr \<Rightarrow> py_error + rat) \<Rightarrow> jval \<Rightarrow> py_error + jval" where
  "py_float float_of_str (JNum r) = Inr (JNum r)"
| "py_float float_of_str (JBool b) = Inr (JNum (if b then 1 else 0))"
| "py_float float_of_str (JStr s) = ebind (float_of_str s) (\<lambda>r. Inr (JNum r))"
| "py_float float_of_str _ = Inl TypeError"

definition news_metadata :: "(pystr \<Rightarrow> py_error + rat) \<Rightarrow> article \<Rightarrow> py_error + (pystr \<times> jval) list" where
  "news_metadata float_of_str a =
     ebind (py_slice_head 100 (a_title a)) (\<lambda>title.
       let metadata =
         [(py ''type'', JStr (py ''news'')), (py ''source'', JStr (a_source a)), (py ''title'', title),
          (py ''category'', a_category a), (py ''published_at'', a_published_at a),
          (py ''url'', a_url a), (py ''source_name'', a_source_name a)]
       in case a_sentiment a of
            Some (label, score) \<Rightarrow>
              ebind (py_float float_of_str score) (\<lambda>f.
                Inr (metadata @ [(py ''sentiment'', label), (py ''sentiment_score'', f)]))
          | None \<Rightarrow> Inr metadata)"

text \<open>
  One iteration of the loop of \<open>add_news_articles\<close>, for the \<open>i\<close>-th article;
  \<open>uuid i\<close> is \<open>uuid.uuid4().hex\<close> drawn in that iteration.
\<close>

definition news_entry ::
  "(jval \<Rightarrow> pystr) \<Rightarrow> (pystr \<Rightarrow> py_error + rat) \<Rightarrow> (nat \<Rightarrow> pystr) \<Rightarrow> nat \<times> article \<Rightarrow> py_error + centry" where
  "news_entry to_str float_of_str uuid ia =
     (let doc_text = news_document to_str (snd ia)
      in ebind (news_metadata float_of_str (snd ia)) (\<lambda>metadata.
           Inr \<lparr>c_id = py ''news_'' @ uuid (fst ia), c_document = doc_text, c_metadata = metadata\<rparr>))"

definition add_news_articles ::
  "store \<Rightarrow> (jval \<Rightarrow> pystr) \<Rightarrow> (pystr \<Rightarrow> py_error + rat) \<Rightarrow> (nat \<Rightarrow> pystr) \<Rightarrow> article list \<Rightarrow>
   py_error + store" where
  "add_news_articles st to_str float_of_str uuid articles =
     (if articles = [] then Inr st
      else ebind (emap (news_entry to_str float_of_str uuid) (enumerate 0 articles)) (\<lambda>entries.
           ebind (chroma_add st (collection st) entries) (\<lambda>c. Inr (st\<lparr>collection := c\<rparr>))))"

text \<open>The argument \<open>hours\<close> of \<open>get_recent_news\<close> is never read.\<close>

lemma get_recent_news_hours_unused: "get_recent_news st h1 c = get_recent_news st h2 c"
  by (simp add: get_recent_news_def)

definition add_contract :: "store \<Rightarrow> bool" where
  "add_contract st \<longleftrightarrow> (\<forall>c es c'. chroma_add st c es = Inr c' \<longrightarrow> c' = c @ es)"

section \<open>Collection statistics\<close>

text \<open>
  The census loop of \<open>get_collection_stats\<close>:
  \<open>types_count[t] = types_count.get(t, 0) + 1\<close> for the type of every sampled
  metadata dict, a dict in first-seen order.
\<close>

fun count_types :: "(jval \<times> nat) list \<Rightarrow> (pystr \<times> jval) list list \<Rightarrow> (jval \<times> nat) list" where
  "count_types types_count [] = types_count"
| "count_types types_count (m # ms) =
     (let doc_type = meta_get m (py ''type'') (JStr (py ''unknown''))
      in count_types (dict_set types_count doc_type
                        ((case map_of types_count doc_type of Some c \<Rightarrow> c | None \<Rightarrow> 0) + 1)) ms)"

datatype stats = Stats nat "(jval \<times> nat) list" | StatsError py_error

definition get_collection_stats :: "store \<Rightarrow> stats" where
  "get_collection_stats st =
     (let collection_count = length (collection st)
      in case chroma_query st (collection st) (py ''sample'') (min 100 collection_count) None of
           Inl e \<Rightarrow> StatsError e
         | Inr sample \<Rightarrow>
             Stats collection_count
               (if qr_metadatas sample \<noteq> [] \<and> hd (qr_metadatas sample) \<noteq> []
                then count_types [] (hd (qr_metadatas sample)) else []))"

section \<open>Value types\<close>

text \<open>The Python type of a JSON value, as \<open>type(v)\<close> reports it.\<close>

datatype jty = TNone | TBool | TNum | TStr | TList | TDict

fun jtype :: "jval \<Rightarrow> jty" where
  "jtype JNull = TNone"
| "jtype (JBool b) = TBool"
| "jtype (JNum r) = TNum"
| "jtype (JStr s) = TStr"
| "jtype (JArr xs) = TList"
| "jtype (JObj kvs) = TDict"

section \<open>Lemmas: adding news\<close>

fun within_len :: "nat \<Rightarrow> jval \<Rightarrow> bool" where
  "within_len n (JStr s) = (length s \<le> n)"
| "within_len n (JArr xs) = (length xs \<le> n)"
| "within_len n _ = False"

lemma py_slice_head_within: "py_slice_head n v = Inr t \<Longrightarrow> within_len n t"
  by (cases v) auto

lemma news_metadata_Inr:
  assumes "news_metadata fl a = Inr m"
  shows "meta_get m (py ''type'') JNull = JStr (py ''news'') \<and>
         within_len 100 (meta_get m (py ''title'') JNull)"
proof -
  from assms obtain t where t: "py_slice_head 100 (a_title a) = Inr t"
    and m: "(let metadata =
         [(py ''type'', JStr (py ''news'')), (py ''source'', JStr (a_source a)), (py ''title'', t),
          (py ''category'', a_category a), (py ''published_at'', a_published_at a),
          (py ''url'', a_url a), (py ''source_name'', a_source_name a)]
       in case a_sentiment a of
            Some (label, score) \<Rightarrow>
              ebind (py_float fl score) (\<lambda>f.
                Inr (metadata @ [(py ''sentiment'', label), (py ''sentiment_score'', f)]))
          | None \<Rightarrow> Inr metadata) = Inr m"
    by (auto simp: news_metadata_def ebind_eq_Inr)
  have "within_len 100 t" using py_slice_head_within[OF t] .
  with m show ?thesis
    by (auto simp: Let_def meta_get_def jlookup_def pystr_simps ebind_eq_Inr split: option.splits)
qed

lemma news_entry_Inr:
  assumes "news_entry to_str fl uuid (i, a) = Inr e"
  shows "c_id e = py ''news_'' @ uuid i \<and> c_document e = news_document to_str a \<and>
         meta_get (c_metadata e) (py ''type'') JNull = JStr (py ''news'') \<and>
         within_len 100 (meta_get (c_metadata e) (py ''title'') JNull)"
  using assms news_metadata_Inr by (auto simp: news_entry_def ebind_eq_Inr Let_def)

lemma news_metadata_Inl:
  "(\<exists>e. news_metadata fl a = Inl e) \<longleftrightarrow>
     \<not> py_sliceable (a_title a) \<or> (\<exists>l sc. a_sentiment a = Some (l, sc) \<and> isl (py_float fl sc))"
  by (cases "a_title a"; cases "a_sentiment a")
     (auto simp: news_metadata_def Let_def ebind_def split: sum.splits)

lemma news_loop_Inr:
  assumes "emap (news_entry to_str fl uuid) (enumerate 0 articles) = Inr es"
  shows "map c_document es = map (news_document to_str) articles \<and>
         map c_id es = map (\<lambda>i. py ''news_'' @ uuid i) [0..<length articles] \<and>
         (\<forall>e\<in>set es. meta_get (c_metadata e) (py ''type'') JNull = JStr (py ''news'') \<and>
                     within_len 100 (meta_get (c_metadata e) (py ''title'') JNull))"
proof -
  have l: "length es = length articles" using emap_Inr_length[OF assms] by simp
  have e: "news_entry to_str fl uuid (i, articles ! i) = Inr (es ! i)" if "i < length articles" for i
    using emap_Inr_nth[OF assms, of i] that by (simp add: nth_enumerate_eq)
  have "map c_document es = map (news_document to_str) articles"
    by (rule nth_equalityI) (auto simp: l dest!: e news_entry_Inr)
  moreover have "map c_id es = map (\<lambda>i. py ''news_'' @ uuid i) [0..<length articles]"
    by (rule nth_equalityI) (auto simp: l dest!: e news_entry_Inr)
  moreover have "\<forall>e\<in>set es. meta_get (c_metadata e) (py ''type'') JNull = JStr (py ''news'') \<and>
                     within_len 100 (meta_get (c_metadata e) (py ''title'') JNull)"
    by (auto simp: in_set_conv_nth l dest!: e news_entry_Inr)
  ultimately show ?thesis by blast
qed

section \<open>Lemmas: the type census\<close>

definition type_census :: "(jval \<times> nat) list \<Rightarrow> jval multiset" where
  "type_census tc = sum_list (map (\<lambda>(t, c). replicate_mset c t) tc)"

lemma keys_dict_set:
  "map fst (dict_set tc k v) = (if k \<in> set (map fst tc) then map fst tc else map fst tc @ [k])"
  by (induction tc) force+

lemma census_dict_set:
  "distinct (map fst tc) \<Longrightarrow>
   type_census (dict_set tc k ((case map_of tc k of Some c \<Rightarrow> c | None \<Rightarrow> 0) + 1)) = type_census tc + {#k#}"
proof (induction tc)
  case Nil
  then show ?case by (simp add: type_census_def)
next
  case (Cons kv tc)
  obtain k' c' where kv: "kv = (k', c')" by (cases kv)
  show ?case
  proof (cases "k' = k")
    case True
    then show ?thesis using kv by (simp add: type_census_def)
  next
    case False
    then show ?thesis using Cons kv by (simp add: type_census_def add_ac)
  qed
qed

lemma count_types_census:
  "distinct (map fst tc) \<Longrightarrow>
   distinct (map fst (count_types tc ms)) \<and>
   type_census (count_types tc ms) =
     type_census tc + mset (map (\<lambda>m. meta_get m (py ''type'') (JStr (py ''unknown''))) ms)"
proof (induction tc ms rule: count_types.induct)
  case (1 tc)
  then show ?case by simp
next
  case (2 tc m ms)
  let ?t = "meta_get m (py ''type'') (JStr (py ''unknown''))"
  let ?tc = "dict_set tc ?t ((case map_of tc ?t of Some c \<Rightarrow> c | None \<Rightarrow> 0) + 1)"
  have d: "distinct (map fst ?tc)" using "2.prems" by (simp add: keys_dict_set)
  have "type_census ?tc = type_census tc + {#?t#}" using census_dict_set[OF "2.prems"] .
  with "2.IH"[OF refl d] show ?case by (simp add: Let_def add_ac)
qed

lemma news_entry_Inl:
  "(\<exists>e. news_entry to_str fl uuid ia = Inl e) \<longleftrightarrow> (\<exists>e. news_metadata fl (snd ia) = Inl e)"
  by (cases "news_metadata fl (snd ia)") (auto simp: news_entry_def)

lemma ex_enumerate_snd: "(\<exists>x\<in>set (enumerate n xs). P (snd x)) \<longleftrightarrow> (\<exists>a\<in>set xs. P a)"
proof -
  have "snd ` set (enumerate n xs) = set xs"
    by (metis list.set_map map_snd_enumerate)
  then show ?thesis by (metis (mono_tags, lifting) imageE image_eqI)
qed

lemma add_news_articles_Inr_append:
  assumes "add_contract st" and "add_news_articles st to_str fl uuid articles = Inr st'"
  shows "\<exists>es. st' = st\<lparr>collection := collection st @ es\<rparr>"
proof (cases "articles = []")
  case True
  then show ?thesis using assms(2) by (intro exI[of _ "[]"]) (simp add: add_news_articles_def)
next
  case False
  with assms show ?thesis by (auto simp: add_news_articles_def ebind_eq_Inr add_contract_def)
qed

section \<open>Lemmas: result formatting and metadata types\<close>

lemma emap_Inr_pointwise: "(\<And>x. x \<in> set xs \<Longrightarrow> f x = Inr (g x)) \<Longrightarrow> emap f xs = Inr (map g xs)"
  by (induction xs) auto

lemma format_hit_layout:
  assumes "i < length es" and "length ds = length es"
  shows "format_hit \<lparr>qr_ids = [map c_id es], qr_documents = [map c_document es],
                      qr_metadatas = [map c_metadata es], qr_distances = [ds]\<rparr> i =
         Inr \<lparr>d_document = c_document (es ! i), d_metadata = c_metadata (es ! i),
              d_distance = Some (ds ! i), d_id = c_id (es ! i)\<rparr>"
  using assms by (simp add: format_hit_def py_index_def)

lemma format_hit_layout_nodist:
  assumes "i < length es"
  shows "format_hit \<lparr>qr_ids = [map c_id es], qr_documents = [map c_document es],
                      qr_metadatas = [map c_metadata es], qr_distances = []\<rparr> i =
         Inr \<lparr>d_document = c_document (es ! i), d_metadata = c_metadata (es ! i),
              d_distance = None, d_id = c_id (es ! i)\<rparr>"
  using assms by (simp add: format_hit_def py_index_def)

lemma jtype_slice: "py_slice_head n v = Inr t \<Longrightarrow> jtype t = jtype v"
  by (cases v) auto

lemma jtype_py_float: "py_float fl v = Inr f \<Longrightarrow> jtype f = TNum"
  by (cases v) (auto simp: ebind_eq_Inr)

section \<open>Scenarios\<close>

text \<open>
  An in-memory collection: a query returns the first \<open>n\<close> entries at distance 0, an
  add appends.
\<close>

definition mem_store :: store where
  "mem_store =
     \<lparr>collection = [],
      chroma_query = (\<lambda>c q n f. Inr \<lparr>qr_ids = [map c_id (take n c)], qr_documents = [map c_document (take n c)],
                                     qr_metadatas = [map c_metadata (take n c)],
                                     qr_distances = [map (\<lambda>e. 0) (take n c)]\<rparr>),
      chroma_add = (\<lambda>c es. Inr (c @ es))\<rparr>"

definition vs_article :: "jval \<Rightarrow> article" where
  "vs_article title =
     \<lparr>a_source = py ''Alpha Vantage'', a_title = title, a_description = JStr (py ''Rates fall''),
      a_content = JStr [], a_url = JStr [], a_published_at = JStr (py ''20240105T101500''),
      a_source_name = JStr (py ''Reuters''), a_category = JStr (py ''market_sentiment''),
      a_sentiment = Some (JStr (py ''Bullish''), JNum (1 / 4))\<rparr>"

definition census_store :: store where
  "census_store =
     mem_store\<lparr>collection :=
       [\<lparr>c_id = py ''news_a1'', c_document = py ''Title: Rates fall'',
         c_metadata = [(py ''type'', JStr (py ''news''))]\<rparr>,
        \<lparr>c_id = py ''company_MSME001'', c_document = py ''Company: Alpha Tools'',
         c_metadata = [(py ''type'', JStr (py ''company''))]\<rparr>,
        \<lparr>c_id = py ''news_a2'', c_document = py ''Title: Mills expand'',
         c_metadata = [(py ''type'', JStr (py ''news''))]\<rparr>]\<rparr>"

lemma mem_store_add_contract: "add_contract mem_store"
  by (simp add: add_contract_def mem_store_def)

section \<open>Properties of the vector store\<close>

text \<open>C34: with a collection whose \<open>add\<close> appends, \<open>add_news_articles\<close> adds one
  entry per article, in order, each with the article's \<open>_create_news_document\<close> text,
  the id \<open>news_\<close> followed by the uuid drawn for it, metadata type \<open>news\<close> and a title
  cut to 100 characters; nothing else of the store changes, and an empty list adds
  nothing.\<close>

theorem add_news_articles_appends:
  assumes "add_contract st" and "add_news_articles st to_str fl uuid articles = Inr st'"
  shows "\<exists>es. st' = st\<lparr>collection := collection st @ es\<rparr> \<and>
           map c_document es = map (news_document to_str) articles \<and>
           map c_id es = map (\<lambda>i. py ''news_'' @ uuid i) [0..<length articles] \<and>
           (\<forall>e\<in>set es. meta_get (c_metadata e) (py ''type'') JNull = JStr (py ''news'') \<and>
                       within_len 100 (meta_get (c_metadata e) (py ''title'') JNull))"
proof (cases "articles = []")
  case True
  then show ?thesis using assms(2) by (intro exI[of _ "[]"]) (simp add: add_news_articles_def)
next
  case False
  with assms(2) obtain es c where es: "emap (news_entry to_str fl uuid) (enumerate 0 articles) = Inr es"
    and c: "chroma_add st (collection st) es = Inr c" and st': "st' = st\<lparr>collection := c\<rparr>"
    by (auto simp: add_news_articles_def ebind_eq_Inr)
  have "c = collection st @ es" using assms(1) c by (simp add: add_contract_def)
  with st' news_loop_Inr[OF es] show ?thesis by (intro exI[of _ es]) simp
qed

theorem add_news_articles_appends_witness:
  "\<exists>st'. add_news_articles mem_store (\<lambda>v. []) (\<lambda>s. Inl ValueError) (\<lambda>i. py ''9f1c'')
           [vs_article (JStr (py ''RBI holds rates''))] = Inr st' \<and>
         map c_id (collection st') = [py ''news_9f1c'']"
proof -
  have "\<exists>st'. add_news_articles mem_store (\<lambda>v. []) (\<lambda>s. Inl ValueError) (\<lambda>i. py ''9f1c'')
           [vs_article (JStr (py ''RBI holds rates''))] = Inr st'"
    by (simp add: add_news_articles_def news_entry_def news_metadata_def vs_article_def mem_store_def)
  then obtain st' where r: "add_news_articles mem_store (\<lambda>v. []) (\<lambda>s. Inl ValueError) (\<lambda>i. py ''9f1c'')
           [vs_article (JStr (py ''RBI holds rates''))] = Inr st'" by (elim exE)
  from add_news_articles_appends[OF mem_store_add_contract r] obtain es where
    "st' = mem_store\<lparr>collection := collection mem_store @ es\<rparr>"
    and "map c_id es = map (\<lambda>i. py ''news_'' @ py ''9f1c'') [0..<1]"
    by auto
  then have "map c_id (collection st') = [py ''news_9f1c'']" by (simp add: mem_store_def pystr_simps)
  with r show ?thesis by (intro exI[of _ st'] conjI)
qed

text \<open>C35: when the collection accepts every add, \<open>add_news_articles\<close> raises
  exactly when some article's title cannot be sliced (\<open>None\<close>, a number, a dict) or
  the \<open>float()\<close> of some article's sentiment score fails; one such article loses the
  whole batch, since the entries are added only after the loop.\<close>

theorem add_news_articles_raises_iff:
  assumes "\<forall>c es. \<exists>c'. chroma_add st c es = Inr c'"
  shows "(\<exists>e. add_news_articles st to_str fl uuid articles = Inl e) \<longleftrightarrow>
         (\<exists>a\<in>set articles. \<not> py_sliceable (a_title a) \<or>
                           (\<exists>l sc. a_sentiment a = Some (l, sc) \<and> isl (py_float fl sc)))"
proof (cases "articles = []")
  case True
  then show ?thesis by (simp add: add_news_articles_def)
next
  case False
  have "(\<exists>e. add_news_articles st to_str fl uuid articles = Inl e) \<longleftrightarrow>
        (\<exists>e. emap (news_entry to_str fl uuid) (enumerate 0 articles) = Inl e)"
  proof (cases "emap (news_entry to_str fl uuid) (enumerate 0 articles)")
    case (Inr es)
    obtain c' where "chroma_add st (collection st) es = Inr c'" using assms by blast
    with False Inr show ?thesis by (simp add: add_news_articles_def)
  qed (simp add: add_news_articles_def False)
  also have "\<dots> \<longleftrightarrow> (\<exists>x\<in>set (enumerate 0 articles). \<exists>e. news_metadata fl (snd x) = Inl e)"
    by (simp only: emap_isl_iff news_entry_Inl)
  also have "\<dots> \<longleftrightarrow> (\<exists>a\<in>set articles. \<exists>e. news_metadata fl a = Inl e)"
    by (rule ex_enumerate_snd)
  finally show ?thesis by (simp only: news_metadata_Inl)
qed

theorem add_news_articles_raises_iff_witness:
  "\<exists>e. add_news_articles mem_store (\<lambda>v. []) (\<lambda>s. Inl ValueError) (\<lambda>i. py ''9f1c'')
        [vs_article (JStr (py ''RBI holds rates'')), vs_article JNull] = Inl e"
proof -
  have "\<forall>c es. \<exists>c'. chroma_add mem_store c es = Inr c'" by (simp add: mem_store_def)
  from add_news_articles_raises_iff[OF this, of "\<lambda>v. []" "\<lambda>s. Inl ValueError" "\<lambda>i. py ''9f1c''"
      "[vs_article (JStr (py ''RBI holds rates'')), vs_article JNull]"]
  show ?thesis by (simp add: vs_article_def)
qed

text \<open>C36: \<open>get_collection_stats\<close> reports the size of the collection and a census
  of the sampled entries: the keys of \<open>document_types\<close> are distinct, and as a multiset
  the counts are exactly the types (\<open>"unknown"\<close> when absent) of the metadata dicts of
  the sample it drew.\<close>

theorem collection_stats_census:
  assumes "get_collection_stats st = Stats n tc"
  shows "n = length (collection st) \<and> distinct (map fst tc) \<and>
         (\<exists>sample. chroma_query st (collection st) (py ''sample'') (min 100 n) None = Inr sample \<and>
            type_census tc =
              mset (map (\<lambda>m. meta_get m (py ''type'') (JStr (py ''unknown'')))
                     (case qr_metadatas sample of [] \<Rightarrow> [] | ms # _ \<Rightarrow> ms)))"
proof -
  from assms obtain sample where
    q: "chroma_query st (collection st) (py ''sample'') (min 100 (length (collection st))) None = Inr sample"
    and n: "n = length (collection st)"
    and tc: "tc = (if qr_metadatas sample \<noteq> [] \<and> hd (qr_metadatas sample) \<noteq> []
                  then count_types [] (hd (qr_metadatas sample)) else [])"
    by (auto simp: get_collection_stats_def Let_def split: sum.splits)
  have "distinct (map fst tc) \<and>
        type_census tc = mset (map (\<lambda>m. meta_get m (py ''type'') (JStr (py ''unknown'')))
                                 (case qr_metadatas sample of [] \<Rightarrow> [] | ms # _ \<Rightarrow> ms))"
    using count_types_census[of "[]"] by (cases "qr_metadatas sample") (auto simp: tc type_census_def)
  with q n show ?thesis by blast
qed

theorem collection_stats_census_witness:
  "get_collection_stats census_store = Stats 3 [(JStr (py ''news''), 2), (JStr (py ''company''), 1)] \<and>
   type_census [(JStr (py ''news''), 2), (JStr (py ''company''), 1)] =
     {#JStr (py ''news''), JStr (py ''company''), JStr (py ''news'')#}"
proof -
  have s: "get_collection_stats census_store = Stats 3 [(JStr (py ''news''), 2), (JStr (py ''company''), 1)]"
    by (simp add: get_collection_stats_def census_store_def mem_store_def meta_get_def jlookup_def pystr_simps)
  from collection_stats_census[OF s] have
    "type_census [(JStr (py ''news''), 2), (JStr (py ''company''), 1)] =
       mset (map (\<lambda>m. meta_get m (py ''type'') (JStr (py ''unknown'')))
         [[(py ''type'', JStr (py ''news''))], [(py ''type'', JStr (py ''company''))],
          [(py ''type'', JStr (py ''news''))]])"
    by (simp add: census_store_def mem_store_def)
  with s show ?thesis by (simp add: meta_get_def jlookup_def)
qed

text \<open>C10: the formatting of \<open>search_similar\<close> loses nothing: for a Chroma result in its
  layout (one query, parallel lists of ids, documents, metadata and, when present,
  distances of the same length), the formatted hits give back exactly the stored entries,
  in order, with their distances, or \<open>None\<close> when the result has no distances.\<close>

theorem format_results_roundtrip:
  assumes "length ds = length es"
  shows "(\<exists>hits. format_results \<lparr>qr_ids = [map c_id es], qr_documents = [map c_document es],
                      qr_metadatas = [map c_metadata es], qr_distances = [ds]\<rparr> = Inr hits \<and>
            map (\<lambda>d. \<lparr>c_id = d_id d, c_document = d_document d, c_metadata = d_metadata d\<rparr>) hits = es \<and>
            map d_distance hits = map Some ds) \<and>
         (\<exists>hits. format_results \<lparr>qr_ids = [map c_id es], qr_documents = [map c_document es],
                      qr_metadatas = [map c_metadata es], qr_distances = []\<rparr> = Inr hits \<and>
            map (\<lambda>d. \<lparr>c_id = d_id d, c_document = d_document d, c_metadata = d_metadata d\<rparr>) hits = es \<and>
            map d_distance hits = replicate (length es) None)"
proof (cases "es = []")
  case True
  then show ?thesis using assms by (simp add: format_results_def)
next
  case False
  let ?h = "\<lambda>i. \<lparr>d_document = c_document (es ! i), d_metadata = c_metadata (es ! i),
                 d_distance = Some (ds ! i), d_id = c_id (es ! i)\<rparr>"
  let ?g = "\<lambda>i. \<lparr>d_document = c_document (es ! i), d_metadata = c_metadata (es ! i),
                 d_distance = None, d_id = c_id (es ! i)\<rparr>"
  have e: "map (\<lambda>i. \<lparr>c_id = c_id (es ! i), c_document = c_document (es ! i), c_metadata = c_metadata (es ! i)\<rparr>)
             [0..<length es] = es"
    by (rule nth_equalityI) simp_all
  have "format_results \<lparr>qr_ids = [map c_id es], qr_documents = [map c_document es],
          qr_metadatas = [map c_metadata es], qr_distances = [ds]\<rparr> = Inr (map ?h [0..<length es])"
    using False assms by (simp add: format_results_def) (rule emap_Inr_pointwise, simp add: format_hit_layout)
  moreover have "map d_distance (map ?h [0..<length es]) = map Some ds"
    using assms by (intro nth_equalityI) simp_all
  moreover have "format_results \<lparr>qr_ids = [map c_id es], qr_documents = [map c_document es],
          qr_metadatas = [map c_metadata es], qr_distances = []\<rparr> = Inr (map ?g [0..<length es])"
    using False by (simp add: format_results_def) (rule emap_Inr_pointwise, simp add: format_hit_layout_nodist)
  moreover have "map d_distance (map ?g [0..<length es]) = replicate (length es) None"
    by (intro nth_equalityI) simp_all
  ultimately show ?thesis using e by (auto simp: comp_def)
qed

theorem format_results_roundtrip_witness:
  "\<exists>hits. format_results \<lparr>qr_ids = [map c_id (collection census_store)],
            qr_documents = [map c_document (collection census_store)],
            qr_metadatas = [map c_metadata (collection census_store)], qr_distances = [[1/10, 2/10, 3/10]]\<rparr> =
          Inr hits \<and>
        map d_id hits = [py ''news_a1'', py ''company_MSME001'', py ''news_a2'']"
proof -
  have l: "length [1/10, 2/10, 3/10 :: rat] = length (collection census_store)"
    by (simp add: census_store_def mem_store_def)
  from format_results_roundtrip[OF l] obtain hits where
    h: "format_results \<lparr>qr_ids = [map c_id (collection census_store)],
            qr_documents = [map c_document (collection census_store)],
            qr_metadatas = [map c_metadata (collection census_store)], qr_distances = [[1/10, 2/10, 3/10]]\<rparr> =
          Inr hits"
    and m: "map (\<lambda>d. \<lparr>c_id = d_id d, c_document = d_document d, c_metadata = d_metadata d\<rparr>) hits =
            collection census_store" by blast
  from arg_cong[OF m, of "map c_id"] have "map d_id hits = map c_id (collection census_store)"
    by (simp add: comp_def)
  then have "map d_id hits = [py ''news_a1'', py ''company_MSME001'', py ''news_a2'']"
    by (simp add: census_store_def mem_store_def)
  with h show ?thesis by (intro exI[of _ hits] conjI)
qed

text \<open>C11: the metadata dict that \<open>add_news_articles\<close> stores for an article has a fixed
  schema: the seven keys in the code's order, then \<open>sentiment\<close> and
  \<open>sentiment_score\<close> exactly for articles with a sentiment; \<open>type\<close> and
  \<open>source\<close> are strings, the title keeps the Python type of the article's title, and the
  sentiment score is a number.\<close>

theorem news_metadata_schema:
  assumes "news_metadata fl a = Inr m"
  shows "map fst m =
           map py [''type'', ''source'', ''title'', ''category'', ''published_at'', ''url'', ''source_name''] @
           (case a_sentiment a of None \<Rightarrow> [] | Some ls \<Rightarrow> map py [''sentiment'', ''sentiment_score'']) \<and>
         jtype (meta_get m (py ''type'') JNull) = TStr \<and> jtype (meta_get m (py ''source'') JNull) = TStr \<and>
         jtype (meta_get m (py ''title'') JNull) = jtype (a_title a) \<and>
         (case a_sentiment a of None \<Rightarrow> True | Some ls \<Rightarrow> jtype (meta_get m (py ''sentiment_score'') JNull) = TNum)"
proof -
  from assms obtain t where t: "py_slice_head 100 (a_title a) = Inr t"
    by (auto simp: news_metadata_def ebind_eq_Inr)
  have tt: "jtype t = jtype (a_title a)" using jtype_slice[OF t] .
  show ?thesis
  proof (cases "a_sentiment a")
    case None
    with assms t have "m = [(py ''type'', JStr (py ''news'')), (py ''source'', JStr (a_source a)), (py ''title'', t),
          (py ''category'', a_category a), (py ''published_at'', a_published_at a),
          (py ''url'', a_url a), (py ''source_name'', a_source_name a)]"
      by (simp add: news_metadata_def)
    with None tt show ?thesis by (simp add: meta_get_def jlookup_def pystr_simps)
  next
    case (Some ls)
    obtain l sc where ls: "ls = (l, sc)" by (cases ls)
    from assms t Some ls obtain f where f: "py_float fl sc = Inr f"
      and m: "m = [(py ''type'', JStr (py ''news'')), (py ''source'', JStr (a_source a)), (py ''title'', t),
          (py ''category'', a_category a), (py ''published_at'', a_published_at a),
          (py ''url'', a_url a), (py ''source_name'', a_source_name a),
          (py ''sentiment'', l), (py ''sentiment_score'', f)]"
      by (auto simp: news_metadata_def ebind_eq_Inr)
    with Some tt jtype_py_float[OF f] show ?thesis by (simp add: meta_get_def jlookup_def pystr_simps)
  qed
qed

theorem news_metadata_schema_witness:
  "\<exists>m. news_metadata (\<lambda>s. Inl ValueError) (vs_article (JStr (py ''RBI holds rates''))) = Inr m \<and>
       jtype (meta_get m (py ''sentiment_score'') JNull) = TNum \<and>
       jtype (meta_get m (py ''title'') JNull) = TStr"
proof -
  have "\<exists>m. news_metadata (\<lambda>s. Inl ValueError) (vs_article (JStr (py ''RBI holds rates''))) = Inr m"
    by (simp add: news_metadata_def vs_article_def)
  then obtain m where m: "news_metadata (\<lambda>s. Inl ValueError) (vs_article (JStr (py ''RBI holds rates''))) = Inr m"
    by (elim exE)
  from news_metadata_schema[OF m] have
    "jtype (meta_get m (py ''sentiment_score'') JNull) = TNum \<and> jtype (meta_get m (py ''title'') JNull) = TStr"
    by (simp add: vs_article_def)
  with m show ?thesis by blast
qed

end
