(* ===== verification/ContextAssembler.thy ===== *)
theory ContextAssembler
  imports VectorStore NewsAggregator IntentClassifier
begin

text \<open>
  Context assembly of \<open>MSMERAGPipeline\<close> (\<open>src/script_7.py\<close>):
  \<open>_retrieve_context\<close> runs the base search, one search per detected sector and the
  financial search, and keeps the first hit of every document id, at most fifteen;
  \<open>_get_relevant_news\<close> fetches sector news (or general news when no sector was
  detected), each fetch inside \<open>try/except\<close>, at most ten articles;
  \<open>_build_context\<close> renders at most ten documents and eight articles, each truncated
  to its own cap, into one newline-joined string.
\<close>

section \<open>Retrieval\<close>

definition financial_query_suffix :: pystr where
  "financial_query_suffix = py '' financial performance metrics''"

definition retrieval_hits :: "store \<Rightarrow> pystr \<Rightarrow> query_analysis \<Rightarrow> py_error + rdoc list" where
  "retrieval_hits st q a =
     ebind (search_similar st q 8 []) (\<lambda>base.
     ebind (emap (\<lambda>sector. search_by_sector st q sector 5) (sectors a)) (\<lambda>sector_results.
     ebind (if needs_financial a \<or> query_type a = FinancialAnalysis
            then search_similar st (q @ financial_query_suffix) 5 [(py ''type'', JStr (py ''company''))]
            else Inr []) (\<lambda>financial.
       Inr (base @ concat sector_results @ financial))))"

fun dedup_ids :: "pystr set \<Rightarrow> rdoc list \<Rightarrow> rdoc list" where
  "dedup_ids seen [] = []"
| "dedup_ids seen (d # ds) =
     (if d_id d \<notin> seen then d # dedup_ids (insert (d_id d) seen) ds else dedup_ids seen ds)"

definition retrieve_context :: "store \<Rightarrow> pystr \<Rightarrow> query_analysis \<Rightarrow> py_error + rdoc list" where
  "retrieve_context st q a =
     ebind (retrieval_hits st q a) (\<lambda>context_docs. Inr (take 15 (dedup_ids {} context_docs)))"

section \<open>News for the query\<close>

text \<open>\<open>try: ... except Exception: print(...)\<close> around a fetch: an exception adds nothing.\<close>

definition caught :: "py_error + 'a list \<Rightarrow> 'a list" where
  "caught r = (case r of Inl e \<Rightarrow> [] | Inr xs \<Rightarrow> xs)"

definition get_relevant_news :: "world \<Rightarrow> api_keys \<Rightarrow> query_analysis \<Rightarrow> article list" where
  "get_relevant_news w k a =
     take 10 (concat (map (\<lambda>sector. caught (fetch_sector_news w k sector 5)) (sectors a)) @
              (if sectors a = [] then caught (fetch_all_news w k 8) else []))"

section \<open>The context string\<close>

text \<open>\<open>"\<bullet> "\<close>: the bullet U+2022 and a space.\<close>

definition bullet :: pystr where
  "bullet = [8226, 32]"

definition doc_lines :: "world \<Rightarrow> rdoc \<Rightarrow> pystr list" where
  "doc_lines w d =
     (let m = d_metadata d
      in if meta_get m (py ''type'') (JStr (py ''unknown'')) = JStr (py ''company'')
         then [bullet @ py_fmt (str_other w) (meta_get m (py ''company_name'') (JStr (py ''Unknown Company''))) @
                 py '' ('' @ py_fmt (str_other w) (meta_get m (py ''sector'') (JStr (py ''Unknown Sector''))) @
                 py ''):'',
               py ''  '' @ take 500 (d_document d) @ py ''...'']
         else [bullet @ take 300 (d_document d) @ py ''...''])"

definition article_lines :: "world \<Rightarrow> article \<Rightarrow> py_error + pystr list" where
  "article_lines w a =
     ebind (if py_truthy (a_description a)
            then ebind (py_slice_head 200 (a_description a))
                   (\<lambda>d. Inr [py ''  '' @ py_fmt (str_other w) d @ py ''...''])
            else Inr []) (\<lambda>desc.
       Inr ([bullet @ py ''['' @ a_source a @ py ''] '' @ py_fmt (str_other w) (a_title a)] @ desc @
            (case a_sentiment a of
               Some (label, score) \<Rightarrow>
                 if py_truthy label then [py ''  Sentiment: '' @ py_fmt (str_other w) label] else []
             | None \<Rightarrow> [])))"

definition docs_header :: pystr where
  "docs_header = py ''=== COMPANY AND FINANCIAL DATA ==='' "

definition news_header :: pystr where
  "news_header = 10 # py ''=== RECENT NEWS AND MARKET UPDATES ==='' "

definition build_context :: "world \<Rightarrow> rdoc list \<Rightarrow> article list \<Rightarrow> py_error + pystr" where
  "build_context w context_docs news_context =
     ebind (emap (article_lines w) (take 8 news_context)) (\<lambda>news_lines.
       Inr (py_join [10]
              ((if context_docs \<noteq> [] then docs_header # concat (map (doc_lines w) (take 10 context_docs))
                else []) @
               (if news_context \<noteq> [] then news_header # concat news_lines else []))))"

section \<open>Size of the context\<close>

text \<open>
  \<open>weight\<close> counts the code points of a list of lines and one separator per line.
\<close>


definition weight :: "pystr list \<Rightarrow> nat" where
  "weight xs = sum_list (map length xs) + length xs"

lemma weight_simps [simp]:
  "weight [] = 0" "weight (x # xs) = length x + 1 + weight xs" "weight (xs @ ys) = weight xs + weight ys"
  by (simp_all add: weight_def)

lemma length_py_join_weight: "length (py_join [c] xs) \<le> weight xs"
  by (induction "[c]" xs rule: py_join.induct) auto

lemma weight_concat_le:
  "(\<And>x. x \<in> set xs \<Longrightarrow> weight (f x) \<le> b) \<Longrightarrow> weight (concat (map f xs)) \<le> length xs * b"
proof (induction xs)
  case Nil
  then show ?case by simp
next
  case (Cons x xs)
  then have "weight (f x) \<le> b" "weight (concat (map f xs)) \<le> length xs * b" by auto
  then show ?case by simp
qed

lemma weight_concat_list_le:
  "(\<And>x. x \<in> set xss \<Longrightarrow> weight x \<le> b) \<Longrightarrow> weight (concat xss) \<le> length xss * b"
  using weight_concat_le[of xss id b] by simp

definition doc_fields_within :: "world \<Rightarrow> nat \<Rightarrow> rdoc \<Rightarrow> bool" where
  "doc_fields_within w L d \<longleftrightarrow>
     length (py_fmt (str_other w) (meta_get (d_metadata d) (py ''company_name'') (JStr (py ''Unknown Company'')))) \<le> L \<and>
     length (py_fmt (str_other w) (meta_get (d_metadata d) (py ''sector'') (JStr (py ''Unknown Sector'')))) \<le> L"

definition article_fields_within :: "world \<Rightarrow> nat \<Rightarrow> article \<Rightarrow> bool" where
  "article_fields_within w L a \<longleftrightarrow>
     length (a_source a) \<le> L \<and> length (py_fmt (str_other w) (a_title a)) \<le> L \<and>
     (py_truthy (a_description a) \<longrightarrow> is_jstr (a_description a)) \<and>
     (\<forall>l s. a_sentiment a = Some (l, s) \<longrightarrow> length (py_fmt (str_other w) l) \<le> L)"

lemma doc_lines_weight: "doc_fields_within w L d \<Longrightarrow> weight (doc_lines w d) \<le> 513 + 2 * L"
  by (auto simp: doc_lines_def doc_fields_within_def bullet_def Let_def)

lemma article_lines_weight:
  "article_fields_within w L a \<Longrightarrow> article_lines w a = Inr ls \<Longrightarrow> weight ls \<le> 226 + 3 * L"
  by (cases "a_description a") (auto simp: article_lines_def article_fields_within_def bullet_def
        ebind_eq_Inr split: option.splits if_splits)


section \<open>Retrieval: deduplication by id\<close>

lemma dedup_ids_keys:
  "map d_id (dedup_ids seen ds) = remdups_first (filter (\<lambda>i. i \<notin> seen) (map d_id ds))"
  by (induction seen ds rule: dedup_ids.induct) (auto simp: filter_filter conj_ac)

lemma dedup_ids_fresh: "x \<in> set (dedup_ids seen ds) \<Longrightarrow> d_id x \<notin> seen"
  by (induction seen ds rule: dedup_ids.induct) (auto split: if_splits)

lemma dedup_ids_first:
  "x \<in> set (dedup_ids seen ds) \<Longrightarrow> find (\<lambda>h. d_id h = d_id x) ds = Some x"
  by (induction seen ds rule: dedup_ids.induct) (auto split: if_splits dest: dedup_ids_fresh)

lemma dedup_ids_length: "length (dedup_ids seen ds) \<le> length ds"
  by (induction seen ds rule: dedup_ids.induct) auto

lemma retrieval_hits_length:
  assumes "retriever_contract st" and "retrieval_hits st q a = Inr hits"
  shows "length hits \<le> 8 + 5 * length (sectors a) +
           (if needs_financial a \<or> query_type a = FinancialAnalysis then 5 else 0)"
proof -
  from assms(2) obtain base secs fin where
    b: "search_similar st q 8 [] = Inr base" and
    s: "emap (\<lambda>sector. search_by_sector st q sector 5) (sectors a) = Inr secs" and
    f: "(if needs_financial a \<or> query_type a = FinancialAnalysis
         then search_similar st (q @ financial_query_suffix) 5 [(py ''type'', JStr (py ''company''))]
         else Inr []) = Inr fin" and
    h: "hits = base @ concat secs @ fin"
    by (auto simp: retrieval_hits_def ebind_eq_Inr)
  have "length base \<le> 8" using search_similar_length[OF assms(1) b] .
  moreover have "length fin \<le> (if needs_financial a \<or> query_type a = FinancialAnalysis then 5 else 0)"
    using f search_similar_length[OF assms(1)] by (auto split: if_splits)
  moreover have "length (concat secs) \<le> length secs * 5"
  proof -
    have "\<forall>x\<in>set secs. length x \<le> 5"
      using emap_Inr_set[OF s] search_similar_length[OF assms(1)] by (fastforce simp: search_by_sector_def)
    then show ?thesis by (induction secs) auto
  qed
  moreover have "length secs = length (sectors a)" using emap_Inr_length[OF s] .
  ultimately show ?thesis using h by simp
qed

section \<open>Context lines and errors\<close>

lemma article_lines_Inl:
  "article_lines w a = Inl e \<longleftrightarrow>
     e = TypeError \<and> py_truthy (a_description a) \<and> \<not> py_sliceable (a_description a)"
  by (cases "a_description a") (auto simp: article_lines_def split: option.splits)

lemma ebind_isl:
  "(\<exists>e. ebind m f = Inl e) \<longleftrightarrow> (\<exists>e. m = Inl e) \<or> (\<exists>x. m = Inr x \<and> (\<exists>e. f x = Inl e))"
  by (cases m) auto

section \<open>Scenarios\<close>

text \<open>
  A store whose every query returns the same two company records, cut to the number of
  results asked for, and a store that is unreachable.
\<close>

definition demo_meta :: "pystr \<Rightarrow> pystr \<Rightarrow> (pystr \<times> jval) list" where
  "demo_meta name sector =
     [(py ''type'', JStr (py ''company'')), (py ''company_name'', JStr name), (py ''sector'', JStr sector)]"

definition demo_result :: "nat \<Rightarrow> query_result" where
  "demo_result n =
     \<lparr>qr_ids = [take n [py ''company_MSME001'', py ''company_MSME002'']],
      qr_documents = [take n [py ''Company: Alpha Tools'', py ''Company: Beta Care'']],
      qr_metadatas = [take n [demo_meta (py ''Alpha Tools'') (py ''Manufacturing''),
                              demo_meta (py ''Beta Care'') (py ''Healthcare'')]],
      qr_distances = [take n [1 / 10, 2 / 10]]\<rparr>"

definition demo_store :: store where
  "demo_store = \<lparr>collection = [], chroma_query = (\<lambda>c q n f. Inr (demo_result n)),
                  chroma_add = (\<lambda>c es. Inr (c @ es))\<rparr>"

definition down_store :: store where
  "down_store = \<lparr>collection = [], chroma_query = (\<lambda>c q n f. Inl RequestError),
                  chroma_add = (\<lambda>c es. Inl RequestError)\<rparr>"

definition healthcare_analysis :: query_analysis where
  "healthcare_analysis = initial_analysis\<lparr>sectors := [py ''Healthcare'']\<rparr>"

definition demo_docs :: "rdoc list" where
  "demo_docs =
     [\<lparr>d_document = py ''Company: Alpha Tools'', d_metadata = demo_meta (py ''Alpha Tools'') (py ''Manufacturing''),
       d_distance = Some (1 / 10), d_id = py ''company_MSME001''\<rparr>]"

lemma demo_store_contract: "retriever_contract demo_store"
  by (simp add: retriever_contract_def demo_store_def demo_result_def)

lemmas context_simps = retrieve_context_def retrieval_hits_def search_similar_def
  search_by_sector_def format_results_def format_hit_def demo_store_def demo_result_def
  build_context_def article_lines_def doc_lines_def meta_get_def demo_meta_def
  docs_header_def news_header_def bullet_def jval_simps pystr_simps

section \<open>Properties of the context assembly\<close>

text \<open>C22: \<open>_retrieve_context\<close> keeps, in call order (base search, sector searches,
  financial search), the first hit of every document id and at most fifteen documents:
  its ids are the first fifteen distinct ids of all hits, and each kept document is the
  first hit with its id.\<close>

theorem retrieve_context_first_seen:
  assumes "retrieve_context st q a = Inr docs"
  shows "\<exists>hits. retrieval_hits st q a = Inr hits \<and> length docs \<le> 15 \<and> distinct (map d_id docs) \<and>
           map d_id docs = take 15 (remdups_first (map d_id hits)) \<and>
           (\<forall>d\<in>set docs. find (\<lambda>h. d_id h = d_id d) hits = Some d)"
proof -
  from assms obtain hits where h: "retrieval_hits st q a = Inr hits"
    and d: "docs = take 15 (dedup_ids {} hits)"
    by (auto simp: retrieve_context_def ebind_eq_Inr)
  have k: "map d_id docs = take 15 (remdups_first (map d_id hits))"
    using dedup_ids_keys[of "{}" hits] by (simp add: d take_map[symmetric])
  have "distinct (map d_id docs)" by (simp add: k distinct_take)
  moreover have "\<forall>d\<in>set docs. find (\<lambda>h. d_id h = d_id d) hits = Some d"
    using dedup_ids_first d by (meson in_set_takeD)
  ultimately show ?thesis using h k d by auto
qed

theorem retrieve_context_first_seen_witness:
  "\<exists>docs. retrieve_context demo_store (py ''clinic growth'') healthcare_analysis = Inr docs \<and>
          map d_id docs = [py ''company_MSME001'', py ''company_MSME002''] \<and>
          distinct (map d_id docs) \<and> length docs \<le> 15"
proof -
  have "\<exists>docs. retrieve_context demo_store (py ''clinic growth'') healthcare_analysis = Inr docs \<and>
          map d_id docs = [py ''company_MSME001'', py ''company_MSME002'']"
    by (simp add: context_simps healthcare_analysis_def initial_analysis_def)
  then obtain docs where r: "retrieve_context demo_store (py ''clinic growth'') healthcare_analysis = Inr docs"
    and i: "map d_id docs = [py ''company_MSME001'', py ''company_MSME002'']" by (elim exE conjE)
  from retrieve_context_first_seen[OF r] have d: "distinct (map d_id docs)" and l: "length docs \<le> 15"
    by blast+
  show ?thesis
    using r i d l by (intro exI[of _ docs] conjI)
qed

text \<open>C23: with a retriever that honours its contract (at most \<open>n\<close> hits for
  \<open>n_results = n\<close>), \<open>_retrieve_context\<close> returns at most fifteen documents and at most
  eight from the base search, five per detected sector and five from the financial search
  when the analysis asks for it.\<close>

theorem retrieve_context_bounded:
  assumes "retriever_contract st" and "retrieve_context st q a = Inr docs"
  shows "length docs \<le> min 15 (8 + 5 * length (sectors a) +
           (if needs_financial a \<or> query_type a = FinancialAnalysis then 5 else 0))"
proof -
  from assms(2) obtain hits where h: "retrieval_hits st q a = Inr hits"
    and d: "docs = take 15 (dedup_ids {} hits)"
    by (auto simp: retrieve_context_def ebind_eq_Inr)
  have "length (dedup_ids {} hits) \<le> length hits" by (rule dedup_ids_length)
  with retrieval_hits_length[OF assms(1) h] show ?thesis by (simp add: d)
qed

theorem retrieve_context_bounded_witness:
  "\<exists>docs. retrieve_context demo_store (py ''clinic growth'') initial_analysis = Inr docs \<and>
          length docs \<le> 8"
proof -
  have "\<exists>docs. retrieve_context demo_store (py ''clinic growth'') initial_analysis = Inr docs"
    by (simp add: context_simps initial_analysis_def)
  then obtain docs where r: "retrieve_context demo_store (py ''clinic growth'') initial_analysis = Inr docs"
    by (elim exE)
  have "length docs \<le> 8"
    using retrieve_context_bounded[OF demo_store_contract r] by (simp add: initial_analysis_def)
  then show ?thesis using r by (intro exI[of _ docs] conjI)
qed

text \<open>An exception of the vector store is not caught: \<open>_retrieve_context\<close>
  raises exactly when one of its searches raises (the base search, a sector search, or
  the financial search when the analysis asks for it), although the spec asks that an
  unreachable index degrade to an empty contribution.\<close>

theorem retrieve_context_raises_iff:
  "(\<exists>e. retrieve_context st q a = Inl e) \<longleftrightarrow>
     (\<exists>e. search_similar st q 8 [] = Inl e) \<or>
     (\<exists>s\<in>set (sectors a). \<exists>e. search_by_sector st q s 5 = Inl e) \<or>
     ((needs_financial a \<or> query_type a = FinancialAnalysis) \<and>
      (\<exists>e. search_similar st (q @ financial_query_suffix) 5 [(py ''type'', JStr (py ''company''))] = Inl e))"
proof -
  have "(\<exists>e. retrieve_context st q a = Inl e) \<longleftrightarrow> (\<exists>e. retrieval_hits st q a = Inl e)"
    by (cases "retrieval_hits st q a") (simp_all add: retrieve_context_def)
  also have "\<dots> \<longleftrightarrow> (\<exists>e. search_similar st q 8 [] = Inl e) \<or>
     (\<exists>e. emap (\<lambda>sector. search_by_sector st q sector 5) (sectors a) = Inl e) \<or>
     ((needs_financial a \<or> query_type a = FinancialAnalysis) \<and>
      (\<exists>e. search_similar st (q @ financial_query_suffix) 5 [(py ''type'', JStr (py ''company''))] = Inl e))"
    by (cases "search_similar st q 8 []"; cases "emap (\<lambda>sector. search_by_sector st q sector 5) (sectors a)")
       (auto simp: retrieval_hits_def ebind_isl)
  also have "(\<exists>e. emap (\<lambda>sector. search_by_sector st q sector 5) (sectors a) = Inl e) \<longleftrightarrow>
             (\<exists>s\<in>set (sectors a). \<exists>e. search_by_sector st q s 5 = Inl e)"
    by (rule emap_isl_iff)
  finally show ?thesis .
qed

theorem retrieve_context_raises_iff_witness:
  "\<exists>e. retrieve_context down_store (py ''clinic growth'') initial_analysis = Inl e"
  by (subst retrieve_context_raises_iff) (simp add: down_store_def search_similar_def)

text \<open>C25: \<open>_build_context\<close> raises exactly when one of the first eight articles has
  a truthy description that cannot be sliced (a number, a boolean or a dict), and the
  exception is then \<open>TypeError\<close>; documents never make it raise.\<close>

theorem build_context_raises_iff:
  "build_context w docs news = Inl e \<longleftrightarrow>
     e = TypeError \<and>
     (\<exists>a\<in>set (take 8 news). py_truthy (a_description a) \<and> \<not> py_sliceable (a_description a))"
proof -
  have b: "build_context w docs news = Inl e \<longleftrightarrow> emap (article_lines w) (take 8 news) = Inl e"
    by (cases "emap (article_lines w) (take 8 news)") (simp_all add: build_context_def)
  have same: "emap (article_lines w) (take 8 news) = Inl e' \<Longrightarrow> e' = TypeError" for e'
    by (rule emap_Inl_same[of "article_lines w"]) (auto simp: article_lines_Inl)
  show ?thesis
  proof
    assume "build_context w docs news = Inl e"
    then have m: "emap (article_lines w) (take 8 news) = Inl e" using b by simp
    then have "\<exists>e. emap (article_lines w) (take 8 news) = Inl e" by blast
    then have "\<exists>x\<in>set (take 8 news). \<exists>e. article_lines w x = Inl e" by (simp only: emap_isl_iff)
    then obtain x e0 where x: "x \<in> set (take 8 news)" and e0: "article_lines w x = Inl e0" by blast
    have "py_truthy (a_description x) \<and> \<not> py_sliceable (a_description x)"
      using e0 article_lines_Inl[of w x e0] by simp
    with x same[OF m] show "e = TypeError \<and>
      (\<exists>a\<in>set (take 8 news). py_truthy (a_description a) \<and> \<not> py_sliceable (a_description a))"
      by blast
  next
    assume r: "e = TypeError \<and>
      (\<exists>a\<in>set (take 8 news). py_truthy (a_description a) \<and> \<not> py_sliceable (a_description a))"
    then obtain a where a: "a \<in> set (take 8 news)"
      and "py_truthy (a_description a) \<and> \<not> py_sliceable (a_description a)" by blast
    then have "article_lines w a = Inl TypeError" by (simp only: article_lines_Inl simp_thms)
    from emap_Inl[of a _ "article_lines w", OF a this] obtain e' where m: "emap (article_lines w) (take 8 news) = Inl e'" by blast
    with same[OF m] r show "build_context w docs news = Inl e" using b by simp
  qed
qed

theorem build_context_raises_iff_witness:
  "build_context offline_world [] [(mk_article (JStr (py ''Mills expand'')) jempty)\<lparr>a_description := JNum 5\<rparr>] =
     Inl TypeError"
  by (subst build_context_raises_iff) (simp add: mk_article_def)

text \<open>C26: with the formatted company name, sector, source, title and sentiment label of
  every rendered item at most \<open>L\<close> code points long, and every truthy description a
  string, the context string is at most \<open>7013 + 44 L\<close> code points long: ten
  documents of at most 513 + 2L, eight articles of at most 226 + 3L, two headers and the
  separators. The code has no budget parameter; the caps are the slices \<open>[:500]\<close>,
  \<open>[:300]\<close>, \<open>[:200]\<close> and the counts \<open>[:10]\<close>, \<open>[:8]\<close>.\<close>

theorem build_context_bounded:
  assumes "\<forall>d\<in>set (take 10 docs). doc_fields_within w L d"
    and "\<forall>a\<in>set (take 8 news). article_fields_within w L a"
    and "build_context w docs news = Inr c"
  shows "length c \<le> 7013 + 44 * L"
proof -
  from assms(3) obtain nls where nls: "emap (article_lines w) (take 8 news) = Inr nls"
    and c: "c = py_join [10]
              ((if docs \<noteq> [] then docs_header # concat (map (doc_lines w) (take 10 docs)) else []) @
               (if news \<noteq> [] then news_header # concat nls else []))"
    by (auto simp: build_context_def ebind_eq_Inr)
  have "weight (concat (map (doc_lines w) (take 10 docs))) \<le> length (take 10 docs) * (513 + 2 * L)"
    using assms(1) by (intro weight_concat_le doc_lines_weight) auto
  also have "\<dots> \<le> 10 * (513 + 2 * L)" by (intro mult_right_mono) auto
  finally have dw: "weight (concat (map (doc_lines w) (take 10 docs))) \<le> 10 * (513 + 2 * L)" .
  have "weight (concat nls) \<le> length nls * (226 + 3 * L)"
  proof (rule weight_concat_list_le)
    fix x assume "x \<in> set nls"
    then obtain a where "a \<in> set (take 8 news)" "article_lines w a = Inr x"
      using emap_Inr_set[OF nls] by blast
    with assms(2) show "weight x \<le> 226 + 3 * L" by (blast intro: article_lines_weight)
  qed
  also have "\<dots> \<le> 8 * (226 + 3 * L)"
    using emap_Inr_length[OF nls] by (intro mult_right_mono) auto
  finally have nw: "weight (concat nls) \<le> 8 * (226 + 3 * L)" .
  have "length c \<le> weight ((if docs \<noteq> [] then docs_header # concat (map (doc_lines w) (take 10 docs)) else []) @
               (if news \<noteq> [] then news_header # concat nls else []))"
    unfolding c by (rule length_py_join_weight)
  also have "\<dots> \<le> 35 + 10 * (513 + 2 * L) + 40 + 8 * (226 + 3 * L)"
    using dw nw by (simp add: docs_header_def news_header_def pystr_simps)
  finally show ?thesis by simp
qed

theorem build_context_bounded_witness:
  "\<exists>c. build_context offline_world demo_docs [] = Inr c \<and> length c \<le> 7013 + 44 * 13"
proof -
  have "\<exists>c. build_context offline_world demo_docs [] = Inr c"
    by (simp add: build_context_def)
  then obtain c where r: "build_context offline_world demo_docs [] = Inr c" by (elim exE)
  have d: "\<forall>d\<in>set (take 10 demo_docs). doc_fields_within offline_world 13 d"
    by (simp add: demo_docs_def doc_fields_within_def meta_get_def demo_meta_def jval_simps pystr_simps)
  have "\<forall>a\<in>set (take 8 []). article_fields_within offline_world 13 a" by simp
  from build_context_bounded[OF d this r] show ?thesis using r by (intro exI[of _ c] conjI)
qed

text \<open>C27: when every provider raises or answers with a status other than 200, the
  news for a query is empty whatever the analysis, nothing is raised, and the context
  consists of the document part only (the empty string when no document was retrieved:
  the code adds no "no supporting data found" marker).\<close>

theorem offline_context_documents_only:
  assumes "\<forall>req. http_get w req = HttpRaise \<or> (\<exists>st b. http_get w req = HttpResponse st b \<and> st \<noteq> 200)"
  shows "get_relevant_news w k a = [] \<and>
         build_context w docs (get_relevant_news w k a) =
           Inr (py_join [10] (if docs \<noteq> [] then docs_header # concat (map (doc_lines w) (take 10 docs)) else []))"
proof -
  have "gather_sector w k s = []" "gather_all w k = []" for s
    using offline_gather_empty[OF assms] by blast+
  then have n: "get_relevant_news w k a = []"
    by (simp add: get_relevant_news_def caught_def fetch_sector_news_def filter_by_relevance_def
        fetch_all_news_def deduplicate_articles_def sort_by_published_def mixed_stamps_def
        py_sort_desc_def)
  then show ?thesis by (simp add: build_context_def)
qed

theorem offline_context_documents_only_witness:
  "get_relevant_news offline_world no_keys healthcare_analysis = [] \<and>
   build_context offline_world [] (get_relevant_news offline_world no_keys healthcare_analysis) = Inr []"
proof -
  have "\<forall>req. http_get offline_world req = HttpRaise \<or>
          (\<exists>st b. http_get offline_world req = HttpResponse st b \<and> st \<noteq> 200)"
    by (simp add: offline_world_def answer_world_def)
  from offline_context_documents_only[OF this, of no_keys healthcare_analysis "[]"] show ?thesis
    by (simp add: build_context_def)
qed

text \<open>The context has no size budget: an article whose title has \<open>B\<close> code points
  gives a context longer than \<open>B\<close>, for every \<open>B\<close>. Titles, sources and sentiment
  labels are rendered whole; only documents and descriptions are cut.\<close>

theorem context_exceeds_any_budget:
  "\<exists>c. build_context w [] [mk_article (JStr (replicate B 97)) jempty] = Inr c \<and> B < length c"
  by (simp add: build_context_def article_lines_def mk_article_def news_header_def bullet_def)

end
