(* ===== verification/Orchestrator.thy ===== *)
theory Orchestrator
  imports ContextAssembler ConversationHistory
begin

text \<open>
  The query pipeline \<open>MSMERAGPipeline\<close> of \<open>src/script_7.py\<close>: the constructor,
  \<open>process_query\<close> with \<open>_generate_response\<close>, the canned queries
  \<open>get_sector_summary\<close> and \<open>get_company_analysis\<close>, and \<open>clear_history\<close>.
  The language model is the parameter \<open>p_llm\<close> of the pipeline record: given the
  message list it returns the reply's \<open>content\<close> (\<open>Inr\<close>) or raises an exception
  whose \<open>str(e)\<close> is the \<open>Inl\<close> value. The chat input of \<open>src/app.py\<close> calls
  \<open>process_query\<close> once per prompt inside \<open>try\<close> (\<open>run_session\<close>); the lemmas
  show what a session leaves in the history, what the canned sector query asks for, how a
  failing model degrades, and that news never fails the knowledge-base initialisation.
\<close>

section \<open>The pipeline object\<close>

datatype message = SystemMessage pystr | HumanMessage pystr

record pipeline =
  p_store :: store
  p_world :: world
  p_keys :: api_keys
  p_llm :: "message list \<Rightarrow> pystr + pystr"
  conversation_history :: history

text \<open>
  \<open>__init__\<close>: \<open>if not config.OPENAI_API_KEY: raise ValueError(...)\<close>; the key is
  \<open>os.getenv(...)\<close>, \<open>None\<close> or a string. The vector store, the aggregator and the
  model client are the given collaborators; the history starts empty.
\<close>

definition init_pipeline ::
  "pystr option \<Rightarrow> store \<Rightarrow> world \<Rightarrow> api_keys \<Rightarrow> (message list \<Rightarrow> pystr + pystr) \<Rightarrow>
   py_error + pipeline" where
  "init_pipeline openai_key st w k llm =
     (if openai_key = None \<or> openai_key = Some []
      then Inl ValueError
      else Inr \<lparr>p_store = st, p_world = w, p_keys = k, p_llm = llm,
                conversation_history = new_history\<rparr>)"

definition pipeline_clear_history :: "pipeline \<Rightarrow> pipeline" where
  "pipeline_clear_history p =
     p\<lparr>conversation_history := clear_history (conversation_history p)\<rparr>"

section \<open>Generation\<close>

definition user_prompt :: "pystr \<Rightarrow> pystr \<Rightarrow> pystr" where
  "user_prompt query context =
     py ''Based on the following context about MSME companies, financial data, and market news, please answer the user's question comprehensively.\<newline>\<newline>CONTEXT:\<newline>'' @
     context @
     py ''\<newline>\<newline>USER QUESTION: '' @ query @
     py ''\<newline>\<newline>Please provide a detailed, accurate response that:\<newline>1. Directly answers the user's question\<newline>2. Uses specific data and examples from the context\<newline>3. Provides actionable insights where relevant\<newline>4. Mentions sources when citing specific information\<newline>5. Highlights any important trends or patterns\<newline>\<newline>Response:''"

text \<open>
  The message list of \<open>_generate_response\<close>: the system prompt, then the user prompt;
  when the history is not empty, \<open>messages.insert(1, ...)\<close> puts the history excerpt
  between them.
\<close>

definition response_messages :: "history \<Rightarrow> pystr \<Rightarrow> pystr \<Rightarrow> query_analysis \<Rightarrow> message list" where
  "response_messages h query context a =
     (let messages = [SystemMessage (build_system_prompt a), HumanMessage (user_prompt query context)]
      in case history_message h of
           None \<Rightarrow> messages
         | Some hm \<Rightarrow> take 1 messages @ [HumanMessage hm] @ drop 1 messages)"

definition apology :: "pystr \<Rightarrow> pystr" where
  "apology err =
     py ''I apologize, but I encountered an error while processing your request: '' @ err @
     py ''. Please try rephrasing your question.''"

definition generate_response :: "pipeline \<Rightarrow> pystr \<Rightarrow> pystr \<Rightarrow> query_analysis \<Rightarrow> pystr" where
  "generate_response p query context a =
     (case p_llm p (response_messages (conversation_history p) query context a) of
        Inr content \<Rightarrow> content
      | Inl err \<Rightarrow> apology err)"

section \<open>\<open>process_query\<close>\<close>

text \<open>
  The news of a query: \<open>[]\<close> unless \<open>include_news\<close> and \<open>_should_include_news\<close>.
  The clock reading \<open>str(pd.Timestamp.now())\<close> of the history update is the argument
  \<open>ts\<close>. The result is the response and the pipeline with its new history, or the
  exception that escapes: \<open>_retrieve_context\<close> and \<open>_build_context\<close> are not
  inside \<open>try\<close>.
\<close>

definition query_news :: "pipeline \<Rightarrow> bool \<Rightarrow> query_analysis \<Rightarrow> article list" where
  "query_news p include_news a =
     (if include_news \<and> should_include_news a then get_relevant_news (p_world p) (p_keys p) a else [])"

definition process_query :: "pipeline \<Rightarrow> pystr \<Rightarrow> bool \<Rightarrow> pystr \<Rightarrow> py_error + pystr \<times> pipeline" where
  "process_query p user_query include_news ts =
     (let query_analysis = analyze_query user_query
      in ebind (retrieve_context (p_store p) user_query query_analysis) (\<lambda>context_docs.
         let news_context = query_news p include_news query_analysis
         in ebind (build_context (p_world p) context_docs news_context) (\<lambda>full_context.
            let response = generate_response p user_query full_context query_analysis
            in Inr (response,
                    p\<lparr>conversation_history :=
                        update_conversation_history (conversation_history p) user_query response ts\<rparr>))))"

text \<open>The canned queries: the f-string of the query, then \<open>process_query(query,
  include_news=True)\<close>.\<close>

definition sector_summary_query :: "pystr \<Rightarrow> pystr" where
  "sector_summary_query sector =
     py ''Provide a comprehensive overview of '' @ sector @
     py '' sector companies, their performance, and market trends''"

definition get_sector_summary :: "pipeline \<Rightarrow> pystr \<Rightarrow> pystr \<Rightarrow> py_error + pystr \<times> pipeline" where
  "get_sector_summary p sector ts = process_query p (sector_summary_query sector) True ts"

definition company_analysis_query :: "pystr \<Rightarrow> pystr" where
  "company_analysis_query company_name =
     py ''Provide detailed analysis of '' @ company_name @
     py '' including financial performance, market position, and recent developments''"

definition get_company_analysis :: "pipeline \<Rightarrow> pystr \<Rightarrow> pystr \<Rightarrow> py_error + pystr \<times> pipeline" where
  "get_company_analysis p company_name ts = process_query p (company_analysis_query company_name) True ts"

text \<open>
  \<open>initialize_knowledge_base\<close>: \<open>load_company_data\<close> (CSV reading, the parameter
  \<open>load\<close>) outside any \<open>try\<close>, then inside \<open>try\<close> the news of
  \<open>fetch_all_news(limit=30)\<close> added to the store when there is any; an exception there
  only prints a warning. \<open>float_of_str\<close> and \<open>uuid\<close> are the runtime's
  \<open>float(str)\<close> and \<open>uuid4().hex\<close>.
\<close>

definition initialize_knowledge_base ::
  "pipeline \<Rightarrow> (store \<Rightarrow> py_error + store) \<Rightarrow> (pystr \<Rightarrow> py_error + rat) \<Rightarrow> (nat \<Rightarrow> pystr) \<Rightarrow>
   py_error + pipeline" where
  "initialize_knowledge_base p load float_of_str uuid =
     ebind (load (p_store p)) (\<lambda>st.
       let st' = (case fetch_all_news (p_world p) (p_keys p) 30 of
                    Inl e \<Rightarrow> st
                  | Inr recent_news \<Rightarrow>
                      if recent_news \<noteq> []
                      then (case add_news_articles st (str_other (p_world p)) float_of_str uuid recent_news of
                              Inr st2 \<Rightarrow> st2
                            | Inl e \<Rightarrow> st)
                      else st)
       in Inr (p\<lparr>p_store := st'\<rparr>))"

section \<open>The chat loop of the front end\<close>

text \<open>
  The chat input of \<open>src/app.py\<close>: every prompt is passed to
  \<open>process_query(prompt)\<close> inside \<open>try\<close>; an exception is shown with
  \<open>st.error\<close> and leaves the pipeline as it was. A session is a list of prompts with
  the clock readings of their history updates.
\<close>

fun run_session :: "pipeline \<Rightarrow> (pystr \<times> pystr) list \<Rightarrow> pipeline" where
  "run_session p [] = p"
| "run_session p ((prompt, ts) # qs) =
     run_session (case process_query p prompt True ts of Inr (response, p') \<Rightarrow> p' | Inl e \<Rightarrow> p) qs"

section \<open>Lemmas\<close>

lemma process_query_Inr:
  "process_query p q inc ts = Inr (r, p') \<Longrightarrow>
     p' = p\<lparr>conversation_history := update_conversation_history (conversation_history p) q r ts\<rparr>"
  by (auto simp: process_query_def Let_def ebind_eq_Inr)

lemma run_session_frame:
  "length (conversation_history p) \<le> history_cap \<Longrightarrow>
   length (conversation_history (run_session p qs)) \<le> history_cap \<and>
   p_store (run_session p qs) = p_store p \<and> p_world (run_session p qs) = p_world p \<and>
   p_keys (run_session p qs) = p_keys p \<and> p_llm (run_session p qs) = p_llm p"
proof (induction p qs rule: run_session.induct)
  case (1 p)
  then show ?case by simp
next
  case (2 p prompt ts qs)
  show ?case
  proof (cases "process_query p prompt True ts")
    case (Inl e)
    with 2 show ?thesis by simp
  next
    case (Inr rp)
    then obtain r p' where rp: "process_query p prompt True ts = Inr (r, p')" by (cases rp) auto
    have "length (conversation_history p') \<le> history_cap"
      using process_query_Inr[OF rp] by (simp add: update_conversation_history_length)
    with 2 rp show ?thesis using process_query_Inr[OF rp] by simp
  qed
qed

text \<open>Whether \<open>process_query\<close> raises does not depend on the conversation history: the
  history is only read by \<open>_generate_response\<close>, whose exceptions are caught.\<close>

lemma process_query_isl_history:
  "isl (process_query (p\<lparr>conversation_history := h\<rparr>) q inc ts) = isl (process_query p q inc ts)"
  by (simp add: process_query_def query_news_def Let_def ebind_def split: sum.split)

text \<open>A chat session from a history that holds the last ten turns of a log holds the last
  ten turns of the log extended by one turn per prompt that did not raise, in order.\<close>

lemma run_session_log:
  assumes "conversation_history p = py_tail_slice history_cap tlog"
  shows "\<exists>turns. conversation_history (run_session p qs) = py_tail_slice history_cap (tlog @ turns) \<and>
           map (\<lambda>t. (t_user t, t_timestamp t)) turns =
             filter (\<lambda>(q, ts). \<not> isl (process_query p q True ts)) qs"
  using assms
proof (induction p qs arbitrary: tlog rule: run_session.induct)
  case (1 p)
  then show ?case by (intro exI[of _ "[]"]) simp
next
  case (2 p prompt ts qs)
  show ?case
  proof (cases "process_query p prompt True ts")
    case (Inl e)
    have "\<exists>turns. conversation_history (run_session p qs) = py_tail_slice history_cap (tlog @ turns) \<and>
            map (\<lambda>t. (t_user t, t_timestamp t)) turns =
              filter (\<lambda>(q, ts). \<not> isl (process_query p q True ts)) qs"
      using "2.IH"[of tlog] Inl "2.prems" by simp
    with Inl show ?thesis by simp
  next
    case (Inr rp)
    then obtain r p' where rp: "process_query p prompt True ts = Inr (r, p')" by (cases rp) auto
    define t where "t = \<lparr>t_user = prompt, t_assistant = r, t_timestamp = ts\<rparr>"
    have p': "p' = p\<lparr>conversation_history := py_tail_slice history_cap (tlog @ [t])\<rparr>"
      using process_query_Inr[OF rp] "2.prems" update_refines_log[of tlog t] by (simp add: t_def)
    have "\<exists>turns. conversation_history (run_session p' qs) = py_tail_slice history_cap ((tlog @ [t]) @ turns) \<and>
            map (\<lambda>t. (t_user t, t_timestamp t)) turns =
              filter (\<lambda>(q, ts). \<not> isl (process_query p' q True ts)) qs"
      using "2.IH"[of "tlog @ [t]"] rp p' by simp
    then obtain turns where
      h: "conversation_history (run_session p' qs) = py_tail_slice history_cap ((tlog @ [t]) @ turns)" and
      m: "map (\<lambda>t. (t_user t, t_timestamp t)) turns = filter (\<lambda>(q, ts). \<not> isl (process_query p' q True ts)) qs"
      by blast
    have "filter (\<lambda>(q, ts). \<not> isl (process_query p' q True ts)) qs =
          filter (\<lambda>(q, ts). \<not> isl (process_query p q True ts)) qs"
      by (simp add: p' process_query_isl_history)
    with h m rp show ?thesis by (intro exI[of _ "t # turns"]) (simp add: t_def)
  qed
qed



section \<open>Scenarios\<close>

definition demo_pipeline :: "store \<Rightarrow> (message list \<Rightarrow> pystr + pystr) \<Rightarrow> pipeline" where
  "demo_pipeline st llm =
     \<lparr>p_store = st, p_world = offline_world, p_keys = no_keys, p_llm = llm, conversation_history = []\<rparr>"

definition echo_llm :: "message list \<Rightarrow> pystr + pystr" where
  "echo_llm ms = Inr (py ''ok'')"

definition failing_llm :: "message list \<Rightarrow> pystr + pystr" where
  "failing_llm ms = Inl (py ''Rate limit exceeded'')"

lemma demo_store_retrieves: "\<exists>docs. retrieve_context demo_store q a = Inr docs"
  by (simp add: context_simps emap_map_Inr)

section \<open>Properties of the pipeline\<close>

text \<open>C29: a chat session of the front end keeps the history of the pipeline it started
  with as the last ten turns of the prompts that did not raise: every prompt whose
  \<open>process_query\<close> returns is recorded once, with its clock reading, in the order of the
  session; a prompt that raises leaves no turn. Whether a prompt raises is decided on the
  pipeline the session started with.\<close>

theorem session_history_log:
  assumes "init_pipeline key st w k llm = Inr p"
  shows "\<exists>turns. conversation_history (run_session p qs) = drop (length turns - 10) turns \<and>
           map (\<lambda>t. (t_user t, t_timestamp t)) turns =
             filter (\<lambda>(q, ts). \<not> isl (process_query p q True ts)) qs"
proof -
  from assms have "conversation_history p = py_tail_slice history_cap []"
    by (auto simp: init_pipeline_def new_history_def py_tail_slice_def split: if_splits)
  from run_session_log[OF this, of qs] show ?thesis
    by (simp add: py_tail_slice_def history_cap_def)
qed

theorem session_history_log_witness:
  "\<exists>turns. conversation_history (run_session (demo_pipeline demo_store echo_llm)
             [(py ''clinic growth'', py ''t0''), (py ''textile exports'', py ''t1'')]) =
             drop (length turns - 10) turns \<and>
           map (\<lambda>t. (t_user t, t_timestamp t)) turns =
             filter (\<lambda>(q, ts). \<not> isl (process_query (demo_pipeline demo_store echo_llm) q True ts))
               [(py ''clinic growth'', py ''t0''), (py ''textile exports'', py ''t1'')]"
proof -
  have "init_pipeline (Some (py ''sk'')) demo_store offline_world no_keys echo_llm =
          Inr (demo_pipeline demo_store echo_llm)"
    by (simp add: init_pipeline_def new_history_def demo_pipeline_def pystr_simps)
  from session_history_log[OF this] show ?thesis by blast
qed



text \<open>C32: a failure of the language model does not fail the query: when retrieval and
  assembly succeed and the model raises with message \<open>err\<close>, \<open>process_query\<close>
  returns the apology that quotes \<open>err\<close> and appends that apology to the history as
  the assistant's answer.\<close>

theorem generation_failure_degrades:
  assumes "retrieve_context (p_store p) q (analyze_query q) = Inr docs"
    and "build_context (p_world p) docs (query_news p inc (analyze_query q)) = Inr c"
    and "p_llm p (response_messages (conversation_history p) q c (analyze_query q)) = Inl err"
  shows "process_query p q inc ts =
           Inr (apology err, p\<lparr>conversation_history :=
                 update_conversation_history (conversation_history p) q (apology err) ts\<rparr>)"
  using assms by (simp add: process_query_def generate_response_def Let_def)

theorem generation_failure_degrades_witness:
  "process_query (demo_pipeline demo_store failing_llm) (py ''clinic growth'') False (py ''t0'') =
     Inr (apology (py ''Rate limit exceeded''),
          (demo_pipeline demo_store failing_llm)\<lparr>conversation_history :=
             [\<lparr>t_user = py ''clinic growth'', t_assistant = apology (py ''Rate limit exceeded''),
               t_timestamp = py ''t0''\<rparr>]\<rparr>)"
proof -
  let ?p = "demo_pipeline demo_store failing_llm" and ?q = "py ''clinic growth''"
  have "\<exists>docs. retrieve_context (p_store ?p) ?q (analyze_query ?q) = Inr docs"
    by (simp add: demo_pipeline_def demo_store_retrieves)
  then obtain docs where r: "retrieve_context (p_store ?p) ?q (analyze_query ?q) = Inr docs" by (elim exE)
  have "\<exists>c. build_context (p_world ?p) docs (query_news ?p False (analyze_query ?q)) = Inr c"
    by (simp add: query_news_def build_context_def)
  then obtain c where b: "build_context (p_world ?p) docs (query_news ?p False (analyze_query ?q)) = Inr c"
    by (elim exE)
  have l: "p_llm ?p (response_messages (conversation_history ?p) ?q c (analyze_query ?q)) =
             Inl (py ''Rate limit exceeded'')"
    by (simp add: demo_pipeline_def failing_llm_def)
  from generation_failure_degrades[OF r b l, of "py ''t0''"] show ?thesis
    by (simp add: demo_pipeline_def update_conversation_history_def history_cap_def)
qed

text \<open>Over a whole chat session of the front end (each prompt processed inside
  \<open>try\<close>, an exception leaving the pipeline unchanged), the history of a pipeline that
  was constructed successfully never exceeds ten turns, and the vector store, the news
  sources, the keys and the model are never replaced.\<close>

theorem session_history_bounded:
  assumes "init_pipeline key st w k llm = Inr p"
  shows "length (conversation_history (run_session p qs)) \<le> 10 \<and>
         p_store (run_session p qs) = st \<and> p_world (run_session p qs) = w \<and>
         p_keys (run_session p qs) = k \<and> p_llm (run_session p qs) = llm"
proof -
  from assms have p: "p = \<lparr>p_store = st, p_world = w, p_keys = k, p_llm = llm,
                            conversation_history = new_history\<rparr>"
    by (simp add: init_pipeline_def split: if_splits)
  have "length (conversation_history p) \<le> history_cap" by (simp add: p new_history_def)
  from run_session_frame[OF this, of qs] show ?thesis by (simp add: p history_cap_def)
qed

theorem session_history_bounded_witness:
  "length (conversation_history (run_session
      \<lparr>p_store = down_store, p_world = offline_world, p_keys = no_keys, p_llm = echo_llm,
       conversation_history = []\<rparr> [(py ''clinic growth'', py ''t0'')])) \<le> 10"
proof -
  have "init_pipeline (Some (py ''sk'')) down_store offline_world no_keys echo_llm =
          Inr \<lparr>p_store = down_store, p_world = offline_world, p_keys = no_keys, p_llm = echo_llm,
               conversation_history = []\<rparr>"
    by (simp add: init_pipeline_def new_history_def pystr_simps)
  from session_history_bounded[OF this, of "[(py ''clinic growth'', py ''t0'')]"] show ?thesis by simp
qed

text \<open>The news step of \<open>initialize_knowledge_base\<close> only appends to the loaded
  collection, whether the fetch or the add raises or not.\<close>

lemma kb_news_appends:
  assumes "add_contract st"
  shows "\<exists>es. (case fetch_all_news w k 30 of
                Inl e \<Rightarrow> st
              | Inr recent_news \<Rightarrow>
                  if recent_news \<noteq> []
                  then (case add_news_articles st to_str fl uuid recent_news of
                          Inr st2 \<Rightarrow> st2 | Inl e \<Rightarrow> st)
                  else st) = st\<lparr>collection := collection st @ es\<rparr>"
proof -
  have add: "\<exists>es. (case add_news_articles st to_str fl uuid ns of Inr st2 \<Rightarrow> st2 | Inl e \<Rightarrow> st) =
                  st\<lparr>collection := collection st @ es\<rparr>" for ns
  proof (cases "add_news_articles st to_str fl uuid ns")
    case (Inl e)
    then show ?thesis by (intro exI[of _ "[]"]) simp
  next
    case (Inr st2)
    from add_news_articles_Inr_append[OF assms Inr] obtain es
      where "st2 = st\<lparr>collection := collection st @ es\<rparr>" by blast
    with Inr show ?thesis by auto
  qed
  then show ?thesis by (auto intro: exI[of _ "[]"] split: sum.splits)
qed

text \<open>C37: initialising the knowledge base fails only when loading the company data
  fails: news that cannot be fetched or added is skipped, and the collection is then the
  loaded one followed by the entries of the news that were added; the history and the
  collaborators are untouched.\<close>

theorem initialize_knowledge_base_tolerates_news:
  assumes "load (p_store p) = Inr st" and "add_contract st"
  shows "\<exists>p'. initialize_knowledge_base p load fl uuid = Inr p' \<and>
           (\<exists>es. p_store p' = st\<lparr>collection := collection st @ es\<rparr>) \<and>
           p' = p\<lparr>p_store := p_store p'\<rparr>"
  using kb_news_appends[OF assms(2), where w="p_world p" and k="p_keys p" and to_str="str_other (p_world p)"] assms(1)
  by (auto simp: initialize_knowledge_base_def Let_def)

theorem initialize_knowledge_base_tolerates_news_witness:
  "\<exists>p'. initialize_knowledge_base (demo_pipeline mem_store echo_llm) Inr (\<lambda>s. Inl ValueError)
          (\<lambda>i. py ''9f1c'') = Inr p' \<and>
        p' = (demo_pipeline mem_store echo_llm)\<lparr>p_store := p_store p'\<rparr>"
proof -
  have "Inr (p_store (demo_pipeline mem_store echo_llm)) = (Inr mem_store :: py_error + store)"
    by (simp add: demo_pipeline_def)
  from initialize_knowledge_base_tolerates_news[of Inr "demo_pipeline mem_store echo_llm" mem_store
      "\<lambda>s. Inl ValueError" "\<lambda>i. py ''9f1c''", OF this mem_store_add_contract]
  show ?thesis by blast
qed

end
