(* ===== verification/Pacing.thy ===== *)
theory Pacing
  imports NewsAggregator
begin

text \<open>
  The timing of the aggregator's requests (\<open>src/script_4.py\<close>): \<open>fetch_sector_news\<close>
  and \<open>fetch_all_news\<close> call the four providers one after the other, with
  \<open>time.sleep(1)\<close> after each of the first three. A fetch is its list of effects; a timed
  run assigns every request a latency (the \<open>k\<close>-th request of the run takes
  \<open>lat k\<close> milliseconds) and lets arbitrary idle time pass between fetches. The lemmas
  show the per-provider spacing this pacing gives: two requests to one provider are at
  least three seconds apart, whatever the latencies and the idle times.
\<close>

datatype provider = NewsDataIO | Finnhub | AlphaVantage | MarketAux

datatype effect = Request provider | Sleep nat | Idle nat

text \<open>The statements of \<open>fetch_sector_news\<close> that take time, in order.\<close>

definition sector_news_effects :: "effect list" where
  "sector_news_effects =
     [Request NewsDataIO, Sleep 1, Request Finnhub, Sleep 1, Request AlphaVantage, Sleep 1,
      Request MarketAux]"

definition all_news_effects :: "effect list" where
  "all_news_effects =
     [Request NewsDataIO, Sleep 1, Request Finnhub, Sleep 1, Request AlphaVantage, Sleep 1,
      Request MarketAux]"

text \<open>
  The timed run: the start time of every request, and the time at which the run ends.
  \<open>Sleep s\<close> takes \<open>s\<close> seconds and \<open>Idle d\<close> takes \<open>d\<close> milliseconds.
\<close>

fun timeline :: "(nat \<Rightarrow> nat) \<Rightarrow> nat \<Rightarrow> nat \<Rightarrow> effect list \<Rightarrow> (provider \<times> nat) list \<times> nat" where
  "timeline lat k t [] = ([], t)"
| "timeline lat k t (Request p # es) =
     (let (rs, t') = timeline lat (Suc k) (t + lat k) es in ((p, t) # rs, t'))"
| "timeline lat k t (Sleep s # es) = timeline lat k (t + 1000 * s) es"
| "timeline lat k t (Idle d # es) = timeline lat k (t + d) es"

fun n_requests :: "effect list \<Rightarrow> nat" where
  "n_requests [] = 0"
| "n_requests (Request p # es) = Suc (n_requests es)"
| "n_requests (e # es) = n_requests es"

text \<open>A sequence of fetches, the \<open>i\<close>-th after \<open>gap i\<close> milliseconds of other work.\<close>

definition fetch_session :: "(nat \<times> effect list) list \<Rightarrow> effect list" where
  "fetch_session fs = concat (map (\<lambda>(g, f). Idle g # f) fs)"

text \<open>The position of a provider in a fetch: the number of sleeps before its request.\<close>

fun slot :: "provider \<Rightarrow> nat" where
  "slot NewsDataIO = 0"
| "slot Finnhub = 1"
| "slot AlphaVantage = 2"
| "slot MarketAux = 3"

definition spaced :: "nat \<Rightarrow> (provider \<times> nat) list \<Rightarrow> bool" where
  "spaced d rs \<longleftrightarrow> sorted_wrt (\<lambda>(p, t) (p', t'). p = p' \<longrightarrow> t + d \<le> t') rs"

section \<open>Lemmas\<close>

lemma timeline_append:
  "timeline lat k t (xs @ ys) =
     (let (r1, t1) = timeline lat k t xs; (r2, t2) = timeline lat (k + n_requests xs) t1 ys
      in (r1 @ r2, t2))"
  by (induction lat k t xs rule: timeline.induct) (simp_all add: split_def Let_def)

lemma timeline_mono: "(p, s) \<in> set (fst (timeline lat k t es)) \<Longrightarrow> t \<le> s"
  by (induction lat k t es rule: timeline.induct) (force simp: split_def Let_def)+

lemma timeline_end_mono: "t \<le> snd (timeline lat k t es)"
  by (induction lat k t es rule: timeline.induct) (auto simp: split_def Let_def)

lemma fetch_timeline:
  "timeline lat k t sector_news_effects =
     ([(NewsDataIO, t), (Finnhub, t + lat k + 1000),
       (AlphaVantage, t + lat k + 1000 + lat (Suc k) + 1000),
       (MarketAux, t + lat k + 1000 + lat (Suc k) + 1000 + lat (Suc (Suc k)) + 1000)],
      t + lat k + 1000 + lat (Suc k) + 1000 + lat (Suc (Suc k)) + 1000 + lat (Suc (Suc (Suc k))))"
  by (simp add: sector_news_effects_def)

lemma fetch_slots:
  assumes "(p, s) \<in> set (fst (timeline lat k t sector_news_effects))"
  shows "t + 1000 * slot p \<le> s \<and> s + 1000 * (3 - slot p) \<le> snd (timeline lat k t sector_news_effects)"
  using assms by (auto simp: fetch_timeline)

lemma fetch_spaced: "spaced 3000 (fst (timeline lat k t sector_news_effects))"
  by (simp add: fetch_timeline spaced_def)

lemma all_news_effects_eq: "all_news_effects = sector_news_effects"
  by (simp add: all_news_effects_def sector_news_effects_def)

lemma n_requests_fetch: "n_requests sector_news_effects = 4"
  by (simp add: sector_news_effects_def)

lemma slot_le: "slot p \<le> 3"
  by (cases p) simp_all

lemma session_spaced_slots:
  assumes "\<forall>gf\<in>set fs. snd gf = sector_news_effects"
  shows "spaced 3000 (fst (timeline lat k t (fetch_session fs))) \<and>
         (\<forall>ps\<in>set (fst (timeline lat k t (fetch_session fs))). t + 1000 * slot (fst ps) \<le> snd ps)"
  using assms
proof (induction fs arbitrary: k t)
  case Nil
  then show ?case by (simp add: fetch_session_def spaced_def)
next
  case (Cons gf fs)
  obtain g f where gf: "gf = (g, f)" by (cases gf)
  with Cons.prems have f: "f = sector_news_effects" by simp
  obtain r1 t1 where r1: "timeline lat k (t + g) sector_news_effects = (r1, t1)" by (cases "timeline lat k (t + g) sector_news_effects")
  obtain r2 t2 where r2: "timeline lat (k + 4) t1 (fetch_session fs) = (r2, t2)" by (cases "timeline lat (k + 4) t1 (fetch_session fs)")
  have run: "fst (timeline lat k t (fetch_session (gf # fs))) = r1 @ r2"
    using r1 r2 by (simp add: gf f fetch_session_def timeline_append n_requests_fetch)
  have IH: "spaced 3000 r2 \<and> (\<forall>ps\<in>set r2. t1 + 1000 * slot (fst ps) \<le> snd ps)"
    using Cons.IH[of "k + 4" t1] Cons.prems r2 by simp
  have s1: "spaced 3000 r1" using fetch_spaced[of lat k "t + g"] r1 by simp
  have b1: "t + g + 1000 * slot p \<le> s \<and> s + 1000 * (3 - slot p) \<le> t1" if "(p, s) \<in> set r1" for p s
    using fetch_slots[of p s lat k "t + g"] r1 that by simp
  have cross: "s + 3000 \<le> s'" if "(p, s) \<in> set r1" "(p, s') \<in> set r2" for p s s'
  proof -
    have "s + 1000 * (3 - slot p) \<le> t1" using b1[OF that(1)] by simp
    moreover have "t1 + 1000 * slot p \<le> s'" using IH that(2) by fastforce
    ultimately show ?thesis using slot_le[of p] by simp
  qed
  have "spaced 3000 (r1 @ r2)"
    using s1 IH cross by (auto simp: spaced_def sorted_wrt_append)
  moreover have "t1 \<le> t2" using timeline_end_mono[of t1 lat "k + 4" "fetch_session fs"] r2 by simp
  moreover have "t + g \<le> t1" using timeline_end_mono[of "t + g" lat k sector_news_effects] r1 by simp
  moreover have "\<forall>ps\<in>set r1. t + 1000 * slot (fst ps) \<le> snd ps" using b1 by fastforce
  ultimately have "spaced 3000 (r1 @ r2) \<and> (\<forall>ps\<in>set (r1 @ r2). t + 1000 * slot (fst ps) \<le> snd ps)"
    using IH by fastforce
  then show ?case using run by simp
qed

section \<open>Properties of the pacing\<close>

text \<open>C38: over any sequence of \<open>fetch_sector_news\<close> and \<open>fetch_all_news\<close> calls,
  with any request latencies and any idle time between the calls, two requests to the
  same provider start at least three seconds apart: the three \<open>time.sleep(1)\<close> of a
  fetch always lie between a provider's request and its next one.\<close>

theorem same_provider_spaced:
  assumes "\<forall>gf\<in>set fs. snd gf = sector_news_effects \<or> snd gf = all_news_effects"
  shows "spaced 3000 (fst (timeline lat k t (fetch_session fs)))"
  using session_spaced_slots[of fs lat k t] assms by (simp add: all_news_effects_eq)

theorem same_provider_spaced_witness:
  "fst (fst (timeline (\<lambda>i. 200) 0 0 (fetch_session [(0, sector_news_effects), (0, all_news_effects)])) ! 2) =
     AlphaVantage \<and>
   fst (fst (timeline (\<lambda>i. 200) 0 0 (fetch_session [(0, sector_news_effects), (0, all_news_effects)])) ! 6) =
     AlphaVantage \<and>
   snd (fst (timeline (\<lambda>i. 200) 0 0 (fetch_session [(0, sector_news_effects), (0, all_news_effects)])) ! 2) + 3000 \<le>
     snd (fst (timeline (\<lambda>i. 200) 0 0 (fetch_session [(0, sector_news_effects), (0, all_news_effects)])) ! 6)"
proof -
  let ?rs = "fst (timeline (\<lambda>i. 200) 0 0 (fetch_session [(0, sector_news_effects), (0, all_news_effects)]))"
  have "spaced 3000 ?rs" by (rule same_provider_spaced) simp
  then have "\<forall>i j. i < j \<longrightarrow> j < length ?rs \<longrightarrow> fst (?rs ! i) = fst (?rs ! j) \<longrightarrow>
               snd (?rs ! i) + 3000 \<le> snd (?rs ! j)"
    by (auto simp: spaced_def sorted_wrt_iff_nth_less split_def)
  moreover have "fst (?rs ! 2) = AlphaVantage \<and> fst (?rs ! 6) = AlphaVantage \<and> 6 < length ?rs"
    by (simp add: fetch_session_def sector_news_effects_def all_news_effects_def)
  ultimately show ?thesis by auto
qed

end
