(* ===== verification/App.thy ===== *)
theory App
  imports Orchestrator
begin

text \<open>
  The session state of the Streamlit front end \<open>src/app.py\<close>. Every user action
  reruns the script; what survives a rerun is \<open>st.session_state\<close> (the record
  \<open>app_state\<close>) and the modules imported by the first run. \<open>config\<close> is imported at
  the top of the script, before the sidebar copies the typed keys into \<open>os.environ\<close>,
  so \<open>config.OPENAI_API_KEY\<close> and the provider keys are those of the process
  environment at the first import: they are fields of the record \<open>app_env\<close>, with the
  other collaborators (the persisted Chroma collection, the network, the model, the CSV
  loader, the clock). \<open>app_step\<close> runs one action; an exception that no \<open>try\<close>
  catches ends the run, leaving the session state as the run had mutated it, and is
  returned beside the state.
\<close>

record app_state =
  rag_pipeline :: "pipeline option"
  chat_history :: "(pystr \<times> pystr) list"
  knowledge_base_loaded :: bool
  latest_news :: "article list option"

record app_env =
  ae_config_key :: "pystr option"
  ae_store :: store
  ae_world :: world
  ae_keys :: api_keys
  ae_llm :: "message list \<Rightarrow> pystr + pystr"
  ae_load :: "store \<Rightarrow> py_error + store"
  ae_float :: "pystr \<Rightarrow> py_error + rat"
  ae_uuid :: "nat \<Rightarrow> pystr"
  ae_files_exist :: bool
  ae_clock :: pystr

text \<open>The actions: the sidebar button with the typed OpenAI key, a chat prompt, the three
  quick actions (by sector), the clear button and the news refresh.\<close>

datatype app_event =
    Initialize pystr
  | ChatPrompt pystr
  | QuickAction pystr pystr
  | ClearChat
  | RefreshNews

definition app_init :: app_state where
  "app_init = \<lparr>rag_pipeline = None, chat_history = [], knowledge_base_loaded = False, latest_news = None\<rparr>"

definition user_msg :: "pystr \<Rightarrow> pystr \<times> pystr" where
  "user_msg c = (py ''user'', c)"

definition assistant_msg :: "pystr \<Rightarrow> pystr \<times> pystr" where
  "assistant_msg c = (py ''assistant'', c)"

text \<open>\<open>Initialize System\<close>: runs only when the typed key is not empty; the constructor
  reads \<open>config.OPENAI_API_KEY\<close>; the pipeline is stored before the knowledge base is
  loaded, so a failing load leaves it in place.\<close>

definition app_initialize :: "app_env \<Rightarrow> app_state \<Rightarrow> pystr \<Rightarrow> app_state" where
  "app_initialize env s openai_key =
     (if openai_key = [] then s
      else case init_pipeline (ae_config_key env) (ae_store env) (ae_world env) (ae_keys env) (ae_llm env) of
             Inl e \<Rightarrow> s
           | Inr p \<Rightarrow>
               if ae_files_exist env
               then (case initialize_knowledge_base p (ae_load env) (ae_float env) (ae_uuid env) of
                       Inr p' \<Rightarrow> s\<lparr>rag_pipeline := Some p', knowledge_base_loaded := True\<rparr>
                     | Inl e \<Rightarrow> s\<lparr>rag_pipeline := Some p\<rparr>)
               else s\<lparr>rag_pipeline := Some p\<rparr>)"

text \<open>The chat input: the prompt is shown first, then \<open>process_query\<close> runs inside
  \<open>try\<close>.\<close>

definition app_chat :: "app_env \<Rightarrow> app_state \<Rightarrow> pipeline \<Rightarrow> pystr \<Rightarrow> app_state" where
  "app_chat env s p prompt =
     (if prompt = [] then s
      else let s1 = s\<lparr>chat_history := chat_history s @ [user_msg prompt]\<rparr>
           in case process_query p prompt True (ae_clock env) of
                Inr (response, p') \<Rightarrow>
                  s1\<lparr>rag_pipeline := Some p', chat_history := chat_history s1 @ [assistant_msg response]\<rparr>
              | Inl e \<Rightarrow> s1)"

text \<open>A quick action: \<open>get_sector_summary\<close> outside any \<open>try\<close>; the chat shows the
  button's label, not the query sent to the pipeline.\<close>

definition app_quick :: "app_env \<Rightarrow> app_state \<Rightarrow> pipeline \<Rightarrow> pystr \<Rightarrow> pystr \<Rightarrow> app_state \<times> py_error option" where
  "app_quick env s p sector label =
     (case get_sector_summary p sector (ae_clock env) of
        Inr (response, p') \<Rightarrow>
          (s\<lparr>rag_pipeline := Some p',
             chat_history := chat_history s @ [user_msg label, assistant_msg response]\<rparr>, None)
      | Inl e \<Rightarrow> (s, Some e))"

definition app_refresh :: "app_env \<Rightarrow> app_state \<Rightarrow> app_state" where
  "app_refresh env s =
     (case fetch_all_news (ae_world env) (ae_keys env) 20 of
        Inr all_news \<Rightarrow> if all_news \<noteq> [] then s\<lparr>latest_news := Some all_news\<rparr> else s
      | Inl e \<Rightarrow> s)"

text \<open>The chat tab and its buttons are shown only once a pipeline exists.\<close>

fun app_step :: "app_env \<Rightarrow> app_state \<Rightarrow> app_event \<Rightarrow> app_state \<times> py_error option" where
  "app_step env s (Initialize k) = (app_initialize env s k, None)"
| "app_step env s (ChatPrompt q) =
     (case rag_pipeline s of None \<Rightarrow> (s, None) | Some p \<Rightarrow> (app_chat env s p q, None))"
| "app_step env s (QuickAction sector label) =
     (case rag_pipeline s of None \<Rightarrow> (s, None) | Some p \<Rightarrow> app_quick env s p sector label)"
| "app_step env s ClearChat =
     (case rag_pipeline s of
        None \<Rightarrow> (s, None)
      | Some p \<Rightarrow> (s\<lparr>chat_history := [], rag_pipeline := Some (pipeline_clear_history p)\<rparr>, None))"
| "app_step env s RefreshNews =
     (case rag_pipeline s of None \<Rightarrow> (s, None) | Some p \<Rightarrow> (app_refresh env s, None))"

text \<open>The session states a browser session can reach.\<close>

inductive app_reach :: "app_env \<Rightarrow> app_state \<Rightarrow> bool" for env where
  start: "app_reach env app_init"
| step: "app_reach env s \<Longrightarrow> app_reach env (fst (app_step env s ev))"

definition n_role :: "pystr \<Rightarrow> (pystr \<times> pystr) list \<Rightarrow> nat" where
  "n_role r ms = length (filter (\<lambda>m. fst m = r) ms)"

section \<open>Lemmas\<close>

lemma init_pipeline_Inr_history: "init_pipeline key st w k llm = Inr p \<Longrightarrow> conversation_history p = []"
  by (auto simp: init_pipeline_def new_history_def split: if_splits)

lemma initialize_knowledge_base_history:
  "initialize_knowledge_base p load fl uuid = Inr p' \<Longrightarrow> conversation_history p' = conversation_history p"
  by (auto simp: initialize_knowledge_base_def ebind_eq_Inr Let_def)

lemma process_query_history_bounded:
  "process_query p q inc ts = Inr (r, p') \<Longrightarrow> length (conversation_history p') \<le> history_cap"
  by (drule process_query_Inr) (simp add: update_conversation_history_length)

lemma n_role_simps [simp]:
  "n_role r [] = 0" "n_role r (xs @ ys) = n_role r xs + n_role r ys"
  "n_role r (x # y # xs) = n_role r [x] + n_role r (y # xs)"
  "n_role (py ''user'') [user_msg c] = 1" "n_role (py ''assistant'') [user_msg c] = 0"
  "n_role (py ''user'') [assistant_msg c] = 0" "n_role (py ''assistant'') [assistant_msg c] = 1"
  by (simp_all add: n_role_def user_msg_def assistant_msg_def pystr_simps)

text \<open>What every reachable session state satisfies.\<close>

definition app_inv :: "app_state \<Rightarrow> bool" where
  "app_inv s \<longleftrightarrow>
     (rag_pipeline s = None \<longrightarrow> chat_history s = [] \<and> \<not> knowledge_base_loaded s) \<and>
     (\<forall>p. rag_pipeline s = Some p \<longrightarrow> length (conversation_history p) \<le> history_cap) \<and>
     n_role (py ''assistant'') (chat_history s) \<le> n_role (py ''user'') (chat_history s)"

lemma app_inv_init: "app_inv app_init"
  by (simp add: app_inv_def app_init_def)

lemma init_knowledge_base_fresh_history:
  "init_pipeline key st w k llm = Inr p \<Longrightarrow> initialize_knowledge_base p load fl uuid = Inr p' \<Longrightarrow>
   conversation_history p' = []"
  using init_pipeline_Inr_history initialize_knowledge_base_history by metis

lemma app_inv_initialize: "app_inv s \<Longrightarrow> app_inv (app_initialize env s k)"
  by (auto simp: app_initialize_def app_inv_def history_cap_def init_knowledge_base_fresh_history
        init_pipeline_Inr_history split: sum.splits)

lemma app_inv_chat: "app_inv s \<Longrightarrow> rag_pipeline s = Some p \<Longrightarrow> app_inv (app_chat env s p q)"
  by (auto simp: app_chat_def app_inv_def Let_def dest: process_query_history_bounded split: sum.splits)

lemma app_inv_quick: "app_inv s \<Longrightarrow> rag_pipeline s = Some p \<Longrightarrow> app_inv (fst (app_quick env s p sector label))"
  by (auto simp: app_quick_def app_inv_def get_sector_summary_def
        dest: process_query_history_bounded split: sum.splits)

lemma app_inv_step: "app_inv s \<Longrightarrow> app_inv (fst (app_step env s ev))"
proof (cases ev)
  case (Initialize k)
  then show "app_inv s \<Longrightarrow> ?thesis" by (simp add: app_inv_initialize)
next
  case (ChatPrompt q)
  then show "app_inv s \<Longrightarrow> ?thesis" by (auto simp: app_inv_chat split: option.splits)
next
  case (QuickAction sector label)
  then show "app_inv s \<Longrightarrow> ?thesis" by (auto simp: app_inv_quick split: option.splits)
next
  case ClearChat
  then show "app_inv s \<Longrightarrow> ?thesis"
    by (auto simp: app_inv_def pipeline_clear_history_def clear_history_def split: option.splits)
next
  case RefreshNews
  then show "app_inv s \<Longrightarrow> ?thesis"
    by (auto simp: app_inv_def app_refresh_def split: option.splits sum.splits)
qed

lemma app_chat_failure_unanswered:
  "rag_pipeline s = Some p \<Longrightarrow> q \<noteq> [] \<Longrightarrow> process_query p q True (ae_clock env) = Inl e \<Longrightarrow>
   app_step env s (ChatPrompt q) = (s\<lparr>chat_history := chat_history s @ [user_msg q]\<rparr>, None)"
  by (simp add: app_chat_def Let_def)

lemma app_quick_uncaught:
  "rag_pipeline s = Some p \<Longrightarrow> get_sector_summary p sector (ae_clock env) = Inl e \<Longrightarrow>
   app_step env s (QuickAction sector label) = (s, Some e)"
  by (simp add: app_quick_def)

section \<open>Scenarios\<close>

definition demo_env :: app_env where
  "demo_env =
     \<lparr>ae_config_key = Some (py ''sk-env''), ae_store = demo_store, ae_world = offline_world,
      ae_keys = no_keys, ae_llm = echo_llm, ae_load = Inr, ae_float = (\<lambda>s. Inl ValueError),
      ae_uuid = (\<lambda>i. py ''9f1c''), ae_files_exist = True, ae_clock = py ''t0''\<rparr>"

section \<open>Properties of the session\<close>

text \<open>C39: in every session state the front end can reach, the chat is empty and no
  knowledge base is marked loaded while no pipeline exists, the pipeline's conversation
  memory holds at most ten turns, and the chat never shows more assistant messages than
  user messages.\<close>

theorem app_session_invariant:
  assumes "app_reach env s"
  shows "(rag_pipeline s = None \<longrightarrow> chat_history s = [] \<and> \<not> knowledge_base_loaded s) \<and>
         (\<forall>p. rag_pipeline s = Some p \<longrightarrow> length (conversation_history p) \<le> 10) \<and>
         n_role (py ''assistant'') (chat_history s) \<le> n_role (py ''user'') (chat_history s)"
proof -
  from assms have "app_inv s"
    by (induction rule: app_reach.induct) (auto intro: app_inv_init app_inv_step)
  then show ?thesis by (simp add: app_inv_def history_cap_def)
qed

theorem app_session_invariant_witness:
  "rag_pipeline (fst (app_step demo_env app_init (Initialize (py ''sk-typed'')))) \<noteq> None \<and>
   length (conversation_history
     (the (rag_pipeline (fst (app_step demo_env app_init (Initialize (py ''sk-typed''))))))) \<le> 10"
proof -
  let ?s = "fst (app_step demo_env app_init (Initialize (py ''sk-typed'')))"
  have r: "app_reach demo_env ?s" by (rule app_reach.step, rule app_reach.start)
  have "\<exists>p. rag_pipeline ?s = Some p"
    by (simp add: app_initialize_def demo_env_def init_pipeline_def initialize_knowledge_base_def
        offline_world_def pystr_simps scenario_simps app_init_def)
  then obtain p where p: "rag_pipeline ?s = Some p" by (elim exE)
  from app_session_invariant[OF r] p have "length (conversation_history p) \<le> 10" by blast
  with p show ?thesis by simp
qed

text \<open>C40: the OpenAI key typed in the sidebar never reaches the pipeline: when the
  process environment had no key when \<open>config\<close> was first imported, no sequence of
  actions, whatever keys are typed, ever creates a pipeline, so the chat never opens.\<close>

theorem sidebar_key_ignored:
  assumes "ae_config_key env = None" and "app_reach env s"
  shows "rag_pipeline s = None \<and> chat_history s = []"
  using assms(2)
proof (induction rule: app_reach.induct)
  case start
  then show ?case by (simp add: app_init_def)
next
  case (step s ev)
  then show ?case
    by (cases ev) (simp_all add: app_initialize_def init_pipeline_def assms(1))
qed

theorem sidebar_key_ignored_witness:
  "rag_pipeline (fst (app_step (demo_env\<lparr>ae_config_key := None\<rparr>) app_init (Initialize (py ''sk-typed'')))) = None"
proof -
  have "app_reach (demo_env\<lparr>ae_config_key := None\<rparr>)
          (fst (app_step (demo_env\<lparr>ae_config_key := None\<rparr>) app_init (Initialize (py ''sk-typed''))))"
    by (rule app_reach.step, rule app_reach.start)
  from sidebar_key_ignored[OF _ this] show ?thesis by simp
qed

end
