(* ===== verification/CompanyData.thy ===== *)
theory CompanyData
  imports VectorStore
begin

text \<open>
  Loading the company data into the vector store (\<open>src/script_5.py\<close>:
  \<open>load_company_data\<close> and \<open>_create_company_document\<close>). A row of
  \<open>cleaned_companies.csv\<close> is a pandas \<open>Series\<close>: an association list from column
  names to cells, a cell being a string, a number, or \<open>JNull\<close> for an empty cell
  (\<open>NaN\<close>). \<open>company[col]\<close> raises \<open>KeyError\<close> for a missing column and
  \<open>company.get(col, d)\<close> gives \<open>d\<close> only then. The columns of
  \<open>cleaned_financial.csv\<close> that the code reads are numeric, so pandas reads them as
  \<open>int64\<close> (the year) and \<open>float64\<close> (the amounts, \<open>None\<close> for an empty cell);
  a financial row is the record \<open>fin_row\<close>. Float arithmetic is exact rational
  arithmetic here (the rounding of the last bit is not modelled); the conversions of the
  Python runtime are the record \<open>pyrt\<close>: \<open>str()\<close> of a non-string cell,
  \<open>format(x, '.2f')\<close> of a finite float and \<open>int()\<close> of a string.
\<close>

type_synonym row = "(pystr \<times> jval) list"

record fin_row =
  fr_company_id :: pystr
  fr_year :: int
  fr_revenue :: "rat option"
  fr_net_profit :: "rat option"
  fr_margin :: "rat option"
  fr_assets :: "rat option"
  fr_debt_equity :: "rat option"
  fr_current_ratio :: "rat option"
  fr_roa :: "rat option"

record pyrt =
  rt_str :: "jval \<Rightarrow> pystr"
  rt_fix2 :: "rat \<Rightarrow> pystr"
  rt_int_of_str :: "pystr \<Rightarrow> py_error + int"

text \<open>A float as numpy computes it: finite, infinite, or not a number.\<close>

datatype fval = Fin rat | PInf | NInf | FNaN

section \<open>Cells and formatting\<close>

text \<open>\<open>company[col]\<close> and \<open>company.get(col, d)\<close>.\<close>

definition col :: "row \<Rightarrow> pystr \<Rightarrow> py_error + jval" where
  "col r c = (case jlookup r c of Some v \<Rightarrow> Inr v | None \<Rightarrow> Inl KeyError)"

definition col_get :: "row \<Rightarrow> pystr \<Rightarrow> jval \<Rightarrow> jval" where
  "col_get r c d = (case jlookup r c of Some v \<Rightarrow> v | None \<Rightarrow> d)"

text \<open>\<open>pd.notna(company.get(col))\<close>: the column exists and the cell is not empty.\<close>

definition col_notna :: "row \<Rightarrow> pystr \<Rightarrow> bool" where
  "col_notna r c = (case jlookup r c of Some v \<Rightarrow> v \<noteq> JNull | None \<Rightarrow> False)"

text \<open>\<open>str(n)\<close> of an integer.\<close>

fun nat_str :: "nat \<Rightarrow> pystr" where
  "nat_str n = (if n < 10 then [48 + n] else nat_str (n div 10) @ [48 + n mod 10])"

declare nat_str.simps [simp del]

lemma nat_str_digit [simp]: "n < 10 \<Longrightarrow> nat_str n = [48 + n]"
  and nat_str_digits [simp]: "\<not> n < 10 \<Longrightarrow> nat_str n = nat_str (n div 10) @ [48 + n mod 10]"
  by (simp_all add: nat_str.simps)

definition int_str :: "int \<Rightarrow> pystr" where
  "int_str i = (if i < 0 then 45 # nat_str (nat (- i)) else nat_str (nat i))"

text \<open>\<open>f"{x:.2f}"\<close> of a \<open>float64\<close> cell (\<open>None\<close> is \<open>NaN\<close>) and of a computed float.\<close>

definition fmt2 :: "pyrt \<Rightarrow> rat option \<Rightarrow> pystr" where
  "fmt2 rt x = (case x of Some r \<Rightarrow> rt_fix2 rt r | None \<Rightarrow> py ''nan'')"

fun fmt2_fval :: "pyrt \<Rightarrow> fval \<Rightarrow> pystr" where
  "fmt2_fval rt (Fin r) = rt_fix2 rt r"
| "fmt2_fval rt PInf = py ''inf''"
| "fmt2_fval rt NInf = py ''-inf''"
| "fmt2_fval rt FNaN = py ''nan''"

text \<open>
  \<open>format(x, '.<d>f')\<close> of a float whose value is exactly \<open>x\<close>: round half to even
  to \<open>d\<close> decimals, a minus sign for every negative value (\<open>-0.001\<close> gives
  \<open>-0.00\<close> with \<open>.2f\<close>), no point when \<open>d = 0\<close>.
\<close>

definition round_half_even :: "rat \<Rightarrow> int" where
  "round_half_even q =
     (let f = \<lfloor>q\<rfloor>; d = q - of_int f
      in if d < 1 / 2 then f else if 1 / 2 < d then f + 1 else if even f then f else f + 1)"

definition py_fixed :: "nat \<Rightarrow> rat \<Rightarrow> pystr" where
  "py_fixed d x =
     (let n = nat (round_half_even (\<bar>x\<bar> * 10 ^ d)); ds = nat_str n;
          ds' = replicate (d + 1 - length ds) 48 @ ds
      in (if x < 0 then py ''-'' else []) @ take (length ds' - d) ds' @
         (if d = 0 then [] else py ''.'' @ drop (length ds' - d) ds'))"

text \<open>
  \<open>(latest - first) / first * 100\<close> on \<open>float64\<close> values: a \<open>NaN\<close> operand gives
  \<open>NaN\<close>, and numpy divides by zero without raising (\<open>inf\<close>, \<open>-inf\<close>, or \<open>NaN\<close> for
  \<open>0 / 0\<close>).
\<close>

fun revenue_growth :: "rat option \<Rightarrow> rat option \<Rightarrow> fval" where
  "revenue_growth (Some latest) (Some first) =
     (if first = 0 then (if latest = 0 then FNaN else if 0 < latest then PInf else NInf)
      else Fin ((latest - first) / first * 100))"
| "revenue_growth _ _ = FNaN"

text \<open>\<open>int(v)\<close> of a cell: a float is truncated toward zero, \<open>NaN\<close> raises
  \<open>ValueError\<close>.\<close>

fun py_int :: "pyrt \<Rightarrow> jval \<Rightarrow> py_error + jval" where
  "py_int rt (JNum r) = Inr (JNum (of_int (if 0 \<le> r then \<lfloor>r\<rfloor> else \<lceil>r\<rceil>)))"
| "py_int rt (JBool b) = Inr (JNum (if b then 1 else 0))"
| "py_int rt (JStr s) = ebind (rt_int_of_str rt s) (\<lambda>i. Inr (JNum (of_int i)))"
| "py_int rt JNull = Inl ValueError"
| "py_int rt _ = Inl TypeError"

text \<open>\<open>str(v)\<close> of a cell.\<close>

definition cell_str :: "pyrt \<Rightarrow> jval \<Rightarrow> jval" where
  "cell_str rt v = JStr (py_fmt (rt_str rt) v)"

section \<open>\<open>_create_company_document\<close>\<close>

text \<open>The first eleven parts: six columns read with \<open>[]\<close>, five with \<open>.get\<close>.\<close>

definition required_columns :: "(pystr \<times> pystr) list" where
  "required_columns =
     [(py ''Company: '', py ''Company_Name''), (py ''Sector: '', py ''Sector''),
      (py ''Location: '', py ''Location''), (py ''Founded: '', py ''Founded_Year''),
      (py ''Employees: '', py ''Employee_Count''), (py ''Primary Products: '', py ''Primary_Products'')]"

definition optional_columns :: "(pystr \<times> pystr) list" where
  "optional_columns =
     [(py ''Certifications: '', py ''Certifications''), (py ''Export Markets: '', py ''Export_Markets''),
      (py ''Credit Rating: '', py ''Credit_Rating''), (py ''Risk Level: '', py ''Risk_Level''),
      (py ''Market Outlook: '', py ''Market_Outlook'')]"

definition basic_parts :: "pyrt \<Rightarrow> row \<Rightarrow> py_error + pystr list" where
  "basic_parts rt company =
     ebind (emap (\<lambda>(label, c). ebind (col company c) (\<lambda>v. Inr (label @ py_fmt (rt_str rt) v)))
             required_columns) (\<lambda>req.
       Inr (req @ map (\<lambda>(label, c). label @ py_fmt (rt_str rt) (col_get company c (JStr (py ''N/A''))))
                      optional_columns))"

text \<open>
  \<open>financials['Year'].max()\<close> and \<open>financials[financials['Year'] == latest_year].iloc[0]\<close>
  for a non-empty frame: the first row of the latest year.
\<close>

definition latest_year :: "fin_row list \<Rightarrow> int" where
  "latest_year fin = Max (set (map fr_year fin))"

definition latest_row :: "fin_row list \<Rightarrow> fin_row" where
  "latest_row fin = hd (filter (\<lambda>f. fr_year f = latest_year fin) fin)"

definition rupee :: pystr where
  "rupee = [8377]"

definition financial_parts :: "pyrt \<Rightarrow> fin_row list \<Rightarrow> pystr list" where
  "financial_parts rt fin =
     (let y = int_str (latest_year fin); lf = latest_row fin
      in [py ''Latest Revenue ('' @ y @ py ''): '' @ rupee @ fmt2 rt (fr_revenue lf) @ py '' crores'',
          py ''Net Profit ('' @ y @ py ''): '' @ rupee @ fmt2 rt (fr_net_profit lf) @ py '' crores'',
          py ''Profit Margin: '' @ fmt2 rt (fr_margin lf) @ py ''%'',
          py ''Total Assets: '' @ rupee @ fmt2 rt (fr_assets lf) @ py '' crores'',
          py ''Debt-to-Equity Ratio: '' @ fmt2 rt (fr_debt_equity lf),
          py ''Current Ratio: '' @ fmt2 rt (fr_current_ratio lf),
          py ''Return on Assets: '' @ fmt2 rt (fr_roa lf) @ py ''%''] @
         (if 1 < length fin
          then [py ''Revenue Growth: '' @
                fmt2_fval rt (revenue_growth (fr_revenue lf) (fr_revenue (hd fin))) @ py ''%'']
          else []))"

definition extra_columns :: "(pystr \<times> pystr) list" where
  "extra_columns =
     [(py ''Growth Drivers: '', py ''Growth_Drivers''), (py ''Key Challenges: '', py ''Key_Challenges''),
      (py ''Digital Maturity: '', py ''Digital_Maturity_Level'')]"

definition company_doc_parts :: "pyrt \<Rightarrow> row \<Rightarrow> fin_row list \<Rightarrow> py_error + pystr list" where
  "company_doc_parts rt company financials =
     ebind (basic_parts rt company) (\<lambda>doc_parts.
       Inr (doc_parts @ (if financials \<noteq> [] then financial_parts rt financials else []) @
            map (\<lambda>(label, c). label @ py_fmt (rt_str rt) (col_get company c JNull))
                (filter (\<lambda>(label, c). col_notna company c) extra_columns)))"

definition create_company_document :: "pyrt \<Rightarrow> row \<Rightarrow> fin_row list \<Rightarrow> py_error + pystr" where
  "create_company_document rt company financials =
     ebind (company_doc_parts rt company financials) (\<lambda>doc_parts. Inr (py_join (py '' | '') doc_parts))"

section \<open>\<open>load_company_data\<close>\<close>

definition company_metadata :: "pyrt \<Rightarrow> row \<Rightarrow> jval \<Rightarrow> py_error + (pystr \<times> jval) list" where
  "company_metadata rt company company_id =
     ebind (col company (py ''Company_Name'')) (\<lambda>name.
     ebind (col company (py ''Sector'')) (\<lambda>sector.
     ebind (col company (py ''Location'')) (\<lambda>location.
     ebind (ebind (col company (py ''Founded_Year'')) (py_int rt)) (\<lambda>founded.
     ebind (ebind (col company (py ''Employee_Count'')) (py_int rt)) (\<lambda>employees.
       Inr [(py ''type'', JStr (py ''company'')), (py ''company_id'', company_id),
            (py ''company_name'', name), (py ''sector'', sector), (py ''location'', location),
            (py ''founded_year'', founded), (py ''employee_count'', employees),
            (py ''credit_rating'', cell_str rt (col_get company (py ''Credit_Rating'') (JStr (py ''N/A'')))),
            (py ''risk_level'', cell_str rt (col_get company (py ''Risk_Level'') (JStr (py ''N/A'')))),
            (py ''market_outlook'', cell_str rt (col_get company (py ''Market_Outlook'') (JStr (py ''N/A''))))])))))"

text \<open>One iteration of the loop over \<open>companies_df.iterrows()\<close>.\<close>

definition company_entry :: "pyrt \<Rightarrow> fin_row list \<Rightarrow> row \<Rightarrow> py_error + centry" where
  "company_entry rt financial_df company =
     ebind (col company (py ''Company_ID'')) (\<lambda>company_id.
       let company_financials = filter (\<lambda>f. JStr (fr_company_id f) = company_id) financial_df
       in ebind (create_company_document rt company company_financials) (\<lambda>doc_text.
          ebind (company_metadata rt company company_id) (\<lambda>metadata.
            Inr \<lparr>c_id = py ''company_'' @ py_fmt (rt_str rt) company_id, c_document = doc_text,
                 c_metadata = metadata\<rparr>)))"

definition load_company_data :: "store \<Rightarrow> pyrt \<Rightarrow> row list \<Rightarrow> fin_row list \<Rightarrow> py_error + store" where
  "load_company_data st rt companies_df financial_df =
     ebind (emap (company_entry rt financial_df) companies_df) (\<lambda>entries.
       ebind (chroma_add st (collection st) entries) (\<lambda>c. Inr (st\<lparr>collection := c\<rparr>)))"

section \<open>Cleaning the company file\<close>

text \<open>\<open>src/script_1.py\<close> writes \<open>cleaned_companies.csv\<close>: the raw rows without the
  two empty columns \<open>Unnamed: 28\<close> and \<open>Unnamed: 29\<close>
  (\<open>drop([...], axis=1, errors='ignore')\<close>: a column that is absent is skipped).\<close>

definition unnamed_columns :: "pystr list" where
  "unnamed_columns = [py ''Unnamed: 28'', py ''Unnamed: 29'']"

definition drop_columns :: "pystr list \<Rightarrow> row \<Rightarrow> row" where
  "drop_columns cols r = filter (\<lambda>kv. fst kv \<notin> set cols) r"

section \<open>Scenarios\<close>

text \<open>A runtime whose \<open>'.2f'\<close> is \<open>py_fixed 2\<close> and whose \<open>str()\<close> prints the
  integer part of a number (the \<open>int64\<close> cells), and a company with two years of
  figures, the latest listed first.\<close>

definition demo_rt :: pyrt where
  "demo_rt = \<lparr>rt_str = (\<lambda>v. case v of JNum r \<Rightarrow> int_str \<lfloor>r\<rfloor> | _ \<Rightarrow> py ''nan''),
              rt_fix2 = py_fixed 2, rt_int_of_str = (\<lambda>s. Inl ValueError)\<rparr>"

definition demo_company :: row where
  "demo_company =
     [(py ''Company_ID'', JStr (py ''MSME001'')), (py ''Company_Name'', JStr (py ''Apex Tools'')),
      (py ''Sector'', JStr (py ''Manufacturing'')), (py ''Location'', JStr (py ''Pune'')),
      (py ''Founded_Year'', JNum 2005), (py ''Employee_Count'', JNum 120),
      (py ''Primary_Products'', JStr (py ''Lathes'')), (py ''Credit_Rating'', JStr (py ''A'')),
      (py ''Growth_Drivers'', JNull)]"

definition demo_fin_row :: "int \<Rightarrow> rat \<Rightarrow> fin_row" where
  "demo_fin_row y r =
     \<lparr>fr_company_id = py ''MSME001'', fr_year = y, fr_revenue = Some r, fr_net_profit = Some 12,
      fr_margin = Some 8, fr_assets = Some 90, fr_debt_equity = Some (1/2), fr_current_ratio = Some 2,
      fr_roa = None\<rparr>"

definition demo_fin :: "fin_row list" where
  "demo_fin = [demo_fin_row 2024 150, demo_fin_row 2022 100, demo_fin_row 2024 155]"

section \<open>Lemmas: the latest financial row\<close>

lemma latest_year_ge: "f \<in> set fin \<Longrightarrow> fr_year f \<le> latest_year fin"
  by (simp add: latest_year_def)

lemma latest_year_mem: "fin \<noteq> [] \<Longrightarrow> latest_year fin \<in> fr_year ` set fin"
  unfolding latest_year_def by (metis List.finite_set Max_in image_is_empty set_empty set_map)

text \<open>\<open>iloc[0]\<close> of the rows of the latest year: an element of the frame, of the latest
  year, preceded only by rows of earlier years.\<close>

lemma hd_filter_first:
  "\<exists>x\<in>set xs. P x \<Longrightarrow>
     \<exists>i<length xs. P (xs ! i) \<and> (\<forall>j<i. \<not> P (xs ! j)) \<and> hd (filter P xs) = xs ! i"
proof (induction xs)
  case Nil
  then show ?case by simp
next
  case (Cons a xs)
  show ?case
  proof (cases "P a")
    case True
    then show ?thesis by (intro exI[of _ 0]) simp
  next
    case False
    with Cons obtain i where "i < length xs" "P (xs ! i)" "\<forall>j<i. \<not> P (xs ! j)"
      "hd (filter P xs) = xs ! i" by auto
    with False show ?thesis
      by (intro exI[of _ "Suc i"]) (auto simp: less_Suc_eq_0_disj)
  qed
qed

text \<open>\<open>iloc[0]\<close> of the rows of the latest year: an element of the frame, of the latest
  year, preceded only by rows of earlier years.\<close>

lemma latest_row_first:
  assumes "fin \<noteq> []"
  shows "\<exists>i<length fin. fin ! i = latest_row fin \<and> fr_year (fin ! i) = latest_year fin \<and>
           (\<forall>j<i. fr_year (fin ! j) < latest_year fin)"
proof -
  have "\<exists>f\<in>set fin. fr_year f = latest_year fin" using latest_year_mem[OF assms] by auto
  from hd_filter_first[OF this] obtain i where i: "i < length fin"
    "fr_year (fin ! i) = latest_year fin" "\<forall>j<i. fr_year (fin ! j) \<noteq> latest_year fin"
    "hd (filter (\<lambda>f. fr_year f = latest_year fin) fin) = fin ! i" by blast
  have "\<forall>j<i. fr_year (fin ! j) < latest_year fin"
    using i(1,3) latest_year_ge by (metis le_less nth_mem order.strict_trans)
  with i show ?thesis by (intro exI[of _ i]) (simp add: latest_row_def)
qed

lemma latest_row_in: "fin \<noteq> [] \<Longrightarrow> latest_row fin \<in> set fin"
  using latest_row_first by (metis nth_mem)

section \<open>Lemmas: the parts of a company document\<close>

lemma length_basic_parts: "basic_parts rt company = Inr bs \<Longrightarrow> length bs = 11"
  by (auto simp: basic_parts_def ebind_eq_Inr optional_columns_def required_columns_def
           dest!: emap_Inr_length)

lemma ebind_Inr_Inl_iff: "(\<exists>e. ebind m (\<lambda>x. Inr (f x)) = Inl e) \<longleftrightarrow> (\<exists>e. m = Inl e)"
  by (cases m) simp_all

lemma emap_col_Inl_iff:
  "(\<exists>e. emap (\<lambda>(label, c). ebind (col company c) (\<lambda>v. Inr (g label v))) cs = Inl e) \<longleftrightarrow>
     (\<exists>lc\<in>set cs. jlookup company (snd lc) = None)"
proof (induction cs)
  case Nil
  then show ?case by simp
next
  case (Cons lc cs)
  obtain l c where lc: "lc = (l, c)" by (cases lc)
  show ?case
  proof (cases "jlookup company c")
    case None
    then show ?thesis by (simp add: lc col_def)
  next
    case (Some v)
    then show ?thesis using Cons.IH by (simp add: lc col_def ebind_Inr_Inl_iff)
  qed
qed

lemma basic_parts_Inl_iff:
  "(\<exists>e. basic_parts rt company = Inl e) \<longleftrightarrow>
     (\<exists>lc\<in>set required_columns. jlookup company (snd lc) = None)"
  unfolding basic_parts_def ebind_Inr_Inl_iff by (rule emap_col_Inl_iff)

lemma basic_parts_Inl_KeyError: "basic_parts rt company = Inl e \<Longrightarrow> e = KeyError"
  unfolding basic_parts_def
  by (auto simp: ebind_def col_def split: sum.splits option.splits
           elim!: emap_Inl_same[rotated])

lemma length_financial_parts:
  "length (financial_parts rt fin) = 7 + (if 1 < length fin then 1 else 0)"
  by (simp add: financial_parts_def Let_def)

lemma financial_parts_revenue:
  "financial_parts rt fin ! 0 =
     py ''Latest Revenue ('' @ int_str (latest_year fin) @ py ''): '' @ rupee @
     fmt2 rt (fr_revenue (latest_row fin)) @ py '' crores''"
  by (simp add: financial_parts_def Let_def)

lemma financial_parts_growth:
  "1 < length fin \<Longrightarrow> financial_parts rt fin ! 7 =
     py ''Revenue Growth: '' @
     fmt2_fval rt (revenue_growth (fr_revenue (latest_row fin)) (fr_revenue (hd fin))) @ py ''%''"
  by (simp add: financial_parts_def Let_def)

lemma company_doc_parts_eq:
  "company_doc_parts rt company fin = Inr parts \<longleftrightarrow>
     (\<exists>bs. basic_parts rt company = Inr bs \<and>
        parts = bs @ (if fin \<noteq> [] then financial_parts rt fin else []) @
          map (\<lambda>(label, c). label @ py_fmt (rt_str rt) (col_get company c JNull))
              (filter (\<lambda>(label, c). col_notna company c) extra_columns))"
  by (auto simp: company_doc_parts_def ebind_eq_Inr)

section \<open>Lemmas: loading the companies\<close>

lemma company_metadata_Inl_iff:
  "(\<exists>e. company_metadata rt company cid = Inl e) \<longleftrightarrow>
     (\<exists>c\<in>{py ''Company_Name'', py ''Sector'', py ''Location'', py ''Founded_Year'', py ''Employee_Count''}.
        jlookup company c = None) \<or>
     (\<exists>v. jlookup company (py ''Founded_Year'') = Some v \<and> isl (py_int rt v)) \<or>
     (\<exists>v. jlookup company (py ''Employee_Count'') = Some v \<and> isl (py_int rt v))"
  by (auto simp: company_metadata_def col_def ebind_def split: option.splits sum.splits)

lemma company_metadata_Inr:
  "company_metadata rt company cid = Inr m \<Longrightarrow>
     \<exists>name sector location founded employees.
       m = [(py ''type'', JStr (py ''company'')), (py ''company_id'', cid),
            (py ''company_name'', name), (py ''sector'', sector), (py ''location'', location),
            (py ''founded_year'', founded), (py ''employee_count'', employees),
            (py ''credit_rating'', cell_str rt (col_get company (py ''Credit_Rating'') (JStr (py ''N/A'')))),
            (py ''risk_level'', cell_str rt (col_get company (py ''Risk_Level'') (JStr (py ''N/A'')))),
            (py ''market_outlook'', cell_str rt (col_get company (py ''Market_Outlook'') (JStr (py ''N/A''))))]"
  unfolding company_metadata_def by (auto simp: ebind_eq_Inr)

lemma company_metadata_type:
  "company_metadata rt company cid = Inr m \<Longrightarrow>
     meta_get m (py ''type'') JNull = JStr (py ''company'') \<and> meta_get m (py ''company_id'') JNull = cid"
  by (drule company_metadata_Inr) (auto simp: meta_get_def jlookup_def pystr_simps)

lemma company_entry_Inr:
  "company_entry rt fin company = Inr e \<longleftrightarrow>
     (\<exists>cid. jlookup company (py ''Company_ID'') = Some cid \<and>
        c_id e = py ''company_'' @ py_fmt (rt_str rt) cid \<and>
        create_company_document rt company (filter (\<lambda>f. JStr (fr_company_id f) = cid) fin) =
          Inr (c_document e) \<and>
        company_metadata rt company cid = Inr (c_metadata e))"
  by (cases e) (auto simp: company_entry_def col_def ebind_eq_Inr Let_def split: option.splits)

lemma company_doc_Inl_iff:
  "(\<exists>e. create_company_document rt company fin = Inl e) \<longleftrightarrow>
     (\<exists>lc\<in>set required_columns. jlookup company (snd lc) = None)"
  unfolding create_company_document_def company_doc_parts_def ebind_Inr_Inl_iff ebind_Inr_Inl_iff
  by (rule basic_parts_Inl_iff)

text \<open>
  A company row makes the loop raise exactly when it has no \<open>Company_ID\<close>, lacks
  one of the six columns read with \<open>[]\<close>, or has a founding year or an employee count
  that \<open>int()\<close> rejects (an empty cell, \<open>NaN\<close>, among them).
\<close>

lemma company_entry_Inl_iff:
  "(\<exists>e. company_entry rt fin company = Inl e) \<longleftrightarrow>
     jlookup company (py ''Company_ID'') = None \<or>
     (\<exists>lc\<in>set required_columns. jlookup company (snd lc) = None) \<or>
     (\<exists>v. jlookup company (py ''Founded_Year'') = Some v \<and> isl (py_int rt v)) \<or>
     (\<exists>v. jlookup company (py ''Employee_Count'') = Some v \<and> isl (py_int rt v))"
proof (cases "jlookup company (py ''Company_ID'')")
  case None
  then show ?thesis by (simp add: company_entry_def col_def)
next
  case (Some cid)
  let ?fin = "filter (\<lambda>f. JStr (fr_company_id f) = cid) fin"
  have "(\<exists>e. company_entry rt fin company = Inl e) \<longleftrightarrow>
        (\<exists>e. create_company_document rt company ?fin = Inl e) \<or>
        (\<exists>e. company_metadata rt company cid = Inl e)"
    using Some by (auto simp: company_entry_def col_def ebind_def split: sum.splits)
  also have "\<dots> \<longleftrightarrow> (\<exists>lc\<in>set required_columns. jlookup company (snd lc) = None) \<or>
        (\<exists>v. jlookup company (py ''Founded_Year'') = Some v \<and> isl (py_int rt v)) \<or>
        (\<exists>v. jlookup company (py ''Employee_Count'') = Some v \<and> isl (py_int rt v))"
    unfolding company_doc_Inl_iff company_metadata_Inl_iff
    by (auto simp: required_columns_def)
  finally show ?thesis using Some by simp
qed

lemma emap_Inr_iff_nth:
  "emap f xs = Inr ys \<longleftrightarrow> length ys = length xs \<and> (\<forall>i<length xs. f (xs ! i) = Inr (ys ! i))"
proof (induction xs arbitrary: ys)
  case Nil
  then show ?case by auto
next
  case (Cons x xs)
  then show ?case
    by (cases ys) (auto simp: ebind_eq_Inr nth_Cons split: nat.splits)
qed

text \<open>
  When the collection accepts every add, \<open>load_company_data\<close> raises exactly when
  some company row makes its loop body raise; one such row loses every company, since
  the entries are added only after the loop.
\<close>

lemma load_company_data_raises_iff:
  assumes "\<forall>c es. \<exists>c'. chroma_add st c es = Inr c'"
  shows "(\<exists>e. load_company_data st rt companies fin = Inl e) \<longleftrightarrow>
         (\<exists>company\<in>set companies.
            jlookup company (py ''Company_ID'') = None \<or>
            (\<exists>lc\<in>set required_columns. jlookup company (snd lc) = None) \<or>
            (\<exists>v. jlookup company (py ''Founded_Year'') = Some v \<and> isl (py_int rt v)) \<or>
            (\<exists>v. jlookup company (py ''Employee_Count'') = Some v \<and> isl (py_int rt v)))"
proof -
  have "(\<exists>e. load_company_data st rt companies fin = Inl e) \<longleftrightarrow>
        (\<exists>e. emap (company_entry rt fin) companies = Inl e)"
  proof (cases "emap (company_entry rt fin) companies")
    case (Inr es)
    obtain c' where "chroma_add st (collection st) es = Inr c'" using assms by blast
    with Inr show ?thesis by (simp add: load_company_data_def)
  qed (simp add: load_company_data_def)
  then show ?thesis by (simp only: emap_isl_iff company_entry_Inl_iff)
qed

lemma load_company_data_Inr:
  assumes "add_contract st" and "load_company_data st rt companies fin = Inr st'"
  shows "\<exists>es. emap (company_entry rt fin) companies = Inr es \<and>
           st' = st\<lparr>collection := collection st @ es\<rparr>"
proof -
  from assms(2) obtain es c where es: "emap (company_entry rt fin) companies = Inr es"
    and c: "chroma_add st (collection st) es = Inr c" and st': "st' = st\<lparr>collection := c\<rparr>"
    by (auto simp: load_company_data_def ebind_eq_Inr)
  have "c = collection st @ es" using assms(1) c by (simp add: add_contract_def)
  with es st' show ?thesis by blast
qed

lemma add_contract_collection [simp]: "add_contract (st\<lparr>collection := c\<rparr>) = add_contract st"
  by (simp add: add_contract_def)

section \<open>Lemmas: cleaning\<close>

lemma jlookup_drop_columns: "c \<notin> set cols \<Longrightarrow> jlookup (drop_columns cols r) c = jlookup r c"
  by (induction r rule: rev_induct) (auto simp: drop_columns_def jlookup_def)

lemma col_drop [simp]: "c \<notin> set cols \<Longrightarrow> col (drop_columns cols r) c = col r c"
  and col_get_drop [simp]: "c \<notin> set cols \<Longrightarrow> col_get (drop_columns cols r) c d = col_get r c d"
  and col_notna_drop [simp]: "c \<notin> set cols \<Longrightarrow> col_notna (drop_columns cols r) c = col_notna r c"
  by (simp_all add: col_def col_get_def col_notna_def jlookup_drop_columns)

lemma company_entry_drop_unnamed:
  "company_entry rt fin (drop_columns unnamed_columns r) = company_entry rt fin r"
  by (simp add: company_entry_def create_company_document_def company_doc_parts_def basic_parts_def
      required_columns_def optional_columns_def extra_columns_def company_metadata_def unnamed_columns_def
      pystr_simps)

text \<open>The cleaning of \<open>script_1.py\<close> changes nothing the loader reads: loading the cleaned
  rows gives what loading the raw rows gives, errors included.\<close>

lemma load_company_data_cleaned:
  "load_company_data st rt (map (drop_columns unnamed_columns) companies_df) financial_df =
   load_company_data st rt companies_df financial_df"
proof -
  have "emap (company_entry rt financial_df) (map (drop_columns unnamed_columns) companies_df) =
        emap (company_entry rt financial_df) companies_df"
    by (induction companies_df) (simp_all add: company_entry_drop_unnamed)
  then show ?thesis by (simp add: load_company_data_def)
qed

section \<open>Properties of the company loader\<close>

text \<open>C17: for a company with financial rows, the document's twelfth part reports the
  revenue of \<open>latest_row\<close>, the first row (in file order) of the latest year, and
  with more than one row the nineteenth part reports the growth from the first row in
  file order (\<open>iloc[0]\<close>, not the earliest year) to that row; the document has
  eleven basic parts, seven financial ones, the growth part only with two or more rows,
  and one part per present extra column.\<close>

theorem company_document_financials:
  assumes "company_doc_parts rt company fin = Inr parts" and "fin \<noteq> []"
  shows "length parts = 18 + (if 1 < length fin then 1 else 0) +
                        length (filter (\<lambda>(label, c). col_notna company c) extra_columns) \<and>
         (\<exists>i<length fin. fin ! i = latest_row fin \<and> (\<forall>f\<in>set fin. fr_year f \<le> fr_year (fin ! i)) \<and>
                        (\<forall>j<i. fr_year (fin ! j) < fr_year (fin ! i))) \<and>
         parts ! 11 = py ''Latest Revenue ('' @ int_str (fr_year (latest_row fin)) @ py ''): '' @ rupee @
                      fmt2 rt (fr_revenue (latest_row fin)) @ py '' crores'' \<and>
         (1 < length fin \<longrightarrow>
            parts ! 18 = py ''Revenue Growth: '' @
              fmt2_fval rt (revenue_growth (fr_revenue (latest_row fin)) (fr_revenue (hd fin))) @ py ''%'')"
proof -
  obtain bs where bs: "basic_parts rt company = Inr bs" and
    parts: "parts = bs @ financial_parts rt fin @
              map (\<lambda>(label, c). label @ py_fmt (rt_str rt) (col_get company c JNull))
                  (filter (\<lambda>(label, c). col_notna company c) extra_columns)"
    using assms by (auto simp: company_doc_parts_eq)
  have len: "length bs = 11" using length_basic_parts[OF bs] .
  obtain i where i: "i < length fin" "fin ! i = latest_row fin" "fr_year (fin ! i) = latest_year fin"
    "\<forall>j<i. fr_year (fin ! j) < latest_year fin"
    using latest_row_first[OF assms(2)] by blast
  have "\<forall>f\<in>set fin. fr_year f \<le> fr_year (fin ! i)" using i(3) latest_year_ge by simp
  with i have "\<exists>i<length fin. fin ! i = latest_row fin \<and> (\<forall>f\<in>set fin. fr_year f \<le> fr_year (fin ! i)) \<and>
                        (\<forall>j<i. fr_year (fin ! j) < fr_year (fin ! i))"
    by (intro exI[of _ i]) simp
  moreover have "fr_year (latest_row fin) = latest_year fin" using i by simp
  moreover have "parts ! 11 = financial_parts rt fin ! 0"
    using len by (simp add: parts nth_append length_financial_parts)
  moreover have "1 < length fin \<Longrightarrow> parts ! 18 = financial_parts rt fin ! 7"
    using len by (simp add: parts nth_append length_financial_parts)
  moreover have "length parts = 18 + (if 1 < length fin then 1 else 0) +
                        length (filter (\<lambda>(label, c). col_notna company c) extra_columns)"
    using len by (simp add: parts length_financial_parts)
  ultimately show ?thesis by (simp add: financial_parts_revenue financial_parts_growth)
qed

theorem company_document_financials_witness:
  "\<exists>parts. company_doc_parts demo_rt demo_company demo_fin = Inr parts \<and>
     parts ! 11 = py ''Latest Revenue (2024): '' @ rupee @ py ''150.00 crores'' \<and>
     parts ! 18 = py ''Revenue Growth: 0.00%''"
proof -
  have "\<exists>parts. company_doc_parts demo_rt demo_company demo_fin = Inr parts"
    by (simp add: company_doc_parts_def basic_parts_def required_columns_def optional_columns_def col_def
                  jlookup_def demo_company_def pystr_simps)
  then obtain parts where p: "company_doc_parts demo_rt demo_company demo_fin = Inr parts" by (elim exE)
  have lr: "latest_row demo_fin = demo_fin_row 2024 150"
    by (simp add: latest_row_def latest_year_def demo_fin_def demo_fin_row_def)
  have "parts ! 11 = py ''Latest Revenue ('' @ int_str 2024 @ py ''): '' @ rupee @
                       fmt2 demo_rt (Some 150) @ py '' crores'' \<and>
        parts ! 18 = py ''Revenue Growth: '' @ fmt2_fval demo_rt (revenue_growth (Some 150) (Some 150)) @ py ''%''"
    using company_document_financials[OF p] lr by (simp add: demo_fin_def demo_fin_row_def)
  then have "parts ! 11 = py ''Latest Revenue (2024): '' @ rupee @ py ''150.00 crores'' \<and>
             parts ! 18 = py ''Revenue Growth: 0.00%''"
    by (simp add: int_str_def fmt2_def demo_rt_def py_fixed_def round_half_even_def pystr_simps)
  with p show ?thesis by (intro exI[of _ parts] conjI) simp_all
qed

text \<open>C33: when the collection appends what it is given, \<open>load_company_data\<close> adds
  one entry per company row, in file order, with id \<open>company_<Company_ID>\<close>, the
  row's document built from its financial rows (those whose \<open>Company_ID\<close> equals the
  row's, in file order), and metadata of type \<open>company\<close> carrying the id.\<close>

theorem load_company_data_appends:
  assumes "add_contract st" and "load_company_data st rt companies fin = Inr st'"
  shows "\<exists>es. st' = st\<lparr>collection := collection st @ es\<rparr> \<and> length es = length companies \<and>
           (\<forall>i<length companies. \<exists>cid. jlookup (companies ! i) (py ''Company_ID'') = Some cid \<and>
              c_id (es ! i) = py ''company_'' @ py_fmt (rt_str rt) cid \<and>
              create_company_document rt (companies ! i) (filter (\<lambda>f. JStr (fr_company_id f) = cid) fin) =
                Inr (c_document (es ! i)) \<and>
              meta_get (c_metadata (es ! i)) (py ''type'') JNull = JStr (py ''company'') \<and>
              meta_get (c_metadata (es ! i)) (py ''company_id'') JNull = cid)"
proof -
  from load_company_data_Inr[OF assms] obtain es where es: "emap (company_entry rt fin) companies = Inr es"
    and st': "st' = st\<lparr>collection := collection st @ es\<rparr>" by blast
  have "length es = length companies" using es by (simp add: emap_Inr_iff_nth)
  moreover have "\<forall>i<length companies. \<exists>cid. jlookup (companies ! i) (py ''Company_ID'') = Some cid \<and>
              c_id (es ! i) = py ''company_'' @ py_fmt (rt_str rt) cid \<and>
              create_company_document rt (companies ! i) (filter (\<lambda>f. JStr (fr_company_id f) = cid) fin) =
                Inr (c_document (es ! i)) \<and>
              meta_get (c_metadata (es ! i)) (py ''type'') JNull = JStr (py ''company'') \<and>
              meta_get (c_metadata (es ! i)) (py ''company_id'') JNull = cid"
    using es by (auto simp: emap_Inr_iff_nth company_entry_Inr dest: company_metadata_type)
  ultimately show ?thesis using st' by (intro exI[of _ es]) simp
qed

theorem load_company_data_appends_witness:
  "\<exists>st'. load_company_data mem_store demo_rt [demo_company] demo_fin = Inr st' \<and>
         map c_id (collection st') = [py ''company_MSME001'']"
proof -
  have "\<exists>st'. load_company_data mem_store demo_rt [demo_company] demo_fin = Inr st'"
    by (simp add: load_company_data_def company_entry_def company_doc_parts_def create_company_document_def
                  basic_parts_def company_metadata_def required_columns_def optional_columns_def col_def
                  jlookup_def demo_company_def mem_store_def Let_def pystr_simps)
  then obtain st' where r: "load_company_data mem_store demo_rt [demo_company] demo_fin = Inr st'"
    by (elim exE)
  from load_company_data_appends[OF mem_store_add_contract r] obtain es where
    "st' = mem_store\<lparr>collection := collection mem_store @ es\<rparr>" and "length es = 1"
    and "c_id (es ! 0) = py ''company_'' @ py_fmt (rt_str demo_rt) (JStr (py ''MSME001''))"
    by (force simp: demo_company_def jlookup_def pystr_simps)
  then have "map c_id (collection st') = [py ''company_MSME001'']"
    by (cases es) (simp_all add: mem_store_def pystr_simps)
  with r show ?thesis by (intro exI[of _ st'] conjI)
qed

end
