(* ===== verification/AppTabs.thy ===== *)
theory AppTabs
  imports App CompanyData
begin

text \<open>
  The Dashboard, News Feed and Analytics tabs of \<open>src/app.py\<close>. The three tabs, like the
  Chat tab that \<open>app_step\<close> models, are rendered on every rerun once a pipeline exists.
  Dashboard and Analytics read the CSV files inside \<open>try\<close>: an exception ends the
  tab with \<open>st.error\<close>. The News Feed renders \<open>st.session_state.latest_news\<close> outside
  any \<open>try\<close>: an exception there ends the whole rerun, so the Analytics tab after it is
  not rendered. A data frame is its list of rows (\<open>row\<close> and \<open>fin_row\<close> of
  \<open>CompanyData\<close>); column sums and means skip \<open>NaN\<close> as pandas does, and are exact.
\<close>

section \<open>\<open>str.title\<close>\<close>

text \<open>
  \<open>str.title\<close>: a character after a cased character is lower-cased, any other one is
  title-cased; whether a character is cased is read from the original string. As for
  \<open>str.lower\<close>, the mappings are those of Latin-1 (with the title case of U+00B5, U+00DF and U+00FF,
  which leave Latin-1).
\<close>

definition is_cased :: "nat \<Rightarrow> bool" where
  "is_cased c \<longleftrightarrow>
     (65 \<le> c \<and> c \<le> 90) \<or> (97 \<le> c \<and> c \<le> 122) \<or> c = 170 \<or> c = 181 \<or> c = 186 \<or>
     (192 \<le> c \<and> c \<le> 255 \<and> c \<noteq> 215 \<and> c \<noteq> 247)"

definition title_cp :: "nat \<Rightarrow> nat list" where
  "title_cp c =
     (if (97 \<le> c \<and> c \<le> 122) \<or> (224 \<le> c \<and> c \<le> 254 \<and> c \<noteq> 247) then [c - 32]
      else if c = 181 then [924] else if c = 223 then [83, 115] else if c = 255 then [376] else [c])"

fun title_loop :: "bool \<Rightarrow> pystr \<Rightarrow> pystr" where
  "title_loop prev [] = []"
| "title_loop prev (c # cs) = (if prev then [lower_cp c] else title_cp c) @ title_loop (is_cased c) cs"

definition py_title :: "pystr \<Rightarrow> pystr" where
  "py_title s = title_loop False s"

text \<open>\<open>v.title()\<close>: only strings have the method.\<close>

fun jtitle :: "jval \<Rightarrow> py_error + pystr" where
  "jtitle (JStr s) = Inr (py_title s)"
| "jtitle _ = Inl AttributeError"

section \<open>The News Feed tab\<close>

text \<open>\<open>format(v, '.2f')\<close> of a JSON value: numbers (and booleans, which are ints) are
  formatted, a string raises \<open>ValueError\<close>, any other value \<open>TypeError\<close>.\<close>

fun jformat_2f :: "jval \<Rightarrow> py_error + pystr" where
  "jformat_2f (JNum r) = Inr (py_fixed 2 r)"
| "jformat_2f (JBool b) = Inr (py_fixed 2 (if b then 1 else 0))"
| "jformat_2f (JStr s) = Inl ValueError"
| "jformat_2f _ = Inl TypeError"

definition sentiment_color :: "(pystr \<times> nat) list" where
  "sentiment_color = [(py ''positive'', 128994), (py ''negative'', 128308), (py ''neutral'', 128993)]"

definition sentiment_icon :: "pystr \<Rightarrow> nat" where
  "sentiment_icon l = (case map_of sentiment_color l of Some i \<Rightarrow> i | None \<Rightarrow> 128993)"

text \<open>The second column: \<open>article.get('sentiment')\<close> is the label of an Alpha Vantage
  article and \<open>None\<close> for the other providers.\<close>

definition sentiment_lines :: "article \<Rightarrow> py_error + pystr list" where
  "sentiment_lines a =
     (case a_sentiment a of
        None \<Rightarrow> Inr []
      | Some (label, score) \<Rightarrow>
          if py_truthy label
          then ebind (jlower label) (\<lambda>l.
               ebind (jtitle label) (\<lambda>t.
                 let line = py ''**Sentiment:** '' @ [sentiment_icon l, 32] @ t
                 in if py_truthy score
                    then ebind (jformat_2f score) (\<lambda>f. Inr [line, py ''**Score:** '' @ f])
                    else Inr [line]))
          else Inr [])"

text \<open>One article: the expander's label, then the lines of the two columns.\<close>

definition render_article :: "(jval \<Rightarrow> pystr) \<Rightarrow> article \<Rightarrow> py_error + pystr list" where
  "render_article to_str a =
     ebind (py_slice_head 100 (a_title a)) (\<lambda>t.
     ebind (jtitle (a_category a)) (\<lambda>category.
     ebind (sentiment_lines a) (\<lambda>sl.
       Inr ((128240 # 32 # py_fmt to_str t @ py ''...'') #
            [py ''**Source:** '' @ py_fmt to_str (a_source_name a), py ''**Category:** '' @ category] @
            (if py_truthy (a_published_at a)
             then [py ''**Published:** '' @ py_fmt to_str (a_published_at a)] else []) @
            (if py_truthy (a_description a)
             then [py ''**Description:**'', py_fmt to_str (a_description a)] else []) @
            (if py_truthy (a_url a)
             then [py ''[Read Full Article]('' @ py_fmt to_str (a_url a) @ py '')''] else []) @
            sl))))"

definition render_news :: "(jval \<Rightarrow> pystr) \<Rightarrow> app_state \<Rightarrow> py_error + pystr list" where
  "render_news to_str s =
     (case latest_news s of
        None \<Rightarrow> Inr [py ''Click 'Refresh News' to fetch latest market updates.'']
      | Some arts \<Rightarrow> ebind (emap (render_article to_str) arts) (\<lambda>ls. Inr (concat ls)))"

section \<open>The Dashboard tab\<close>

text \<open>A cell of a numeric column: \<open>NaN\<close> is \<open>None\<close>; a string makes \<open>mean()\<close>
  raise \<open>TypeError\<close>.\<close>

fun num_cell :: "jval \<Rightarrow> py_error + rat option" where
  "num_cell (JNum r) = Inr (Some r)"
| "num_cell (JBool b) = Inr (Some (if b then 1 else 0))"
| "num_cell JNull = Inr None"
| "num_cell _ = Inl TypeError"

definition pd_sum :: "rat option list \<Rightarrow> rat" where
  "pd_sum xs = sum_list (List.map_filter id xs)"

definition pd_mean :: "rat option list \<Rightarrow> fval" where
  "pd_mean xs =
     (let ys = List.map_filter id xs in if ys = [] then FNaN else Fin (sum_list ys / of_nat (length ys)))"

fun fixed_fval :: "nat \<Rightarrow> fval \<Rightarrow> pystr" where
  "fixed_fval d (Fin r) = py_fixed d r"
| "fixed_fval d PInf = py ''inf''"
| "fixed_fval d NInf = py ''-inf''"
| "fixed_fval d FNaN = py ''nan''"

text \<open>\<open>financial_df[financial_df['Year'] == financial_df['Year'].max()]\<close>.\<close>

definition latest_year_rows :: "fin_row list \<Rightarrow> fin_row list" where
  "latest_year_rows fin = filter (\<lambda>f. fr_year f = latest_year fin) fin"

text \<open>The four metrics, in the order of the columns; the exception caught by the tab's
  \<open>try\<close>, if any, ends it after the metrics already shown.\<close>

definition dashboard_metrics :: "row list \<Rightarrow> fin_row list \<Rightarrow> (pystr \<times> pystr) list \<times> py_error option" where
  "dashboard_metrics companies_df financial_df =
     (let m1 = (py ''Total Companies'', int_str (int (length companies_df)));
          latest = latest_year_rows financial_df
      in case emap (\<lambda>r. ebind (col r (py ''Employee_Count'')) num_cell) companies_df of
           Inl e \<Rightarrow> ([m1], Some e)
         | Inr employees \<Rightarrow>
             ([m1, (py ''Avg Employees'', fixed_fval 0 (pd_mean employees)),
               (py ''Total Revenue (2024)'',
                rupee @ py_fixed 1 (pd_sum (map fr_revenue latest)) @ py ''Cr''),
               (py ''Avg Profit Margin'', fixed_fval 1 (pd_mean (map fr_margin latest)) @ py ''%'')],
              None))"

section \<open>The Analytics tab: growth by sector\<close>

text \<open>\<open>==\<close> of two cells: \<open>NaN\<close> equals nothing, a boolean equals its integer.\<close>

fun cell_eq :: "jval \<Rightarrow> jval \<Rightarrow> bool" where
  "cell_eq JNull v = False"
| "cell_eq v JNull = False"
| "cell_eq (JBool b) (JNum r) = (r = (if b then 1 else 0))"
| "cell_eq (JNum r) (JBool b) = (r = (if b then 1 else 0))"
| "cell_eq v w = (v = w)"

text \<open>
  \<open>financial_df.merge(companies_df[['Company_ID', 'Sector']], on='Company_ID')\<close>: an
  inner join, each financial row paired with the sector of every company row of its id,
  in the order of the financial rows.
\<close>

definition merge_sector :: "fin_row list \<Rightarrow> row list \<Rightarrow> py_error + (fin_row \<times> jval) list" where
  "merge_sector financial_df companies_df =
     ebind (emap (\<lambda>r. ebind (col r (py ''Company_ID'')) (\<lambda>cid.
                      ebind (col r (py ''Sector'')) (\<lambda>sector. Inr (cid, sector)))) companies_df)
       (\<lambda>cs. Inr (concat (map (\<lambda>f. map (\<lambda>c. (f, snd c))
                                      (filter (\<lambda>c. cell_eq (fst c) (JStr (fr_company_id f))) cs))
                           financial_df)))"

text \<open>\<open>financial_with_sector[financial_with_sector['Sector'] == sector]\<close>.\<close>

definition sector_rows :: "(fin_row \<times> jval) list \<Rightarrow> jval \<Rightarrow> (fin_row \<times> jval) list" where
  "sector_rows financial_with_sector sector = filter (\<lambda>x. cell_eq (snd x) sector) financial_with_sector"

text \<open>\<open>sector_data[sector_data['Year'] == y]['Revenue_Crores'].sum()\<close>.\<close>

definition year_revenue :: "(fin_row \<times> jval) list \<Rightarrow> int \<Rightarrow> rat" where
  "year_revenue sector_data y = pd_sum (map (fr_revenue \<circ> fst) (filter (\<lambda>x. fr_year (fst x) = y) sector_data))"

text \<open>One iteration of the loop over \<open>financial_with_sector['Sector'].unique()\<close>.\<close>

definition sector_growth :: "(fin_row \<times> jval) list \<Rightarrow> jval \<Rightarrow> (jval \<times> rat) option" where
  "sector_growth financial_with_sector sector =
     (let sector_data = sector_rows financial_with_sector sector;
          revenue_2022 = year_revenue sector_data 2022;
          revenue_2024 = year_revenue sector_data 2024
      in if 0 < revenue_2022
         then Some (sector, (revenue_2024 - revenue_2022) / revenue_2022 * 100)
         else None)"

definition growth_analysis :: "fin_row list \<Rightarrow> row list \<Rightarrow> py_error + (jval \<times> rat) list" where
  "growth_analysis financial_df companies_df =
     ebind (merge_sector financial_df companies_df) (\<lambda>financial_with_sector.
       Inr (List.map_filter (sector_growth financial_with_sector)
              (remdups_first (map snd financial_with_sector))))"

text \<open>A browser session as a sequence of actions, each a rerun of the script.\<close>

definition app_run :: "app_env \<Rightarrow> app_state \<Rightarrow> app_event list \<Rightarrow> app_state" where
  "app_run env s evs = fold (\<lambda>ev s. fst (app_step env s ev)) evs s"

text \<open>When the rendering of an article succeeds: a sliceable title, a string category,
  and, for an article with a truthy sentiment label, a string label and a score that is
  falsy or formats with \<open>.2f\<close>.\<close>

definition sentiment_ok :: "article \<Rightarrow> bool" where
  "sentiment_ok a =
     (case a_sentiment a of
        None \<Rightarrow> True
      | Some (label, score) \<Rightarrow>
          \<not> py_truthy label \<or> (is_jstr label \<and> (\<not> py_truthy score \<or> \<not> isl (jformat_2f score))))"

definition article_renders :: "article \<Rightarrow> bool" where
  "article_renders a \<longleftrightarrow> py_sliceable (a_title a) \<and> is_jstr (a_category a) \<and> sentiment_ok a"

section \<open>Lemmas: the News Feed\<close>

lemma jtitle_Inl: "(\<exists>e. jtitle v = Inl e) \<longleftrightarrow> \<not> is_jstr v"
  by (cases v) simp_all

lemma jformat_2f_Inl: "(\<exists>e. jformat_2f v = Inl e) \<longleftrightarrow> isl (jformat_2f v)"
  by (cases "jformat_2f v") simp_all

lemma sentiment_lines_Inl: "(\<exists>e. sentiment_lines a = Inl e) \<longleftrightarrow> \<not> sentiment_ok a"
proof (cases "a_sentiment a")
  case None
  then show ?thesis by (simp add: sentiment_lines_def sentiment_ok_def)
next
  case (Some ls)
  obtain l sc where ls: "ls = (l, sc)" by (cases ls)
  show ?thesis
  proof (cases "py_truthy l \<and> is_jstr l")
    case True
    then obtain t where "l = JStr t" by (cases l) auto
    with Some ls True show ?thesis
      by (cases "jformat_2f sc") (auto simp: sentiment_lines_def sentiment_ok_def ebind_def Let_def)
  next
    case False
    with Some ls show ?thesis
      by (cases l) (auto simp: sentiment_lines_def sentiment_ok_def)
  qed
qed

lemma ebind3_Inl:
  "(\<exists>e. ebind m1 (\<lambda>x. ebind m2 (\<lambda>y. ebind m3 (\<lambda>z. Inr (f x y z)))) = Inl e) \<longleftrightarrow>
     (\<exists>e. m1 = Inl e) \<or> (\<exists>e. m2 = Inl e) \<or> (\<exists>e. m3 = Inl e)"
  by (cases m1; cases m2; cases m3) simp_all

lemma render_article_Inl: "(\<exists>e. render_article to_str a = Inl e) \<longleftrightarrow> \<not> article_renders a"
  unfolding render_article_def ebind3_Inl article_renders_def jtitle_Inl sentiment_lines_Inl
  using py_slice_head_Inl[of 100 "a_title a"] by auto

lemma render_news_Inl:
  "(\<exists>e. render_news to_str s = Inl e) \<longleftrightarrow>
     (\<exists>arts. latest_news s = Some arts \<and> (\<exists>a\<in>set arts. \<not> article_renders a))"
proof (cases "latest_news s")
  case None
  then show ?thesis by (simp add: render_news_def)
next
  case (Some arts)
  have "(\<exists>e. render_news to_str s = Inl e) \<longleftrightarrow> (\<exists>e. emap (render_article to_str) arts = Inl e)"
    using Some by (cases "emap (render_article to_str) arts") (simp_all add: render_news_def)
  also have "\<dots> \<longleftrightarrow> (\<exists>a\<in>set arts. \<not> article_renders a)"
    by (simp only: emap_isl_iff render_article_Inl)
  finally show ?thesis using Some by simp
qed

lemma fetch_all_news_titles:
  assumes "sort_perm w" and "fetch_all_news w k limit = Inr arts" and "a \<in> set arts"
  shows "\<exists>t. a_title a = JStr t"
proof -
  from assms(2) obtain u where u: "dedup_loop {} (gather_all w k) = Inr u"
    and arts: "arts = take limit (sort_by_published w u)" by (auto simp: fetch_all_news_Inr)
  have "a \<in> set u"
    using assms(3) arts sort_by_published_mset[OF assms(1), of u]
    by (metis in_set_takeD set_mset_mset)
  then have "a \<in> set (gather_all w k)" using list_emb_set[OF dedup_loop_subseq[OF u]] by blast
  then show ?thesis using u dedup_loop_Inr_iff by blast
qed

lemma latest_news_step:
  "latest_news (fst (app_step env s ev)) = latest_news s \<or>
   (ev = RefreshNews \<and> (\<exists>arts. fetch_all_news (ae_world env) (ae_keys env) 20 = Inr arts \<and> arts \<noteq> [] \<and>
                          latest_news (fst (app_step env s ev)) = Some arts))"
proof (cases ev)
  case (Initialize k)
  then show ?thesis
    by (auto simp: app_initialize_def split: sum.splits)
next
  case (ChatPrompt q)
  then show ?thesis
    by (auto simp: app_chat_def Let_def split: option.splits sum.splits prod.splits)
next
  case (QuickAction sector label)
  then show ?thesis
    by (auto simp: app_quick_def split: option.splits sum.splits prod.splits)
next
  case ClearChat
  then show ?thesis by (auto split: option.splits)
next
  case RefreshNews
  then show ?thesis by (auto simp: app_refresh_def split: option.splits sum.splits)
qed

lemma app_reach_news_titles:
  assumes "sort_perm (ae_world env)" and "app_reach env s" and "latest_news s = Some arts"
  shows "\<forall>a\<in>set arts. \<exists>t. a_title a = JStr t"
  using assms(2,3)
proof (induction arbitrary: arts rule: app_reach.induct)
  case start
  then show ?case by (simp add: app_init_def)
next
  case (step s ev)
  from latest_news_step[of env s ev] show ?case
  proof
    assume "latest_news (fst (app_step env s ev)) = latest_news s"
    with step show ?thesis by simp
  next
    assume "ev = RefreshNews \<and> (\<exists>arts. fetch_all_news (ae_world env) (ae_keys env) 20 = Inr arts \<and>
              arts \<noteq> [] \<and> latest_news (fst (app_step env s ev)) = Some arts)"
    with step.prems show ?thesis using fetch_all_news_titles[OF assms(1)] by auto
  qed
qed

lemma render_news_latest:
  "latest_news s' = latest_news s \<Longrightarrow> render_news to_str s' = render_news to_str s"
  by (simp add: render_news_def)

lemma app_initialize_pipeline:
  assumes "ae_config_key env \<noteq> None" "ae_config_key env \<noteq> Some []" "k \<noteq> []"
  shows "rag_pipeline (app_initialize env s k) \<noteq> None \<and> latest_news (app_initialize env s k) = latest_news s"
  using assms by (auto simp: app_initialize_def init_pipeline_def split: sum.splits)

lemma app_refresh_news:
  "rag_pipeline s = Some p \<Longrightarrow> fetch_all_news (ae_world env) (ae_keys env) 20 = Inr arts \<Longrightarrow> arts \<noteq> [] \<Longrightarrow>
   rag_pipeline (fst (app_step env s RefreshNews)) = Some p \<and> latest_news (fst (app_step env s RefreshNews)) = Some arts"
  by (simp add: app_refresh_def)

section \<open>Scenarios\<close>

text \<open>NewsData.io sends one article whose \<open>category\<close> is \<open>[null]\<close>: the adapter keeps
  \<open>category[0]\<close>, \<open>None\<close>.\<close>

definition nullcat_body :: jval where
  "nullcat_body = JObj [(py ''results'', JArr
     [JObj [(py ''title'', JStr (py ''RBI Cuts Rates'')), (py ''pubDate'', JStr (py ''2'')),
            (py ''category'', JArr [JNull])]])]"

definition nullcat_world :: world where
  "nullcat_world = answer_world (\<lambda>url. if url = py ''https://newsdata.io/api/1/news''
                                       then HttpResponse 200 (Inr nullcat_body) else HttpRaise)"

definition news_env :: app_env where
  "news_env = demo_env\<lparr>ae_world := nullcat_world\<rparr>"

definition news_state :: app_state where
  "news_state = fst (app_step news_env (fst (app_step news_env app_init (Initialize (py ''sk-typed'')))) RefreshNews)"

text \<open>A session whose providers send the two RBI headlines of \<open>NewsAggregator\<close>.\<close>

definition rbi_env :: app_env where
  "rbi_env = demo_env\<lparr>ae_world := rbi_world\<rparr>"

text \<open>Figures of 2024 and 2025: the latest year in the file is 2025.\<close>

definition demo_fin_2025 :: "fin_row list" where
  "demo_fin_2025 = [demo_fin_row 2024 150, demo_fin_row 2025 200]"

section \<open>Properties of the News Feed\<close>

text \<open>C7: in every session state the front end can reach (for a world whose interrupted
  sort is a permutation), rendering the News Feed raises exactly when a stored article
  has a category that is not a string, or a truthy sentiment label that is not a string,
  or a truthy sentiment score that \<open>.2f\<close> cannot format; a title never makes it raise,
  because \<open>fetch_all_news\<close> only returns string titles.\<close>

theorem news_feed_raises_iff:
  assumes "sort_perm (ae_world env)" and "app_reach env s"
  shows "(\<exists>e. render_news to_str s = Inl e) \<longleftrightarrow>
         (\<exists>arts. latest_news s = Some arts \<and>
            (\<exists>a\<in>set arts. \<not> is_jstr (a_category a) \<or> \<not> sentiment_ok a))"
proof -
  have "py_sliceable (a_title a)" if "latest_news s = Some arts" "a \<in> set arts" for arts a
    using app_reach_news_titles[OF assms that(1)] that(2) by fastforce
  then show ?thesis unfolding render_news_Inl article_renders_def by blast
qed

lemma news_state_reach: "app_reach news_env news_state"
  unfolding news_state_def by (intro app_reach.step app_reach.start)

lemma news_state_latest:
  "latest_news news_state =
     Some [(mk_article (JStr (py ''RBI Cuts Rates'')) (JStr (py ''2'')))\<lparr>a_category := JNull\<rparr>]"
proof -
  let ?s1 = "fst (app_step news_env app_init (Initialize (py ''sk-typed'')))"
  have "\<exists>p. rag_pipeline ?s1 = Some p"
    by (simp add: app_initialize_def news_env_def demo_env_def init_pipeline_def app_init_def
             pystr_simps split: sum.splits)
  then obtain p where p: "rag_pipeline ?s1 = Some p" by (elim exE)
  have f: "fetch_all_news nullcat_world no_keys 20 =
             Inr [(mk_article (JStr (py ''RBI Cuts Rates'')) (JStr (py ''2'')))\<lparr>a_category := JNull\<rparr>]"
    by (simp add: nullcat_world_def nullcat_body_def mk_article_def scenario_simps)
  show ?thesis
    using p f by (simp add: news_state_def app_refresh_def news_env_def demo_env_def)
qed

theorem news_feed_raises_iff_witness:
  "sort_perm (ae_world news_env) \<and> app_reach news_env news_state \<and>
   (\<exists>e. render_news (\<lambda>v. []) news_state = Inl e)"
proof -
  have p: "sort_perm (ae_world news_env)"
    by (simp add: sort_perm_def news_env_def demo_env_def nullcat_world_def answer_world_def)
  have "\<exists>e. render_news (\<lambda>v. []) news_state = Inl e"
    using news_feed_raises_iff[OF p news_state_reach] news_state_latest by (simp add: mk_article_def)
  with p news_state_reach show ?thesis by blast
qed

text \<open>A News Feed that raises keeps raising on every rerun, whatever the action
  (clearing the chat included), until a Refresh News fetches a non-empty list that
  replaces the stored news.\<close>

theorem news_feed_failure_persists:
  assumes "\<exists>e. render_news to_str s = Inl e"
  shows "(\<exists>e. render_news to_str (fst (app_step env s ev)) = Inl e) \<or>
         (ev = RefreshNews \<and> (\<exists>arts. fetch_all_news (ae_world env) (ae_keys env) 20 = Inr arts \<and>
            arts \<noteq> [] \<and> latest_news (fst (app_step env s ev)) = Some arts))"
  using latest_news_step[of env s ev] render_news_latest[of "fst (app_step env s ev)" s to_str] assms
  by auto

theorem news_feed_failure_persists_witness:
  "\<exists>e. render_news (\<lambda>v. []) (fst (app_step news_env news_state ClearChat)) = Inl e"
proof -
  have "\<exists>e. render_news (\<lambda>v. []) news_state = Inl e"
    unfolding render_news_Inl article_renders_def using news_state_latest by (simp add: mk_article_def)
  from news_feed_failure_persists[OF this, of news_env ClearChat] show ?thesis by simp
qed

section \<open>Lemmas: the Analytics and Dashboard tabs\<close>

lemma map_filter_sector_growth:
  "List.map_filter (sector_growth m) secs =
     map (\<lambda>sec. (sec, (year_revenue (sector_rows m sec) 2024 - year_revenue (sector_rows m sec) 2022) /
                       year_revenue (sector_rows m sec) 2022 * 100))
         (filter (\<lambda>sec. 0 < year_revenue (sector_rows m sec) 2022) secs)"
  by (induction secs) (simp_all add: List.map_filter_simps sector_growth_def Let_def)

lemma year_revenue_Nil [simp]: "year_revenue [] y = 0"
  by (simp add: year_revenue_def pd_sum_def List.map_filter_simps)

lemma cell_eq_JNull [simp]: "cell_eq v JNull = False"
  by (cases v) simp_all

lemma sector_rows_JNull [simp]: "sector_rows m JNull = []"
  by (simp add: sector_rows_def)

lemma company_sector_Inl:
  "(\<exists>e. ebind (col r (py ''Company_ID'')) (\<lambda>cid. ebind (col r (py ''Sector'')) (\<lambda>sector. Inr (cid, sector))) = Inl e)
   \<longleftrightarrow> jlookup r (py ''Company_ID'') = None \<or> jlookup r (py ''Sector'') = None"
  by (auto simp: col_def split: option.splits)

lemma merge_sector_Inl_iff:
  "(\<exists>e. merge_sector fin comps = Inl e) \<longleftrightarrow>
     (\<exists>c\<in>set comps. jlookup c (py ''Company_ID'') = None \<or> jlookup c (py ''Sector'') = None)"
proof -
  have "(\<exists>e. merge_sector fin comps = Inl e) \<longleftrightarrow>
        (\<exists>e. emap (\<lambda>r. ebind (col r (py ''Company_ID'')) (\<lambda>cid.
                        ebind (col r (py ''Sector'')) (\<lambda>sector. Inr (cid, sector)))) comps = Inl e)"
    unfolding merge_sector_def by (rule ebind_Inr_Inl_iff)
  also have "\<dots> \<longleftrightarrow> (\<exists>c\<in>set comps. jlookup c (py ''Company_ID'') = None \<or> jlookup c (py ''Sector'') = None)"
    by (simp only: emap_isl_iff company_sector_Inl)
  finally show ?thesis .
qed

lemma latest_year_rows_max:
  "latest_year_rows fin = filter (\<lambda>f. \<forall>g\<in>set fin. fr_year g \<le> fr_year f) fin"
  unfolding latest_year_rows_def
proof (rule filter_cong[OF refl])
  fix f assume f: "f \<in> set fin"
  then have ne: "fin \<noteq> []" by auto
  show "(fr_year f = latest_year fin) = (\<forall>g\<in>set fin. fr_year g \<le> fr_year f)"
  proof
    assume "fr_year f = latest_year fin"
    then show "\<forall>g\<in>set fin. fr_year g \<le> fr_year f" using latest_year_ge by simp
  next
    assume "\<forall>g\<in>set fin. fr_year g \<le> fr_year f"
    moreover obtain g where "g \<in> set fin" "fr_year g = latest_year fin" using latest_year_mem[OF ne] by auto
    ultimately show "fr_year f = latest_year fin" using latest_year_ge[OF f] by fastforce
  qed
qed

lemma employees_Inl_iff:
  "(\<exists>e. emap (\<lambda>r. ebind (col r (py ''Employee_Count'')) num_cell) comps = Inl e) \<longleftrightarrow>
     (\<exists>r\<in>set comps. jlookup r (py ''Employee_Count'') = None \<or>
                    (\<exists>v. jlookup r (py ''Employee_Count'') = Some v \<and> isl (num_cell v)))"
proof -
  have "(\<exists>e. ebind (col r (py ''Employee_Count'')) num_cell = Inl e) \<longleftrightarrow>
        jlookup r (py ''Employee_Count'') = None \<or>
        (\<exists>v. jlookup r (py ''Employee_Count'') = Some v \<and> isl (num_cell v))" for r
    by (cases "jlookup r (py ''Employee_Count'')") (auto simp: col_def isl_def split: sum.splits)
  then show ?thesis by (simp only: emap_isl_iff)
qed

text \<open>The cleaning of \<open>script_1.py\<close> does not change the growth analysis.\<close>

lemma growth_analysis_cleaned:
  "growth_analysis fin (map (drop_columns unnamed_columns) comps) = growth_analysis fin comps"
proof -
  have "emap (\<lambda>r. ebind (col r (py ''Company_ID'')) (\<lambda>cid. ebind (col r (py ''Sector''))
                    (\<lambda>sector. Inr (cid, sector)))) (map (drop_columns unnamed_columns) comps) =
        emap (\<lambda>r. ebind (col r (py ''Company_ID'')) (\<lambda>cid. ebind (col r (py ''Sector''))
                    (\<lambda>sector. Inr (cid, sector)))) comps"
    by (induction comps) (simp_all add: unnamed_columns_def pystr_simps)
  then show ?thesis by (simp add: growth_analysis_def merge_sector_def)
qed

section \<open>Properties of the Analytics and Dashboard tabs\<close>

text \<open>C16: the growth analysis lists, in the order in which the sectors first occur in
  the merged rows, exactly the sectors whose 2022 revenue is positive, each once, never
  \<open>NaN\<close>, each with the growth \<open>(r2024 - r2022) / r2022 * 100\<close> of the revenue sums of
  its rows; the years are the constants 2022 and 2024 whatever the data holds.\<close>

theorem growth_analysis_spec:
  assumes "merge_sector fin comps = Inr m"
  shows "\<exists>gd. growth_analysis fin comps = Inr gd \<and>
           map fst gd = filter (\<lambda>sec. 0 < year_revenue (sector_rows m sec) 2022) (remdups_first (map snd m)) \<and>
           distinct (map fst gd) \<and> JNull \<notin> set (map fst gd) \<and>
           (\<forall>x\<in>set gd. snd x = (year_revenue (sector_rows m (fst x)) 2024 - year_revenue (sector_rows m (fst x)) 2022) /
                                year_revenue (sector_rows m (fst x)) 2022 * 100)"
proof -
  let ?secs = "filter (\<lambda>sec. 0 < year_revenue (sector_rows m sec) 2022) (remdups_first (map snd m))"
  have gd: "growth_analysis fin comps = Inr (List.map_filter (sector_growth m) (remdups_first (map snd m)))"
    using assms by (simp add: growth_analysis_def)
  show ?thesis
    by (rule exI, rule conjI[OF gd]) (auto simp: map_filter_sector_growth comp_def)
qed

theorem growth_analysis_spec_witness:
  "growth_analysis demo_fin [demo_company] = Inr [(JStr (py ''Manufacturing''), 205)]"
proof -
  have m: "merge_sector demo_fin [demo_company] =
             Inr (map (\<lambda>f. (f, JStr (py ''Manufacturing''))) demo_fin)"
    by (simp add: merge_sector_def demo_company_def col_def jlookup_def demo_fin_def demo_fin_row_def
                  pystr_simps)
  from growth_analysis_spec[OF m] obtain gd where
    gd: "growth_analysis demo_fin [demo_company] = Inr gd" and
    secs: "map fst gd = filter (\<lambda>sec. 0 < year_revenue (sector_rows (map (\<lambda>f. (f, JStr (py ''Manufacturing''))) demo_fin) sec) 2022)
                 (remdups_first (map snd (map (\<lambda>f. (f, JStr (py ''Manufacturing''))) demo_fin)))" and
    vals: "\<forall>x\<in>set gd. snd x = (year_revenue (sector_rows (map (\<lambda>f. (f, JStr (py ''Manufacturing''))) demo_fin) (fst x)) 2024 -
                   year_revenue (sector_rows (map (\<lambda>f. (f, JStr (py ''Manufacturing''))) demo_fin) (fst x)) 2022) /
                   year_revenue (sector_rows (map (\<lambda>f. (f, JStr (py ''Manufacturing''))) demo_fin) (fst x)) 2022 * 100"
    by blast
  have yr: "year_revenue (sector_rows (map (\<lambda>f. (f, JStr (py ''Manufacturing''))) demo_fin) (JStr (py ''Manufacturing''))) 2022 = 100"
           "year_revenue (sector_rows (map (\<lambda>f. (f, JStr (py ''Manufacturing''))) demo_fin) (JStr (py ''Manufacturing''))) 2024 = 305"
    by (simp_all add: year_revenue_def sector_rows_def pd_sum_def demo_fin_def demo_fin_row_def List.map_filter_simps)
  have "map fst gd = [JStr (py ''Manufacturing'')]"
    using secs yr by (simp add: demo_fin_def)
  then obtain g where "gd = [(JStr (py ''Manufacturing''), g)]" by (cases gd) auto
  with vals yr gd show ?thesis by simp
qed

text \<open>C19: when the employee counts can be averaged, the dashboard shows four metrics and
  its third, labelled \<open>Total Revenue (2024)\<close> whatever the data, is the revenue sum of
  the rows of the latest year in the file; the tab's \<open>try\<close> catches an exception
  exactly when some company row has no \<open>Employee_Count\<close> or a non-numeric one, and then
  only the company count is shown.\<close>

theorem dashboard_metrics_spec:
  assumes "dashboard_metrics comps fin = (ms, err)"
  shows "(err \<noteq> None \<longleftrightarrow> (\<exists>r\<in>set comps. jlookup r (py ''Employee_Count'') = None \<or>
                          (\<exists>v. jlookup r (py ''Employee_Count'') = Some v \<and> isl (num_cell v)))) \<and>
         (err \<noteq> None \<longrightarrow> ms = [(py ''Total Companies'', int_str (int (length comps)))]) \<and>
         (err = None \<longrightarrow> length ms = 4 \<and>
            ms ! 2 = (py ''Total Revenue (2024)'',
                      rupee @ py_fixed 1 (pd_sum (map fr_revenue (filter (\<lambda>f. \<forall>g\<in>set fin. fr_year g \<le> fr_year f) fin))) @
                      py ''Cr''))"
proof (cases "emap (\<lambda>r. ebind (col r (py ''Employee_Count'')) num_cell) comps")
  case (Inl e)
  then have "err \<noteq> None \<and> ms = [(py ''Total Companies'', int_str (int (length comps)))]"
    using assms by (auto simp: dashboard_metrics_def Let_def)
  with Inl employees_Inl_iff[of comps] show ?thesis by auto
next
  case (Inr employees)
  then have "err = None \<and> length ms = 4 \<and>
      ms ! 2 = (py ''Total Revenue (2024)'', rupee @ py_fixed 1 (pd_sum (map fr_revenue (latest_year_rows fin))) @ py ''Cr'')"
    using assms by (auto simp: dashboard_metrics_def Let_def)
  with Inr employees_Inl_iff[of comps] show ?thesis by (auto simp: latest_year_rows_max)
qed

theorem dashboard_metrics_spec_witness:
  "snd (dashboard_metrics [demo_company] demo_fin_2025) = None \<and>
   fst (dashboard_metrics [demo_company] demo_fin_2025) ! 2 =
     (py ''Total Revenue (2024)'', rupee @ py ''200.0Cr'')"
proof -
  obtain ms err where d: "dashboard_metrics [demo_company] demo_fin_2025 = (ms, err)" by fastforce
  have ok: "\<not> (\<exists>r\<in>set [demo_company]. jlookup r (py ''Employee_Count'') = None \<or>
                 (\<exists>v. jlookup r (py ''Employee_Count'') = Some v \<and> isl (num_cell v)))"
    by (simp add: demo_company_def jlookup_def pystr_simps)
  from dashboard_metrics_spec[OF d] ok have e: "err = None" and
    m: "ms ! 2 = (py ''Total Revenue (2024)'',
           rupee @ py_fixed 1 (pd_sum (map fr_revenue (filter (\<lambda>f. \<forall>g\<in>set demo_fin_2025. fr_year g \<le> fr_year f) demo_fin_2025))) @
           py ''Cr'')"
    by auto
  have "pd_sum (map fr_revenue (filter (\<lambda>f. \<forall>g\<in>set demo_fin_2025. fr_year g \<le> fr_year f) demo_fin_2025)) = 200"
    by (simp add: demo_fin_2025_def demo_fin_row_def pd_sum_def List.map_filter_simps)
  then have "ms ! 2 = (py ''Total Revenue (2024)'', rupee @ py ''200.0Cr'')"
    using m by (simp add: py_fixed_def round_half_even_def pystr_simps)
  with d e show ?thesis by simp
qed

text \<open>C9: the News Feed can always be repaired: from every session state the front end
  can reach, when \<open>config\<close> holds an OpenAI key and the providers answer with a
  non-empty list of well-formed articles (string categories, sentiments that render), the
  two actions Initialize System and Refresh News lead to a state with a pipeline whose
  News Feed renders.\<close>

theorem news_feed_recovers:
  assumes "sort_perm (ae_world env)" and "ae_config_key env \<noteq> None" and "ae_config_key env \<noteq> Some []"
    and "fetch_all_news (ae_world env) (ae_keys env) 20 = Inr arts" and "arts \<noteq> []"
    and "\<forall>a\<in>set arts. is_jstr (a_category a) \<and> sentiment_ok a"
  shows "\<exists>evs. length evs = 2 \<and> rag_pipeline (app_run env s evs) \<noteq> None \<and>
               latest_news (app_run env s evs) = Some arts \<and>
               (\<exists>ls. render_news to_str (app_run env s evs) = Inr ls)"
proof -
  let ?s1 = "fst (app_step env s (Initialize (py ''sk'')))"
  have k: "py ''sk'' \<noteq> []" by (simp add: pystr_simps)
  obtain p where p: "rag_pipeline ?s1 = Some p"
    using app_initialize_pipeline[OF assms(2,3) k, of s] by auto
  let ?s2 = "fst (app_step env ?s1 RefreshNews)"
  have s2: "rag_pipeline ?s2 = Some p \<and> latest_news ?s2 = Some arts"
    using app_refresh_news[OF p assms(4,5)] .
  have "\<forall>a\<in>set arts. article_renders a"
    using assms(6) fetch_all_news_titles[OF assms(1,4)] by (fastforce simp: article_renders_def)
  then have "\<not> (\<exists>e. render_news to_str ?s2 = Inl e)" using s2 by (simp add: render_news_Inl)
  then obtain ls where "render_news to_str ?s2 = Inr ls" by (cases "render_news to_str ?s2") auto
  with s2 show ?thesis
    by (intro exI[of _ "[Initialize (py ''sk''), RefreshNews]"]) (auto simp: app_run_def)
qed

theorem news_feed_recovers_witness:
  "\<exists>evs. length evs = 2 \<and> rag_pipeline (app_run rbi_env app_init evs) \<noteq> None \<and>
         latest_news (app_run rbi_env app_init evs) = Some [mk_article (JStr (py ''RBI Cuts Rates'')) (JStr (py ''2''))] \<and>
         (\<exists>ls. render_news (\<lambda>v. []) (app_run rbi_env app_init evs) = Inr ls)"
proof -
  have p: "sort_perm (ae_world rbi_env)"
    by (simp add: sort_perm_def rbi_env_def demo_env_def rbi_world_def answer_world_def)
  have f: "fetch_all_news (ae_world rbi_env) (ae_keys rbi_env) 20 =
             Inr [mk_article (JStr (py ''RBI Cuts Rates'')) (JStr (py ''2''))]"
    by (simp add: rbi_env_def demo_env_def rbi_world_def rbi_body_def mk_article_def scenario_simps)
  have k: "ae_config_key rbi_env \<noteq> None" "ae_config_key rbi_env \<noteq> Some []"
    by (simp_all add: rbi_env_def demo_env_def pystr_simps)
  have g: "\<forall>a\<in>set [mk_article (JStr (py ''RBI Cuts Rates'')) (JStr (py ''2''))]. is_jstr (a_category a) \<and> sentiment_ok a"
    by (simp add: mk_article_def sentiment_ok_def)
  show ?thesis using news_feed_recovers[OF p k f _ g, of app_init "\<lambda>v. []"] by simp
qed

end
