(* ===== verification/AppTables.thy ===== *)
theory AppTables
  imports AppTabs "HOL-Library.List_Lexorder"
begin

text \<open>
  The tables and chart data of \<open>src/app.py\<close> that pandas computes with \<open>groupby\<close>: the
  Dashboard's sector performance table and revenue trends, and the Analytics tab's
  performance scores; and the sidebar, which copies the typed API keys into
  \<open>os.environ\<close> and shows their status. \<open>groupby(key)\<close> drops the rows whose key is
  \<open>NaN\<close> and sorts the keys (\<open>sort=True\<close>); \<open>mean()\<close> skips \<open>NaN\<close> (\<open>pd_mean\<close>).
  Strings compare by code points, which is the order of \<open>HOL-Library.List_Lexorder\<close>.
\<close>

section \<open>\<open>groupby\<close>\<close>

text \<open>
  The sorted keys of a \<open>groupby\<close>. A column that \<open>read_csv\<close> produces holds only
  numbers or only strings (with \<open>NaN\<close>); pandas' \<open>safe_sort\<close> sorts them, and in a
  mixed column puts the numbers before the strings. Other values cannot come from a CSV
  file and are kept last in their order.
\<close>

fun num_key :: "jval \<Rightarrow> rat option" where
  "num_key (JNum r) = Some r"
| "num_key (JBool b) = Some (if b then 1 else 0)"
| "num_key _ = None"

fun jstr_val :: "jval \<Rightarrow> pystr" where
  "jstr_val (JStr s) = s"
| "jstr_val _ = []"

definition group_keys :: "jval list \<Rightarrow> jval list" where
  "group_keys vs =
     (let ks = remdups (filter (\<lambda>v. v \<noteq> JNull) vs)
      in sort_key (\<lambda>v. the (num_key v)) (filter (\<lambda>v. num_key v \<noteq> None) ks) @
         sort_key jstr_val (filter is_jstr ks) @
         filter (\<lambda>v. num_key v = None \<and> \<not> is_jstr v) ks)"

text \<open>\<open>rows.groupby(key)[cols].mean()\<close>: one row per key, the mean of each column over
  the rows of the group.\<close>

definition group_mean :: "('r \<Rightarrow> jval) \<Rightarrow> ('r \<Rightarrow> rat option) list \<Rightarrow> 'r list \<Rightarrow> (jval \<times> fval list) list" where
  "group_mean key cols rows =
     map (\<lambda>k. (k, map (\<lambda>c. pd_mean (map c (filter (\<lambda>r. key r = k) rows))) cols))
         (group_keys (map key rows))"

text \<open>\<open>DataFrame.round(d)\<close>: half to even, \<open>NaN\<close> and the infinities unchanged.\<close>

fun fval_round :: "nat \<Rightarrow> fval \<Rightarrow> fval" where
  "fval_round d (Fin r) = Fin (of_int (round_half_even (r * 10 ^ d)) / 10 ^ d)"
| "fval_round d v = v"

section \<open>The Dashboard tab: tables\<close>

text \<open>\<open>merged_df.groupby('Sector').agg({'Revenue_Crores': 'mean', 'Profit_Margin_Percent':
  'mean', 'ROA_Percent': 'mean'}).round(2)\<close> over the 2024 rows merged with the sectors.\<close>

definition sector_performance :: "fin_row list \<Rightarrow> row list \<Rightarrow> py_error + (jval \<times> fval list) list" where
  "sector_performance financial_df companies_df =
     ebind (merge_sector (filter (\<lambda>f. fr_year f = 2024) financial_df) companies_df) (\<lambda>merged_df.
       Inr (map (\<lambda>kv. (fst kv, map (fval_round 2) (snd kv)))
                (group_mean snd [fr_revenue \<circ> fst, fr_margin \<circ> fst, fr_roa \<circ> fst] merged_df)))"

text \<open>\<open>revenue_trends.groupby(['Year', 'Sector'])['Revenue_Crores'].mean().reset_index()\<close>:
  the groups in the order of the years, then of the sectors.\<close>

definition sector_yearly :: "fin_row list \<Rightarrow> row list \<Rightarrow> py_error + (int \<times> jval \<times> fval) list" where
  "sector_yearly financial_df companies_df =
     ebind (merge_sector financial_df companies_df) (\<lambda>revenue_trends.
       Inr (concat (map (\<lambda>y. map (\<lambda>kv. (y, fst kv, hd (snd kv)))
                               (group_mean snd [fr_revenue \<circ> fst]
                                  (filter (\<lambda>x. fr_year (fst x) = y) revenue_trends)))
                        (sort (remdups (map (fr_year \<circ> fst) revenue_trends))))))"

section \<open>The Analytics tab: performance scores\<close>

text \<open>\<open>s.replace(old, new)\<close> for a non-empty \<open>old\<close>: left to right, without overlaps.\<close>

function py_replace :: "pystr \<Rightarrow> pystr \<Rightarrow> pystr \<Rightarrow> pystr" where
  "py_replace old new [] = []"
| "py_replace old new (c # cs) =
     (if old \<noteq> [] \<and> starts_with old (c # cs)
      then new @ py_replace old new (drop (length old) (c # cs))
      else c # py_replace old new cs)"
  by pat_completeness auto
termination
  by (relation "measure (\<lambda>(old, new, s). length s)") auto

definition performance_cols :: "pystr list" where
  "performance_cols =
     [py ''Financial_Performance_Score'', py ''Operational_Efficiency_Score'',
      py ''Market_Position_Score'', py ''Innovation_Score'']"

definition trace_name :: "pystr \<Rightarrow> pystr" where
  "trace_name c = py_replace (py ''_'') (py '' '') (py_replace (py ''_Score'') [] c)"

text \<open>\<open>col in companies_df.columns\<close>: every row of the frame has the column.\<close>

definition has_column :: "row list \<Rightarrow> pystr \<Rightarrow> bool" where
  "has_column rows c \<longleftrightarrow> (\<forall>r\<in>set rows. jlookup r c \<noteq> None)"

text \<open>The traces of the score chart: for each score column, its name, the sectors and
  the sector means; none when a score column is missing.\<close>

definition score_traces :: "row list \<Rightarrow> py_error + (pystr \<times> jval list \<times> fval list) list" where
  "score_traces companies_df =
     (if \<forall>c\<in>set performance_cols. has_column companies_df c
      then ebind (emap (\<lambda>r. ebind (col r (py ''Sector'')) (\<lambda>sector.
                            ebind (emap (\<lambda>c. ebind (col r c) num_cell) performance_cols) (\<lambda>scores.
                              Inr (sector, scores)))) companies_df) (\<lambda>rows.
             let score_data = group_mean fst (map (\<lambda>i r. snd r ! i) [0..<length performance_cols]) rows
             in Inr (map (\<lambda>i. (trace_name (performance_cols ! i), map fst score_data,
                                map (\<lambda>kv. snd kv ! i) score_data))
                         [0..<length performance_cols]))
      else Inr [])"

section \<open>The sidebar\<close>

text \<open>The five key fields: the name shown, and the environment variable they read and set.\<close>

definition api_key_vars :: "(pystr \<times> pystr) list" where
  "api_key_vars =
     [(py ''OpenAI'', py ''OPENAI_API_KEY''), (py ''NewsData.io'', py ''NEWSDATA_API_KEY''),
      (py ''Finnhub'', py ''FINNHUB_API_KEY''), (py ''Alpha Vantage'', py ''ALPHA_VANTAGE_API_KEY''),
      (py ''MarketAux'', py ''MARKETAUX_API_KEY'')]"

text \<open>\<open>st.sidebar.text_input(..., value=os.getenv(var, ''))\<close>: what the user typed into the
  field (\<open>widget var\<close>), or else the variable's value in \<open>os.environ\<close>.\<close>

definition sidebar_keys :: "(pystr \<Rightarrow> pystr option) \<Rightarrow> (pystr \<Rightarrow> pystr option) \<Rightarrow> pystr list" where
  "sidebar_keys environ widget =
     map (\<lambda>nv. case widget (snd nv) of
                 Some k \<Rightarrow> k
               | None \<Rightarrow> (case environ (snd nv) of Some v \<Rightarrow> v | None \<Rightarrow> []))
         api_key_vars"

text \<open>\<open>if key: os.environ[var] = key\<close>, in the order of the fields.\<close>

definition sidebar_environ :: "(pystr \<Rightarrow> pystr option) \<Rightarrow> pystr list \<Rightarrow> (pystr \<Rightarrow> pystr option)" where
  "sidebar_environ environ keys =
     fold (\<lambda>vk e. if snd vk \<noteq> [] then e(fst vk \<mapsto> snd vk) else e) (zip (map snd api_key_vars) keys) environ"

definition sidebar_status :: "pystr list \<Rightarrow> pystr list" where
  "sidebar_status keys =
     map (\<lambda>nk. py ''**'' @ fst nk @ py ''**: '' @
                (if snd nk \<noteq> [] then 9989 # py '' Connected'' else 10060 # py '' Not configured''))
         (zip (map fst api_key_vars) keys)"

section \<open>Lemmas: \<open>groupby\<close>\<close>

lemma num_key_jstr [simp]: "is_jstr v \<Longrightarrow> num_key v = None"
  by (cases v) simp_all

lemma set_group_keys [simp]: "set (group_keys vs) = set vs - {JNull}"
  by (auto simp: group_keys_def Let_def)

lemma distinct_group_keys [simp]: "distinct (group_keys vs)"
  by (auto simp: group_keys_def Let_def)

text \<open>A column of strings gives strictly increasing keys.\<close>

lemma group_keys_strings:
  assumes "\<forall>v\<in>set vs. v = JNull \<or> is_jstr v"
  shows "sorted_wrt (<) (map jstr_val (group_keys vs))"
proof -
  let ?ks = "remdups (filter (\<lambda>v. v \<noteq> JNull) vs)"
  have str: "\<forall>v\<in>set ?ks. is_jstr v" using assms by auto
  then have num: "filter (\<lambda>v. num_key v \<noteq> None) ?ks = []" and
    oth: "filter (\<lambda>v. num_key v = None \<and> \<not> is_jstr v) ?ks = []"
    by (auto simp: filter_empty_conv elim!: is_jstr.elims)
  have inj: "inj_on jstr_val (set (filter is_jstr ?ks))"
    by (rule inj_onI) (auto elim!: is_jstr.elims)
  have "sorted (map jstr_val (sort_key jstr_val (filter is_jstr ?ks)))" by simp
  moreover have "distinct (map jstr_val (sort_key jstr_val (filter is_jstr ?ks)))"
    using inj by (simp add: distinct_map)
  ultimately show ?thesis unfolding group_keys_def Let_def num oth by (simp add: strict_sorted_iff)
qed

lemma group_mean_spec:
  "map fst (group_mean key cols rows) = group_keys (map key rows) \<and>
   (\<forall>x\<in>set (group_mean key cols rows).
      snd x = map (\<lambda>c. pd_mean (map c (filter (\<lambda>r. key r = fst x) rows))) cols)"
  by (auto simp: group_mean_def comp_def)

lemma distinct_set_singleton:
  assumes "distinct xs" and "set xs = {a}"
  shows "xs = [a]"
proof -
  have "length xs = 1" using distinct_card[OF assms(1)] assms(2) by simp
  then obtain y where "xs = [y]" by (auto simp: length_Suc_conv)
  with assms(2) show ?thesis by simp
qed

lemma sorted_concat_blocks: "sorted ys \<Longrightarrow> sorted (concat (map (\<lambda>y. map (\<lambda>_. y) (f y)) ys))"
  by (induction ys) (auto simp: sorted_append map_replicate_const)

text \<open>The revenue trends: the years in increasing order, and for each year and sector
  the mean revenue of the rows of that year and sector.\<close>

lemma sector_yearly_spec:
  assumes "merge_sector fin comps = Inr m" and "sector_yearly fin comps = Inr rows"
  shows "sorted (map fst rows) \<and>
         (\<forall>x\<in>set rows. fst (snd x) \<noteq> JNull \<and>
            snd (snd x) = pd_mean (map (fr_revenue \<circ> fst)
              (filter (\<lambda>r. snd r = fst (snd x)) (filter (\<lambda>r. fr_year (fst r) = fst x) m))))"
proof -
  let ?g = "\<lambda>y. group_mean snd [fr_revenue \<circ> fst] (filter (\<lambda>x. fr_year (fst x) = y) m)"
  let ?ys = "sort (remdups (map (fr_year \<circ> fst) m))"
  have rows: "rows = concat (map (\<lambda>y. map (\<lambda>kv. (y, fst kv, hd (snd kv))) (?g y)) ?ys)"
    using assms by (simp add: sector_yearly_def)
  have "map fst rows = concat (map (\<lambda>y. map (\<lambda>_. y) (?g y)) ?ys)"
    unfolding rows by (simp add: map_concat comp_def)
  then have "sorted (map fst rows)" using sorted_concat_blocks[of ?ys ?g] by simp
  moreover have "\<forall>x\<in>set rows. fst (snd x) \<noteq> JNull \<and>
            snd (snd x) = pd_mean (map (fr_revenue \<circ> fst)
              (filter (\<lambda>r. snd r = fst (snd x)) (filter (\<lambda>r. fr_year (fst r) = fst x) m)))"
  proof
    fix x assume "x \<in> set rows"
    then obtain y where "y \<in> set ?ys" and "x \<in> set (map (\<lambda>kv. (y, fst kv, hd (snd kv))) (?g y))"
      unfolding rows by (auto simp del: set_sort)
    then obtain kv where kv: "kv \<in> set (?g y)" and x: "x = (y, fst kv, hd (snd kv))" by auto
    have eq: "map fst (?g y) = group_keys (map snd (filter (\<lambda>x. fr_year (fst x) = y) m))"
      using group_mean_spec[of snd "[fr_revenue \<circ> fst]" "filter (\<lambda>x. fr_year (fst x) = y) m"] by (rule conjunct1)
    have "fst kv \<in> set (map fst (?g y))" using kv by simp
    then have "fst kv \<in> set (group_keys (map snd (filter (\<lambda>x. fr_year (fst x) = y) m)))"
      by (simp only: eq)
    moreover have "snd kv = [pd_mean (map (fr_revenue \<circ> fst)
                      (filter (\<lambda>r. snd r = fst kv) (filter (\<lambda>r. fr_year (fst r) = y) m)))]"
      using kv group_mean_spec[of snd "[fr_revenue \<circ> fst]" "filter (\<lambda>x. fr_year (fst x) = y) m"] by simp
    ultimately show "fst (snd x) \<noteq> JNull \<and>
            snd (snd x) = pd_mean (map (fr_revenue \<circ> fst)
              (filter (\<lambda>r. snd r = fst (snd x)) (filter (\<lambda>r. fr_year (fst r) = fst x) m)))"
      using x by simp
  qed
  ultimately show ?thesis ..
qed

lemma trace_names:
  "map trace_name performance_cols =
     [py ''Financial Performance'', py ''Operational Efficiency'', py ''Market Position'', py ''Innovation'']"
  by (simp add: performance_cols_def trace_name_def pystr_simps cong: if_weak_cong)

text \<open>The updates of \<open>os.environ\<close>: a variable whose field holds a key gets it, and
  a variable no field names keeps its value.\<close>

lemma fold_environ_other:
  "v \<notin> set vs \<Longrightarrow>
   fold (\<lambda>vk e. if snd vk \<noteq> [] then e(fst vk \<mapsto> snd vk) else e) (zip vs ks) environ v = environ v"
  by (induction vs arbitrary: ks environ) (auto simp: zip_Cons1 split: list.splits)

lemma fold_environ_at:
  "distinct vs \<Longrightarrow> length ks = length vs \<Longrightarrow> i < length vs \<Longrightarrow> ks ! i \<noteq> [] \<Longrightarrow>
   fold (\<lambda>vk e. if snd vk \<noteq> [] then e(fst vk \<mapsto> snd vk) else e) (zip vs ks) environ (vs ! i) = Some (ks ! i)"
proof (induction vs arbitrary: ks environ i)
  case Nil
  then show ?case by simp
next
  case (Cons v vs)
  then obtain k ks' where ks: "ks = k # ks'" by (cases ks) auto
  show ?case
  proof (cases i)
    case 0
    then show ?thesis using Cons.prems ks by (simp add: fold_environ_other)
  next
    case (Suc j)
    then show ?thesis using Cons.prems ks by (simp add: Cons.IH)
  qed
qed

text \<open>The sidebar's round trip: on the next rerun, a field that held a key shows that key
  again as its default, read back from \<open>os.environ\<close>.\<close>

lemma sidebar_roundtrip:
  assumes "length keys = 5" and "i < 5" and "keys ! i \<noteq> []"
  shows "sidebar_keys (sidebar_environ environ keys) (\<lambda>v. None) ! i = keys ! i"
proof -
  have d: "distinct (map snd api_key_vars)" and l: "length (map snd api_key_vars) = 5"
    by (simp_all add: api_key_vars_def pystr_simps)
  have "sidebar_environ environ keys (map snd api_key_vars ! i) = Some (keys ! i)"
    unfolding sidebar_environ_def using fold_environ_at[OF d] assms l by simp
  then show ?thesis using assms(2) l by (simp add: sidebar_keys_def)
qed

section \<open>Properties of the tables\<close>

text \<open>C21: the sector performance table of the dashboard has one row per sector of the
  2024 rows merged with the companies, \<open>NaN\<close> excluded, each once; with string sectors
  the rows are in increasing code-point order; each row holds the means of its group's
  revenue, profit margin and return on assets, rounded half to even to two decimals.\<close>

theorem sector_performance_spec:
  assumes "merge_sector (filter (\<lambda>f. fr_year f = 2024) fin) comps = Inr m"
  shows "\<exists>tbl. sector_performance fin comps = Inr tbl \<and>
           set (map fst tbl) = set (map snd m) - {JNull} \<and> distinct (map fst tbl) \<and>
           ((\<forall>k\<in>set (map snd m). k = JNull \<or> is_jstr k) \<longrightarrow> sorted_wrt (<) (map (jstr_val \<circ> fst) tbl)) \<and>
           (\<forall>x\<in>set tbl. snd x = map (\<lambda>c. fval_round 2 (pd_mean (map c (filter (\<lambda>r. snd r = fst x) m))))
                                     [fr_revenue \<circ> fst, fr_margin \<circ> fst, fr_roa \<circ> fst])"
proof -
  define g where "g = group_mean snd [fr_revenue \<circ> fst, fr_margin \<circ> fst, fr_roa \<circ> fst] m"
  define tbl where "tbl = map (\<lambda>kv. (fst kv, map (fval_round 2) (snd kv))) g"
  have out: "sector_performance fin comps = Inr tbl"
    using assms by (simp add: sector_performance_def tbl_def g_def)
  have keys: "map fst tbl = group_keys (map snd m)"
    using group_mean_spec[of snd "[fr_revenue \<circ> fst, fr_margin \<circ> fst, fr_roa \<circ> fst]" m]
    by (simp add: tbl_def g_def comp_def)
  have sorted: "(\<forall>k\<in>set (map snd m). k = JNull \<or> is_jstr k) \<longrightarrow> sorted_wrt (<) (map (jstr_val \<circ> fst) tbl)"
  proof
    assume "\<forall>k\<in>set (map snd m). k = JNull \<or> is_jstr k"
    from group_keys_strings[OF this] have "sorted_wrt (<) (map jstr_val (map fst tbl))" by (simp only: keys)
    then show "sorted_wrt (<) (map (jstr_val \<circ> fst) tbl)" by simp
  qed
  have means: "\<forall>x\<in>set tbl. snd x = map (\<lambda>c. fval_round 2 (pd_mean (map c (filter (\<lambda>r. snd r = fst x) m))))
                                       [fr_revenue \<circ> fst, fr_margin \<circ> fst, fr_roa \<circ> fst]"
    using group_mean_spec[of snd "[fr_revenue \<circ> fst, fr_margin \<circ> fst, fr_roa \<circ> fst]" m]
    by (auto simp: tbl_def g_def)
  have "set (map fst tbl) = set (map snd m) - {JNull}" "distinct (map fst tbl)"
    by (simp_all only: keys set_group_keys distinct_group_keys)
  with out sorted means show ?thesis by blast
qed

theorem sector_performance_spec_witness:
  "sector_performance demo_fin [demo_company] = Inr [(JStr (py ''Manufacturing''), [Fin (305 / 2), Fin 8, FNaN])]"
proof -
  let ?m = "map (\<lambda>f. (f, JStr (py ''Manufacturing''))) [demo_fin_row 2024 150, demo_fin_row 2024 155]"
  have m: "merge_sector (filter (\<lambda>f. fr_year f = 2024) demo_fin) [demo_company] = Inr ?m"
    by (simp add: merge_sector_def demo_company_def col_def jlookup_def demo_fin_def demo_fin_row_def
                  pystr_simps)
  from sector_performance_spec[OF m] obtain tbl where
    out: "sector_performance demo_fin [demo_company] = Inr tbl" and
    keys: "set (map fst tbl) = set (map snd ?m) - {JNull}" and dist: "distinct (map fst tbl)" and
    vals: "\<forall>x\<in>set tbl. snd x = map (\<lambda>c. fval_round 2 (pd_mean (map c (filter (\<lambda>r. snd r = fst x) ?m))))
                                   [fr_revenue \<circ> fst, fr_margin \<circ> fst, fr_roa \<circ> fst]"
    by blast
  have "set (map fst tbl) = {JStr (py ''Manufacturing'')}" using keys by auto
  with dist have "map fst tbl = [JStr (py ''Manufacturing'')]" by (rule distinct_set_singleton)
  then obtain ms where tbl: "tbl = [(JStr (py ''Manufacturing''), ms)]" by (cases tbl) auto
  have "ms = [Fin (305 / 2), Fin 8, FNaN]"
    using vals tbl by (simp add: demo_fin_row_def pd_mean_def List.map_filter_simps round_half_even_def)
  with out tbl show ?thesis by simp
qed

end
