(* ===== verification/EnvTemplate.thy ===== *)
theory EnvTemplate
  imports AppTables
begin

text \<open>
  The deployment's key file. \<open>script_9.py\<close> writes the template \<open>.env.example\<close>
  (\<open>env_example\<close>), which the README written by \<open>script_10.py\<close> tells the user to
  copy to \<open>.env\<close>; the README also shows the block itself (\<open>readme_env\<close>).
  \<open>config.py\<close> calls \<open>load_dotenv()\<close> and then reads the five keys with
  \<open>os.getenv\<close>; the sidebar of \<open>app.py\<close> shows them again (theory \<open>AppTables\<close>).
  \<open>load_dotenv\<close> is python-dotenv's: the file is split into lines; a line is blank, a
  comment, or a binding \<open>KEY=value\<close> (\<open>KEY\<close> alone binds \<open>None\<close>); an unquoted value
  loses a comment introduced by white space before \<open>#\<close> and its trailing white space; a
  line that does not parse is skipped. The bindings go into a dict (the last binding of a
  key wins) and each key not already in \<open>os.environ\<close> is set to its value
  (\<open>override=False\<close>). Not modelled: \<open>export\<close> prefixes, escapes inside quoted values,
  \<open>${VAR}\<close> interpolation and \<open>\r\n\<close> line ends; the template uses none of them.
\<close>

section \<open>The template of \<open>script_9.py\<close>\<close>

definition env_example_lines :: "pystr list" where
  "env_example_lines =
     [py ''# MSME RAG Chatbot API Keys'',
      py ''# Copy this file to .env and add your actual API keys'',
      [],
      py ''# Required for AI responses (GET FROM: https://platform.openai.com/api-keys)'',
      py ''OPENAI_API_KEY=your_openai_api_key_here'',
      [],
      py ''# Optional News APIs (for enhanced market intelligence)'',
      py ''# GET FROM: https://newsdata.io/'',
      py ''NEWSDATA_API_KEY=your_newsdata_api_key_here'',
      [],
      py ''# GET FROM: https://finnhub.io/'',
      py ''FINNHUB_API_KEY=your_finnhub_api_key_here'',
      [],
      py ''# GET FROM: https://www.alphavantage.co/'',
      py ''ALPHA_VANTAGE_API_KEY=your_alpha_vantage_api_key_here'',
      [],
      py ''# GET FROM: https://www.marketaux.com/'',
      py ''MARKETAUX_API_KEY=your_marketaux_api_key_here'']"

text \<open>The triple-quoted string: every line, each ended by a newline.\<close>

definition env_example :: pystr where
  "env_example = concat (map (\<lambda>l. l @ [10]) env_example_lines)"

text \<open>The \<open>.env\<close> block of the README written by \<open>script_10.py\<close>, whose lines carry
  comments after the values.\<close>

definition readme_env_lines :: "pystr list" where
  "readme_env_lines =
     [py ''OPENAI_API_KEY=your_openai_api_key_here'',
      py ''NEWSDATA_API_KEY=your_newsdata_api_key_here  # Optional but recommended'',
      py ''FINNHUB_API_KEY=your_finnhub_api_key_here    # Optional'',
      py ''ALPHA_VANTAGE_API_KEY=your_alpha_vantage_key # Optional  '',
      py ''MARKETAUX_API_KEY=your_marketaux_api_key     # Optional'']"

definition readme_env :: pystr where
  "readme_env = concat (map (\<lambda>l. l @ [10]) readme_env_lines)"

section \<open>python-dotenv\<close>

text \<open>The lines of the file: split at each newline; a final newline ends the last line.\<close>

function split_lines :: "pystr \<Rightarrow> pystr list" where
  "split_lines [] = []"
| "split_lines (c # cs) =
     takeWhile (\<lambda>x. x \<noteq> 10) (c # cs) # split_lines (drop 1 (dropWhile (\<lambda>x. x \<noteq> 10) (c # cs)))"
  by pat_completeness auto
termination
proof (relation "measure length")
  fix c cs
  have "length (dropWhile (\<lambda>x. x \<noteq> 10) (c # cs)) \<le> length (c # cs)"
    by (rule length_dropWhile_le)
  then show "(drop 1 (dropWhile (\<lambda>x. x \<noteq> 10) (c # cs)), c # cs) \<in> measure length"
    by simp
qed simp

definition py_rstrip :: "pystr \<Rightarrow> pystr" where
  "py_rstrip s = rev (dropWhile py_isspace (rev s))"

text \<open>\<open>re.sub(r"\s+#.*", "", value)\<close>: cut at the first white space run followed by \<open>#\<close>.\<close>

fun cut_comment :: "pystr \<Rightarrow> pystr" where
  "cut_comment [] = []"
| "cut_comment (c # cs) =
     (if py_isspace c \<and> take 1 (dropWhile py_isspace cs) = [35] then [] else c # cut_comment cs)"

text \<open>The value after \<open>=\<close>: a quoted value up to its closing quote, else the rest of
  the line without its comment and trailing white space; \<open>None\<close> when a quote is
  not closed (a parse error).\<close>

definition dotenv_value :: "pystr \<Rightarrow> pystr option" where
  "dotenv_value v =
     (if v \<noteq> [] \<and> (hd v = 39 \<or> hd v = 34)
      then (if hd v \<in> set (tl v) then Some (takeWhile (\<lambda>x. x \<noteq> hd v) (tl v)) else None)
      else Some (py_rstrip (cut_comment v)))"

text \<open>One line: \<open>None\<close> for a blank line, a comment or a parse error; otherwise the
  key and its value, \<open>None\<close> when the line has no \<open>=\<close>.\<close>

definition dotenv_line :: "pystr \<Rightarrow> (pystr \<times> pystr option) option" where
  "dotenv_line l =
     (let l' = dropWhile py_isspace l;
          key = takeWhile (\<lambda>x. x \<noteq> 61 \<and> x \<noteq> 35 \<and> \<not> py_isspace x) l';
          rest = dropWhile py_isspace (drop (length key) l')
      in if key = [] then None
         else if rest = [] \<or> hd rest = 35 then Some (key, None)
         else if hd rest = 61
         then map_option (\<lambda>v. (key, Some v)) (dotenv_value (dropWhile py_isspace (tl rest)))
         else None)"

definition dotenv_parse :: "pystr \<Rightarrow> (pystr \<times> pystr option) list" where
  "dotenv_parse t = List.map_filter dotenv_line (split_lines t)"

text \<open>\<open>dotenv_values\<close>: the bindings as a dict.\<close>

definition dotenv_values :: "pystr \<Rightarrow> (pystr \<times> pystr option) list" where
  "dotenv_values t = fold (\<lambda>kv d. dict_set d (fst kv) (snd kv)) (dotenv_parse t) []"

text \<open>The loop of \<open>set_as_environment_variables\<close>: a key already in \<open>os.environ\<close>
  is skipped, a key bound to \<open>None\<close> is not set.\<close>

definition set_unset :: "pystr \<times> pystr option \<Rightarrow> (pystr \<Rightarrow> pystr option) \<Rightarrow> (pystr \<Rightarrow> pystr option)" where
  "set_unset kv e = (if e (fst kv) \<noteq> None then e
                     else case snd kv of None \<Rightarrow> e | Some v \<Rightarrow> e(fst kv \<mapsto> v))"

text \<open>\<open>load_dotenv()\<close> with the content of the \<open>.env\<close> file found, if any.\<close>

definition load_dotenv :: "(pystr \<Rightarrow> pystr option) \<Rightarrow> pystr option \<Rightarrow> (pystr \<Rightarrow> pystr option)" where
  "load_dotenv environ dotenv =
     (case dotenv of None \<Rightarrow> environ | Some t \<Rightarrow> fold set_unset (dotenv_values t) environ)"

section \<open>\<open>config.py\<close>\<close>

text \<open>\<open>OPENAI_API_KEY = os.getenv("OPENAI_API_KEY")\<close> and the four news keys.\<close>

definition config_keys :: "(pystr \<Rightarrow> pystr option) \<Rightarrow> pystr option \<times> api_keys" where
  "config_keys environ =
     (environ (py ''OPENAI_API_KEY''),
      \<lparr>newsdata_key = environ (py ''NEWSDATA_API_KEY''), finnhub_key = environ (py ''FINNHUB_API_KEY''),
       alpha_vantage_key = environ (py ''ALPHA_VANTAGE_API_KEY''),
       marketaux_key = environ (py ''MARKETAUX_API_KEY'')\<rparr>)"

text \<open>The import of \<open>config\<close>: \<open>load_dotenv()\<close>, then the keys; the environment after it.\<close>

definition import_config ::
  "(pystr \<Rightarrow> pystr option) \<Rightarrow> pystr option \<Rightarrow> (pystr \<Rightarrow> pystr option) \<times> pystr option \<times> api_keys" where
  "import_config environ dotenv =
     (let environ' = load_dotenv environ dotenv in (environ', config_keys environ'))"

text \<open>What a user writes into \<open>.env\<close>: a key of non-space characters other than
  \<open>=\<close> and \<open>#\<close>, and a value on one line, without \<open>#\<close>, that neither starts with a
  quote nor starts or ends with white space.\<close>

definition dotenv_key_ok :: "pystr \<Rightarrow> bool" where
  "dotenv_key_ok k \<longleftrightarrow> k \<noteq> [] \<and> list_all (\<lambda>c. c \<noteq> 61 \<and> c \<noteq> 35 \<and> \<not> py_isspace c) k"

definition dotenv_value_ok :: "pystr \<Rightarrow> bool" where
  "dotenv_value_ok v \<longleftrightarrow>
     list_all (\<lambda>c. c \<noteq> 10 \<and> c \<noteq> 35) v \<and>
     (v \<noteq> [] \<longrightarrow> \<not> py_isspace (hd v) \<and> hd v \<noteq> 39 \<and> hd v \<noteq> 34 \<and> \<not> py_isspace (last v))"

definition dotenv_render :: "(pystr \<times> pystr) list \<Rightarrow> pystr" where
  "dotenv_render kvs = concat (map (\<lambda>kv. fst kv @ 61 # snd kv @ [10]) kvs)"

section \<open>Lemmas: the parser\<close>

lemma split_lines_Cons_eq:
  "s \<noteq> [] \<Longrightarrow>
   split_lines s = takeWhile (\<lambda>x. x \<noteq> 10) s # split_lines (drop 1 (dropWhile (\<lambda>x. x \<noteq> 10) s))"
  by (cases s) simp_all

lemma split_lines_concat:
  "\<forall>l\<in>set ls. 10 \<notin> set l \<Longrightarrow> split_lines (concat (map (\<lambda>l. l @ [10]) ls)) = ls"
proof (induction ls)
  case Nil
  then show ?case by simp
next
  case (Cons l ls)
  then have nl: "\<And>x. x \<in> set l \<Longrightarrow> x \<noteq> 10" by auto
  have "takeWhile (\<lambda>x. x \<noteq> 10) (l @ 10 # concat (map (\<lambda>l. l @ [10]) ls)) = l"
    and "dropWhile (\<lambda>x. x \<noteq> 10) (l @ 10 # concat (map (\<lambda>l. l @ [10]) ls)) =
         10 # concat (map (\<lambda>l. l @ [10]) ls)"
    by (simp_all add: takeWhile_append2[of l, OF nl] dropWhile_append2[of l, OF nl])
  then show ?case using Cons by (simp add: split_lines_Cons_eq)
qed

lemma cut_comment_no_hash: "35 \<notin> set v \<Longrightarrow> cut_comment v = v"
proof (induction v)
  case (Cons c cs)
  have "take 1 (dropWhile py_isspace cs) \<noteq> [35]"
  proof
    assume "take 1 (dropWhile py_isspace cs) = [35]"
    then have "35 \<in> set (dropWhile py_isspace cs)" by (metis in_set_takeD list.set_intros(1))
    then show False using Cons.prems by (auto dest: set_dropWhileD)
  qed
  then show ?case using Cons by simp
qed simp

lemma py_rstrip_last: "v = [] \<or> \<not> py_isspace (last v) \<Longrightarrow> py_rstrip v = v"
  by (cases v rule: rev_cases) (auto simp: py_rstrip_def)

lemma dotenv_line_binding:
  assumes "dotenv_key_ok k" and "dotenv_value_ok v"
  shows "dotenv_line (k @ 61 # v) = Some (k, Some v)"
proof -
  have kc: "\<forall>c\<in>set k. c \<noteq> 61 \<and> c \<noteq> 35 \<and> \<not> py_isspace c" and kne: "k \<noteq> []"
    using assms(1) by (auto simp: dotenv_key_ok_def list_all_iff)
  have sp: "\<not> py_isspace 61" by (simp add: py_isspace_def)
  have l: "dropWhile py_isspace (k @ 61 # v) = k @ 61 # v"
    using kne kc by (cases k) auto
  have key: "takeWhile (\<lambda>x. x \<noteq> 61 \<and> x \<noteq> 35 \<and> \<not> py_isspace x) (k @ 61 # v) = k"
    using kc by (simp add: takeWhile_append2)
  have v: "dropWhile py_isspace v = v" and nq: "v \<noteq> [] \<longrightarrow> hd v \<noteq> 39 \<and> hd v \<noteq> 34"
    and nh: "35 \<notin> set v" and r: "v = [] \<or> \<not> py_isspace (last v)"
    using assms(2) by (cases v; auto simp: dotenv_value_ok_def list_all_iff)+
  have "dotenv_value v = Some v"
    using nq by (auto simp: dotenv_value_def cut_comment_no_hash[OF nh] py_rstrip_last[OF r])
  then show ?thesis using kne sp by (simp add: dotenv_line_def Let_def l key v)
qed

lemma dotenv_line_comment: "take 1 (dropWhile py_isspace l) = [35] \<Longrightarrow> dotenv_line l = None"
  by (cases "dropWhile py_isspace l") (auto simp: dotenv_line_def Let_def)

lemma dotenv_line_blank: "dotenv_line [] = None"
  by (simp add: dotenv_line_def)

lemma map_filter_bindings:
  "\<forall>kv\<in>set kvs. dotenv_key_ok (fst kv) \<and> dotenv_value_ok (snd kv) \<Longrightarrow>
   List.map_filter dotenv_line (map (\<lambda>kv. fst kv @ 61 # snd kv) kvs) = map (\<lambda>kv. (fst kv, Some (snd kv))) kvs"
  by (induction kvs) (auto simp: map_filter_simps dotenv_line_binding)

lemma binding_no_newline:
  "dotenv_key_ok k \<Longrightarrow> dotenv_value_ok v \<Longrightarrow> 10 \<notin> set (k @ 61 # v)"
proof -
  have "py_isspace 10" by (simp add: py_isspace_def)
  then show "dotenv_key_ok k \<Longrightarrow> dotenv_value_ok v \<Longrightarrow> 10 \<notin> set (k @ 61 # v)"
    by (auto simp: dotenv_key_ok_def dotenv_value_ok_def list_all_iff)
qed

section \<open>Lemmas: \<open>load_dotenv\<close>\<close>

lemma map_fst_dict_set:
  "map fst (dict_set kvs k v) = (if k \<in> fst ` set kvs then map fst kvs else map fst kvs @ [k])"
  by (induction kvs) (simp_all, force)

lemma distinct_dict_set: "distinct (map fst kvs) \<Longrightarrow> distinct (map fst (dict_set kvs k v))"
  by (simp add: map_fst_dict_set)

lemma distinct_dotenv_values: "distinct (map fst (dotenv_values t))"
proof -
  have "\<And>d. distinct (map fst d) \<Longrightarrow>
            distinct (map fst (fold (\<lambda>kv d. dict_set d (fst kv) (snd kv)) xs d))" for xs :: "(pystr \<times> pystr option) list"
    by (induction xs) (auto simp: distinct_dict_set)
  then show ?thesis by (simp add: dotenv_values_def)
qed

text \<open>The dict keeps the last binding of each key.\<close>

lemma map_of_dotenv_values: "map_of (dotenv_values t) = map_of (rev (dotenv_parse t))"
proof -
  have "\<And>d. map_of (fold (\<lambda>kv d. dict_set d (fst kv) (snd kv)) xs d) = map_of (rev xs @ d)"
    for xs :: "(pystr \<times> pystr option) list"
    by (induction xs) (auto simp: map_of_dict_set map_add_def fun_eq_iff split: option.splits)
  then show ?thesis by (simp add: dotenv_values_def)
qed

lemma fold_set_unset:
  "distinct (map fst d) \<Longrightarrow>
   fold set_unset d environ k =
   (case environ k of Some x \<Rightarrow> Some x
    | None \<Rightarrow> (case map_of d k of Some (Some v) \<Rightarrow> Some v | _ \<Rightarrow> None))"
proof (induction d arbitrary: environ)
  case (Cons kv d)
  obtain k' ov where kv: "kv = (k', ov)" by (cases kv)
  have d: "distinct (map fst d)" and k': "k' \<notin> fst ` set d" using Cons.prems kv by auto
  have "fold set_unset (kv # d) environ k =
        (case set_unset kv environ k of Some x \<Rightarrow> Some x
         | None \<Rightarrow> (case map_of d k of Some (Some v) \<Rightarrow> Some v | _ \<Rightarrow> None))"
    using Cons.IH[OF d] by simp
  moreover have "set_unset kv environ k =
                   (if k = k' then (case environ k of Some x \<Rightarrow> Some x | None \<Rightarrow> ov) else environ k)"
    unfolding kv set_unset_def by (cases ov; cases "environ k'") auto
  moreover have "k = k' \<Longrightarrow> map_of d k = None" using k' by (simp add: map_of_eq_None_iff)
  ultimately show ?case
    by (cases "k = k'"; cases "environ k"; cases ov) (simp_all add: kv)
qed (simp split: option.split)


lemma load_dotenv_at:
  "load_dotenv environ (Some t) k =
   (case environ k of Some x \<Rightarrow> Some x
    | None \<Rightarrow> (case map_of (rev (dotenv_parse t)) k of Some (Some v) \<Rightarrow> Some v | _ \<Rightarrow> None))"
  by (cases "environ k")
     (simp_all add: load_dotenv_def fold_set_unset[OF distinct_dotenv_values] map_of_dotenv_values)

section \<open>Lemmas: the template\<close>

lemma env_lines_nl: "\<forall>l\<in>set env_example_lines. 10 \<notin> set l"
  by (simp add: env_example_lines_def py_def)

lemma dotenv_line_split:
  assumes "61 \<in> set l" and "dotenv_key_ok (takeWhile (\<lambda>c. c \<noteq> 61) l)"
    and "dotenv_value_ok (drop 1 (dropWhile (\<lambda>c. c \<noteq> 61) l))"
  shows "dotenv_line l = Some (takeWhile (\<lambda>c. c \<noteq> 61) l, Some (drop 1 (dropWhile (\<lambda>c. c \<noteq> 61) l)))"
proof -
  have "dropWhile (\<lambda>c. c \<noteq> 61) l = 61 # drop 1 (dropWhile (\<lambda>c. c \<noteq> 61) l)"
    using assms(1) by (induction l) auto
  then have "l = takeWhile (\<lambda>c. c \<noteq> 61) l @ 61 # drop 1 (dropWhile (\<lambda>c. c \<noteq> 61) l)"
    by (metis takeWhile_dropWhile_id)
  then show ?thesis using dotenv_line_binding[OF assms(2,3)] by simp
qed

lemma env_example_parse:
  "dotenv_parse env_example =
     [(py ''OPENAI_API_KEY'', Some (py ''your_openai_api_key_here'')),
      (py ''NEWSDATA_API_KEY'', Some (py ''your_newsdata_api_key_here'')),
      (py ''FINNHUB_API_KEY'', Some (py ''your_finnhub_api_key_here'')),
      (py ''ALPHA_VANTAGE_API_KEY'', Some (py ''your_alpha_vantage_api_key_here'')),
      (py ''MARKETAUX_API_KEY'', Some (py ''your_marketaux_api_key_here''))]"
proof -
  have "dotenv_parse env_example = List.map_filter dotenv_line env_example_lines"
    by (simp add: env_example_def dotenv_parse_def split_lines_concat[OF env_lines_nl])
  also have "\<dots> = [(py ''OPENAI_API_KEY'', Some (py ''your_openai_api_key_here'')),
      (py ''NEWSDATA_API_KEY'', Some (py ''your_newsdata_api_key_here'')),
      (py ''FINNHUB_API_KEY'', Some (py ''your_finnhub_api_key_here'')),
      (py ''ALPHA_VANTAGE_API_KEY'', Some (py ''your_alpha_vantage_api_key_here'')),
      (py ''MARKETAUX_API_KEY'', Some (py ''your_marketaux_api_key_here''))]"
    by (simp add: env_example_lines_def map_filter_simps dotenv_line_blank dotenv_line_comment
                  dotenv_line_split dotenv_key_ok_def dotenv_value_ok_def py_def py_isspace_def)
  finally show ?thesis .
qed
lemma py_eq_Nil_iff [simp]: "py s = [] \<longleftrightarrow> s = []"
  by (simp add: py_def)

lemma readme_env_parse:
  "dotenv_parse readme_env =
     [(py ''OPENAI_API_KEY'', Some (py ''your_openai_api_key_here'')),
      (py ''NEWSDATA_API_KEY'', Some (py ''your_newsdata_api_key_here'')),
      (py ''FINNHUB_API_KEY'', Some (py ''your_finnhub_api_key_here'')),
      (py ''ALPHA_VANTAGE_API_KEY'', Some (py ''your_alpha_vantage_key'')),
      (py ''MARKETAUX_API_KEY'', Some (py ''your_marketaux_api_key''))]"
proof -
  have nl: "\<forall>l\<in>set readme_env_lines. 10 \<notin> set l"
    by (simp add: readme_env_lines_def py_def)
  have "dotenv_parse readme_env = List.map_filter dotenv_line readme_env_lines"
    by (simp add: readme_env_def dotenv_parse_def split_lines_concat[OF nl])
  also have "\<dots> = [(py ''OPENAI_API_KEY'', Some (py ''your_openai_api_key_here'')),
      (py ''NEWSDATA_API_KEY'', Some (py ''your_newsdata_api_key_here'')),
      (py ''FINNHUB_API_KEY'', Some (py ''your_finnhub_api_key_here'')),
      (py ''ALPHA_VANTAGE_API_KEY'', Some (py ''your_alpha_vantage_key'')),
      (py ''MARKETAUX_API_KEY'', Some (py ''your_marketaux_api_key''))]"
    by (simp add: readme_env_lines_def map_filter_simps dotenv_line_def dotenv_value_def py_rstrip_def
                  Let_def py_def py_isspace_def)
  finally show ?thesis .
qed

text \<open>The README's block and the template bind the same variables, exactly the five the
  sidebar shows and \<open>config.py\<close> reads, each once; the inline comments of the README do
  not reach the values.\<close>

lemma documented_keys_agree:
  "map fst (dotenv_parse readme_env) = map snd api_key_vars \<and>
   map fst (dotenv_parse env_example) = map snd api_key_vars \<and> distinct (map snd api_key_vars) \<and>
   (\<forall>kv\<in>set (dotenv_parse readme_env). \<exists>v. snd kv = Some v \<and> 35 \<notin> set v)"
  by (simp add: readme_env_parse env_example_parse api_key_vars_def pystr_simps)

section \<open>Properties\<close>

text \<open>C15: \<open>load_dotenv\<close> never overrides: after the import of \<open>config\<close>, a variable
  already in the environment keeps its value, and any other variable has the value of
  its last binding in \<open>.env\<close>, and stays unset when that binding has no \<open>=\<close>.\<close>

theorem load_dotenv_spec:
  "fst (import_config environ (Some t)) k =
   (case environ k of Some x \<Rightarrow> Some x
    | None \<Rightarrow> (case map_of (rev (dotenv_parse t)) k of Some (Some v) \<Rightarrow> Some v | _ \<Rightarrow> None))"
  by (simp add: import_config_def Let_def load_dotenv_at)

text \<open>The parser model: a \<open>.env\<close> file of \<open>KEY=value\<close> lines with plain keys and values parses back
  to exactly those bindings, in order.\<close>

theorem dotenv_roundtrip:
  assumes "\<forall>kv\<in>set kvs. dotenv_key_ok (fst kv) \<and> dotenv_value_ok (snd kv)"
  shows "dotenv_parse (dotenv_render kvs) = map (\<lambda>kv. (fst kv, Some (snd kv))) kvs"
proof -
  have r: "dotenv_render kvs = concat (map (\<lambda>l. l @ [10]) (map (\<lambda>kv. fst kv @ 61 # snd kv) kvs))"
    by (simp add: dotenv_render_def o_def)
  have "\<forall>l\<in>set (map (\<lambda>kv. fst kv @ 61 # snd kv) kvs). 10 \<notin> set l"
    using assms binding_no_newline by fastforce
  then show ?thesis
    using assms by (simp only: r dotenv_parse_def split_lines_concat map_filter_bindings)
qed

theorem dotenv_roundtrip_witness:
  "dotenv_parse (dotenv_render [(py ''OPENAI_API_KEY'', py ''sk-test 1'')]) =
   [(py ''OPENAI_API_KEY'', Some (py ''sk-test 1''))]"
proof -
  have "\<forall>kv\<in>set [(py ''OPENAI_API_KEY'', py ''sk-test 1'')]. dotenv_key_ok (fst kv) \<and> dotenv_value_ok (snd kv)"
    by (simp add: dotenv_key_ok_def dotenv_value_ok_def py_isspace_def py_def)
  from dotenv_roundtrip[OF this] show ?thesis by simp
qed

text \<open>C8: the template is not inert. Copied to \<open>.env\<close> without editing, in a
  process that has none of the five keys, it sets all five to non-empty placeholders: the
  sidebar shows every API as connected, \<open>config.OPENAI_API_KEY\<close> is the placeholder, and
  Initialize System creates a pipeline whose language-model calls can only fail.\<close>

theorem unedited_template_connects:
  assumes "\<forall>v\<in>set (map snd api_key_vars). environ v = None"
  shows "sidebar_status (sidebar_keys (fst (import_config environ (Some env_example))) (\<lambda>v. None)) =
           map (\<lambda>n. py ''**'' @ n @ py ''**: '' @ 9989 # py '' Connected'') (map fst api_key_vars) \<and>
         fst (snd (import_config environ (Some env_example))) = Some (py ''your_openai_api_key_here'') \<and>
         (\<forall>env s k. ae_config_key env = fst (snd (import_config environ (Some env_example))) \<and> k \<noteq> [] \<longrightarrow>
            rag_pipeline (app_initialize env s k) \<noteq> None)"
proof -
  define e where "e = load_dotenv environ (Some env_example)"
  have unset: "environ (py ''OPENAI_API_KEY'') = None" "environ (py ''NEWSDATA_API_KEY'') = None"
    "environ (py ''FINNHUB_API_KEY'') = None" "environ (py ''ALPHA_VANTAGE_API_KEY'') = None"
    "environ (py ''MARKETAUX_API_KEY'') = None"
    using assms by (simp_all add: api_key_vars_def)
  have vals: "e (py ''OPENAI_API_KEY'') = Some (py ''your_openai_api_key_here'')"
    "e (py ''NEWSDATA_API_KEY'') = Some (py ''your_newsdata_api_key_here'')"
    "e (py ''FINNHUB_API_KEY'') = Some (py ''your_finnhub_api_key_here'')"
    "e (py ''ALPHA_VANTAGE_API_KEY'') = Some (py ''your_alpha_vantage_api_key_here'')"
    "e (py ''MARKETAUX_API_KEY'') = Some (py ''your_marketaux_api_key_here'')"
    unfolding e_def load_dotenv_at env_example_parse using unset by (simp_all add: py_def)
  have imp: "import_config environ (Some env_example) = (e, config_keys e)"
    by (simp add: import_config_def e_def Let_def)
  have status: "sidebar_status (sidebar_keys e (\<lambda>v. None)) =
           map (\<lambda>n. py ''**'' @ n @ py ''**: '' @ 9989 # py '' Connected'') (map fst api_key_vars)"
    by (simp add: sidebar_status_def sidebar_keys_def api_key_vars_def vals py_eq_Nil_iff)
  have key: "fst (config_keys e) = Some (py ''your_openai_api_key_here'')"
    by (simp add: config_keys_def vals)
  have "\<forall>env s k. ae_config_key env = Some (py ''your_openai_api_key_here'') \<and> k \<noteq> [] \<longrightarrow>
          rag_pipeline (app_initialize env s k) \<noteq> None"
    using app_initialize_pipeline by (simp add: py_def)
  then show ?thesis using status key by (simp add: imp)
qed

theorem unedited_template_connects_witness:
  "sidebar_status (sidebar_keys (fst (import_config (\<lambda>v. None) (Some env_example))) (\<lambda>v. None)) =
     map (\<lambda>n. py ''**'' @ n @ py ''**: '' @ 9989 # py '' Connected'') (map fst api_key_vars) \<and>
   fst (snd (import_config (\<lambda>v. None) (Some env_example))) = Some (py ''your_openai_api_key_here'') \<and>
   rag_pipeline (app_initialize (demo_env\<lparr>ae_config_key := fst (snd (import_config (\<lambda>v. None) (Some env_example)))\<rparr>)
                  app_init (py ''sk'')) \<noteq> None"
proof -
  note c = unedited_template_connects[of "\<lambda>v. None"]
  have h: "\<forall>v\<in>set (map snd api_key_vars). (\<lambda>v. None) v = (None :: pystr option)" by simp
  show ?thesis using c[OF h] by (simp add: py_eq_Nil_iff)
qed

end
