(* ===== verification/SmokeTest.thy ===== *)
theory SmokeTest
  imports AppTables
begin

text \<open>
  The smoke test \<open>script_11.py\<close>. It prints a banner, then runs five checks, each in its
  own \<open>try\<close>: the imports of pandas, chromadb and requests (only \<open>ImportError\<close> is
  caught), the loading of the two cleaned CSV files, the vector store and its statistics,
  the news aggregator, and the configuration; then it prints the next steps and the list
  of files, and finally the sizes of the two data frames. The output is the list of the
  strings passed to \<open>print\<close>, in order. The outside world (imports, \<open>pd.read_csv\<close>, the
  persisted Chroma collection, and the \<open>repr\<close> of numpy arrays and of the statistics dict)
  is the record \<open>smoke_world\<close>. An exception that escapes ends the run; the result is
  the output printed so far and that exception.
\<close>

section \<open>Exceptions and state\<close>

datatype script_exc = ImportError pystr | NameError pystr | OtherError pystr

text \<open>\<open>str(e)\<close>; a \<open>NameError\<close> carries the name that was not bound.\<close>

fun exc_str :: "script_exc \<Rightarrow> pystr" where
  "exc_str (ImportError m) = m"
| "exc_str (NameError x) = py ''name '' @ 39 # x @ 39 # py '' is not defined''"
| "exc_str (OtherError m) = m"

record smoke_world =
  sw_import :: "pystr \<Rightarrow> script_exc option"
  sw_companies_csv :: "script_exc + row list"
  sw_financial_csv :: "script_exc + fin_row list"
  sw_vector_store :: "script_exc + store"
  sw_repr_array :: "jval list \<Rightarrow> pystr"
  sw_repr_ints :: "int list \<Rightarrow> pystr"
  sw_repr_stats :: "stats \<Rightarrow> pystr"

text \<open>The output so far and the module-level names the later statements read.\<close>

record smoke_state =
  out :: "pystr list"
  pd_bound :: bool
  companies_df :: "row list option"
  financial_df :: "fin_row list option"

definition emit :: "smoke_state \<Rightarrow> pystr \<Rightarrow> smoke_state" where
  "emit s line = s\<lparr>out := out s @ [line]\<rparr>"

definition ok_line :: "pystr \<Rightarrow> pystr" where
  "ok_line m = py ''   '' @ 9989 # 32 # m"

definition error_line :: "pystr \<Rightarrow> script_exc \<Rightarrow> pystr" where
  "error_line what e = py ''   '' @ 10060 # 32 # what @ py '': '' @ exc_str e"

text \<open>\<open>repr\<close> of a list of strings without quotes or backslashes.\<close>

definition py_repr_strs :: "pystr list \<Rightarrow> pystr" where
  "py_repr_strs xs = py ''['' @ py_join (py '', '') (map (\<lambda>x. 39 # x @ [39]) xs) @ py '']''"

section \<open>What the checks read\<close>

definition CHROMA_PERSIST_DIRECTORY :: pystr where
  "CHROMA_PERSIST_DIRECTORY = py ''./chroma_db''"

definition COLLECTION_NAME :: pystr where
  "COLLECTION_NAME = py ''msme_knowledge_base''"

text \<open>The keys of \<open>NEWS_APIS\<close>, in dict order.\<close>

definition NEWS_APIS_keys :: "pystr list" where
  "NEWS_APIS_keys = [py ''newsdata'', py ''finnhub'', py ''alpha_vantage'', py ''marketaux'']"

text \<open>\<open>NewsAggregator.__init__\<close>: the configured providers and sector keywords.\<close>

definition news_aggregator_init :: "pystr list \<times> (pystr \<times> pystr list) list" where
  "news_aggregator_init = (NEWS_APIS_keys, SECTOR_KEYWORDS)"

section \<open>The checks\<close>

text \<open>1. The imports; only \<open>ImportError\<close> is caught.\<close>

definition import_handler :: "smoke_state \<Rightarrow> script_exc \<Rightarrow> (script_exc \<times> pystr list) + smoke_state" where
  "import_handler s e =
     (case e of ImportError m \<Rightarrow> Inr (emit s (error_line (py ''Import error'') e)) | _ \<Rightarrow> Inl (e, out s))"

definition smoke_imports :: "smoke_world \<Rightarrow> smoke_state \<Rightarrow> (script_exc \<times> pystr list) + smoke_state" where
  "smoke_imports w s0 =
     (let s = emit s0 (py ''1. Testing imports...'')
      in case sw_import w (py ''pandas'') of
           Some e \<Rightarrow> import_handler s e
         | None \<Rightarrow>
             let s = s\<lparr>pd_bound := True\<rparr>
             in case sw_import w (py ''chromadb'') of
                  Some e \<Rightarrow> import_handler s e
                | None \<Rightarrow>
                    (case sw_import w (py ''requests'') of
                       Some e \<Rightarrow> import_handler s e
                     | None \<Rightarrow> Inr (emit s (ok_line (py ''All basic imports successful'')))))"

text \<open>2. The data: \<open>companies_df\<close> is bound before \<open>financial_df\<close> is read;
  \<open>companies_df['Sector']\<close> raises \<open>KeyError('Sector')\<close> without that column.\<close>

definition smoke_data :: "smoke_world \<Rightarrow> smoke_state \<Rightarrow> smoke_state" where
  "smoke_data w s0 =
     (let s = emit s0 (10 # py ''2. Testing data loading...'');
          fail = (\<lambda>s e. emit s (error_line (py ''Data loading error'') e))
      in if \<not> pd_bound s then fail s (NameError (py ''pd''))
         else case sw_companies_csv w of
           Inl e \<Rightarrow> fail s e
         | Inr cdf \<Rightarrow>
             let s = s\<lparr>companies_df := Some cdf\<rparr>
             in case sw_financial_csv w of
                  Inl e \<Rightarrow> fail s e
                | Inr fdf \<Rightarrow>
                    let s = s\<lparr>financial_df := Some fdf\<rparr>;
                        s = emit s (ok_line (py ''Companies loaded: '' @ nat_str (length cdf) @ py '' records''));
                        s = emit s (ok_line (py ''Financial data loaded: '' @ nat_str (length fdf) @ py '' records''))
                    in if \<not> has_column cdf (py ''Sector'')
                       then fail s (OtherError (39 # py ''Sector'' @ [39]))
                       else let s = emit s (py ''   '' @ 128202 # py '' Sectors: '' @
                                  sw_repr_array w (remdups (map (\<lambda>r. the (jlookup r (py ''Sector''))) cdf)))
                            in emit s (py ''   '' @ 128200 # py '' Financial years: '' @
                                  sw_repr_ints w (sort (remdups (map fr_year fdf)))))"

text \<open>3. The vector store and its statistics.\<close>

definition smoke_vector_store :: "smoke_world \<Rightarrow> smoke_state \<Rightarrow> smoke_state" where
  "smoke_vector_store w s0 =
     (let s = emit s0 (10 # py ''3. Testing vector store...'');
          fail = (\<lambda>s e. emit s (error_line (py ''Vector store error'') e))
      in case sw_import w (py ''vector_store'') of
           Some e \<Rightarrow> fail s e
         | None \<Rightarrow>
             (case sw_vector_store w of
                Inl e \<Rightarrow> fail s e
              | Inr st \<Rightarrow>
                  let stats = get_collection_stats st;
                      s = emit s (ok_line (py ''Vector store created successfully''))
                  in emit s (py ''   '' @ 128202 # py '' Current collection stats: '' @ sw_repr_stats w stats)))"

text \<open>4. The news aggregator, built without any request.\<close>

definition smoke_news :: "smoke_world \<Rightarrow> smoke_state \<Rightarrow> smoke_state" where
  "smoke_news w s0 =
     (let s = emit s0 (10 # py ''4. Testing news fetcher structure...'')
      in case sw_import w (py ''news_fetcher'') of
           Some e \<Rightarrow> emit s (error_line (py ''News fetcher error'') e)
         | None \<Rightarrow>
             let (apis, sector_keywords) = news_aggregator_init;
                 s = emit s (ok_line (py ''News aggregator created successfully''));
                 s = emit s (py ''   '' @ 128225 # py '' Configured APIs: '' @ py_repr_strs apis)
             in emit s (py ''   '' @ 127991 # 65039 # py '' Sector keywords: '' @
                          py_repr_strs (map fst sector_keywords)))"

text \<open>5. The configuration.\<close>

definition smoke_config :: "smoke_world \<Rightarrow> smoke_state \<Rightarrow> smoke_state" where
  "smoke_config w s0 =
     (let s = emit s0 (10 # py ''5. Testing configuration...'')
      in case sw_import w (py ''config'') of
           Some e \<Rightarrow> emit s (error_line (py ''Configuration error'') e)
         | None \<Rightarrow>
             let s = emit s (ok_line (py ''Configuration loaded successfully''));
                 s = emit s (py ''   '' @ 128295 # py '' ChromaDB directory: '' @ CHROMA_PERSIST_DIRECTORY);
                 s = emit s (py ''   '' @ 128202 # py '' Collection name: '' @ COLLECTION_NAME)
             in emit s (py ''   '' @ 128450 # 65039 # py '' Sector keywords configured: '' @
                          nat_str (length SECTOR_KEYWORDS)))"

section \<open>The summary and the whole run\<close>

definition smoke_files :: "pystr list" where
  "smoke_files =
     [py ''requirements.txt'', py ''config.py'', py ''news_fetcher.py'', py ''vector_store.py'',
      py ''rag_pipeline.py'', py ''app.py'', py ''.env.example'', py ''README.md'']"

definition ready_line :: pystr where
  "ready_line = 127919 # py '' SYSTEM READY FOR TESTING!''"

text \<open>The summary after the checks, outside any \<open>try\<close>: the last two lines read
  \<open>companies_df\<close> and \<open>financial_df\<close>, which are unbound when the data check failed
  before assigning them.\<close>

definition smoke_final :: "smoke_state \<Rightarrow> (script_exc \<times> pystr list) + smoke_state" where
  "smoke_final s0 =
     (let s = emit s0 (10 # replicate 50 61);
          s = emit s ready_line;
          s = emit s (10 # py ''Next Steps:'');
          s = emit s (py ''1. Copy .env.example to .env and add your OpenAI API key'');
          s = emit s (py ''2. Run: streamlit run app.py'');
          s = emit s (py ''3. Initialize the system in the app sidebar'');
          s = emit s (py ''4. Start chatting with your MSME data!'');
          s = emit s (10 # 128193 # py '' Files created:'');
          s = fold (\<lambda>file s. emit s (ok_line file)) smoke_files s;
          s = emit s (10 # 128202 # py '' Data files:'')
      in case companies_df s of
           None \<Rightarrow> Inl (NameError (py ''companies_df''), out s)
         | Some cdf \<Rightarrow>
             let s = emit s (ok_line (py ''cleaned_companies.csv ('' @ nat_str (length cdf) @ py '' companies)''))
             in case financial_df s of
                  None \<Rightarrow> Inl (NameError (py ''financial_df''), out s)
                | Some fdf \<Rightarrow>
                    Inr (emit s (ok_line (py ''cleaned_financial.csv ('' @ nat_str (length fdf) @
                                          py '' financial records)''))))"

definition smoke_init :: smoke_state where
  "smoke_init = \<lparr>out = [], pd_bound = False, companies_df = None, financial_df = None\<rparr>"

text \<open>The script: the output it prints and the exception it ends with, if any.\<close>

definition smoke_test :: "smoke_world \<Rightarrow> pystr list \<times> script_exc option" where
  "smoke_test w =
     (let s = emit (emit smoke_init (129514 # py '' Testing System Components...'')) (replicate 50 61)
      in case smoke_imports w s of
           Inl (e, printed) \<Rightarrow> (printed, Some e)
         | Inr s \<Rightarrow>
             (case smoke_final (smoke_config w (smoke_news w (smoke_vector_store w (smoke_data w s)))) of
                Inl (e, printed) \<Rightarrow> (printed, Some e)
              | Inr s \<Rightarrow> (out s, None)))"

section \<open>Scenarios\<close>

text \<open>A machine without pandas, and one where everything is installed and the two CSV
  files hold one company with its sector and one financial row.\<close>

definition smoke_no_pandas :: smoke_world where
  "smoke_no_pandas =
     \<lparr>sw_import = (\<lambda>m. if m = py ''pandas'' then Some (ImportError (py ''No module named pandas'')) else None),
      sw_companies_csv = Inl (OtherError (py ''unreachable'')), sw_financial_csv = Inl (OtherError (py ''unreachable'')),
      sw_vector_store = Inl (OtherError (py ''no chromadb'')),
      sw_repr_array = (\<lambda>vs. []), sw_repr_ints = (\<lambda>ys. []), sw_repr_stats = (\<lambda>st. [])\<rparr>"

definition smoke_all_good :: smoke_world where
  "smoke_all_good =
     \<lparr>sw_import = (\<lambda>m. None),
      sw_companies_csv = Inr [[(py ''Company_ID'', JStr (py ''C1'')), (py ''Sector'', JStr (py ''Textiles''))]],
      sw_financial_csv = Inr [\<lparr>fr_company_id = py ''C1'', fr_year = 2024, fr_revenue = Some 10,
                               fr_net_profit = Some 1, fr_margin = Some 10, fr_assets = Some 20,
                               fr_debt_equity = Some 1, fr_current_ratio = Some 1, fr_roa = Some 5\<rparr>],
      sw_vector_store = Inr \<lparr>collection = [], chroma_query = (\<lambda>c q n w. Inl ValueError), chroma_add = (\<lambda>c es. Inr c)\<rparr>,
      sw_repr_array = (\<lambda>vs. py ''[...]''), sw_repr_ints = (\<lambda>ys. py ''[2024]''), sw_repr_stats = (\<lambda>st. py ''{}'')\<rparr>"

section \<open>Lemmas: the names each part binds\<close>

lemma emit_fields [simp]:
  "out (emit s l) = out s @ [l]" "pd_bound (emit s l) = pd_bound s"
  "companies_df (emit s l) = companies_df s" "financial_df (emit s l) = financial_df s"
  by (simp_all add: emit_def)

lemma fold_emit_fields [simp]:
  "out (fold (\<lambda>x s. emit s (f x)) xs s) = out s @ map f xs"
  "companies_df (fold (\<lambda>x s. emit s (f x)) xs s) = companies_df s"
  "financial_df (fold (\<lambda>x s. emit s (f x)) xs s) = financial_df s"
  by (induction xs arbitrary: s) simp_all

text \<open>The checks after the data check only print.\<close>

lemma later_checks_names [simp]:
  "companies_df (smoke_vector_store w s) = companies_df s" "financial_df (smoke_vector_store w s) = financial_df s"
  "companies_df (smoke_news w s) = companies_df s" "financial_df (smoke_news w s) = financial_df s"
  "companies_df (smoke_config w s) = companies_df s" "financial_df (smoke_config w s) = financial_df s"
  by (auto simp: smoke_vector_store_def smoke_news_def smoke_config_def Let_def
           split: option.splits sum.splits prod.splits)

lemma smoke_imports_caught:
  assumes "\<forall>m\<in>set [py ''pandas'', py ''chromadb'', py ''requests'']. sw_import w m = None \<or> (\<exists>msg. sw_import w m = Some (ImportError msg))"
  shows "\<exists>s'. smoke_imports w s = Inr s' \<and> companies_df s' = companies_df s \<and> financial_df s' = financial_df s \<and>
              pd_bound s' = (pd_bound s \<or> sw_import w (py ''pandas'') = None)"
  using assms by (auto simp: smoke_imports_def import_handler_def Let_def)

text \<open>Both frames are bound after the data check exactly when pandas is bound and both
  files load; \<open>financial_df\<close> is never bound without \<open>companies_df\<close>.\<close>

lemma smoke_data_names:
  assumes "companies_df s = None" and "financial_df s = None"
  shows "(financial_df (smoke_data w s) \<noteq> None) =
           (pd_bound s \<and> (\<exists>c. sw_companies_csv w = Inr c) \<and> (\<exists>f. sw_financial_csv w = Inr f))"
    and "financial_df (smoke_data w s) = None \<or> companies_df (smoke_data w s) \<noteq> None"
  using assms by (auto simp: smoke_data_def Let_def split: sum.splits)

lemma smoke_final_cases:
  "smoke_final s = Inl (e, printed) \<Longrightarrow> (\<exists>x. e = NameError x) \<and> ready_line \<in> set printed"
  "(\<exists>s'. smoke_final s = Inr s') = (companies_df s \<noteq> None \<and> financial_df s \<noteq> None)"
  by (auto simp: smoke_final_def Let_def split: option.splits)

lemma replicate_5_61: "replicate 5 (61::nat) = [61, 61, 61, 61, 61]"
  by (simp add: numeral_eq_Suc)

section \<open>Properties\<close>

text \<open>C28: when the imports raise nothing but \<open>ImportError\<close>, the smoke test ends
  normally exactly when pandas imported and both CSV files loaded; otherwise it ends with
  a \<open>NameError\<close> in its last lines, after it has already printed "SYSTEM READY FOR
  TESTING!".\<close>

theorem smoke_test_name_error_iff:
  assumes "\<forall>m\<in>set [py ''pandas'', py ''chromadb'', py ''requests'']. sw_import w m = None \<or> (\<exists>msg. sw_import w m = Some (ImportError msg))"
  shows "(snd (smoke_test w) = None \<longleftrightarrow>
            sw_import w (py ''pandas'') = None \<and> (\<exists>c. sw_companies_csv w = Inr c) \<and> (\<exists>f. sw_financial_csv w = Inr f)) \<and>
         (snd (smoke_test w) \<noteq> None \<longrightarrow>
            (\<exists>x. snd (smoke_test w) = Some (NameError x)) \<and> ready_line \<in> set (fst (smoke_test w)))"
proof -
  define s0 where "s0 = emit (emit smoke_init (129514 # py '' Testing System Components...'')) (replicate 50 61)"
  obtain s1 where s1: "smoke_imports w s0 = Inr s1" and n1: "companies_df s1 = None" "financial_df s1 = None"
    and pd: "pd_bound s1 = (sw_import w (py ''pandas'') = None)"
    using smoke_imports_caught[OF assms, of s0] by (auto simp: s0_def smoke_init_def)
  define s2 where "s2 = smoke_config w (smoke_news w (smoke_vector_store w (smoke_data w s1)))"
  have run: "smoke_test w = (case smoke_final s2 of Inl (e, printed) \<Rightarrow> (printed, Some e) | Inr s \<Rightarrow> (out s, None))"
    by (simp add: smoke_test_def s0_def[symmetric] s1 s2_def)
  have ok: "(\<exists>s'. smoke_final s2 = Inr s') \<longleftrightarrow>
            sw_import w (py ''pandas'') = None \<and> (\<exists>c. sw_companies_csv w = Inr c) \<and> (\<exists>f. sw_financial_csv w = Inr f)"
    using smoke_data_names[OF n1, of w] pd by (auto simp: smoke_final_cases(2) s2_def)
  show ?thesis
  proof (cases "smoke_final s2")
    case (Inl r)
    then obtain e printed where "smoke_final s2 = Inl (e, printed)" by (cases r) auto
    then show ?thesis using ok smoke_final_cases(1) by (auto simp: run)
  next
    case (Inr s')
    then show ?thesis using ok by (simp add: run)
  qed
qed

theorem smoke_test_name_error_iff_witness:
  "(\<exists>x. snd (smoke_test smoke_no_pandas) = Some (NameError x)) \<and> ready_line \<in> set (fst (smoke_test smoke_no_pandas))"
  using smoke_test_name_error_iff[of smoke_no_pandas] by (simp add: smoke_no_pandas_def)

text \<open>When everything imports, both files load with a \<open>Sector\<close> column and the
  vector store opens, the smoke test prints no error line and ends normally, its last line
  reporting the number of financial records.\<close>

theorem smoke_test_all_pass:
  assumes "\<forall>m. sw_import w m = None" and "sw_companies_csv w = Inr cdf" and "has_column cdf (py ''Sector'')"
    and "sw_financial_csv w = Inr fdf" and "sw_vector_store w = Inr st"
  shows "snd (smoke_test w) = None \<and>
         (\<forall>l\<in>set (fst (smoke_test w)). take 5 l \<noteq> py ''   '' @ [10060, 32]) \<and>
         last (fst (smoke_test w)) =
           ok_line (py ''cleaned_financial.csv ('' @ nat_str (length fdf) @ py '' financial records)'')"
  using assms
  by (simp add: smoke_test_def smoke_imports_def smoke_data_def smoke_vector_store_def smoke_news_def
                smoke_config_def smoke_final_def smoke_init_def news_aggregator_init_def Let_def
                ok_line_def smoke_files_def ready_line_def pystr_simps replicate_5_61)

theorem smoke_test_all_pass_witness:
  "snd (smoke_test smoke_all_good) = None \<and>
   (\<forall>l\<in>set (fst (smoke_test smoke_all_good)). take 5 l \<noteq> py ''   '' @ [10060, 32]) \<and>
   last (fst (smoke_test smoke_all_good)) = ok_line (py ''cleaned_financial.csv (1 financial records)'')"
proof -
  have "has_column [[(py ''Company_ID'', JStr (py ''C1'')), (py ''Sector'', JStr (py ''Textiles''))]] (py ''Sector'')"
    by (simp add: has_column_def jlookup_def)
  from smoke_test_all_pass[of smoke_all_good, OF _ _ this]
  show ?thesis by (simp add: smoke_all_good_def pystr_simps)
qed

end
