(* ===== verification/DataCleaning.thy ===== *)
theory DataCleaning
  imports SmokeTest
begin

text \<open>
  The data preparation of \<open>script.py\<close> and \<open>script_1.py\<close>, run one after the other in
  one Python session (the second reads the frames the first bound). \<open>script.py\<close> reads the
  raw company and financial files and prints their shapes, columns and first rows;
  \<open>script_1.py\<close> drops the two empty columns of the company frame (\<open>drop_columns\<close>),
  prints the sectors, the number of companies and a few sample companies, and writes the
  cleaned files that the vector store and the app read. A file is modelled as the frame it
  holds (\<open>frame\<close>: its columns and its rows); writing with \<open>to_csv(index=False)\<close> and
  reading back with \<open>read_csv\<close> is taken to give that frame again. The \<open>repr\<close> of
  \<open>head()\<close> and of numpy arrays and \<open>str\<close> of a non-string cell come from the world
  \<open>nb_world\<close>. Nothing is caught: an exception ends the session with the output so far.
\<close>

section \<open>Frames and the session\<close>

record frame =
  df_columns :: "pystr list"
  df_rows :: "row list"

record nb_world =
  nw_repr_head :: "frame \<Rightarrow> pystr"
  nw_repr_array :: "jval list \<Rightarrow> pystr"
  nw_str :: "jval \<Rightarrow> pystr"

record nb_state =
  nb_out :: "pystr list"
  nb_files :: "pystr \<Rightarrow> frame option"
  nb_company_df :: "frame option"
  nb_financial_df :: "frame option"

definition nb_print :: "nb_state \<Rightarrow> pystr \<Rightarrow> nb_state" where
  "nb_print s line = s\<lparr>nb_out := nb_out s @ [line]\<rparr>"

text \<open>A statement that may raise: its exception ends the session.\<close>

definition nb_try :: "nb_state \<Rightarrow> script_exc + 'a \<Rightarrow> ('a \<Rightarrow> (script_exc \<times> pystr list) + nb_state) \<Rightarrow>
                      (script_exc \<times> pystr list) + nb_state" where
  "nb_try s r f = (case r of Inl e \<Rightarrow> Inl (e, nb_out s) | Inr x \<Rightarrow> f x)"

text \<open>\<open>pd.read_csv(name)\<close>.\<close>

definition read_csv :: "nb_state \<Rightarrow> pystr \<Rightarrow> script_exc + frame" where
  "read_csv s name =
     (case nb_files s name of
        Some df \<Rightarrow> Inr df
      | None \<Rightarrow> Inl (OtherError (py ''[Errno 2] No such file or directory: '' @ 39 # name @ [39])))"

text \<open>\<open>df.to_csv(name, index=False)\<close>.\<close>

definition to_csv :: "nb_state \<Rightarrow> pystr \<Rightarrow> frame \<Rightarrow> nb_state" where
  "to_csv s name df = s\<lparr>nb_files := (nb_files s)(name \<mapsto> df)\<rparr>"

text \<open>A name bound by the earlier script.\<close>

definition nb_name :: "frame option \<Rightarrow> pystr \<Rightarrow> script_exc + frame" where
  "nb_name v x = (case v of Some df \<Rightarrow> Inr df | None \<Rightarrow> Inl (NameError x))"

text \<open>\<open>df[c]\<close>: the column's cells, \<open>KeyError(c)\<close> for a missing column.\<close>

definition df_column :: "frame \<Rightarrow> pystr \<Rightarrow> script_exc + jval list" where
  "df_column df c =
     (if c \<in> set (df_columns df)
      then Inr (map (\<lambda>r. case jlookup r c of Some v \<Rightarrow> v | None \<Rightarrow> JNull) (df_rows df))
      else Inl (OtherError (39 # c @ [39])))"

text \<open>\<open>df.drop(cols, axis=1, errors='ignore')\<close>.\<close>

definition df_drop :: "pystr list \<Rightarrow> frame \<Rightarrow> frame" where
  "df_drop cols df =
     \<lparr>df_columns = filter (\<lambda>c. c \<notin> set cols) (df_columns df), df_rows = map (drop_columns cols) (df_rows df)\<rparr>"

text \<open>\<open>df.shape\<close> as \<open>print\<close> shows it.\<close>

definition shape_str :: "frame \<Rightarrow> pystr" where
  "shape_str df = py ''('' @ nat_str (length (df_rows df)) @ py '', '' @ nat_str (length (df_columns df)) @ py '')''"

section \<open>\<open>script.py\<close>\<close>

definition script_explore :: "nb_world \<Rightarrow> nb_state \<Rightarrow> (script_exc \<times> pystr list) + nb_state" where
  "script_explore w s0 =
     nb_try s0 (read_csv s0 (py ''NewCompanyDATAset.csv'')) (\<lambda>company_df.
       let s = s0\<lparr>nb_company_df := Some company_df\<rparr>
       in nb_try s (read_csv s (py ''msme_financial_data.csv'')) (\<lambda>financial_df.
            let s = s\<lparr>nb_financial_df := Some financial_df\<rparr>
            in Inr (fold (\<lambda>l s. nb_print s l)
                 [py ''Company Dataset Shape: '' @ shape_str company_df,
                  10 # py ''Company Dataset Columns:'',
                  py_repr_strs (df_columns company_df),
                  10 # py ''First few rows of Company Dataset:'',
                  nw_repr_head w company_df,
                  10 # replicate 50 61,
                  py ''Financial Dataset Shape: '' @ shape_str financial_df,
                  10 # py ''Financial Dataset Columns:'',
                  py_repr_strs (df_columns financial_df),
                  10 # py ''First few rows of Financial Dataset:'',
                  nw_repr_head w financial_df] s)))"

section \<open>\<open>script_1.py\<close>\<close>

definition sample_companies :: "pystr list" where
  "sample_companies = [py ''MSME001'', py ''MSME010'', py ''MSME020'', py ''MSME030'', py ''MSME040'']"

text \<open>The rows of \<open>df[df['Company_ID'] == company]\<close>.\<close>

definition rows_of_company :: "frame \<Rightarrow> pystr \<Rightarrow> frame" where
  "rows_of_company df company =
     df\<lparr>df_rows := filter (\<lambda>r. jlookup r (py ''Company_ID'') = Some (JStr company)) (df_rows df)\<rparr>"

text \<open>The sample loop: a company present in the financial data and in the company frame
  is printed with its name and sector.\<close>

fun sample_loop :: "nb_world \<Rightarrow> frame \<Rightarrow> frame \<Rightarrow> nb_state \<Rightarrow> pystr list \<Rightarrow> (script_exc \<times> pystr list) + nb_state" where
  "sample_loop w cdf fdf s [] = Inr s"
| "sample_loop w cdf fdf s (company # cs) =
     nb_try s (df_column fdf (py ''Company_ID'')) (\<lambda>ids.
       if JStr company \<in> set ids
       then nb_try s (df_column cdf (py ''Company_ID'')) (\<lambda>_.
              let company_info = rows_of_company cdf company
              in if df_rows company_info \<noteq> []
                 then nb_try s (df_column company_info (py ''Company_Name'')) (\<lambda>names.
                        nb_try s (df_column company_info (py ''Sector'')) (\<lambda>sectors.
                          sample_loop w cdf fdf
                            (nb_print s (company @ py '': '' @ py_fmt (nw_str w) (hd names) @ py '' - '' @
                                         py_fmt (nw_str w) (hd sectors))) cs))
                 else sample_loop w cdf fdf s cs)
       else sample_loop w cdf fdf s cs)"

definition script_clean :: "nb_world \<Rightarrow> nb_state \<Rightarrow> (script_exc \<times> pystr list) + nb_state" where
  "script_clean w s0 =
     nb_try s0 (nb_name (nb_company_df s0) (py ''company_df'')) (\<lambda>company_df.
       let company_df = df_drop unnamed_columns company_df;
           s = s0\<lparr>nb_company_df := Some company_df\<rparr>
       in nb_try s (df_column company_df (py ''Sector'')) (\<lambda>sectors.
            let s = nb_print s (py ''Unique Sectors: '' @ nw_repr_array w (remdups sectors));
                s = nb_print s (py ''Number of companies: '' @ nat_str (length (df_rows company_df)));
                s = nb_print s (10 # py ''Sample companies with financial data:'')
            in nb_try s (nb_name (nb_financial_df s) (py ''financial_df'')) (\<lambda>financial_df.
                 case sample_loop w company_df financial_df s sample_companies of
                   Inl r \<Rightarrow> Inl r
                 | Inr s \<Rightarrow>
                     let s = to_csv s (py ''cleaned_companies.csv'') company_df;
                         s = to_csv s (py ''cleaned_financial.csv'') financial_df
                     in Inr (nb_print s (10 # py ''Datasets cleaned and saved!'')))))"

text \<open>The two scripts in one session.\<close>

definition prepare_data :: "nb_world \<Rightarrow> nb_state \<Rightarrow> (script_exc \<times> pystr list) + nb_state" where
  "prepare_data w s = (case script_explore w s of Inl r \<Rightarrow> Inl r | Inr s \<Rightarrow> script_clean w s)"

text \<open>The line printed for a sample company: its name and sector from its first row.\<close>

definition sample_line :: "nb_world \<Rightarrow> frame \<Rightarrow> pystr \<Rightarrow> pystr" where
  "sample_line w cdf c =
     (let r = hd (df_rows (rows_of_company cdf c)) in
      c @ py '': '' @ py_fmt (nw_str w) (case jlookup r (py ''Company_Name'') of Some v \<Rightarrow> v | None \<Rightarrow> JNull) @
      py '' - '' @ py_fmt (nw_str w) (case jlookup r (py ''Sector'') of Some v \<Rightarrow> v | None \<Rightarrow> JNull))"

section \<open>A session\<close>

text \<open>Raw files with one company, its two empty trailing columns, and one financial row.\<close>

definition raw_company_frame :: frame where
  "raw_company_frame =
     \<lparr>df_columns = [py ''Company_ID'', py ''Company_Name'', py ''Sector'', py ''Unnamed: 28'', py ''Unnamed: 29''],
      df_rows = [[(py ''Company_ID'', JStr (py ''MSME001'')), (py ''Company_Name'', JStr (py ''Acme Textiles'')),
                  (py ''Sector'', JStr (py ''Textiles'')), (py ''Unnamed: 28'', JNull), (py ''Unnamed: 29'', JNull)]]\<rparr>"

definition raw_financial_frame :: frame where
  "raw_financial_frame =
     \<lparr>df_columns = [py ''Company_ID'', py ''Year''],
      df_rows = [[(py ''Company_ID'', JStr (py ''MSME001'')), (py ''Year'', JNum 2024)]]\<rparr>"

definition raw_session :: nb_state where
  "raw_session =
     \<lparr>nb_out = [],
      nb_files = [py ''NewCompanyDATAset.csv'' \<mapsto> raw_company_frame, py ''msme_financial_data.csv'' \<mapsto> raw_financial_frame],
      nb_company_df = None, nb_financial_df = None\<rparr>"

definition nb_demo_world :: nb_world where
  "nb_demo_world = \<lparr>nw_repr_head = (\<lambda>df. []), nw_repr_array = (\<lambda>vs. []), nw_str = (\<lambda>v. [])\<rparr>"

section \<open>Lemmas\<close>

lemma nb_print_fields [simp]:
  "nb_out (nb_print s l) = nb_out s @ [l]" "nb_files (nb_print s l) = nb_files s"
  "nb_company_df (nb_print s l) = nb_company_df s" "nb_financial_df (nb_print s l) = nb_financial_df s"
  by (simp_all add: nb_print_def)

lemma nb_try_Inr [simp]: "nb_try s (Inr x) f = f x"
  by (simp add: nb_try_def)

lemma df_column_present [simp]:
  "c \<in> set (df_columns df) \<Longrightarrow>
   df_column df c = Inr (map (\<lambda>r. case jlookup r c of Some v \<Rightarrow> v | None \<Rightarrow> JNull) (df_rows df))"
  by (simp add: df_column_def)

lemma df_columns_rows_of_company [simp]: "df_columns (rows_of_company df c) = df_columns df"
  by (simp add: rows_of_company_def)

lemma df_columns_df_drop [simp]: "df_columns (df_drop cols df) = filter (\<lambda>c. c \<notin> set cols) (df_columns df)"
  by (simp add: df_drop_def)

lemma kept_columns [simp]:
  "py ''Sector'' \<notin> set unnamed_columns" "py ''Company_ID'' \<notin> set unnamed_columns"
  "py ''Company_Name'' \<notin> set unnamed_columns"
  by (simp_all add: unnamed_columns_def pystr_simps)

text \<open>With the columns it reads present, the sample loop prints one line per sample
  company that has financial rows and a company row, in sample order, and changes
  nothing else.\<close>

lemma sample_loop_spec:
  assumes "py ''Company_ID'' \<in> set (df_columns fdf)" and "py ''Company_ID'' \<in> set (df_columns cdf)"
    and "py ''Company_Name'' \<in> set (df_columns cdf)" and "py ''Sector'' \<in> set (df_columns cdf)"
  shows "sample_loop w cdf fdf s cs =
           Inr (s\<lparr>nb_out := nb_out s @
                  map (sample_line w cdf)
                    (filter (\<lambda>c. JStr c \<in> set (map (\<lambda>r. case jlookup r (py ''Company_ID'') of Some v \<Rightarrow> v | None \<Rightarrow> JNull) (df_rows fdf))
                                 \<and> df_rows (rows_of_company cdf c) \<noteq> []) cs)\<rparr>)"
proof (induction cs arbitrary: s)
  case Nil
  then show ?case by simp
next
  case (Cons c cs)
  show ?case
    using assms Cons.IH
    by (auto simp: Let_def sample_line_def nb_print_def neq_Nil_conv rows_of_company_def)
qed

text \<open>Run on its own, \<open>script_1.py\<close> stops at its first line: \<open>company_df\<close> is bound
  only by \<open>script.py\<close>.\<close>

lemma script_clean_alone:
  "nb_company_df s = None \<Longrightarrow> script_clean w s = Inl (NameError (py ''company_df''), nb_out s)"
  by (simp add: script_clean_def nb_name_def nb_try_def)

section \<open>Properties\<close>

text \<open>C24: run on raw files with the columns the scripts read, the preparation succeeds;
  it writes \<open>cleaned_companies.csv\<close> as the raw company frame without the two unnamed
  columns and \<open>cleaned_financial.csv\<close> as the raw financial frame, touches no other file,
  and the vector store builds the same company entries from the cleaned file as from the
  raw one.\<close>

theorem prepare_data_files:
  assumes "nb_files s (py ''NewCompanyDATAset.csv'') = Some raw_c"
    and "nb_files s (py ''msme_financial_data.csv'') = Some raw_f"
    and "py ''Company_ID'' \<in> set (df_columns raw_f)" and "py ''Company_ID'' \<in> set (df_columns raw_c)"
    and "py ''Company_Name'' \<in> set (df_columns raw_c)" and "py ''Sector'' \<in> set (df_columns raw_c)"
  shows "\<exists>s'. prepare_data w s = Inr s' \<and>
           nb_files s' = (nb_files s)(py ''cleaned_companies.csv'' \<mapsto> df_drop unnamed_columns raw_c,
                                      py ''cleaned_financial.csv'' \<mapsto> raw_f) \<and>
           (\<forall>st rt fin. load_company_data st rt (df_rows (the (nb_files s' (py ''cleaned_companies.csv'')))) fin =
                        load_company_data st rt (df_rows raw_c) fin)"
proof -
  obtain s1 where e: "script_explore w s = Inr s1" and s1: "nb_company_df s1 = Some raw_c"
    "nb_financial_df s1 = Some raw_f" "nb_files s1 = nb_files s"
    using assms(1,2) by (simp add: script_explore_def read_csv_def nb_print_def)
  define cdf where "cdf = df_drop unnamed_columns raw_c"
  have cols: "py ''Company_ID'' \<in> set (df_columns cdf)" "py ''Company_Name'' \<in> set (df_columns cdf)"
    "py ''Sector'' \<in> set (df_columns cdf)"
    using assms(4-6) by (simp_all add: cdf_def)
  note loop = sample_loop_spec[OF assms(3) cols]
  have "\<exists>s'. prepare_data w s = Inr s' \<and>
          nb_files s' = (nb_files s)(py ''cleaned_companies.csv'' \<mapsto> cdf, py ''cleaned_financial.csv'' \<mapsto> raw_f)"
    using cols by (simp add: prepare_data_def e script_clean_def nb_name_def cdf_def[symmetric] Let_def loop
                             to_csv_def s1)
  moreover have "load_company_data st rt (df_rows cdf) fin = load_company_data st rt (df_rows raw_c) fin"
    for st rt fin by (simp add: cdf_def df_drop_def load_company_data_cleaned)
  moreover have "py ''cleaned_companies.csv'' \<noteq> py ''cleaned_financial.csv''"
    by (simp add: pystr_simps)
  ultimately show ?thesis by (auto simp: cdf_def)
qed

theorem prepare_data_files_witness:
  "\<exists>s'. prepare_data nb_demo_world raw_session = Inr s' \<and>
     nb_files s' = (nb_files raw_session)(py ''cleaned_companies.csv'' \<mapsto> df_drop unnamed_columns raw_company_frame,
                                          py ''cleaned_financial.csv'' \<mapsto> raw_financial_frame) \<and>
     (\<forall>st rt fin. load_company_data st rt (df_rows (the (nb_files s' (py ''cleaned_companies.csv'')))) fin =
                  load_company_data st rt (df_rows raw_company_frame) fin)"
  by (rule prepare_data_files) (simp_all add: raw_session_def raw_company_frame_def raw_financial_frame_def pystr_simps)

end
