(* ===== verification/AppCharts.thy ===== *)
theory AppCharts
  imports AppTables "HOL-Library.Multiset"
begin

text \<open>
  The risk chart of the Analytics tab of \<open>app.py\<close>:
  \<open>companies_df['Risk_Level'].value_counts()\<close> drawn as bars. pandas documents
  \<open>value_counts\<close> as the counts of the distinct non-missing values in descending order of
  count, without fixing the order of equal counts; that contract is the predicate
  \<open>value_counts_ok\<close>. \<open>value_counts\<close> is the result for the few distinct risk levels of
  the data: the counts in order of first occurrence (pandas' hash table), then a stable sort
  by descending count. The lemmas show that it meets the contract and that any two results
  meeting it have the same bars up to the order of equal counts.
\<close>

section \<open>\<open>value_counts\<close>\<close>

definition vc_counts :: "jval list \<Rightarrow> (jval \<times> nat) list" where
  "vc_counts vs = map (\<lambda>k. (k, count_list vs k)) (remdups_first (filter (\<lambda>v. v \<noteq> JNull) vs))"

definition value_counts :: "jval list \<Rightarrow> (jval \<times> nat) list" where
  "value_counts vs = sort_key (\<lambda>kc. - int (snd kc)) (vc_counts vs)"

text \<open>The documented contract.\<close>

definition value_counts_ok :: "jval list \<Rightarrow> (jval \<times> nat) list \<Rightarrow> bool" where
  "value_counts_ok vs out \<longleftrightarrow>
     distinct (map fst out) \<and> set (map fst out) = set vs - {JNull} \<and>
     list_all (\<lambda>kc. snd kc = count_list vs (fst kc)) out \<and> sorted_wrt (\<ge>) (map snd out)"

section \<open>The risk chart\<close>

text \<open>\<open>if 'Risk_Level' in companies_df.columns\<close>: the bars, \<open>x\<close> the levels and \<open>y\<close>
  the counts; no chart without the column.\<close>

definition risk_chart :: "row list \<Rightarrow> (jval list \<times> nat list) option" where
  "risk_chart companies_df =
     (if has_column companies_df (py ''Risk_Level'')
      then let risk_counts = value_counts (map (\<lambda>r. the (jlookup r (py ''Risk_Level''))) companies_df)
           in Some (map fst risk_counts, map snd risk_counts)
      else None)"

section \<open>The Dashboard tab\<close>

text \<open>What the Dashboard tab shows: the metrics drawn so far, the 2024 sector table and the
  revenue trends when they were reached, and the error its \<open>except\<close> prints. Everything
  after the metrics runs in the same \<open>try\<close>: \<open>px.pie(names='Sector')\<close> raises without a
  \<open>Sector\<close> column, the two merges raise on a company row without \<open>Company_ID\<close> or
  \<open>Sector\<close>.\<close>

record dash_view =
  dv_metrics :: "(pystr \<times> pystr) list"
  dv_sector_table :: "(jval \<times> fval list) list option"
  dv_trends :: "(int \<times> jval \<times> fval) list option"
  dv_error :: "py_error option"

definition dashboard_tab :: "row list \<Rightarrow> fin_row list \<Rightarrow> dash_view" where
  "dashboard_tab companies_df financial_df =
     (case dashboard_metrics companies_df financial_df of
        (ms, Some e) \<Rightarrow> \<lparr>dv_metrics = ms, dv_sector_table = None, dv_trends = None, dv_error = Some e\<rparr>
      | (ms, None) \<Rightarrow>
          if \<not> has_column companies_df (py ''Sector'')
          then \<lparr>dv_metrics = ms, dv_sector_table = None, dv_trends = None, dv_error = Some ValueError\<rparr>
          else case sector_performance financial_df companies_df of
                 Inl e \<Rightarrow> \<lparr>dv_metrics = ms, dv_sector_table = None, dv_trends = None, dv_error = Some e\<rparr>
               | Inr tbl \<Rightarrow>
                   (case sector_yearly financial_df companies_df of
                      Inl e \<Rightarrow> \<lparr>dv_metrics = ms, dv_sector_table = Some tbl, dv_trends = None, dv_error = Some e\<rparr>
                    | Inr trends \<Rightarrow>
                        \<lparr>dv_metrics = ms, dv_sector_table = Some tbl, dv_trends = Some trends, dv_error = None\<rparr>))"

section \<open>The Analytics tab\<close>

text \<open>The Analytics tab, also one \<open>try\<close>: the performance score traces, the risk chart,
  then the growth bars, drawn only when some sector has positive 2022 revenue.\<close>

record ana_view =
  av_scores :: "(pystr \<times> jval list \<times> fval list) list option"
  av_risk :: "(jval list \<times> nat list) option"
  av_growth :: "(jval \<times> rat) list option"
  av_error :: "py_error option"

definition analytics_tab :: "row list \<Rightarrow> fin_row list \<Rightarrow> ana_view" where
  "analytics_tab companies_df financial_df =
     (case score_traces companies_df of
        Inl e \<Rightarrow> \<lparr>av_scores = None, av_risk = None, av_growth = None, av_error = Some e\<rparr>
      | Inr traces \<Rightarrow>
          let risk = risk_chart companies_df
          in case growth_analysis financial_df companies_df of
               Inl e \<Rightarrow> \<lparr>av_scores = Some traces, av_risk = risk, av_growth = None, av_error = Some e\<rparr>
             | Inr growth_data \<Rightarrow>
                 \<lparr>av_scores = Some traces, av_risk = risk,
                  av_growth = (if growth_data \<noteq> [] then Some growth_data else None), av_error = None\<rparr>)"

text \<open>A company row without \<open>Employee_Count\<close>.\<close>

definition company_no_employees :: row where
  "company_no_employees = [(py ''Company_ID'', JStr (py ''MSME001'')), (py ''Sector'', JStr (py ''Textiles''))]"

text \<open>Three companies, two of them at medium risk.\<close>

definition risk_rows :: "row list" where
  "risk_rows =
     [[(py ''Risk_Level'', JStr (py ''Low''))], [(py ''Risk_Level'', JStr (py ''Medium''))],
      [(py ''Risk_Level'', JStr (py ''Medium''))]]"

text \<open>A company row with all four scores, one of them the text \<open>n/a\<close>.\<close>

definition company_text_score :: row where
  "company_text_score =
     [(py ''Company_ID'', JStr (py ''MSME002'')), (py ''Sector'', JStr (py ''Healthcare'')),
      (py ''Financial_Performance_Score'', JNum 7), (py ''Operational_Efficiency_Score'', JStr (py ''n/a'')),
      (py ''Market_Position_Score'', JNum 6), (py ''Innovation_Score'', JNum 8)]"

section \<open>Lemmas\<close>

lemma sorted_neg_desc:
  "sorted (map (\<lambda>x. - int (g x)) ys) \<Longrightarrow> sorted_wrt (\<ge>) (map g ys)"
  by (induction ys) auto

lemma sorted_desc_rev: "sorted_wrt (\<ge>) xs \<longleftrightarrow> sorted (rev (xs :: nat list))"
  by (simp add: sorted_wrt_rev)

lemma sum_count_list_distinct:
  "distinct ks \<Longrightarrow> sum_list (map (count_list xs) ks) = length (filter (\<lambda>x. x \<in> set ks) xs)"
proof (induction xs)
  case (Cons x xs)
  have "sum_list (map (\<lambda>k. if x = k then 1 else 0) ks) = (if x \<in> set ks then 1 else (0::nat))"
    using Cons.prems by (induction ks) auto
  moreover have "sum_list (map (count_list (x # xs)) ks) =
                 sum_list (map (count_list xs) ks) + sum_list (map (\<lambda>k. if x = k then 1 else 0) ks)"
    by (induction ks) auto
  ultimately have e: "sum_list (map (count_list (x # xs)) ks) =
                      sum_list (map (count_list xs) ks) + (if x \<in> set ks then 1 else 0)"
    by (simp only:)
  show ?case by (simp only: e Cons.IH[OF Cons.prems]) simp
qed simp

text \<open>A result meeting the contract is the table of the counts of its keys.\<close>

lemma value_counts_ok_table:
  "value_counts_ok vs out \<Longrightarrow> out = map (\<lambda>k. (k, count_list vs k)) (map fst out)"
  unfolding map_map by (rule sym, rule map_idI) (auto simp: value_counts_ok_def list_all_iff)

lemma mset_keys_ok:
  "value_counts_ok vs out \<Longrightarrow> mset (map fst out) = mset_set (set vs - {JNull})"
  by (metis value_counts_ok_def mset_set_set)

lemma value_counts_meets: "value_counts_ok vs (value_counts vs)"
proof -
  let ?c = "vc_counts vs"
  have m: "mset (value_counts vs) = mset ?c" by (simp add: value_counts_def)
  have "distinct (map fst ?c)" by (simp add: vc_counts_def comp_def)
  then have "distinct (map fst (value_counts vs))"
    using m by (metis mset_eq_imp_distinct_iff mset_map)
  moreover have "set (value_counts vs) = set ?c" by (simp add: value_counts_def)
  moreover have "sorted_wrt (\<ge>) (map snd (value_counts vs))"
    unfolding value_counts_def by (rule sorted_neg_desc) (rule sorted_sort_key)
  ultimately show ?thesis
    by (auto simp: value_counts_ok_def vc_counts_def list_all_iff image_image)
qed

lemma value_counts_ok_unique:
  assumes "value_counts_ok vs a" and "value_counts_ok vs b"
  shows "mset a = mset b \<and> map snd a = map snd b"
proof -
  have ka: "mset (map fst a) = mset (map fst b)" using mset_keys_ok[OF assms(1)] mset_keys_ok[OF assms(2)] by simp
  have "mset a = mset (map (\<lambda>k. (k, count_list vs k)) (map fst a))"
    using value_counts_ok_table[OF assms(1)] by (rule arg_cong)
  also have "\<dots> = mset (map (\<lambda>k. (k, count_list vs k)) (map fst b))"
    using ka by (metis mset_map)
  also have "\<dots> = mset b"
    using arg_cong[OF value_counts_ok_table[OF assms(2)], of mset] by (rule sym)
  finally have ma: "mset a = mset b" .
  then have "mset (rev (map snd a)) = mset (rev (map snd b))" by (metis mset_map mset_rev)
  moreover have "sorted (rev (map snd a))" "sorted (rev (map snd b))"
    using assms by (simp_all add: value_counts_ok_def sorted_desc_rev)
  ultimately have "rev (map snd a) = rev (map snd b)" by (metis properties_for_sort)
  then show ?thesis using ma by simp
qed

lemma sum_value_counts: "sum_list (map snd (value_counts vs)) = length (filter (\<lambda>v. v \<noteq> JNull) vs)"
proof -
  have "mset (map snd (value_counts vs)) = mset (map snd (vc_counts vs))"
    by (simp add: value_counts_def)
  then have "sum_list (map snd (value_counts vs)) = sum_list (map snd (vc_counts vs))"
    by (simp only: sum_mset_sum_list[symmetric])
  also have "\<dots> = length (filter (\<lambda>x. x \<in> set (remdups_first (filter (\<lambda>v. v \<noteq> JNull) vs))) vs)"
    by (simp add: vc_counts_def comp_def sum_count_list_distinct)
  also have "\<dots> = length (filter (\<lambda>v. v \<noteq> JNull) vs)"
    by (rule arg_cong[where f = length], rule filter_cong) auto
  finally show ?thesis .
qed

lemma length_filter_column:
  "has_column rows c \<Longrightarrow>
   length (filter (\<lambda>v. v \<noteq> JNull) (map (\<lambda>r. the (jlookup r c)) rows)) =
   length (filter (\<lambda>r. jlookup r c \<noteq> Some JNull) rows)"
  by (induction rows) (auto simp: has_column_def)

lemma risk_chart_no_column: "\<not> has_column companies_df (py ''Risk_Level'') \<Longrightarrow> risk_chart companies_df = None"
  by (simp add: risk_chart_def)

text \<open>The score section raises exactly when all four score columns are present and some
  company has no \<open>Sector\<close> or a score that is not numeric.\<close>

lemma isl_Inl_ex: "isl m \<longleftrightarrow> (\<exists>e. m = Inl e)"
  by (cases m) auto

lemma col_num_Inl_iff:
  "(\<exists>e. ebind (col r c) num_cell = Inl e) \<longleftrightarrow>
     jlookup r c = None \<or> (\<exists>v. jlookup r c = Some v \<and> isl (num_cell v))"
  by (cases "jlookup r c") (auto simp: col_def isl_Inl_ex)

lemma score_row_Inl_iff:
  assumes "\<forall>c\<in>set performance_cols. jlookup r c \<noteq> None"
  shows "(\<exists>e. ebind (col r (py ''Sector'')) (\<lambda>sector.
             ebind (emap (\<lambda>c. ebind (col r c) num_cell) performance_cols) (\<lambda>scores.
               Inr (sector, scores))) = Inl e) \<longleftrightarrow>
         jlookup r (py ''Sector'') = None \<or>
         (\<exists>c\<in>set performance_cols. \<exists>v. jlookup r c = Some v \<and> isl (num_cell v))"
proof -
  have "(\<exists>e. emap (\<lambda>c. ebind (col r c) num_cell) performance_cols = Inl e) \<longleftrightarrow>
        (\<exists>c\<in>set performance_cols. \<exists>v. jlookup r c = Some v \<and> isl (num_cell v))"
    using assms by (auto simp: emap_isl_iff col_num_Inl_iff)
  then show ?thesis
    by (cases "jlookup r (py ''Sector'')"; cases "emap (\<lambda>c. ebind (col r c) num_cell) performance_cols")
       (auto simp: col_def)
qed

text \<open>The score section raises exactly when all four score columns are present and some
  company has no \<open>Sector\<close> or a score that is not numeric.\<close>

lemma score_traces_Inl_iff:
  "isl (score_traces comps) \<longleftrightarrow>
     (\<forall>c\<in>set performance_cols. has_column comps c) \<and>
     (\<exists>r\<in>set comps. jlookup r (py ''Sector'') = None \<or>
        (\<exists>c\<in>set performance_cols. \<exists>v. jlookup r c = Some v \<and> isl (num_cell v)))"
proof (cases "\<forall>c\<in>set performance_cols. has_column comps c")
  case True
  let ?f = "\<lambda>r. ebind (col r (py ''Sector'')) (\<lambda>sector.
              ebind (emap (\<lambda>c. ebind (col r c) num_cell) performance_cols) (\<lambda>scores.
                Inr (sector, scores)))"
  have "isl (score_traces comps) \<longleftrightarrow> (\<exists>e. emap ?f comps = Inl e)"
    using True by (cases "emap ?f comps") (simp_all add: score_traces_def Let_def)
  also have "\<dots> \<longleftrightarrow> (\<exists>r\<in>set comps. jlookup r (py ''Sector'') = None \<or>
        (\<exists>c\<in>set performance_cols. \<exists>v. jlookup r c = Some v \<and> isl (num_cell v)))"
    unfolding emap_isl_iff using True score_row_Inl_iff by (auto simp: has_column_def)
  finally show ?thesis using True by blast
next
  case False
  then have "score_traces comps = Inr []" unfolding score_traces_def by (rule if_not_P)
  with False show ?thesis by simp
qed

section \<open>Properties\<close>

text \<open>C5: the Dashboard tab is all or nothing: it shows no error exactly when every
  company has a numeric \<open>Employee_Count\<close>, the companies have a \<open>Sector\<close> column and
  both merges succeed; one missing or non-numeric employee count hides the sector table and
  the revenue trends along with three of the four metrics.\<close>

theorem dashboard_tab_all_or_nothing:
  "(dv_error (dashboard_tab comps fin) = None \<longleftrightarrow>
      \<not> (\<exists>r\<in>set comps. jlookup r (py ''Employee_Count'') = None \<or>
                       (\<exists>v. jlookup r (py ''Employee_Count'') = Some v \<and> isl (num_cell v))) \<and>
      has_column comps (py ''Sector'') \<and>
      (\<exists>m. merge_sector (filter (\<lambda>f. fr_year f = 2024) fin) comps = Inr m) \<and> (\<exists>m. merge_sector fin comps = Inr m)) \<and>
   ((\<exists>r\<in>set comps. jlookup r (py ''Employee_Count'') = None \<or>
                    (\<exists>v. jlookup r (py ''Employee_Count'') = Some v \<and> isl (num_cell v))) \<longrightarrow>
      dv_metrics (dashboard_tab comps fin) = [(py ''Total Companies'', int_str (int (length comps)))] \<and>
      dv_sector_table (dashboard_tab comps fin) = None \<and> dv_trends (dashboard_tab comps fin) = None)"
proof (cases "emap (\<lambda>r. ebind (col r (py ''Employee_Count'')) num_cell) comps")
  case (Inl e)
  then have "dashboard_tab comps fin =
               \<lparr>dv_metrics = [(py ''Total Companies'', int_str (int (length comps)))],
                dv_sector_table = None, dv_trends = None, dv_error = Some e\<rparr>"
    by (simp add: dashboard_tab_def dashboard_metrics_def Let_def)
  moreover have "\<exists>r\<in>set comps. jlookup r (py ''Employee_Count'') = None \<or>
                   (\<exists>v. jlookup r (py ''Employee_Count'') = Some v \<and> isl (num_cell v))"
    using Inl employees_Inl_iff[of comps] by blast
  ultimately show ?thesis by simp
next
  case (Inr employees)
  then have ok: "\<not> (\<exists>r\<in>set comps. jlookup r (py ''Employee_Count'') = None \<or>
                       (\<exists>v. jlookup r (py ''Employee_Count'') = Some v \<and> isl (num_cell v)))"
    using employees_Inl_iff[of comps] by auto
  obtain ms where ms: "dashboard_metrics comps fin = (ms, None)"
    using Inr by (simp add: dashboard_metrics_def Let_def)
  have "dv_error (dashboard_tab comps fin) = None \<longleftrightarrow>
        has_column comps (py ''Sector'') \<and> \<not> isl (sector_performance fin comps) \<and>
        \<not> isl (sector_yearly fin comps)"
    by (cases "sector_performance fin comps"; cases "sector_yearly fin comps")
       (simp_all add: dashboard_tab_def ms)
  moreover have "\<not> isl (sector_performance fin comps) \<longleftrightarrow>
                 (\<exists>m. merge_sector (filter (\<lambda>f. fr_year f = 2024) fin) comps = Inr m)"
    by (cases "merge_sector (filter (\<lambda>f. fr_year f = 2024) fin) comps") (simp_all add: sector_performance_def)
  moreover have "\<not> isl (sector_yearly fin comps) \<longleftrightarrow> (\<exists>m. merge_sector fin comps = Inr m)"
    by (cases "merge_sector fin comps") (simp_all add: sector_yearly_def)
  ultimately show ?thesis using ok by blast
qed

theorem dashboard_tab_all_or_nothing_witness:
  "dv_error (dashboard_tab [company_no_employees] demo_fin) \<noteq> None \<and>
   dv_sector_table (dashboard_tab [company_no_employees] demo_fin) = None \<and>
   dv_trends (dashboard_tab [company_no_employees] demo_fin) = None"
proof -
  have "\<exists>r\<in>set [company_no_employees]. jlookup r (py ''Employee_Count'') = None \<or>
          (\<exists>v. jlookup r (py ''Employee_Count'') = Some v \<and> isl (num_cell v))"
    by (simp add: company_no_employees_def jlookup_def pystr_simps)
  with dashboard_tab_all_or_nothing[of "[company_no_employees]" demo_fin] show ?thesis by auto
qed

text \<open>C12: with a \<open>Risk_Level\<close> column, the risk chart shows the counts of the distinct
  non-missing levels, each once, in descending order of count, with bar heights summing to
  the number of companies with a level; and whatever order pandas gives equal counts, its
  bars are the same up to that order, with the same heights in the same order.\<close>

theorem risk_chart_spec:
  assumes "has_column companies_df (py ''Risk_Level'')"
  shows "\<exists>levels heights. risk_chart companies_df = Some (levels, heights) \<and>
           value_counts_ok (map (\<lambda>r. the (jlookup r (py ''Risk_Level''))) companies_df) (zip levels heights) \<and>
           sum_list heights = length (filter (\<lambda>r. jlookup r (py ''Risk_Level'') \<noteq> Some JNull) companies_df) \<and>
           (\<forall>out. value_counts_ok (map (\<lambda>r. the (jlookup r (py ''Risk_Level''))) companies_df) out \<longrightarrow>
                  mset out = mset (zip levels heights) \<and> map snd out = heights)"
proof -
  define vs where "vs = map (\<lambda>r. the (jlookup r (py ''Risk_Level''))) companies_df"
  define rc where "rc = value_counts vs"
  have chart: "risk_chart companies_df = Some (map fst rc, map snd rc)"
    using assms by (simp add: risk_chart_def rc_def vs_def Let_def)
  have z: "zip (map fst rc) (map snd rc) = rc" by (simp add: zip_map_fst_snd)
  have ok: "value_counts_ok vs rc" by (simp add: rc_def value_counts_meets)
  have "length (filter (\<lambda>v. v \<noteq> JNull) vs) =
        length (filter (\<lambda>r. jlookup r (py ''Risk_Level'') \<noteq> Some JNull) companies_df)"
    using length_filter_column[OF assms] by (simp add: vs_def)
  then have sum: "sum_list (map snd rc) = length (filter (\<lambda>r. jlookup r (py ''Risk_Level'') \<noteq> Some JNull) companies_df)"
    by (simp add: rc_def sum_value_counts)
  have uniq: "\<forall>out. value_counts_ok vs out \<longrightarrow> mset out = mset rc \<and> map snd out = map snd rc"
    using value_counts_ok_unique[OF _ ok] by blast
  have "risk_chart companies_df = Some (map fst rc, map snd rc) \<and>
        value_counts_ok vs (zip (map fst rc) (map snd rc)) \<and>
        sum_list (map snd rc) = length (filter (\<lambda>r. jlookup r (py ''Risk_Level'') \<noteq> Some JNull) companies_df) \<and>
        (\<forall>out. value_counts_ok vs out \<longrightarrow> mset out = mset (zip (map fst rc) (map snd rc)) \<and> map snd out = map snd rc)"
    unfolding z using chart ok sum uniq by blast
  then show ?thesis unfolding vs_def by blast
qed

theorem risk_chart_spec_witness:
  "\<exists>levels heights. risk_chart risk_rows = Some (levels, heights) \<and>
     value_counts_ok (map (\<lambda>r. the (jlookup r (py ''Risk_Level''))) risk_rows) (zip levels heights) \<and>
     sum_list heights = length (filter (\<lambda>r. jlookup r (py ''Risk_Level'') \<noteq> Some JNull) risk_rows) \<and>
     (\<forall>out. value_counts_ok (map (\<lambda>r. the (jlookup r (py ''Risk_Level''))) risk_rows) out \<longrightarrow>
            mset out = mset (zip levels heights) \<and> map snd out = heights)"
  by (rule risk_chart_spec) (simp add: risk_rows_def has_column_def jlookup_def)


text \<open>C30: the Analytics tab is one \<open>try\<close>: it shows no error exactly when the score
  section and the merge of the growth analysis both succeed, that is, unless all four
  score columns are present and some company lacks a \<open>Sector\<close> or has a non-numeric
  score, and every company has a \<open>Company_ID\<close> and a \<open>Sector\<close>. A failing score
  section hides the risk chart and the growth bars, which do not read the scores; without
  an error the risk chart is the \<open>value_counts\<close> chart and the growth bars are drawn
  exactly when some sector has positive 2022 revenue.\<close>

theorem analytics_tab_all_or_nothing:
  "(av_error (analytics_tab comps fin) = None \<longleftrightarrow>
      \<not> ((\<forall>c\<in>set performance_cols. has_column comps c) \<and>
         (\<exists>r\<in>set comps. jlookup r (py ''Sector'') = None \<or>
            (\<exists>c\<in>set performance_cols. \<exists>v. jlookup r c = Some v \<and> isl (num_cell v)))) \<and>
      (\<forall>r\<in>set comps. jlookup r (py ''Company_ID'') \<noteq> None \<and> jlookup r (py ''Sector'') \<noteq> None)) \<and>
   (isl (score_traces comps) \<longrightarrow>
      av_risk (analytics_tab comps fin) = None \<and> av_growth (analytics_tab comps fin) = None) \<and>
   (av_error (analytics_tab comps fin) = None \<longrightarrow>
      av_risk (analytics_tab comps fin) = risk_chart comps \<and>
      (\<exists>gd. growth_analysis fin comps = Inr gd \<and>
         (av_growth (analytics_tab comps fin) \<noteq> None \<longleftrightarrow> gd \<noteq> [])))"
proof (cases "score_traces comps")
  case (Inl e)
  then have "isl (score_traces comps)" by simp
  with Inl show ?thesis using score_traces_Inl_iff[of comps] by (simp add: analytics_tab_def)
next
  case (Inr traces)
  then have ok: "\<not> isl (score_traces comps)" by simp
  show ?thesis
  proof (cases "growth_analysis fin comps")
    case (Inl e)
    then have "\<exists>e. merge_sector fin comps = Inl e"
      by (cases "merge_sector fin comps") (simp_all add: growth_analysis_def)
    with Inl Inr ok show ?thesis
      using score_traces_Inl_iff[of comps] merge_sector_Inl_iff[of fin comps]
      by (simp add: analytics_tab_def Let_def)
  next
    case (Inr gd)
    then have "\<nexists>e. merge_sector fin comps = Inl e"
      by (cases "merge_sector fin comps") (simp_all add: growth_analysis_def)
    with Inr \<open>score_traces comps = Inr traces\<close> ok show ?thesis
      using score_traces_Inl_iff[of comps] merge_sector_Inl_iff[of fin comps]
      by (simp add: analytics_tab_def Let_def)
  qed
qed

theorem analytics_tab_all_or_nothing_witness:
  "av_error (analytics_tab [company_text_score] demo_fin) \<noteq> None \<and>
   av_risk (analytics_tab [company_text_score] demo_fin) = None \<and>
   av_growth (analytics_tab [company_text_score] demo_fin) = None"
proof -
  have "isl (score_traces [company_text_score])"
    using score_traces_Inl_iff[of "[company_text_score]"]
    by (simp add: company_text_score_def performance_cols_def has_column_def jlookup_def pystr_simps)
  with analytics_tab_all_or_nothing[of "[company_text_score]" demo_fin] show ?thesis
    using score_traces_Inl_iff[of "[company_text_score]"] by blast
qed

end
