(* ===== verification/ModuleMains.thy ===== *)
theory ModuleMains
  imports EnvTemplate SmokeTest
begin

text \<open>
  The self-tests at the end of the three generated modules, run as
  \<open>python news_fetcher.py\<close>, \<open>python vector_store.py\<close> and
  \<open>python rag_pipeline.py\<close>: each builds its object and prints. A run is the list of
  printed lines and the exception that ends it, if any. The constructor of
  \<open>MSMERAGPipeline\<close> checks \<open>config.OPENAI_API_KEY\<close> (\<open>init_pipeline\<close>) before it
  opens the vector store, so a missing key is reported even when the store cannot open.
\<close>

definition news_fetcher_main :: "pystr list" where
  "news_fetcher_main = (let fetcher = news_aggregator_init in [py ''News Aggregator created successfully!''])"

text \<open>\<open>MSMEVectorStore()\<close> is the world's \<open>script_exc + store\<close>; \<open>print("Stats:", ...)\<close>
  shows the statistics dict through \<open>repr_stats\<close>.\<close>

definition vector_store_main :: "script_exc + store \<Rightarrow> (stats \<Rightarrow> pystr) \<Rightarrow> pystr list \<times> script_exc option" where
  "vector_store_main new_store repr_stats =
     (case new_store of
        Inl e \<Rightarrow> ([], Some e)
      | Inr store \<Rightarrow>
          ([py ''Vector store created successfully!'', py ''Stats: '' @ repr_stats (get_collection_stats store)], None))"

definition missing_key_msg :: pystr where
  "missing_key_msg = py ''OpenAI API key not found. Please add OPENAI_API_KEY to your .env file''"

definition rag_main_error :: "pystr \<Rightarrow> pystr list" where
  "rag_main_error m =
     [py ''Error creating RAG pipeline: '' @ m, py ''Make sure you have OPENAI_API_KEY in your .env file'']"

text \<open>\<open>try: rag = MSMERAGPipeline() ... except Exception as e\<close>: the key check first,
  then the vector store.\<close>

definition rag_main ::
  "pystr option \<Rightarrow> script_exc + store \<Rightarrow> world \<Rightarrow> api_keys \<Rightarrow> (message list \<Rightarrow> pystr + pystr) \<Rightarrow> pystr list" where
  "rag_main openai_key new_store w k llm =
     (case new_store of
        Inl e \<Rightarrow> (if openai_key = None \<or> openai_key = Some [] then rag_main_error missing_key_msg
                  else rag_main_error (exc_str e))
      | Inr store \<Rightarrow>
          (case init_pipeline openai_key store w k llm of
             Inl e \<Rightarrow> rag_main_error missing_key_msg
           | Inr rag \<Rightarrow> [py ''RAG Pipeline created successfully!'']))"

section \<open>Lemmas\<close>

lemma rag_main_ok_iff:
  "rag_main key (Inr st) w k llm = [py ''RAG Pipeline created successfully!''] \<longleftrightarrow> key \<noteq> None \<and> key \<noteq> Some []"
  by (auto simp: rag_main_def init_pipeline_def rag_main_error_def)

lemma rag_main_missing_key:
  "key = None \<or> key = Some [] \<Longrightarrow> rag_main key vs w k llm = rag_main_error missing_key_msg"
  by (auto simp: rag_main_def init_pipeline_def split: sum.splits)

text \<open>After \<open>import config\<close>: the self-test succeeds with an unedited copy of the template
  in a process that had no key, and reports the missing key when there is no \<open>.env\<close>.\<close>

lemma rag_main_after_config:
  assumes "environ (py ''OPENAI_API_KEY'') = None"
  shows "rag_main (fst (snd (import_config environ (Some env_example)))) (Inr st) w k llm =
           [py ''RAG Pipeline created successfully!'']"
    and "rag_main (fst (snd (import_config environ None))) vs w k llm = rag_main_error missing_key_msg"
proof -
  have "fst (snd (import_config environ (Some env_example))) = Some (py ''your_openai_api_key_here'')"
    using assms by (simp add: import_config_def Let_def config_keys_def load_dotenv_at env_example_parse py_def)
  then show "rag_main (fst (snd (import_config environ (Some env_example)))) (Inr st) w k llm =
           [py ''RAG Pipeline created successfully!'']"
    by (simp add: rag_main_ok_iff)
  show "rag_main (fst (snd (import_config environ None))) vs w k llm = rag_main_error missing_key_msg"
    using assms by (intro rag_main_missing_key) (simp add: import_config_def load_dotenv_def config_keys_def)
qed

end
