(* ===== verification/Requirements.thy ===== *)
theory Requirements
  imports EnvTemplate
begin

text \<open>
  The dependencies. \<open>script_2.py\<close> writes \<open>requirements.txt\<close>: one pinned
  distribution \<open>name==version\<close> per line. The import statements of \<open>app.py\<close>,
  \<open>config.py\<close>, the three generated modules and the data and test scripts are listed by
  their top-level module (\<open>module_imports\<close>). A module is provided when it is in the
  standard library, is one of the project's own modules, or is installed by a pinned
  distribution; \<open>dist_of\<close> names the distribution that installs an import name (it
  differs only for \<open>dotenv\<close>, installed by \<open>python-dotenv\<close>).
\<close>

section \<open>\<open>requirements.txt\<close>\<close>

definition requirement_lines :: "pystr list" where
  "requirement_lines =
     [py ''streamlit==1.28.0'', py ''langchain==0.0.340'', py ''langchain-openai==0.0.1'',
      py ''langchain-community==0.0.7'', py ''chromadb==0.4.18'', py ''pandas==2.1.3'',
      py ''numpy==1.24.3'', py ''requests==2.31.0'', py ''python-dotenv==1.0.0'',
      py ''sentence-transformers==2.2.2'', py ''openai==1.3.7'', py ''plotly==5.17.0'',
      py ''yfinance==0.2.18'', py ''beautifulsoup4==4.12.2'', py ''lxml==4.9.3'']"

text \<open>The triple-quoted string: every line ended by a newline.\<close>

definition requirements :: pystr where
  "requirements = concat (map (\<lambda>l. l @ [10]) requirement_lines)"

text \<open>A pinned requirement \<open>name==version\<close>: the name and the version, \<open>None\<close> for a line
  that pins nothing.\<close>

definition parse_requirement :: "pystr \<Rightarrow> (pystr \<times> pystr) option" where
  "parse_requirement l =
     (let name = takeWhile (\<lambda>c. c \<noteq> 61) l; rest = dropWhile (\<lambda>c. c \<noteq> 61) l
      in if name \<noteq> [] \<and> take 2 rest = [61, 61] \<and> drop 2 rest \<noteq> [] then Some (name, drop 2 rest) else None)"

definition pins :: "pystr \<Rightarrow> (pystr \<times> pystr) list" where
  "pins t = List.map_filter parse_requirement (filter (\<lambda>l. l \<noteq> []) (split_lines t))"

section \<open>The imports\<close>

text \<open>The top-level modules each file imports, in the order of its import statements.\<close>

definition app_imports :: "pystr list" where
  "app_imports = [py ''streamlit'', py ''pandas'', py ''plotly'', py ''plotly'', py ''datetime'', py ''time'', py ''os'',
                  py ''rag_pipeline'', py ''vector_store'', py ''news_fetcher'', py ''config'']"

definition config_imports :: "pystr list" where
  "config_imports = [py ''os'', py ''dotenv'']"

definition news_fetcher_imports :: "pystr list" where
  "news_fetcher_imports = [py ''requests'', py ''json'', py ''datetime'', py ''typing'', py ''config'', py ''time'']"

definition vector_store_imports :: "pystr list" where
  "vector_store_imports = [py ''chromadb'', py ''pandas'', py ''numpy'', py ''typing'', py ''json'', py ''datetime'',
                           py ''config'', py ''uuid'']"

definition rag_pipeline_imports :: "pystr list" where
  "rag_pipeline_imports = [py ''os'', py ''typing'', py ''langchain'', py ''langchain'', py ''langchain'', py ''langchain'',
                           py ''config'', py ''pandas'', py ''vector_store'', py ''news_fetcher'']"

definition script_imports :: "pystr list" where
  "script_imports = [py ''pandas'', py ''numpy'']"

definition smoke_test_imports :: "pystr list" where
  "smoke_test_imports = [py ''pandas'', py ''chromadb'', py ''requests'', py ''vector_store'', py ''news_fetcher'', py ''config'']"

definition module_imports :: "(pystr \<times> pystr list) list" where
  "module_imports =
     [(py ''app.py'', app_imports), (py ''config.py'', config_imports), (py ''news_fetcher.py'', news_fetcher_imports),
      (py ''vector_store.py'', vector_store_imports), (py ''rag_pipeline.py'', rag_pipeline_imports),
      (py ''script.py'', script_imports), (py ''script_11.py'', smoke_test_imports)]"



definition dist_of :: "pystr \<Rightarrow> pystr" where
  "dist_of m = (if m = py ''dotenv'' then py ''python-dotenv'' else m)"


definition pinned :: "(pystr \<times> pystr) list" where
  "pinned =
     [(py ''streamlit'', py ''1.28.0''), (py ''langchain'', py ''0.0.340''), (py ''langchain-openai'', py ''0.0.1''),
      (py ''langchain-community'', py ''0.0.7''), (py ''chromadb'', py ''0.4.18''), (py ''pandas'', py ''2.1.3''),
      (py ''numpy'', py ''1.24.3''), (py ''requests'', py ''2.31.0''), (py ''python-dotenv'', py ''1.0.0''),
      (py ''sentence-transformers'', py ''2.2.2''), (py ''openai'', py ''1.3.7''), (py ''plotly'', py ''5.17.0''),
      (py ''yfinance'', py ''0.2.18''), (py ''beautifulsoup4'', py ''4.12.2''), (py ''lxml'', py ''4.9.3'')]"

section \<open>Lemmas\<close>

text \<open>A line \<open>name==version\<close> with a name without \<open>=\<close> parses back to its parts.\<close>

lemma parse_requirement_pin:
  assumes "n \<noteq> []" and "61 \<notin> set n" and "v \<noteq> []"
  shows "parse_requirement (n @ 61 # 61 # v) = Some (n, v)"
proof -
  have "\<And>x. x \<in> set n \<Longrightarrow> x \<noteq> 61" using assms(2) by auto
  then have "takeWhile (\<lambda>c. c \<noteq> 61) (n @ 61 # 61 # v) = n"
    and "dropWhile (\<lambda>c. c \<noteq> 61) (n @ 61 # 61 # v) = 61 # 61 # v"
    by (simp_all add: takeWhile_append2 dropWhile_append2)
  then show ?thesis using assms(1,3) by (simp add: parse_requirement_def Let_def)
qed

lemma pins_render:
  assumes "\<forall>nv\<in>set nvs. fst nv \<noteq> [] \<and> 61 \<notin> set (fst nv) \<and> snd nv \<noteq> [] \<and> 10 \<notin> set (fst nv) \<and> 10 \<notin> set (snd nv)"
  shows "pins (concat (map (\<lambda>l. l @ [10]) (map (\<lambda>nv. fst nv @ 61 # 61 # snd nv) nvs))) = nvs"
proof -
  have "\<forall>l\<in>set (map (\<lambda>nv. fst nv @ 61 # 61 # snd nv) nvs). 10 \<notin> set l" using assms by auto
  then have "split_lines (concat (map (\<lambda>l. l @ [10]) (map (\<lambda>nv. fst nv @ 61 # 61 # snd nv) nvs))) =
             map (\<lambda>nv. fst nv @ 61 # 61 # snd nv) nvs"
    by (rule split_lines_concat)
  moreover have "List.map_filter parse_requirement (map (\<lambda>nv. fst nv @ 61 # 61 # snd nv) nvs) = nvs"
    using assms by (induction nvs) (auto simp: map_filter_simps parse_requirement_pin)
  ultimately show ?thesis by (simp add: pins_def)
qed

lemma requirements_pins: "pins requirements = pinned"
proof -
  have eq: "requirement_lines = map (\<lambda>nv. fst nv @ 61 # 61 # snd nv) pinned"
    by (simp add: requirement_lines_def pinned_def py_def)
  have ok: "\<forall>nv\<in>set pinned. fst nv \<noteq> [] \<and> 61 \<notin> set (fst nv) \<and> snd nv \<noteq> [] \<and> 10 \<notin> set (fst nv) \<and> 10 \<notin> set (snd nv)"
    by (simp add: pinned_def py_def)
  show ?thesis unfolding requirements_def eq by (rule pins_render[OF ok])
qed


text \<open>Seven pinned distributions are imported by no file (\<open>openai\<close> is reached through
  langchain's \<open>ChatOpenAI\<close>).\<close>

lemma requirements_unimported:
  "filter (\<lambda>d. d \<notin> dist_of ` (\<Union>fm\<in>set module_imports. set (snd fm))) (map fst (pins requirements)) =
     [py ''langchain-openai'', py ''langchain-community'', py ''sentence-transformers'', py ''openai'',
      py ''yfinance'', py ''beautifulsoup4'', py ''lxml'']"
  by (simp add: requirements_pins pinned_def module_imports_def app_imports_def config_imports_def news_fetcher_imports_def vector_store_imports_def rag_pipeline_imports_def script_imports_def smoke_test_imports_def dist_of_def py_def)

end
