(* ===== verification/Spec2Isabelle.thy ===== *)
theory Spec2Isabelle
  imports IntentClassifier ConversationHistory NewsAggregator VectorStore ContextAssembler Orchestrator
    Pacing App CompanyData AppTabs AppTables EnvTemplate SmokeTest DataCleaning AppCharts ModuleMains Requirements
begin

text \<open>
  \<^bold>\<open>A verification development for the MSME market-intelligence RAG chatbot.\<close>

  \<^bold>\<open>The program.\<close> The repository is a set of Python scripts that write the modules of
  a Streamlit chatbot. \<open>src/config.py\<close> holds the API keys, the four news providers
  (\<open>NEWS_APIS\<close>) and the sector keywords (\<open>SECTOR_KEYWORDS\<close>).
  \<open>src/script_4.py\<close> writes \<open>news_fetcher.py\<close>, the class \<open>NewsAggregator\<close>: one
  \<open>fetch_*\<close> method per provider (NewsData.io, Finnhub, Alpha Vantage, MarketAux) that
  builds the request, calls \<open>requests.get\<close> and normalises the provider's JSON into
  article dicts, and the aggregation methods \<open>fetch_sector_news\<close> (all providers, then
  a keyword filter, then truncation) and \<open>fetch_all_news\<close> (all providers, then
  deduplication by title and a recency sort, then truncation). \<open>src/script_5.py\<close>
  writes \<open>vector_store.py\<close> (\<open>MSMEVectorStore\<close> over ChromaDB), which also turns the
  rows of the company and financial CSV files into documents (\<open>load_company_data\<close>,
  \<open>_create_company_document\<close>).
  \<open>src/script_7.py\<close> writes the final \<open>rag_pipeline.py\<close> (\<open>MSMERAGPipeline\<close>):
  \<open>process_query\<close> classifies the query (\<open>_analyze_query\<close>), retrieves documents
  from the vector store, fetches news when the analysis asks for it, builds the context
  string, calls the language model with the last history entries, and appends the turn
  to the bounded \<open>conversation_history\<close>. \<open>src/app.py\<close> is the Streamlit front end.
  \<open>src/script_6.py\<close> is an earlier version of the pipeline that does not parse (its
  triple-quoted module text is closed by the f-string at line 224), so only
  \<open>script_7.py\<close> writes \<open>rag_pipeline.py\<close>; the other scripts load CSV files or write
  text files.

  \<^bold>\<open>How the model is built.\<close> Python strings are lists of code points
  (\<open>pystr\<close>), so lengths and slices count as Python counts them; the string methods
  the code calls (\<open>lower\<close>, \<open>strip\<close>, \<open>in\<close>, \<open>join\<close>, slicing, one-character
  \<open>replace\<close>) are executable definitions of theory \<open>Prelude\<close>, and \<open>in\<close> is shown
  to be the library's \<open>sublist\<close> (\<open>py_in_iff_sublist\<close>). JSON payloads are the
  datatype \<open>jval\<close>; \<open>dict.get\<close>, truthiness, iteration, indexing and slicing on them
  raise as Python does. Every exception is a value of \<open>py_error\<close> in a sum type, and
  statements run in sequence with \<open>ebind\<close>; a loop whose body may raise is
  \<open>emap\<close> or a structurally recursive \<open>fun\<close>. A dict built by the code is a
  \<open>record\<close>; a dict used as an ordered table is an association list in insertion order.
  The outside world is the record \<open>world\<close>: the network (\<open>http_get\<close>), the
  local-time conversion of \<open>datetime.fromtimestamp(..).isoformat()\<close>, the parser
  \<open>datetime.fromisoformat\<close>, and \<open>partial_sort\<close>, the order CPython leaves a list
  in when a comparison raises in the middle of \<open>list.sort\<close>. \<open>str.lower\<close> is
  modelled for Latin-1 letters; other code points are left unchanged (all keywords of the
  sources are ASCII). Nothing in the modelled code loops without a bound, so no fuel is
  needed: every definition is total and evaluates by \<open>simp\<close>.

  \<^bold>\<open>Theories.\<close>
  \<^item> \<open>Prelude\<close>: the string, JSON, exception and sorting vocabulary, with the lemmas
    the components share (collections \<open>pystr_simps\<close> and \<open>jval_simps\<close> evaluate
    literals; \<open>remdups_first\<close> is the reference for the seen-set loops;
    \<open>py_sort_desc\<close> is CPython's \<open>sort(reverse=True)\<close> and
    \<open>py_sort_desc_sort_key\<close> shows it is the stable sort by the negated key).
  \<^item> \<open>Config\<close>: \<open>SECTOR_KEYWORDS\<close> of \<open>config.py\<close>.
  \<^item> \<open>SourceAdapters\<close>: \<open>NEWS_APIS\<close> and the API keys, the four request builders
    and normalisers (\<open>newsdata_article\<close>, \<open>finnhub_article\<close>,
    \<open>alpha_vantage_article\<close>, \<open>marketaux_article\<close> and their \<open>*_parse\<close>), and
    \<open>fetch_newsdata_io\<close>, \<open>fetch_finnhub\<close>, \<open>fetch_alpha_vantage\<close>,
    \<open>fetch_marketaux\<close> through the shared \<open>handle_response\<close> (exception or status
    other than 200 gives \<open>[]\<close>).
  \<^item> \<open>NewsAggregator\<close>: \<open>filter_by_relevance\<close> (\<open>filter_loop\<close>),
    \<open>deduplicate_articles\<close> (\<open>dedup_loop\<close> and the guarded \<open>sort_by_published\<close>),
    \<open>fetch_sector_news\<close>, \<open>fetch_all_news\<close>, and concrete worlds for the spec's
    scenarios. Lemmas: the dedup loop against \<open>remdups_first\<close>, the sort on each of
    its three branches, the filter as a list \<open>filter\<close> with its error case, failure
    tolerance of the adapters, bounds.
  \<^item> \<open>IntentClassifier\<close>: \<open>analyze_query\<close> (\<open>_analyze_query\<close>) with the record
    \<open>query_analysis\<close> and datatype \<open>query_type\<close>, \<open>should_include_news\<close>,
    \<open>build_system_prompt\<close>. The abstract specification is the ordered rule table
    \<open>type_rules\<close> with \<open>first_match\<close>, and \<open>analyze_query_rule_table\<close> shows the
    code implements it.
  \<^item> \<open>ConversationHistory\<close>: \<open>update_conversation_history\<close>, \<open>clear_history\<close>,
    the prompt excerpt \<open>history_message\<close>; runs of appends (\<open>append_turns\<close>) refine
    the unbounded session log: the history is always its last ten turns.
  \<^item> \<open>VectorStore\<close>: \<open>MSMEVectorStore\<close> of \<open>script_5.py\<close>. The record \<open>store\<close>
    holds the collection's entries; Chroma's \<open>query\<close> and \<open>add\<close> are parameters
    of it, with the contracts \<open>retriever_contract\<close> (at most \<open>n\<close> hits) and
    \<open>add_contract\<close> (an add appends). Modelled: \<open>search_similar\<close> with its
    result formatting, \<open>search_by_sector\<close>, \<open>search_companies_by_criteria\<close>,
    \<open>get_recent_news\<close>, \<open>_create_news_document\<close> (\<open>news_document\<close>),
    \<open>add_news_articles\<close> (\<open>news_metadata\<close>, \<open>news_entry\<close>) and
    \<open>get_collection_stats\<close> (\<open>count_types\<close>, shown to be a multiset census). The
    datatype \<open>jty\<close> and \<open>jtype\<close> give the Python type of a metadata value, for the
    schema of the news metadata.
  \<^item> \<open>CompanyData\<close>: \<open>load_company_data\<close> and \<open>_create_company_document\<close>. A
    company row is an association list of cells (\<open>row\<close>, \<open>NaN\<close> as \<open>JNull\<close>) read
    with \<open>col\<close> (\<open>[]\<close>, \<open>KeyError\<close>) and \<open>col_get\<close> (\<open>.get\<close>); a financial row
    is the record \<open>fin_row\<close> of its \<open>int64\<close> and \<open>float64\<close> columns. The document
    is \<open>company_doc_parts\<close> joined by \<open>" | "\<close>: \<open>basic_parts\<close>,
    \<open>financial_parts\<close> of \<open>latest_row\<close> (\<open>iloc[0]\<close> of the latest year) with
    \<open>revenue_growth\<close> (numpy's float division, \<open>fval\<close>), and the present extra
    columns. \<open>py_fixed d\<close> is \<open>format(x, '.<d>f')\<close> of an exact value (round half to
    even); the runtime conversions are the record \<open>pyrt\<close>. \<open>drop_columns\<close> is the cleaning
    of \<open>script_1.py\<close>, which provably changes nothing the loader reads
    (\<open>load_company_data_cleaned\<close>).
  \<^item> \<open>ContextAssembler\<close>: \<open>_retrieve_context\<close> (\<open>retrieval_hits\<close>, then
    \<open>dedup_ids\<close>, at most 15), \<open>_get_relevant_news\<close> (each fetch inside
    \<open>try\<close>, \<open>caught\<close>), \<open>_build_context\<close> (\<open>doc_lines\<close>,
    \<open>article_lines\<close>), with a size bound through \<open>weight\<close>.
  \<^item> \<open>Orchestrator\<close>: the pipeline object (\<open>pipeline\<close>, \<open>init_pipeline\<close>),
    \<open>_generate_response\<close> with the language model as the parameter \<open>p_llm\<close>,
    \<open>process_query\<close>, \<open>initialize_knowledge_base\<close> (company loading as the
    parameter \<open>load\<close>, instantiated with \<open>load_company_data\<close> in this theory),
    the canned queries, and the chat loop of \<open>app.py\<close>
    (\<open>run_session\<close>), one \<open>process_query\<close> per prompt inside \<open>try\<close>. The canned
    queries are the f-strings \<open>sector_summary_query\<close> and
    \<open>company_analysis_query\<close> passed to \<open>process_query\<close>. The spec's query stages
    are the statements of \<open>process_query\<close>, composed with \<open>ebind\<close> in source
    order.
  \<^item> \<open>Pacing\<close>: the \<open>time.sleep(1)\<close> rate limiting of \<open>fetch_sector_news\<close> and
    \<open>fetch_all_news\<close>. A fetch is its list of effects (\<open>sector_news_effects\<close>,
    \<open>all_news_effects\<close>), a run of fetches is \<open>fetch_session\<close>, and
    \<open>timeline\<close> gives every request its start time for arbitrary latencies and idle
    gaps (milliseconds).
  \<^item> \<open>App\<close>: the session state of \<open>app.py\<close> (\<open>app_state\<close>), the collaborators
    fixed at the first import (\<open>app_env\<close>, with the \<open>config\<close> keys), one
    \<open>app_step\<close> per action (initialise, chat prompt, quick action, clear, refresh news)
    and the reachable states \<open>app_reach\<close>, an inductive predicate whose invariant
    \<open>app_inv\<close> is proved by rule induction.
  \<^item> \<open>AppTabs\<close>: what the other tabs of \<open>app.py\<close> compute on every rerun. The News
    Feed (\<open>render_news\<close>, \<open>render_article\<close>, \<open>sentiment_lines\<close>, with
    \<open>str.title\<close> as \<open>py_title\<close> and \<open>format(v, '.2f')\<close> as \<open>jformat_2f\<close>) renders
    the stored news outside any \<open>try\<close>; the Dashboard's key metrics
    (\<open>dashboard_metrics\<close>, with pandas' \<open>sum\<close> and \<open>mean\<close> as \<open>pd_sum\<close> and
    \<open>pd_mean\<close>) and the Analytics tab's growth by sector (\<open>merge_sector\<close> for the
    inner join on \<open>Company_ID\<close>, \<open>sector_growth\<close>, \<open>growth_analysis\<close>) run inside
    the tabs' \<open>try\<close>. \<open>app_run\<close> folds \<open>app_step\<close> over a sequence of reruns,
    the session state carried from each to the next as \<open>st.session_state\<close> does.
  \<^item> \<open>AppTables\<close>: the tables behind the Dashboard and Analytics charts and the
    sidebar. pandas' \<open>groupby\<close> is \<open>group_keys\<close> (the keys in \<open>safe_sort\<close> order:
    numbers ascending, then strings in code-point order, \<open>NaN\<close> dropped) with
    \<open>group_mean\<close>, and \<open>DataFrame.round\<close> is \<open>fval_round\<close> (half to even); on top of them
    \<open>sector_performance\<close> (2024 means by sector), \<open>sector_yearly\<close> (revenue trends by
    year and sector) and \<open>score_traces\<close> (the four score traces, named through
    \<open>py_replace\<close>). The sidebar is \<open>sidebar_keys\<close> (the text fields defaulting to
    \<open>os.getenv\<close>), \<open>sidebar_environ\<close> (the \<open>os.environ\<close> updates) and
    \<open>sidebar_status\<close>.
  \<^item> \<open>EnvTemplate\<close>: the \<open>.env.example\<close> text of \<open>script_9.py\<close> (\<open>env_example\<close>),
    python-dotenv as \<open>config.py\<close> calls it (\<open>split_lines\<close>, \<open>dotenv_line\<close>,
    \<open>dotenv_parse\<close>, \<open>dotenv_values\<close>, and \<open>load_dotenv\<close> whose loop body
    \<open>set_unset\<close> never overrides a variable already set), and the \<open>os.getenv\<close> reads
    of the keys (\<open>config_keys\<close>, \<open>import_config\<close>).
  \<^item> \<open>SmokeTest\<close>: \<open>script_11.py\<close> as state passing over the printed lines and the
    names the script binds (\<open>smoke_state\<close>): the five checks \<open>smoke_imports\<close>
    (only \<open>ImportError\<close> caught), \<open>smoke_data\<close>, \<open>smoke_vector_store\<close>,
    \<open>smoke_news\<close>, \<open>smoke_config\<close>, and the summary \<open>smoke_final\<close>, outside any
    \<open>try\<close>; the world (imports, \<open>read_csv\<close>, the Chroma store, numpy \<open>repr\<close>s) is
    the record \<open>smoke_world\<close>, and an escaping exception ends \<open>smoke_test\<close>.
  \<^item> \<open>DataCleaning\<close>: \<open>script.py\<close> and \<open>script_1.py\<close> as one Python session
    (\<open>nb_state\<close>: the printed lines, a store of files holding frames, and the names
    \<open>company_df\<close> and \<open>financial_df\<close>): \<open>script_explore\<close> reads and describes the
    raw files, \<open>script_clean\<close> drops the unnamed columns (\<open>df_drop\<close>), runs the
    sample loop (\<open>sample_loop\<close>) and writes the cleaned files; \<open>prepare_data\<close> runs
    both.
  \<^item> \<open>AppCharts\<close>: the risk chart of the Analytics tab (\<open>risk_chart\<close>). pandas'
    \<open>value_counts\<close> is specified by its documented contract \<open>value_counts_ok\<close> (the
    distinct non-missing values with their counts, in descending order of count, the order
    of equal counts left open); \<open>value_counts\<close> is the result for few distinct values
    (counts in order of first occurrence, then a stable sort by descending count).
    \<open>dashboard_tab\<close> and \<open>analytics_tab\<close> compose the Dashboard and Analytics tabs,
    each a single \<open>try\<close> around its metrics, tables and charts.
  \<^item> \<open>ModuleMains\<close>: the \<open>__main__\<close> self-tests of \<open>news_fetcher.py\<close>,
    \<open>vector_store.py\<close> and \<open>rag_pipeline.py\<close> (\<open>rag_main\<close>: the key check of
    \<open>init_pipeline\<close> first, then the vector store).
  \<^item> \<open>Requirements\<close>: the \<open>requirements.txt\<close> text of \<open>script_2.py\<close>, its
    \<open>name==version\<close> pins (\<open>pins\<close>, with the round trip \<open>pins_render\<close>), and the import
    statements of every file by top-level module (\<open>module_imports\<close>).

  \<^bold>\<open>What the theorems show.\<close> Deduplication of \<open>fetch_all_news\<close> (distinct
  normalised titles, first occurrence kept, never an empty title); the recency sort is the
  stable newest-first sort when every date parses and is of one kind; provider failures
  contribute nothing and never raise; the classifier is the rule table with comparison
  first; sectors come in configuration order without repetition; the history never
  exceeds ten turns and is the last ten of the session, also over a whole chat session.
  Retrieval keeps the first hit of each id and at most \<open>min 15 (8 + 5 s + 5)\<close>
  documents; the context is at most \<open>7013 + 44 L\<close> code points when the rendered
  fields are at most \<open>L\<close> long; over a chat session the history is the last ten
  turns of exactly the prompts whose \<open>process_query\<close> did not raise, in session order;
  the canned query of every configured sector (the quick actions) is a trend query that
  detects exactly that sector and fetches news; a model failure becomes the apology answer; adding
  news appends one tagged entry per article and the news metadata has a fixed schema of
  keys and value types; formatting a query result is inverted by reading the entries back
  (ids, documents, metadata, distances); loading the companies appends one entry per
  row with id \<open>company_<Company_ID>\<close> and the row's document, whose financial part
  reports the first row of the latest year; the type census of the statistics is exact;
  two requests to the same provider are always at least three seconds apart; every
  reachable session state of the front end keeps the memory bounded and the chat
  consistent with the pipeline's existence; in a reachable session the News Feed raises
  exactly for a non-string category or a malformed sentiment, never for a title, and once
  it raises it keeps raising until a refresh replaces the news; the growth analysis
  lists exactly the sectors with positive 2022 revenue, in order of first occurrence;
  the dashboard's revenue metric is the sum of the latest year in the file. The front end
  is live for the news: from any session state, when the providers answer with
  well-formed articles, the two reruns Initialize System and Refresh News reach a state
  with a pipeline whose News Feed renders those articles (\<open>news_feed_recovers\<close>). The
  2024 sector table has one row per non-NaN sector, in code-point order, with the means
  rounded to two places; the revenue trends come in increasing years; a key typed in
  the sidebar is read back as the field's default on the next rerun. \<open>load_dotenv\<close>
  keeps every variable already set and otherwise takes the last binding of the file; a
  file of plain \<open>KEY=value\<close> lines parses back to its bindings. The smoke test ends
  normally exactly when pandas imported and both CSV files loaded, and passes every check
  with no error line when everything is installed. The data preparation writes the
  raw company frame without its two unnamed columns and the raw financial frame, and the
  vector store builds the same company entries from the cleaned file as from the raw one.
  The risk chart meets the \<open>value_counts\<close> contract, its bars sum to the companies with
  a level, and every result meeting the contract has the same bars up to the order of
  equal counts. The Dashboard tab is all or nothing: one missing employee count hides its
  sector table and revenue trends; the Analytics tab shows no error exactly when its
  score section and its merge succeed, and one bad score hides its risk chart and growth
  bars, which do not read the scores. The self-test of \<open>rag_pipeline.py\<close> reports a missing key only when
  \<open>OPENAI_API_KEY\<close> is unset or empty after \<open>load_dotenv\<close>, so the template's
  placeholder passes it.
  Every module the code imports is in the standard library, the project, or a pinned
  distribution, and seven pinned distributions are imported by no file.
  \<open>knowledge_base_from_csv\<close> composes \<open>initialize_knowledge_base\<close> with
  \<open>load_company_data\<close>: the collection becomes the old one, then one entry per company
  row, then the added news.
  The theorems also pin down where the code departs from the spec or from its intent: an
  unparsable date keeps fetch order instead of sorting last; a \<open>null\<close> title or
  description from a provider makes the aggregator raise; \<open>fetch_sector_news\<close> does not
  deduplicate; the keywords \<open>IT\<close> and \<open>AI\<close> never match; metrics and sectors match
  inside words; the prompt carries four exchanges, not two; a vector-store exception
  fails the query; the context has no budget and no "no data" marker; a non-string
  description makes \<open>_build_context\<close> raise; one bad title loses a whole batch of news
  in \<open>add_news_articles\<close> (and one row without a required column, or with an empty
  founding year, loses every company in \<open>load_company_data\<close>); the revenue growth of a
  company document is measured from the first row in file order, not the earliest year,
  and is added whenever there are two rows, even of one year;
  \<open>get_recent_news\<close> ignores \<open>hours\<close>; the dashboard labels the latest year's
  revenue "2024" whatever the year; one malformed stored article hides the Analytics tab
  on every rerun, and Clear Chat does not remove it; a key typed in
  the sidebar never reaches \<open>config\<close>, so without a key in the environment the
  system cannot be initialised; an unedited copy of the key template, on the other hand,
  sets five non-empty placeholders, so the sidebar reports every API as connected and a
  pipeline is created with a key that cannot work; and the smoke test, when the data
  cannot be loaded, prints "SYSTEM READY FOR TESTING!" and then crashes with
  \<open>NameError\<close>.

  \<^bold>\<open>Bounds.\<close> Every loop of the modelled code runs over a finite list, so every
  definition is total and evaluates by \<open>simp\<close>; no fuel is used. The two loops that
  are not structural, \<open>py_replace\<close> and the line splitting \<open>split_lines\<close> of
  python-dotenv, terminate by the length of the remaining string. Floats of the CSV data are exact rationals:
  the last-bit rounding of IEEE doubles is not modelled, and \<open>format(x, '.2f')\<close> is the
  correctly rounded decimal of the exact value. The caps of
  the context (10 documents, 8 articles, slices of 500, 300 and 200) and of retrieval (15)
  are the code's own constants.

  \<^bold>\<open>Not modelled.\<close> The embedding search of ChromaDB and the language model
  (external services, parameters of the model); reading the CSV files
  (\<open>pd.read_csv\<close>: the model starts from the rows); printing and logging; the layout,
  CSS and the Plotly drawing of \<open>app.py\<close> (the data the charts are given is modelled in
  \<open>AppTables\<close> and \<open>AppCharts\<close>); the sector pie, whose counting plotly does
  itself from the raw column;
  \<open>script_6.py\<close>, which does not parse and so never runs; the text of a CSV file (a
  file is the frame it holds, and writing then reading a frame gives it back); the prose of the README written by \<open>script_10.py\<close> (only its \<open>.env\<close> block is
  modelled); whether pip can resolve the pinned versions together, which depends on the
  packages' own metadata;
  writing \<open>.env.example\<close> to disk; of python-dotenv, \<open>export\<close> prefixes, escapes
  in quoted values, \<open>${VAR}\<close> interpolation and \<open>\r\n\<close> line ends, none of which the
  template uses.
\<close>

section \<open>Loading the knowledge base from the CSV rows\<close>

text \<open>
  \<open>initialize_knowledge_base\<close> with its loader \<open>self.vector_store.load_company_data\<close>:
  when the collection appends what it is given, a successful initialisation leaves the
  old collection, then one entry per company row (those of \<open>load_company_data\<close>'s
  loop), then the entries of the news that could be added.
\<close>

lemma knowledge_base_from_csv:
  assumes "add_contract (p_store p)"
    and "initialize_knowledge_base p (\<lambda>st. load_company_data st rt company_rows fin) fl uuid = Inr p'"
  shows "\<exists>es ns. emap (company_entry rt fin) company_rows = Inr es \<and> length es = length company_rows \<and>
           collection (p_store p') = collection (p_store p) @ es @ ns \<and> p' = p\<lparr>p_store := p_store p'\<rparr>"
proof -
  from assms(2) obtain st where ld: "load_company_data (p_store p) rt company_rows fin = Inr st"
    by (auto simp: initialize_knowledge_base_def ebind_eq_Inr)
  from load_company_data_Inr[OF assms(1) ld] obtain es where
    es: "emap (company_entry rt fin) company_rows = Inr es" and
    st: "st = (p_store p)\<lparr>collection := collection (p_store p) @ es\<rparr>" by blast
  have "add_contract st" using assms(1) st by simp
  from kb_news_appends[OF this, where w="p_world p" and k="p_keys p" and to_str="str_other (p_world p)"
      and fl=fl and uuid=uuid]
  have "\<exists>ns. p' = p\<lparr>p_store := st\<lparr>collection := collection st @ ns\<rparr>\<rparr>"
    using assms(2) ld by (auto simp: initialize_knowledge_base_def Let_def)
  then obtain ns where "p' = p\<lparr>p_store := st\<lparr>collection := collection st @ ns\<rparr>\<rparr>" by blast
  with es st show ?thesis
    by (intro exI[of _ es] exI[of _ ns]) (simp add: emap_Inr_length)
qed

end
